(* ===== verification/Prelude.thy ===== *)
theory Prelude
  imports Main "HOL-Library.AList" "HOL-Library.Multiset"
begin

text \<open>
  Shared vocabulary of the development: Go's time values, byte slices in an explicit
  memory (so that zeroing a slice is visible to everything that shares it), map iteration
  in an unspecified order, and the generic facts about lists and association lists that
  the component theories rest on.

  A Go string is a sequence of bytes, and so is an Isabelle \<^typ>\<open>string\<close>: a character
  is one byte. The content of a \<open>[]byte\<close> is therefore a \<^typ>\<open>string\<close> as well, and the
  conversions \<open>[]byte(s)\<close> and \<open>string(b)\<close> copy the content unchanged.
\<close>

named_theorems mem_simps \<open>reading and writing the slice memory\<close>
named_theorems time_simps \<open>unfolding of time.Time and time.Duration operations\<close>

section \<open>Time\<close>

text \<open>
  A \<open>time.Time\<close> is the number of nanoseconds since Go's zero time (January 1, year 1,
  UTC), a \<open>time.Duration\<close> a number of nanoseconds. \<open>Time.Sub\<close> saturates at the ends of
  the 64-bit range, as the Go library documents; \<open>Time.Add\<close> cannot leave the range of
  \<open>time.Time\<close> for the instants a running server sees.
\<close>

type_synonym Time = int
type_synonym Duration = int

abbreviation second :: Duration where "second \<equiv> 1000000000"
abbreviation minute :: Duration where "minute \<equiv> 60 * second"
abbreviation hour :: Duration where "hour \<equiv> 60 * minute"

definition zeroTime :: Time where "zeroTime = 0"

definition IsZero :: "Time \<Rightarrow> bool" where "IsZero t \<longleftrightarrow> t = zeroTime"

definition Add :: "Time \<Rightarrow> Duration \<Rightarrow> Time" where "Add t d = t + d"

definition After :: "Time \<Rightarrow> Time \<Rightarrow> bool" where "After t u \<longleftrightarrow> u < t"

definition Before :: "Time \<Rightarrow> Time \<Rightarrow> bool" where "Before t u \<longleftrightarrow> t < u"

definition minDuration :: Duration where "minDuration = - (2 ^ 63)"

definition maxDuration :: Duration where "maxDuration = 2 ^ 63 - 1"

definition Sub :: "Time \<Rightarrow> Time \<Rightarrow> Duration" where
  "Sub t u = max minDuration (min maxDuration (t - u))"

lemmas time_defs [time_simps] =
  IsZero_def zeroTime_def Add_def After_def Before_def

lemma Sub_exact: "minDuration \<le> t - u \<Longrightarrow> t - u \<le> maxDuration \<Longrightarrow> Sub t u = t - u"
  by (simp add: Sub_def)

lemma Sub_le_iff:
  assumes "minDuration \<le> d" and "d < maxDuration"
  shows "Sub t u \<le> d \<longleftrightarrow> t - u \<le> d"
  using assms by (auto simp: Sub_def)

lemma Sub_self [simp]: "Sub t t = 0"
  by (simp add: Sub_def minDuration_def maxDuration_def)

section \<open>Byte slices in memory\<close>

text \<open>
  Every backing array lives at an index of the memory; a slice is the index of its array,
  or \<^const>\<open>None\<close> for \<open>nil\<close>. Two Go values that share a slice share the index.
\<close>

type_synonym mem = "string list"
type_synonym slice = "nat option"

definition alloc :: "mem \<Rightarrow> string \<Rightarrow> mem \<times> slice" where
  "alloc m bs = (m @ [bs], Some (length m))"

definition slice_get :: "mem \<Rightarrow> slice \<Rightarrow> string" where
  "slice_get m s = (case s of None \<Rightarrow> [] | Some r \<Rightarrow> if r < length m then m ! r else [])"

definition slice_ok :: "mem \<Rightarrow> slice \<Rightarrow> bool" where
  "slice_ok m s \<longleftrightarrow> (case s of None \<Rightarrow> True | Some r \<Rightarrow> r < length m)"

abbreviation zeroByte :: char where "zeroByte \<equiv> CHR 0x00"

definition zeroBytes :: "mem \<Rightarrow> slice \<Rightarrow> mem" where
  "zeroBytes m s = (case s of None \<Rightarrow> m | Some r \<Rightarrow> m[r := map (\<lambda>_. zeroByte) (m ! r)])"

definition zeroed :: "mem \<Rightarrow> slice \<Rightarrow> bool" where
  "zeroed m s \<longleftrightarrow> list_all (\<lambda>c. c = zeroByte) (slice_get m s)"

definition slice_refs :: "slice list \<Rightarrow> nat set" where
  "slice_refs ss = {r. Some r \<in> set ss}"

lemma slice_get_None [simp]: "slice_get m None = []"
  by (simp add: slice_get_def)

lemma zeroBytes_None [simp]: "zeroBytes m None = m"
  by (simp add: zeroBytes_def)

lemma slice_ok_None [simp]: "slice_ok m None"
  by (simp add: slice_ok_def)

lemma zeroed_None [simp]: "zeroed m None"
  by (simp add: zeroed_def)

lemma length_zeroBytes [simp]: "length (zeroBytes m s) = length m"
  by (simp add: zeroBytes_def split: option.split)

lemma slice_ok_zeroBytes [simp]: "slice_ok (zeroBytes m s) t \<longleftrightarrow> slice_ok m t"
  by (simp add: slice_ok_def split: option.split)

lemma slice_get_zeroBytes_same [mem_simps]:
  "slice_get (zeroBytes m s) s = map (\<lambda>_. zeroByte) (slice_get m s)"
  by (auto simp: slice_get_def zeroBytes_def split: option.split)

lemma slice_get_zeroBytes_other [mem_simps]:
  "s \<noteq> t \<Longrightarrow> slice_get (zeroBytes m s) t = slice_get m t"
  by (cases s; cases t) (auto simp: slice_get_def zeroBytes_def nth_list_update)

lemma zeroed_zeroBytes_same [simp]: "zeroed (zeroBytes m s) s"
  by (simp add: zeroed_def mem_simps list_all_iff)

lemma zeroed_zeroBytes: "zeroed m t \<Longrightarrow> zeroed (zeroBytes m s) t"
  by (cases "s = t") (simp_all add: zeroed_def mem_simps list_all_iff)

lemma length_zeroBytes_content [simp]:
  "length (slice_get (zeroBytes m s) t) = length (slice_get m t)"
  by (cases "s = t") (simp_all add: mem_simps)

lemma alloc_fresh: "alloc m bs = (m', s) \<Longrightarrow> slice_get m' s = bs \<and> slice_ok m' s"
  by (auto simp: alloc_def slice_get_def slice_ok_def)

lemma slice_get_append [mem_simps]: "slice_ok m s \<Longrightarrow> slice_get (m @ xs) s = slice_get m s"
  by (auto simp: slice_get_def slice_ok_def nth_append split: option.splits)

lemma slice_ok_append [simp]: "slice_ok m s \<Longrightarrow> slice_ok (m @ xs) s"
  by (auto simp: slice_ok_def split: option.splits)

section \<open>Maps and their iteration order\<close>

text \<open>
  A Go map is an association list with distinct keys. \<open>range\<close> visits its entries in an
  unspecified order: an iteration order is any function that returns a permutation of the
  entries, and the operations that iterate take one as an argument.
\<close>

definition range_ok :: "(('k \<times> 'v) list \<Rightarrow> ('k \<times> 'v) list) \<Rightarrow> bool" where
  "range_ok rng \<longleftrightarrow> (\<forall>xs. mset (rng xs) = mset xs)"

lemma range_ok_set: "range_ok rng \<Longrightarrow> set (rng xs) = set xs"
  by (metis range_ok_def set_mset_mset)

lemma range_ok_length: "range_ok rng \<Longrightarrow> length (rng xs) = length xs"
  by (metis range_ok_def size_mset)

lemma range_ok_distinct: "range_ok rng \<Longrightarrow> distinct (map fst (rng xs)) \<longleftrightarrow> distinct (map fst xs)"
  by (metis distinct_map mset_eq_imp_distinct_iff range_ok_def range_ok_set)

lemma range_ok_filter_length:
  "range_ok rng \<Longrightarrow> length (filter P (rng xs)) = length (filter P xs)"
  by (metis mset_filter range_ok_def size_mset)

lemma range_ok_id [simp]: "range_ok (\<lambda>xs. xs)"
  by (simp add: range_ok_def)

lemma range_ok_rev [simp]: "range_ok rev"
  by (simp add: range_ok_def)

section \<open>Association lists\<close>

lemma map_of_delete [simp]: "map_of (AList.delete k al) = (map_of al)(k := None)"
  by (rule ext) (simp add: AList.delete_conv)

lemma map_of_update [simp]: "map_of (AList.update k v al) = (map_of al)(k \<mapsto> v)"
  by (rule AList.update_conv')

lemma set_delete_alist: "set (AList.delete k al) = {p \<in> set al. fst p \<noteq> k}"
  by (auto simp: AList.delete_eq)

lemma distinct_fst_map_of: "distinct (map fst al) \<Longrightarrow> (k, v) \<in> set al \<longleftrightarrow> map_of al k = Some v"
  by (simp add: map_of_eq_Some_iff)

lemma length_delete_alist:
  assumes "distinct (map fst al)"
  shows "length (AList.delete k al) = (if k \<in> fst ` set al then length al - 1 else length al)"
  using assms
proof (induction al)
  case Nil
  then show ?case by simp
next
  case (Cons p al)
  then show ?case by (cases al) (auto simp: AList.delete_eq)
qed

lemma length_update_alist:
  "length (AList.update k v al) = (if k \<in> fst ` set al then length al else Suc (length al))"
  by (induction al) auto

lemma update_fresh_alist: "k \<notin> fst ` set al \<Longrightarrow> AList.update k v al = al @ [(k, v)]"
  by (induction al) auto

lemma set_update_alist:
  "distinct (map fst al) \<Longrightarrow>
   set (AList.update k v al) = insert (k, v) {p \<in> set al. fst p \<noteq> k}"
  by (induction al) force+

lemma distinct_snd_delete:
  "distinct (map snd al) \<Longrightarrow> distinct (map snd (AList.delete k al))"
  by (auto simp: AList.delete_eq distinct_map_filter)

lemma distinct_map_filterI: "distinct (map f xs) \<Longrightarrow> distinct (map f (filter P xs))"
  by (rule distinct_map_filter)

section \<open>Sorting and prefixes\<close>

lemma sort_key_take_le:
  assumes "x \<in> set (take n (sort_key f xs))" and "y \<in> set (drop n (sort_key f xs))"
  shows "f x \<le> f y"
proof -
  have "sorted (map f (take n (sort_key f xs) @ drop n (sort_key f xs)))"
    by (simp only: append_take_drop_id sorted_sort_key)
  then have "sorted (map f (take n (sort_key f xs)) @ map f (drop n (sort_key f xs)))"
    by (simp only: map_append)
  with assms show ?thesis by (auto simp: sorted_append)
qed

section \<open>Step relations\<close>

text \<open>
  The machines of the development are step relations; what holds in the initial states and is kept
  by every step holds in every reachable state.
\<close>

locale invariant_system =
  fixes init :: "'s \<Rightarrow> bool" and step :: "'s \<Rightarrow> 's \<Rightarrow> bool" and inv :: "'s \<Rightarrow> bool"
  assumes inv_init: "init s \<Longrightarrow> inv s" and inv_step: "inv s \<Longrightarrow> step s s' \<Longrightarrow> inv s'"
begin

lemma inv_steps: "step\<^sup>*\<^sup>* s s' \<Longrightarrow> inv s \<Longrightarrow> inv s'"
  by (induction rule: rtranclp_induct) (auto intro: inv_step)

lemma inv_reachable: "init s \<Longrightarrow> step\<^sup>*\<^sup>* s s' \<Longrightarrow> inv s'"
  by (rule inv_steps [OF _ inv_init])

end

text \<open>A state with a property can be reached: it is here, or a step leads closer to it.\<close>

lemma reaches_here: "P s \<Longrightarrow> \<exists>s'. R\<^sup>*\<^sup>* s s' \<and> P s'"
  by blast

lemma reaches_step: "R s t \<Longrightarrow> \<exists>s'. R\<^sup>*\<^sup>* t s' \<and> P s' \<Longrightarrow> \<exists>s'. R\<^sup>*\<^sup>* s s' \<and> P s'"
  by (blast intro: converse_rtranclp_into_rtranclp)

end
