(* ===== verification/Random_Source.thy ===== *)
theory Random_Source
  imports Go_Strings
begin

text \<open>
  \<open>pkg/utils/random\<close>: identifiers drawn from the operating system's entropy source. The
  source is a parameter: \<open>rand n\<close> is the next \<open>n\<close> bytes, or an error.
\<close>

type_synonym rand_source = "nat \<Rightarrow> string option"

datatype rand_error = RandError

definition Bytes :: "rand_source \<Rightarrow> nat \<Rightarrow> rand_error + string" where
  "Bytes rand n = (case rand n of None \<Rightarrow> Inl RandError | Some r \<Rightarrow> Inr r)"

definition HexString :: "rand_source \<Rightarrow> nat \<Rightarrow> rand_error + string" where
  "HexString rand n = (case Bytes rand n of Inl e \<Rightarrow> Inl e | Inr r \<Rightarrow> Inr (hex_EncodeToString r))"

text \<open>A source that fills the buffer it is given.\<close>

definition rand_ok :: "rand_source \<Rightarrow> bool" where
  "rand_ok rand \<longleftrightarrow> (\<forall>n bs. rand n = Some bs \<longrightarrow> length bs = n)"

lemma HexString_length: "rand_ok rand \<Longrightarrow> HexString rand n = Inr s \<Longrightarrow> length s = 2 * n"
  by (auto simp: HexString_def Bytes_def rand_ok_def split: option.splits)

end
