(* ===== verification/Session.thy ===== *)
theory Session
  imports Random_Source
begin

text \<open>
  \<open>pkg/auth/session/session.go\<close>: credentials, session specifications and sessions, with
  the per-session cache of authenticated transports.

  Credential material lives in the slice memory of \<open>Prelude\<close>, so that a credential copied
  out of a session shares its bytes with it, as in Go. Methods that take the session's own
  lock take and return the session; the cleanup functions they call are recorded in a log
  of the transports whose idle connections they close. The theory ends with the contract of
  a session's transport cache: what is cached authenticates as the current credential, a
  new version of an upstream supersedes the old ones, and no transport that owns a
  connection pool leaves the cache without being cleaned up.
\<close>

section \<open>Credentials\<close>

type_synonym Kind = string
type_synonym Mode = string

definition KindBearer :: Kind where "KindBearer = ''bearer''"
definition KindCert :: Kind where "KindCert = ''cert''"
definition KindImpersonate :: Kind where "KindImpersonate = ''impersonate''"

definition ModeOIDC :: Mode where "ModeOIDC = ''oidc''"
definition ModeKubeconfig :: Mode where "ModeKubeconfig = ''kubeconfig''"
definition ModeAdmin :: Mode where "ModeAdmin = ''admin''"
definition ModeSAToken :: Mode where "ModeSAToken = ''serviceAccountToken''"

lemmas kind_defs = KindBearer_def KindCert_def KindImpersonate_def
lemmas mode_defs = ModeOIDC_def ModeKubeconfig_def ModeAdmin_def ModeSAToken_def

record Credential =
  cKind :: Kind
  cToken :: slice
  cCertPEM :: slice
  cKeyPEM :: slice
  cUserName :: string
  cExpiresAt :: Time

text \<open>The zero value of the struct.\<close>

definition emptyCredential :: Credential where
  "emptyCredential = \<lparr>cKind = [], cToken = None, cCertPEM = None, cKeyPEM = None,
     cUserName = [], cExpiresAt = zeroTime\<rparr>"

text \<open>\<open>String\<close> and \<open>MarshalJSON\<close> (\<open>q\<close> is Go's \<open>%q\<close> quoting).\<close>

definition Credential_String :: "Credential \<Rightarrow> string" where
  "Credential_String c =
     ''Credential{Kind:'' @ cKind c @ '',UserName:'' @ cUserName c @ '',Redacted}''"

definition Credential_MarshalJSON :: "(string \<Rightarrow> string) \<Rightarrow> Credential \<Rightarrow> string" where
  "Credential_MarshalJSON q c =
     ''{\"kind\":'' @ q (cKind c) @ '',\"userName\":'' @ q (cUserName c) @ '',\"redacted\":true}''"

definition Credential_Zero :: "mem \<Rightarrow> Credential \<Rightarrow> mem \<times> Credential" where
  "Credential_Zero m c =
     (let m = zeroBytes m (cToken c);
          m = zeroBytes m (cCertPEM c);
          m = zeroBytes m (cKeyPEM c)
      in (m, c\<lparr>cToken := None, cCertPEM := None, cKeyPEM := None\<rparr>))"

definition cred_slices :: "Credential \<Rightarrow> slice list" where
  "cred_slices c = [cToken c, cCertPEM c, cKeyPEM c]"

text \<open>What a credential says, read out of memory.\<close>

definition cred_view :: "mem \<Rightarrow> Credential \<Rightarrow> Kind \<times> string \<times> string \<times> string \<times> string" where
  "cred_view m c =
     (cKind c, slice_get m (cToken c), slice_get m (cCertPEM c), slice_get m (cKeyPEM c), cUserName c)"

section \<open>Session specifications\<close>

text \<open>A refresher is an interface value: the identity of one of the provider's refreshers.\<close>

type_synonym refresher_id = nat

record Spec =
  spMode :: Mode
  spCredential :: Credential
  spRefreshToken :: slice
  spUsername :: string
  spRefresher :: "refresher_id option"

definition Spec_Zero :: "mem \<Rightarrow> Spec \<Rightarrow> mem \<times> Spec" where
  "Spec_Zero m sp =
     (let (m, c) = Credential_Zero m (spCredential sp);
          m = zeroBytes m (spRefreshToken sp)
      in (m, sp\<lparr>spCredential := c, spRefreshToken := None\<rparr>))"

definition spec_slices :: "Spec \<Rightarrow> slice list" where
  "spec_slices sp = cred_slices (spCredential sp) @ [spRefreshToken sp]"

section \<open>Transports\<close>

text \<open>
  The round trippers that client-go builds, by what they were built from: the shared
  credential-free transport and the ServiceAccount transport of an upstream, and the
  bearer, client-certificate and impersonating ones layered on them.
\<close>

datatype RoundTripper =
    AnonymousTransport string
  | ServiceAccountTransport string
  | BearerAuthRoundTripper string RoundTripper
  | ClientCertTransport string string string
  | ImpersonatingRoundTripper string RoundTripper

record cachedTransport =
  ctRt :: RoundTripper
  ctCleanup :: "RoundTripper option"

text \<open>\<open>TransportBuilder\<close>: an error, or a transport and what its cleanup closes.\<close>

type_synonym TransportBuilder = "mem \<Rightarrow> Credential \<Rightarrow> string + RoundTripper \<times> RoundTripper option"

section \<open>Sessions\<close>

record Session =
  sId :: string
  sMode :: Mode
  sCreatedAt :: Time
  sUsername :: string
  sCapKey :: string
  sRefresher :: "refresher_id option"
  sCredential :: Credential
  sRefreshToken :: slice
  sLastSeen :: Time
  sExpiresAt :: Time
  sTransports :: "(string \<times> cachedTransport) list"

definition Session_String :: "Session \<Rightarrow> string" where
  "Session_String s = ''Session{ID:'' @ sId s @ '',Mode:'' @ sMode s @ '',Redacted}''"

definition Session_MarshalJSON :: "(string \<Rightarrow> string) \<Rightarrow> Session \<Rightarrow> string" where
  "Session_MarshalJSON q s =
     ''{\"id\":'' @ q (sId s) @ '',\"mode\":'' @ q (sMode s) @ '',\"redacted\":true}''"

definition session_slices :: "Session \<Rightarrow> slice list" where
  "session_slices s = cred_slices (sCredential s) @ [sRefreshToken s]"

definition transportUpstream :: "string \<Rightarrow> string \<times> bool" where
  "transportUpstream key = (case Cut key (CHR ''/'') of (upstream, _, versioned) \<Rightarrow> (upstream, versioned))"

text \<open>The cleanups run when the given entries leave the cache.\<close>

definition cleanups_of :: "(string \<times> cachedTransport) list \<Rightarrow> RoundTripper list" where
  "cleanups_of cts = List.map_filter (\<lambda>(k, c). ctCleanup c) cts"

definition superseded :: "string \<Rightarrow> string \<Rightarrow> bool" where
  "superseded key k \<longleftrightarrow>
     k \<noteq> key \<and> snd (transportUpstream k) \<and> fst (transportUpstream k) = fst (transportUpstream key)"

definition dropSupersededTransportsLocked ::
  "string \<Rightarrow> Session \<Rightarrow> RoundTripper list \<Rightarrow> Session \<times> RoundTripper list" where
  "dropSupersededTransportsLocked key s log =
     (if \<not> snd (transportUpstream key) then (s, log)
      else (s\<lparr>sTransports := filter (\<lambda>(k, c). \<not> superseded key k) (sTransports s)\<rparr>,
            log @ cleanups_of (filter (\<lambda>(k, c). superseded key k) (sTransports s))))"

definition dropTransportsLocked :: "Session \<Rightarrow> RoundTripper list \<Rightarrow> Session \<times> RoundTripper list" where
  "dropTransportsLocked s log = (s\<lparr>sTransports := []\<rparr>, log @ cleanups_of (sTransports s))"

definition transportFor ::
  "mem \<Rightarrow> string \<Rightarrow> TransportBuilder \<Rightarrow> Session \<Rightarrow> RoundTripper list \<Rightarrow>
   (string + RoundTripper) \<times> Session \<times> RoundTripper list" where
  "transportFor m key build s log =
     (case map_of (sTransports s) key of
        Some cached \<Rightarrow> (Inr (ctRt cached), s, log)
      | None \<Rightarrow>
          (let (s, log) = dropSupersededTransportsLocked key s log
           in case build m (sCredential s) of
                Inl err \<Rightarrow> (Inl err, s, log)
              | Inr (rt, cleanup) \<Rightarrow>
                  (Inr rt,
                   s\<lparr>sTransports := AList.update key \<lparr>ctRt = rt, ctCleanup = cleanup\<rparr> (sTransports s)\<rparr>,
                   log)))"

definition needsRefresh :: "Session \<Rightarrow> Time \<Rightarrow> Duration \<Rightarrow> bool" where
  "needsRefresh s now window =
     (case sRefresher s of
        None \<Rightarrow> False
      | Some _ \<Rightarrow>
          if IsZero (cExpiresAt (sCredential s)) then False
          else \<not> Before (Add now window) (cExpiresAt (sCredential s)))"

definition refreshTokenCopy :: "mem \<Rightarrow> Session \<Rightarrow> mem \<times> slice" where
  "refreshTokenCopy m s =
     (case sRefreshToken s of
        None \<Rightarrow> (m, None)
      | Some r \<Rightarrow> alloc m (slice_get m (Some r)))"

definition session_zero ::
  "mem \<Rightarrow> Session \<Rightarrow> RoundTripper list \<Rightarrow> mem \<times> Session \<times> RoundTripper list" where
  "session_zero m s log =
     (let (m, c) = Credential_Zero m (sCredential s);
          m = zeroBytes m (sRefreshToken s);
          s = s\<lparr>sCredential := c, sRefreshToken := None\<rparr>;
          (s, log) = dropTransportsLocked s log
      in (m, s, log))"

section \<open>Zeroing\<close>

named_theorems session_simps \<open>projections of the session operations\<close>

lemma zeroBytes_only:
  "t \<notin> set ss \<or> t = None \<Longrightarrow> slice_get (fold (\<lambda>s m. zeroBytes m s) ss m) t = slice_get m t"
  by (induction ss arbitrary: m) (auto simp: mem_simps)

lemma zeroed_fold: "zeroed m t \<Longrightarrow> zeroed (fold (\<lambda>s m. zeroBytes m s) ss m) t"
  by (induction ss arbitrary: m) (auto simp: zeroed_zeroBytes)

lemma zeroBytes_all: "t \<in> set ss \<Longrightarrow> zeroed (fold (\<lambda>s m. zeroBytes m s) ss m) t"
  by (induction ss arbitrary: m) (auto simp: zeroed_fold)

lemma length_fold_zeroBytes [simp]: "length (fold (\<lambda>s m. zeroBytes m s) ss m) = length m"
  by (induction ss arbitrary: m) auto

text \<open>The memory effect of the three \<open>Zero\<close> methods: exactly their own slices.\<close>

lemma Credential_Zero_mem [session_simps]:
  "fst (Credential_Zero m c) = fold (\<lambda>s m. zeroBytes m s) (cred_slices c) m"
  by (simp add: Credential_Zero_def cred_slices_def Let_def)

lemma Credential_Zero_cred [session_simps]:
  "snd (Credential_Zero m c) = c\<lparr>cToken := None, cCertPEM := None, cKeyPEM := None\<rparr>"
  by (simp add: Credential_Zero_def Let_def)

lemma Spec_Zero_mem [session_simps]:
  "fst (Spec_Zero m sp) = fold (\<lambda>s m. zeroBytes m s) (spec_slices sp) m"
  by (simp add: Spec_Zero_def spec_slices_def session_simps split: prod.split)
     (metis Credential_Zero_mem fst_conv)

lemma session_zero_mem [session_simps]:
  "fst (session_zero m s log) = fold (\<lambda>s m. zeroBytes m s) (session_slices s) m"
  by (simp add: session_zero_def session_slices_def dropTransportsLocked_def split: prod.split)
     (metis Credential_Zero_mem fst_conv)

lemma session_zero_session [session_simps]:
  "fst (snd (session_zero m s log)) =
     s\<lparr>sCredential := (sCredential s)\<lparr>cToken := None, cCertPEM := None, cKeyPEM := None\<rparr>,
       sRefreshToken := None, sTransports := []\<rparr>"
  by (simp add: session_zero_def dropTransportsLocked_def Let_def Credential_Zero_def)

lemma session_zero_log [session_simps]:
  "snd (snd (session_zero m s log)) = log @ cleanups_of (sTransports s)"
  by (simp add: session_zero_def dropTransportsLocked_def Let_def Credential_Zero_def)

section \<open>The transport cache\<close>

lemma transportUpstream_versioned:
  "CHR ''/'' \<notin> set u \<Longrightarrow> transportUpstream (u @ CHR ''/'' # v) = (u, True)"
  by (simp add: transportUpstream_def)

lemma transportUpstream_bare: "CHR ''/'' \<notin> set u \<Longrightarrow> transportUpstream u = (u, False)"
  by (simp add: transportUpstream_def Cut_absent)

text \<open>
  The cache contract, for the builder \<open>B key\<close> each cache key is used with: distinct keys,
  every entry is what the builder makes of the current credential, and at most one version
  of a versioned upstream is cached.
\<close>

definition cache_ok :: "(string \<Rightarrow> TransportBuilder) \<Rightarrow> mem \<Rightarrow> Session \<Rightarrow> bool" where
  "cache_ok B m s \<longleftrightarrow>
     distinct (map fst (sTransports s)) \<and>
     (\<forall>(k, c) \<in> set (sTransports s). B k m (sCredential s) = Inr (ctRt c, ctCleanup c)) \<and>
     (\<forall>(k, c) \<in> set (sTransports s). \<forall>(k', c') \<in> set (sTransports s).
        snd (transportUpstream k) \<longrightarrow> \<not> superseded k k')"

lemma cache_ok_empty [simp]: "sTransports s = [] \<Longrightarrow> cache_ok B m s"
  by (simp add: cache_ok_def)

lemma cache_ok_mono_filter:
  assumes "cache_ok B m s"
  shows "cache_ok B m (s\<lparr>sTransports := filter P (sTransports s)\<rparr>)"
  using assms unfolding cache_ok_def by (auto simp: distinct_map_filterI)

lemma dropSuperseded_cache_ok:
  assumes "cache_ok B m s" and "dropSupersededTransportsLocked key s log = (s', log')"
  shows "cache_ok B m s' \<and> sCredential s' = sCredential s \<and>
         set (sTransports s') \<subseteq> set (sTransports s)"
  using assms cache_ok_mono_filter
  by (auto simp: dropSupersededTransportsLocked_def split: if_splits)

lemma superseded_sym:
  "superseded k k' \<Longrightarrow> snd (transportUpstream k) \<Longrightarrow> superseded k' k"
  by (auto simp: superseded_def)

lemma dropSuperseded_none_left:
  assumes "dropSupersededTransportsLocked key s log = (s', log')"
    and "snd (transportUpstream key)" and "(k, c) \<in> set (sTransports s')"
  shows "\<not> superseded key k"
  using assms by (auto simp: dropSupersededTransportsLocked_def)

lemma update_cache_ok:
  assumes ok: "cache_ok B m s" and key: "map_of (sTransports s) key = None"
    and built: "B key m (sCredential s) = Inr (rt, cl)"
    and fresh: "snd (transportUpstream key) \<Longrightarrow>
      \<forall>(k, c) \<in> set (sTransports s). \<not> superseded key k"
  shows "cache_ok B m
    (s\<lparr>sTransports := AList.update key \<lparr>ctRt = rt, ctCleanup = cl\<rparr> (sTransports s)\<rparr>)"
proof -
  let ?c = "\<lparr>ctRt = rt, ctCleanup = cl\<rparr>"
  have notin: "key \<notin> fst ` set (sTransports s)" using key by (simp add: map_of_eq_None_iff)
  have upd: "AList.update key ?c (sTransports s) = sTransports s @ [(key, ?c)]"
    using notin by (rule update_fresh_alist)
  have irrefl: "\<not> superseded key key" by (simp add: superseded_def)
  have conv: "snd (transportUpstream k) \<Longrightarrow> (k, c) \<in> set (sTransports s) \<Longrightarrow> \<not> superseded k key"
    for k c using fresh superseded_sym [of k key] by (fastforce simp: superseded_def)
  show ?thesis
    unfolding cache_ok_def upd using ok notin built fresh conv irrefl
    by (auto simp: cache_ok_def image_iff)
qed

lemma transportFor_cache_ok:
  assumes "cache_ok B m s" and "transportFor m key (B key) s log = (res, s', log')"
  shows "cache_ok B m s'"
proof (cases "map_of (sTransports s) key")
  case (Some c)
  with assms show ?thesis by (simp add: transportFor_def)
next
  case None
  obtain s1 log1 where drop: "dropSupersededTransportsLocked key s log = (s1, log1)"
    by fastforce
  have ok1: "cache_ok B m s1" and cred: "sCredential s1 = sCredential s"
    and sub: "set (sTransports s1) \<subseteq> set (sTransports s)"
    using dropSuperseded_cache_ok [OF assms(1) drop] by auto
  have None1: "map_of (sTransports s1) key = None"
    using None sub by (fastforce simp: map_of_eq_None_iff)
  show ?thesis
  proof (cases "B key m (sCredential s1)")
    case (Inl e)
    with None drop assms(2) ok1 show ?thesis by (simp add: transportFor_def)
  next
    case (Inr p)
    then obtain rt cl where built: "B key m (sCredential s1) = Inr (rt, cl)"
      by (cases p) auto
    have "cache_ok B m
        (s1\<lparr>sTransports := AList.update key \<lparr>ctRt = rt, ctCleanup = cl\<rparr> (sTransports s1)\<rparr>)"
      by (rule update_cache_ok [OF ok1 None1 built])
        (auto dest: dropSuperseded_none_left [OF drop])
    with None drop assms(2) built show ?thesis by (simp add: transportFor_def)
  qed
qed

lemma transportFor_current:
  assumes "cache_ok B m s" and "transportFor m key (B key) s log = (Inr rt, s', log')"
  shows "\<exists>cl. B key m (sCredential s) = Inr (rt, cl)"
proof (cases "map_of (sTransports s) key")
  case (Some c)
  then have "(key, c) \<in> set (sTransports s)" by (rule map_of_SomeD)
  with assms Some show ?thesis by (auto simp: transportFor_def cache_ok_def)
next
  case None
  obtain s1 log1 where drop: "dropSupersededTransportsLocked key s log = (s1, log1)"
    by fastforce
  have "sCredential s1 = sCredential s"
    using dropSuperseded_cache_ok [OF assms(1) drop] by simp
  with assms(2) None drop show ?thesis
    by (auto simp: transportFor_def split: sum.splits)
qed

lemma dropSuperseded_frame:
  "dropSupersededTransportsLocked key s log = (s', log') \<Longrightarrow> s' = s\<lparr>sTransports := sTransports s'\<rparr>"
  by (auto simp: dropSupersededTransportsLocked_def split: if_splits)

lemma transportFor_frame:
  assumes "transportFor m key build s log = (res, s', log')"
  shows "s' = s\<lparr>sTransports := sTransports s'\<rparr>"
proof (cases "map_of (sTransports s) key")
  case (Some c)
  with assms show ?thesis by (simp add: transportFor_def)
next
  case None
  obtain s1 log1 where drop: "dropSupersededTransportsLocked key s log = (s1, log1)"
    by fastforce
  note dropSuperseded_frame [OF drop]
  with assms None drop show ?thesis
    by (cases s1; cases s) (auto simp: transportFor_def split: sum.splits)
qed

text \<open>Nothing that owns a connection pool is forgotten: it stays cached or it is cleaned up.\<close>

definition pools :: "Session \<Rightarrow> RoundTripper list \<Rightarrow> RoundTripper set" where
  "pools s log = set (cleanups_of (sTransports s)) \<union> set log"

lemma set_cleanups_of: "set (cleanups_of cts) = {t. \<exists>k c. (k, c) \<in> set cts \<and> ctCleanup c = Some t}"
  by (force simp: cleanups_of_def List.map_filter_def)

lemma cleanups_of_append [simp]: "cleanups_of (xs @ ys) = cleanups_of xs @ cleanups_of ys"
  by (simp add: cleanups_of_def List.map_filter_def)

lemma dropSuperseded_pools:
  "dropSupersededTransportsLocked key s log = (s', log') \<Longrightarrow> pools s' log' = pools s log"
  by (fastforce simp: dropSupersededTransportsLocked_def pools_def set_cleanups_of split: if_splits)

lemma transportFor_pools:
  assumes "transportFor m key build s log = (res, s', log')"
  shows "pools s log \<subseteq> pools s' log'"
proof (cases "map_of (sTransports s) key")
  case (Some c)
  with assms show ?thesis by (simp add: transportFor_def)
next
  case None
  obtain s1 log1 where drop: "dropSupersededTransportsLocked key s log = (s1, log1)"
    by fastforce
  have p: "pools s1 log1 = pools s log" by (rule dropSuperseded_pools [OF drop])
  have sub: "set (sTransports s1) \<subseteq> set (sTransports s)"
    using drop by (auto simp: dropSupersededTransportsLocked_def split: if_splits)
  have "key \<notin> fst ` set (sTransports s1)"
    using None sub by (auto simp: map_of_eq_None_iff)
  then have upd: "AList.update key v (sTransports s1) = sTransports s1 @ [(key, v)]" for v
    by (rule update_fresh_alist)
  show ?thesis
    unfolding p [symmetric] using assms None drop upd
    by (auto simp: transportFor_def pools_def split: sum.splits)
qed

end
