(* ===== verification/Session_Store.thy ===== *)
theory Session_Store
  imports Session "HOL-Library.Product_Lexorder"
begin

text \<open>
  \<open>pkg/auth/session/store.go\<close>: the in-memory session store. Its state is the options, the
  map from session IDs to sessions, the heap the \<open>*Session\<close> pointers point into, the slice
  memory and the log of transport cleanups. An operation takes the clock readings, the
  random bytes, the map iteration order and the refresher it consumes as arguments and
  returns its result with the new state.

  The theory ends with the facts every store property rests on: each operation that removes
  sessions (\<open>Delete\<close>, the per-user cap, the capacity eviction and the sweep) is a sequence
  of \<open>Delete\<close>s.
\<close>

section \<open>Configuration\<close>

definition DefaultIdleTimeout :: Duration where "DefaultIdleTimeout = 30 * minute"
definition DefaultMaxLifetime :: Duration where "DefaultMaxLifetime = 12 * hour"
definition DefaultMaxSessions :: int where "DefaultMaxSessions = 1000"
definition DefaultMaxSessionsPerUser :: int where "DefaultMaxSessionsPerUser = 10"
definition sessionIDBytes :: nat where "sessionIDBytes = 32"
definition refreshWindow :: Duration where "refreshWindow = 60 * second"
definition gcBatchSize :: nat where "gcBatchSize = 100"

datatype store_error = ErrNotFound | ErrExpired | ErrTooManySessions | ErrRandom rand_error

record Options =
  IdleTimeout :: Duration
  MaxLifetime :: Duration
  MaxSessions :: int
  MaxSessionsPerUser :: int

definition setDefaults :: "Options \<Rightarrow> Options" where
  "setDefaults os =
     (let os = (if IdleTimeout os \<le> 0 then os\<lparr>IdleTimeout := DefaultIdleTimeout\<rparr> else os);
          os = (if MaxLifetime os \<le> 0 then os\<lparr>MaxLifetime := DefaultMaxLifetime\<rparr> else os);
          os = (if MaxSessions os \<le> 0 then os\<lparr>MaxSessions := DefaultMaxSessions\<rparr> else os);
          os = (if MaxSessionsPerUser os \<le> 0
                then os\<lparr>MaxSessionsPerUser := DefaultMaxSessionsPerUser\<rparr> else os);
          os = (if MaxSessionsPerUser os > MaxSessions os
                then os\<lparr>MaxSessionsPerUser := MaxSessions os\<rparr> else os)
      in os)"

section \<open>The store\<close>

record store =
  opts :: Options
  sessions :: "(string \<times> nat) list"
  heap :: "Session list"
  mem :: mem
  closed :: "RoundTripper list"

abbreviation sess :: "store \<Rightarrow> nat \<Rightarrow> Session" where
  "sess st r \<equiv> heap st ! r"

definition NewStore :: "Options \<Rightarrow> store" where
  "NewStore os = \<lparr>opts = setDefaults os, sessions = [], heap = [], mem = [], closed = []\<rparr>"

definition effectiveExpiry :: "Time \<Rightarrow> Duration \<Rightarrow> Time \<Rightarrow> Time" where
  "effectiveExpiry createdAt maxLifetime credExpiry =
     (let absolute = Add createdAt maxLifetime
      in if IsZero credExpiry \<or> After credExpiry absolute then absolute else credExpiry)"

definition perUserCapKey :: "Spec \<Rightarrow> string" where
  "perUserCapKey spec = (if spMode spec = ModeAdmin then [] else spUsername spec)"

definition lookup :: "store \<Rightarrow> string \<Rightarrow> nat option" where
  "lookup st sid = map_of (sessions st) sid"

definition Peek :: "store \<Rightarrow> string \<Rightarrow> nat option" where
  "Peek st sid = lookup st sid"

definition alive :: "store \<Rightarrow> Session \<Rightarrow> Time \<Rightarrow> bool" where
  "alive st s now =
     (if After now (Add (sCreatedAt s) (MaxLifetime (opts st))) then False
      else if sRefresher s = None \<and> \<not> IsZero (cExpiresAt (sCredential s)) \<and>
              After now (cExpiresAt (sCredential s)) then False
      else Sub now (sLastSeen s) \<le> IdleTimeout (opts st))"

definition credentialExpired :: "Session \<Rightarrow> Time \<Rightarrow> bool" where
  "credentialExpired s now \<longleftrightarrow>
     \<not> IsZero (cExpiresAt (sCredential s)) \<and> After now (cExpiresAt (sCredential s))"

text \<open>\<open>s.zero()\<close> on the session a pointer refers to.\<close>

definition zero_at :: "nat \<Rightarrow> store \<Rightarrow> store" where
  "zero_at r st =
     (case session_zero (mem st) (sess st r) (closed st) of
        (m, s, log) \<Rightarrow> st\<lparr>mem := m, heap := (heap st)[r := s], closed := log\<rparr>)"

definition map_delete :: "string \<Rightarrow> store \<Rightarrow> store" where
  "map_delete sid st = st\<lparr>sessions := AList.delete sid (sessions st)\<rparr>"

definition Delete :: "string \<Rightarrow> store \<Rightarrow> store" where
  "Delete sid st =
     (case lookup st sid of
        None \<Rightarrow> map_delete sid st
      | Some r \<Rightarrow> zero_at r (map_delete sid st))"

type_synonym iteration = "(string \<times> nat) list \<Rightarrow> (string \<times> nat) list"

definition owned_by :: "iteration \<Rightarrow> string \<Rightarrow> store \<Rightarrow> nat list" where
  "owned_by rng capKey st =
     filter (\<lambda>r. sCapKey (sess st r) = capKey) (map snd (rng (sessions st)))"

text \<open>\<open>sort.Slice\<close> is not stable, the sort here is: sessions that tie stay in the iteration order, which is
  arbitrary, so each order \<open>sort.Slice\<close> may leave them in is that of some \<open>rng\<close>.\<close>

definition enforcePerUserLimitLocked :: "iteration \<Rightarrow> string \<Rightarrow> store \<Rightarrow> store" where
  "enforcePerUserLimitLocked rng capKey st =
     (if capKey = [] then st
      else
        let owned = owned_by rng capKey st
        in if int (length owned) < MaxSessionsPerUser (opts st) then st
           else
             let owned = sort_key (\<lambda>r. (sLastSeen (sess st r), sCreatedAt (sess st r))) owned;
                 evict = take (nat (int (length owned) - MaxSessionsPerUser (opts st) + 1)) owned
             in fold (\<lambda>r st. zero_at r (map_delete (sId (sess st r)) st)) evict st)"

definition evictOneExpiredLocked :: "iteration \<Rightarrow> Time \<Rightarrow> store \<Rightarrow> bool \<times> store" where
  "evictOneExpiredLocked rng now st =
     (case find (\<lambda>(sid, r). \<not> alive st (sess st r) now) (rng (sessions st)) of
        None \<Rightarrow> (False, st)
      | Some (sid, r) \<Rightarrow> (True, zero_at r (map_delete sid st)))"

definition newSession :: "Options \<Rightarrow> string \<Rightarrow> Time \<Rightarrow> Spec \<Rightarrow> Session" where
  "newSession os sid now spec =
     \<lparr>sId = sid, sMode = spMode spec, sCreatedAt = now, sUsername = spUsername spec,
      sCapKey = perUserCapKey spec, sRefresher = spRefresher spec,
      sCredential = spCredential spec, sRefreshToken = spRefreshToken spec,
      sLastSeen = now,
      sExpiresAt = effectiveExpiry now (MaxLifetime os) (cExpiresAt (spCredential spec)),
      sTransports = []\<rparr>"

text \<open>\<open>st.sessions[id] = s\<close>, with \<open>s\<close> the new heap object.\<close>

definition map_insert :: "string \<Rightarrow> Session \<Rightarrow> store \<Rightarrow> store" where
  "map_insert sid s st =
     st\<lparr>heap := heap st @ [s], sessions := AList.update sid (length (heap st)) (sessions st)\<rparr>"

definition Create ::
  "rand_source \<Rightarrow> Time \<Rightarrow> iteration \<Rightarrow> Spec \<Rightarrow> store \<Rightarrow> (store_error + nat) \<times> store" where
  "Create rand now rng spec st =
     (case HexString rand sessionIDBytes of
        Inl err \<Rightarrow> (Inl (ErrRandom err), st)
      | Inr sid \<Rightarrow>
          (let s = newSession (opts st) sid now spec;
               st = enforcePerUserLimitLocked rng (sCapKey s) st;
               (ok, st) = (if int (length (sessions st)) \<ge> MaxSessions (opts st)
                           then evictOneExpiredLocked rng now st else (True, st))
           in if \<not> ok then (Inl ErrTooManySessions, st)
              else (Inr (length (heap st)), map_insert sid s st)))"

section \<open>Refreshing and using sessions\<close>

text \<open>
  A \<open>Refresher\<close> reads the refresh token, may allocate, and returns an error or a credential
  and the refresh token to use next time (\<open>nil\<close> to keep the current one).
\<close>

type_synonym Refresh = "mem \<Rightarrow> slice \<Rightarrow> mem \<times> (string + Credential \<times> slice)"

definition applyRefresh :: "nat \<Rightarrow> Credential \<Rightarrow> slice \<Rightarrow> store \<Rightarrow> store" where
  "applyRefresh r cred newRefreshToken st =
     (let s = sess st r;
          (m, _) = Credential_Zero (mem st) (sCredential s);
          s = s\<lparr>sCredential := cred\<rparr>;
          (m, s) = (case newRefreshToken of
                      None \<Rightarrow> (m, s)
                    | Some _ \<Rightarrow> (zeroBytes m (sRefreshToken s), s\<lparr>sRefreshToken := newRefreshToken\<rparr>));
          (s, log) = dropTransportsLocked s (closed st);
          s = s\<lparr>sExpiresAt := effectiveExpiry (sCreatedAt s) (MaxLifetime (opts st)) (cExpiresAt cred)\<rparr>
      in st\<lparr>mem := m, heap := (heap st)[r := s], closed := log\<rparr>)"

definition maybeRefresh ::
  "(refresher_id \<Rightarrow> Refresh) \<Rightarrow> Time \<Rightarrow> Time \<Rightarrow> nat \<Rightarrow> store \<Rightarrow> string option \<times> store" where
  "maybeRefresh refresh now recheck r st =
     (if \<not> needsRefresh (sess st r) now refreshWindow then (None, st)
      else if \<not> needsRefresh (sess st r) recheck refreshWindow then (None, st)
      else case sRefresher (sess st r) of
             None \<Rightarrow> (None, st)
           | Some rid \<Rightarrow>
               (let (m, refreshToken) = refreshTokenCopy (mem st) (sess st r);
                    (m, res) = refresh rid m refreshToken;
                    st = st\<lparr>mem := m\<rparr>;
                    (err, st) = (case res of
                        Inl err \<Rightarrow> (Some err, st)
                      | Inr (cred, newRefreshToken) \<Rightarrow> (None, applyRefresh r cred newRefreshToken st))
                in (err, st\<lparr>mem := zeroBytes (mem st) refreshToken\<rparr>)))"

definition touch :: "nat \<Rightarrow> Time \<Rightarrow> store \<Rightarrow> store" where
  "touch r now st = st\<lparr>heap := (heap st)[r := (sess st r)\<lparr>sLastSeen := now\<rparr>]\<rparr>"

text \<open>\<open>Get\<close> reads the clock four times: on entry, at the refresh re-check, after the refresh
  and for the last-seen time.\<close>

definition Get ::
  "(refresher_id \<Rightarrow> Refresh) \<Rightarrow> Time \<times> Time \<times> Time \<times> Time \<Rightarrow> string \<Rightarrow> store \<Rightarrow>
   (store_error + nat) \<times> store" where
  "Get refresh clock sid st =
     (case clock of (t0, t1, t2, t3) \<Rightarrow>
      (case lookup st sid of
         None \<Rightarrow> (Inl ErrNotFound, st)
       | Some r \<Rightarrow>
           if \<not> alive st (sess st r) t0 then (Inl ErrExpired, Delete sid st)
           else
             let (err, st) = maybeRefresh refresh t0 t1 r st
             in if credentialExpired (sess st r) t2 then (Inl ErrExpired, Delete sid st)
                else (Inr r, touch r t3 st)))"

section \<open>The sweep\<close>

definition gc_pick :: "string \<Rightarrow> nat list \<times> store \<Rightarrow> nat list \<times> store" where
  "gc_pick sid acc =
     (case acc of (evicted, st) \<Rightarrow>
        (case lookup st sid of
           None \<Rightarrow> (evicted, st)
         | Some r \<Rightarrow> (evicted @ [r], map_delete sid st)))"

definition gc_batch :: "string list \<Rightarrow> store \<Rightarrow> store" where
  "gc_batch sids st = (case fold gc_pick sids ([], st) of (evicted, st) \<Rightarrow> fold zero_at evicted st)"

function gc_batches :: "string list \<Rightarrow> store \<Rightarrow> store" where
  "gc_batches expired st =
     (if expired = [] then st
      else gc_batches (drop gcBatchSize expired) (gc_batch (take gcBatchSize expired) st))"
  by pat_completeness auto
termination
  by (relation "measure (\<lambda>(expired, st). length expired)") (auto simp: gcBatchSize_def)

declare gc_batches.simps [simp del]

definition doGC :: "iteration \<Rightarrow> Time \<Rightarrow> store \<Rightarrow> store" where
  "doGC rng now st =
     (let expired = map fst (filter (\<lambda>(sid, r). \<not> alive st (sess st r) now) (rng (sessions st)))
      in gc_batches expired st)"

text \<open>\<open>Run\<close>: one sweep per tick, until stopped.\<close>

fun Run :: "(iteration \<times> Time) list \<Rightarrow> store \<Rightarrow> store" where
  "Run [] st = st"
| "Run ((rng, now) # ticks) st = Run ticks (doGC rng now st)"

section \<open>Options\<close>

definition opts_ok :: "Options \<Rightarrow> bool" where
  "opts_ok os \<longleftrightarrow> 0 < IdleTimeout os \<and> 0 < MaxLifetime os \<and> 0 < MaxSessionsPerUser os \<and>
     MaxSessionsPerUser os \<le> MaxSessions os"

lemma setDefaults_ok: "opts_ok (setDefaults os)"
  by (auto simp: setDefaults_def opts_ok_def Let_def DefaultIdleTimeout_def
      DefaultMaxLifetime_def DefaultMaxSessions_def DefaultMaxSessionsPerUser_def)

lemma setDefaults_id: "opts_ok os \<Longrightarrow> setDefaults os = os"
  by (auto simp: setDefaults_def opts_ok_def Let_def)

lemma effectiveExpiry_le: "effectiveExpiry c d e \<le> c + d"
  by (auto simp: effectiveExpiry_def Let_def time_simps)

lemma effectiveExpiry_cred: "e \<noteq> zeroTime \<Longrightarrow> effectiveExpiry c d e \<le> e"
  by (auto simp: effectiveExpiry_def Let_def time_simps)

section \<open>Elementary effects\<close>

named_theorems store_simps \<open>projections of the store operations\<close>

text \<open>What a session carries of the fields \<open>Get\<close>, \<open>Delete\<close> and the sweep leave alone.\<close>

definition zeroed_session :: "Session \<Rightarrow> Session" where
  "zeroed_session s =
     s\<lparr>sCredential := (sCredential s)\<lparr>cToken := None, cCertPEM := None, cKeyPEM := None\<rparr>,
       sRefreshToken := None, sTransports := []\<rparr>"

lemma zeroed_session_fields [simp]:
  "sId (zeroed_session s) = sId s" "sCapKey (zeroed_session s) = sCapKey s"
  "sCreatedAt (zeroed_session s) = sCreatedAt s" "sMode (zeroed_session s) = sMode s"
  "sLastSeen (zeroed_session s) = sLastSeen s" "sExpiresAt (zeroed_session s) = sExpiresAt s"
  "sTransports (zeroed_session s) = []" "sRefreshToken (zeroed_session s) = None"
  "session_slices (zeroed_session s) = [None, None, None, None]"
  by (simp_all add: zeroed_session_def session_slices_def cred_slices_def)

lemma zero_at_simps [store_simps]:
  "sessions (zero_at r st) = sessions st"
  "opts (zero_at r st) = opts st"
  "heap (zero_at r st) = (heap st)[r := zeroed_session (sess st r)]"
  "mem (zero_at r st) = fold (\<lambda>s m. zeroBytes m s) (session_slices (sess st r)) (mem st)"
  "closed (zero_at r st) = closed st @ cleanups_of (sTransports (sess st r))"
proof -
  obtain m s log where z: "session_zero (mem st) (sess st r) (closed st) = (m, s, log)"
    by (cases "session_zero (mem st) (sess st r) (closed st)")
  then have "m = fold (\<lambda>s m. zeroBytes m s) (session_slices (sess st r)) (mem st)"
    and "s = zeroed_session (sess st r)"
    and "log = closed st @ cleanups_of (sTransports (sess st r))"
    using session_zero_mem [of "mem st" "sess st r" "closed st"]
      session_zero_session [of "mem st" "sess st r" "closed st"]
      session_zero_log [of "mem st" "sess st r" "closed st"]
    by (simp_all add: zeroed_session_def)
  with z show
    "sessions (zero_at r st) = sessions st"
    "opts (zero_at r st) = opts st"
    "heap (zero_at r st) = (heap st)[r := zeroed_session (sess st r)]"
    "mem (zero_at r st) = fold (\<lambda>s m. zeroBytes m s) (session_slices (sess st r)) (mem st)"
    "closed (zero_at r st) = closed st @ cleanups_of (sTransports (sess st r))"
    by (simp_all add: zero_at_def)
qed

lemma map_delete_simps [store_simps]:
  "sessions (map_delete sid st) = AList.delete sid (sessions st)"
  "opts (map_delete sid st) = opts st" "heap (map_delete sid st) = heap st"
  "mem (map_delete sid st) = mem st" "closed (map_delete sid st) = closed st"
  by (simp_all add: map_delete_def)

lemma map_insert_simps [store_simps]:
  "sessions (map_insert sid s st) = AList.update sid (length (heap st)) (sessions st)"
  "opts (map_insert sid s st) = opts st" "heap (map_insert sid s st) = heap st @ [s]"
  "mem (map_insert sid s st) = mem st" "closed (map_insert sid s st) = closed st"
  by (simp_all add: map_insert_def)

lemma touch_simps [store_simps]:
  "sessions (touch r now st) = sessions st" "opts (touch r now st) = opts st"
  "mem (touch r now st) = mem st" "closed (touch r now st) = closed st"
  "heap (touch r now st) = (heap st)[r := (sess st r)\<lparr>sLastSeen := now\<rparr>]"
  by (simp_all add: touch_def)

lemma map_delete_zero_at: "map_delete sid (zero_at r st) = zero_at r (map_delete sid st)"
  by (simp add: map_delete_def zero_at_def split: prod.split)

lemma Delete_simps [store_simps]:
  "sessions (Delete sid st) = AList.delete sid (sessions st)"
  "opts (Delete sid st) = opts st"
  by (auto simp: Delete_def store_simps split: option.split)

lemma Delete_absent: "lookup st sid = None \<Longrightarrow> Delete sid st = st"
  by (simp add: Delete_def map_delete_def lookup_def delete_id flip: map_of_eq_None_iff)

lemma Delete_present:
  assumes "lookup st sid = Some r"
  shows "heap (Delete sid st) = (heap st)[r := zeroed_session (sess st r)]"
    and "mem (Delete sid st) = fold (\<lambda>s m. zeroBytes m s) (session_slices (sess st r)) (mem st)"
    and "closed (Delete sid st) = closed st @ cleanups_of (sTransports (sess st r))"
  using assms by (simp_all add: Delete_def store_simps)

lemma lookup_Delete [store_simps]: "lookup (Delete sid st) = (lookup st)(sid := None)"
  by (rule ext) (simp add: lookup_def store_simps)

lemma Delete_all_simps [store_simps]:
  "opts (fold Delete sids st) = opts st"
  "lookup (fold Delete sids st) sid = (if sid \<in> set sids then None else lookup st sid)"
  by (induction sids arbitrary: st) (auto simp: store_simps)

end
