(* ===== verification/Store_Invariant.thy ===== *)
theory Store_Invariant
  imports Session_Store
begin

text \<open>
  The well-formedness of the session store and its preservation. The invariant says that
  the map is well formed, that live sessions own disjoint and valid slices of memory, that a
  session that left the map holds no credential material, that the global and per-user caps
  hold, and that the expiry shown for a session is the one the code documents.

  All removals reduce to \<open>Delete\<close>, so the invariant is proved once for \<open>Delete\<close>, once for
  an insertion and once for an update of a live session in place.
\<close>

section \<open>The invariant\<close>

definition live :: "store \<Rightarrow> nat set" where
  "live st = snd ` set (sessions st)"

definition map_ok :: "store \<Rightarrow> bool" where
  "map_ok st \<longleftrightarrow>
     distinct (map fst (sessions st)) \<and>
     (\<forall>(sid, r) \<in> set (sessions st). r < length (heap st) \<and> sId (sess st r) = sid)"

definition owned_slices :: "store \<Rightarrow> nat \<Rightarrow> nat set" where
  "owned_slices st r = slice_refs (session_slices (sess st r))"

text \<open>The refresh token does not share its bytes with the credential.\<close>

definition unshared :: "Session \<Rightarrow> bool" where
  "unshared s \<longleftrightarrow> sRefreshToken s = None \<or> sRefreshToken s \<notin> set (cred_slices (sCredential s))"

definition separated :: "store \<Rightarrow> bool" where
  "separated st \<longleftrightarrow>
     (\<forall>r \<in> live st. owned_slices st r \<subseteq> {..<length (mem st)} \<and> unshared (sess st r)) \<and>
     (\<forall>r \<in> live st. \<forall>r' \<in> live st. r \<noteq> r' \<longrightarrow> owned_slices st r \<inter> owned_slices st r' = {})"

definition wiped :: "store \<Rightarrow> bool" where
  "wiped st \<longleftrightarrow> (\<forall>r < length (heap st). r \<notin> live st \<longrightarrow>
     owned_slices st r = {} \<and> sTransports (sess st r) = [])"

definition count_for :: "store \<Rightarrow> string \<Rightarrow> nat" where
  "count_for st capKey = length (filter (\<lambda>(sid, r). sCapKey (sess st r) = capKey) (sessions st))"

definition within_caps :: "store \<Rightarrow> bool" where
  "within_caps st \<longleftrightarrow>
     int (length (sessions st)) \<le> MaxSessions (opts st) \<and>
     (\<forall>capKey. capKey \<noteq> [] \<longrightarrow> int (count_for st capKey) \<le> MaxSessionsPerUser (opts st))"

definition expiry_ok :: "store \<Rightarrow> bool" where
  "expiry_ok st \<longleftrightarrow> (\<forall>r \<in> live st. sExpiresAt (sess st r) =
     effectiveExpiry (sCreatedAt (sess st r)) (MaxLifetime (opts st)) (cExpiresAt (sCredential (sess st r))))"

definition store_inv :: "store \<Rightarrow> bool" where
  "store_inv st \<longleftrightarrow> opts_ok (opts st) \<and> map_ok st \<and> separated st \<and> wiped st \<and>
     within_caps st \<and> expiry_ok st"

lemma store_invD [dest]:
  assumes "store_inv st"
  shows "opts_ok (opts st)" "map_ok st" "separated st" "wiped st" "within_caps st" "expiry_ok st"
  using assms by (simp_all add: store_inv_def)

lemma NewStore_inv: "store_inv (NewStore os)"
  by (auto simp: store_inv_def NewStore_def setDefaults_ok map_ok_def separated_def wiped_def
      within_caps_def expiry_ok_def live_def count_for_def)
     (use setDefaults_ok [of os] in \<open>auto simp: opts_ok_def\<close>)

section \<open>Pointers and slices\<close>

lemma map_ok_entry:
  "map_ok st \<Longrightarrow> (sid, r) \<in> set (sessions st) \<Longrightarrow> sId (sess st r) = sid \<and> r < length (heap st)"
  by (force simp: map_ok_def)

lemma lookup_set: "map_ok st \<Longrightarrow> lookup st sid = Some r \<longleftrightarrow> (sid, r) \<in> set (sessions st)"
  by (auto simp: map_ok_def lookup_def)

lemma lookup_live: "lookup st sid = Some r \<Longrightarrow> r \<in> live st"
  by (force simp: lookup_def live_def dest: map_of_SomeD)

lemma lookup_id: "map_ok st \<Longrightarrow> lookup st sid = Some r \<Longrightarrow> sId (sess st r) = sid \<and> r < length (heap st)"
  by (auto simp: lookup_set map_ok_def)

lemma live_lookup:
  assumes "map_ok st" and "r \<in> live st"
  shows "lookup st (sId (sess st r)) = Some r" and "r < length (heap st)"
  using assms by (auto simp: lookup_set live_def map_ok_def)

lemma sessions_snd_unique:
  assumes "map_ok st" and "(a, r) \<in> set (sessions st)" and "(b, r) \<in> set (sessions st)"
  shows "a = b"
  using map_ok_entry [OF assms(1) assms(2)] map_ok_entry [OF assms(1) assms(3)] by simp

lemma live_Delete:
  assumes ok: "map_ok st" and look: "lookup st sid = Some r"
  shows "live (Delete sid st) = live st - {r}"
proof -
  have mem: "(sid, r) \<in> set (sessions st)" using ok look by (simp add: lookup_set)
  have "(a, b) \<in> set (sessions st) \<and> a \<noteq> sid \<longleftrightarrow> (a, b) \<in> set (sessions st) \<and> b \<noteq> r" for a b
    using mem sessions_snd_unique [OF ok, of a r sid] ok look
    by (auto simp: lookup_set [OF ok, symmetric])
  then show ?thesis by (force simp: live_def store_simps set_delete_alist image_iff)
qed

lemma slice_get_fold_disjoint:
  assumes "slice_refs ss \<inter> slice_refs ts = {}" and "t \<in> set ts"
  shows "slice_get (fold (\<lambda>s m. zeroBytes m s) ss m) t = slice_get m t"
  using assms by (intro zeroBytes_only) (cases t, auto simp: slice_refs_def)

lemma length_filter_le_conj: "length (filter (\<lambda>x. Q x \<and> P x) xs) \<le> length (filter P xs)"
  by (induction xs) auto

section \<open>Deleting\<close>

lemma Delete_sess:
  assumes "lookup st sid = Some r" and "r' \<noteq> r"
  shows "sess (Delete sid st) r' = sess st r'"
  using assms by (simp add: Delete_present)

lemma Delete_sess_same:
  assumes "map_ok st" and "lookup st sid = Some r"
  shows "sess (Delete sid st) r = zeroed_session (sess st r)"
  using assms lookup_id by (fastforce simp: Delete_present)

lemma owned_zeroed [simp]: "slice_refs [None, None, None, None] = {}"
  by (simp add: slice_refs_def)

lemma Delete_map_ok: "map_ok st \<Longrightarrow> map_ok (Delete sid st)"
proof (cases "lookup st sid")
  case (Some r)
  assume ok: "map_ok st"
  have "sId (sess (Delete sid st) r') = sId (sess st r')" if "r' < length (heap st)" for r'
    using that Some by (cases "r' = r") (auto simp: Delete_present)
  with ok Some show ?thesis
    by (auto simp: map_ok_def store_simps set_delete_alist Delete_present AList.distinct_delete)
qed (simp add: Delete_absent)

lemma count_for_Delete_le: "count_for (Delete sid st) k \<le> count_for st k"
proof (cases "lookup st sid")
  case (Some r)
  have cap: "sCapKey (sess (Delete sid st) r') = sCapKey (sess st r')" for r'
    by (cases "r' < length (heap st)"; cases "r' = r")
       (auto simp: Delete_present [OF Some] nth_list_update list_update_beyond)
  show ?thesis
    unfolding count_for_def store_simps cap AList.delete_eq filter_filter
    by (rule length_filter_le_conj)
qed (simp add: Delete_absent)

lemma Delete_inv:
  assumes inv: "store_inv st"
  shows "store_inv (Delete sid st)"
proof (cases "lookup st sid")
  case None
  with inv show ?thesis by (simp add: Delete_absent)
next
  case (Some r)
  have ok: "map_ok st" using inv by blast
  have rlen: "r < length (heap st)" using lookup_id [OF ok Some] by simp
  have liveD: "live (Delete sid st) = live st - {r}" by (rule live_Delete [OF ok Some])
  have own: "owned_slices (Delete sid st) r' = (if r' = r then {} else owned_slices st r')" for r'
    using Delete_sess [OF Some] Delete_sess_same [OF ok Some] by (simp add: owned_slices_def)
  have lens: "length (mem (Delete sid st)) = length (mem st)"
    "length (heap (Delete sid st)) = length (heap st)"
    using Some by (simp_all add: Delete_present)
  have "map_ok (Delete sid st)" using ok by (rule Delete_map_ok)
  moreover have "separated (Delete sid st)"
    using inv Delete_sess [OF Some] unfolding store_inv_def separated_def liveD own lens by auto
  moreover have "wiped (Delete sid st)"
    using inv Delete_sess [OF Some] Delete_sess_same [OF ok Some]
    unfolding store_inv_def wiped_def liveD own lens by (metis DiffI singletonD zeroed_session_fields(7))
  moreover have "within_caps (Delete sid st)"
  proof -
    have "length (sessions (Delete sid st)) \<le> length (sessions st)"
      by (simp add: store_simps AList.delete_eq)
    then show ?thesis
      using inv count_for_Delete_le [of sid st] unfolding store_inv_def within_caps_def Delete_simps
      by (meson dual_order.trans of_nat_mono)
  qed
  moreover have "expiry_ok (Delete sid st)"
    using inv Delete_sess [OF Some] unfolding store_inv_def expiry_ok_def liveD Delete_simps by simp
  ultimately show ?thesis using inv by (auto simp: store_inv_def store_simps)
qed

lemma Delete_all_inv: "store_inv st \<Longrightarrow> store_inv (fold Delete sids st)"
  by (induction sids arbitrary: st) (auto intro: Delete_inv)

section \<open>Every removal is a sequence of deletions\<close>

lemma Delete_Some: "lookup st sid = Some r \<Longrightarrow> Delete sid st = zero_at r (map_delete sid st)"
  by (simp add: Delete_def)

lemma Delete_sess_eq:
  "sess (Delete sid st) r =
     (if lookup st sid = Some r \<and> r < length (heap st) then zeroed_session (sess st r) else sess st r)"
proof (cases "lookup st sid")
  case (Some q)
  then show ?thesis
    by (cases "q = r"; cases "r < length (heap st)")
       (auto simp: Delete_present [OF Some] list_update_beyond)
qed (simp add: Delete_absent)

lemma Delete_keys [store_simps]:
  "sId (sess (Delete sid st) r) = sId (sess st r)"
  "sCapKey (sess (Delete sid st) r) = sCapKey (sess st r)"
  "sLastSeen (sess (Delete sid st) r) = sLastSeen (sess st r)"
  "sCreatedAt (sess (Delete sid st) r) = sCreatedAt (sess st r)"
  by (simp_all add: Delete_sess_eq)

lemma Delete_lengths [store_simps]:
  "length (heap (Delete sid st)) = length (heap st)"
  "length (mem (Delete sid st)) = length (mem st)"
  by (cases "lookup st sid"; simp add: Delete_present Delete_absent)+

lemma Delete_all_keys [store_simps]:
  "sId (sess (fold Delete sids st) r) = sId (sess st r)"
  "sCapKey (sess (fold Delete sids st) r) = sCapKey (sess st r)"
  "length (heap (fold Delete sids st)) = length (heap st)"
  "length (mem (fold Delete sids st)) = length (mem st)"
  by (induction sids arbitrary: st) (simp_all add: store_simps)

lemma sessions_Delete_all [store_simps]:
  "sessions (fold Delete sids st) = filter (\<lambda>(sid, r). sid \<notin> set sids) (sessions st)"
proof (induction sids arbitrary: st)
  case Nil
  then show ?case by simp
next
  case (Cons a sids)
  then show ?case
    by (simp add: store_simps AList.delete_eq split_def)
       (intro filter_cong refl, auto)
qed

lemma evictOneExpired_Delete:
  assumes "map_ok st" and "range_ok rng"
  shows "evictOneExpiredLocked rng now st =
    (case find (\<lambda>(sid, r). \<not> alive st (sess st r) now) (rng (sessions st)) of
       None \<Rightarrow> (False, st) | Some (sid, r) \<Rightarrow> (True, Delete sid st))"
proof (cases "find (\<lambda>(sid, r). \<not> alive st (sess st r) now) (rng (sessions st))")
  case (Some p)
  then obtain sid r where p: "p = (sid, r)" and "(sid, r) \<in> set (sessions st)"
    using range_ok_set [OF assms(2)] by (cases p) (auto simp: find_Some_iff dest: nth_mem)
  then have "lookup st sid = Some r" using assms(1) by (simp add: lookup_set)
  with Some p show ?thesis by (simp add: evictOneExpiredLocked_def Delete_def)
qed (simp add: evictOneExpiredLocked_def)

lemma evict_fold_Delete:
  assumes "map_ok st" and "distinct rs" and "set rs \<subseteq> live st"
  shows "fold (\<lambda>r st. zero_at r (map_delete (sId (sess st r)) st)) rs st =
    fold Delete (map (\<lambda>r. sId (sess st r)) rs) st"
  using assms
proof (induction rs arbitrary: st)
  case Nil
  then show ?case by simp
next
  case (Cons r rs)
  let ?st = "Delete (sId (sess st r)) st"
  have look: "lookup st (sId (sess st r)) = Some r"
    using Cons.prems by (intro live_lookup) auto
  have "map_ok ?st" using Cons.prems(1) by (rule Delete_map_ok)
  moreover have "set rs \<subseteq> live ?st"
    using Cons.prems by (auto simp: live_Delete [OF Cons.prems(1) look])
  moreover have "zero_at r (map_delete (sId (sess st r)) st) = ?st"
    using look by (simp add: Delete_Some)
  ultimately show ?case
    using Cons.IH [of ?st] Cons.prems(2) by (simp add: Delete_keys)
qed

lemma owned_by_set:
  assumes "range_ok rng"
  shows "set (owned_by rng capKey st) = {r \<in> live st. sCapKey (sess st r) = capKey}"
  using range_ok_set [OF assms] by (auto simp: owned_by_def live_def)

lemma owned_by_length:
  assumes "range_ok rng"
  shows "length (owned_by rng capKey st) = count_for st capKey"
proof -
  have "length (owned_by rng capKey st) =
      length (filter (\<lambda>p. sCapKey (sess st (snd p)) = capKey) (rng (sessions st)))"
    by (simp add: owned_by_def filter_map comp_def)
  also have "\<dots> = count_for st capKey"
    by (simp add: range_ok_filter_length [OF assms] count_for_def split_def)
  finally show ?thesis .
qed

lemma inj_sId_live: "map_ok st \<Longrightarrow> inj_on (\<lambda>r. sId (sess st r)) (live st)"
  by (rule inj_onI) (metis live_lookup(1) option.inject)

lemma owned_by_distinct:
  assumes ok: "map_ok st" and rng: "range_ok rng"
  shows "distinct (owned_by rng capKey st)"
proof -
  have "distinct (sessions st)" using ok by (auto simp: map_ok_def distinct_map)
  moreover have "inj_on snd (set (sessions st))"
    using sessions_snd_unique [OF ok] by (auto simp: inj_on_def)
  ultimately have "distinct (map snd (sessions st))" by (simp add: distinct_map)
  moreover have "mset (map snd (rng (sessions st))) = mset (map snd (sessions st))"
    using rng by (simp add: range_ok_def)
  ultimately have "distinct (map snd (rng (sessions st)))"
    using mset_eq_imp_distinct_iff by blast
  then show ?thesis by (simp add: owned_by_def)
qed

text \<open>The order in which the per-user cap evicts: last seen, then created.\<close>

definition seen_key :: "store \<Rightarrow> nat \<Rightarrow> Time \<times> Time" where
  "seen_key st r = (sLastSeen (sess st r), sCreatedAt (sess st r))"

text \<open>The sessions the per-user cap evicts to make room for one more.\<close>

definition over_cap :: "iteration \<Rightarrow> string \<Rightarrow> store \<Rightarrow> nat list" where
  "over_cap rng capKey st =
     (if capKey = [] \<or> int (count_for st capKey) < MaxSessionsPerUser (opts st) then []
      else take (nat (int (count_for st capKey) - MaxSessionsPerUser (opts st) + 1))
             (sort_key (seen_key st) (owned_by rng capKey st)))"

lemma over_cap_set:
  assumes "range_ok rng" and "r \<in> set (over_cap rng capKey st)"
  shows "r \<in> live st \<and> sCapKey (sess st r) = capKey"
proof -
  have "r \<in> set (owned_by rng capKey st)"
    using assms(2) by (auto simp: over_cap_def split: if_splits dest: in_set_takeD)
  then show ?thesis by (simp add: owned_by_set [OF assms(1)])
qed

lemma over_cap_distinct:
  "map_ok st \<Longrightarrow> range_ok rng \<Longrightarrow> distinct (over_cap rng capKey st)"
  by (simp add: over_cap_def owned_by_distinct)

lemma over_cap_oldest:
  assumes rng: "range_ok rng" and r: "r \<in> set (over_cap rng capKey st)"
    and r': "r' \<in> live st" "sCapKey (sess st r') = capKey" "r' \<notin> set (over_cap rng capKey st)"
  shows "seen_key st r \<le> seen_key st r'"
proof -
  let ?n = "nat (int (count_for st capKey) - MaxSessionsPerUser (opts st) + 1)"
  let ?xs = "sort_key (seen_key st) (owned_by rng capKey st)"
  have oc: "over_cap rng capKey st = take ?n ?xs" using r by (auto simp: over_cap_def split: if_splits)
  have "r' \<in> set ?xs" using r' by (simp add: owned_by_set [OF rng])
  with r'(3) have "r' \<in> set (drop ?n ?xs)" unfolding oc by (metis Un_iff append_take_drop_id set_append)
  with r show ?thesis unfolding oc by (intro sort_key_take_le)
qed

lemma length_over_cap:
  assumes "range_ok rng"
  shows "length (over_cap rng capKey st) =
    (if capKey = [] \<or> int (count_for st capKey) < MaxSessionsPerUser (opts st) then 0
     else min (count_for st capKey) (nat (int (count_for st capKey) - MaxSessionsPerUser (opts st) + 1)))"
  by (simp add: over_cap_def owned_by_length [OF assms])

lemma enforce_Delete:
  assumes "map_ok st" and rng: "range_ok rng"
  shows "enforcePerUserLimitLocked rng capKey st =
    fold Delete (map (\<lambda>r. sId (sess st r)) (over_cap rng capKey st)) st"
proof -
  have key: "(\<lambda>r. (sLastSeen (sess st r), sCreatedAt (sess st r))) = seen_key st"
    by (simp add: seen_key_def fun_eq_iff)
  have "enforcePerUserLimitLocked rng capKey st =
      fold (\<lambda>r st. zero_at r (map_delete (sId (sess st r)) st)) (over_cap rng capKey st) st"
    by (simp add: enforcePerUserLimitLocked_def over_cap_def Let_def key owned_by_length [OF rng])
  also have "\<dots> = fold Delete (map (\<lambda>r. sId (sess st r)) (over_cap rng capKey st)) st"
    using assms over_cap_set [OF rng] by (intro evict_fold_Delete over_cap_distinct) auto
  finally show ?thesis .
qed

lemma gc_pick_zero_at:
  "fold gc_pick sids (ev, zero_at r st) =
     (case fold gc_pick sids (ev, st) of (ev', st') \<Rightarrow> (ev', zero_at r st'))"
proof (induction sids arbitrary: ev st)
  case (Cons sid sids)
  then show ?case
    by (auto simp: gc_pick_def lookup_def store_simps map_delete_zero_at split: option.split)
qed simp

lemma gc_pick_acc:
  "fold gc_pick sids (ev, st) =
     (case fold gc_pick sids ([], st) of (ev', st') \<Rightarrow> (ev @ ev', st'))"
proof (induction sids arbitrary: ev st)
  case (Cons sid sids)
  show ?case
  proof (cases "lookup st sid")
    case None
    then show ?thesis using Cons [of ev st] by (simp add: gc_pick_def)
  next
    case (Some r)
    then show ?thesis
      using Cons [of "ev @ [r]" "map_delete sid st"] Cons [of "[r]" "map_delete sid st"]
      by (simp add: gc_pick_def split: prod.split)
  qed
qed simp

lemma gc_batch_Delete: "gc_batch sids st = fold Delete sids st"
proof (induction sids arbitrary: st)
  case Nil
  then show ?case by (simp add: gc_batch_def)
next
  case (Cons sid sids)
  show ?case
  proof (cases "lookup st sid")
    case None
    then have "gc_batch (sid # sids) st = gc_batch sids st"
      by (simp add: gc_batch_def gc_pick_def)
    with None Cons show ?thesis by (simp add: Delete_absent)
  next
    case (Some r)
    let ?st = "map_delete sid st"
    obtain ev st' where f: "fold gc_pick sids ([], ?st) = (ev, st')" by fastforce
    have "gc_batch (sid # sids) st = fold zero_at ev (zero_at r st')"
      using Some f gc_pick_acc [of sids "[r]" ?st] by (simp add: gc_batch_def gc_pick_def)
    also have "\<dots> = gc_batch sids (zero_at r ?st)"
      using f gc_pick_zero_at [of sids "[]" r ?st] by (simp add: gc_batch_def)
    also have "\<dots> = fold Delete sids (Delete sid st)"
      using Cons Some by (simp add: Delete_Some)
    finally show ?thesis by simp
  qed
qed

lemma gc_batches_Delete: "gc_batches expired st = fold Delete expired st"
proof (induction expired st rule: gc_batches.induct)
  case (1 expired st)
  show ?case
  proof (cases "expired = []")
    case False
    then have "gc_batches expired st =
        fold Delete (drop gcBatchSize expired) (fold Delete (take gcBatchSize expired) st)"
      using "1.IH" by (simp add: gc_batches.simps [of expired st] gc_batch_Delete)
    also have "\<dots> = fold Delete (take gcBatchSize expired @ drop gcBatchSize expired) st"
      by (simp only: fold_append comp_apply)
    finally show ?thesis by simp
  qed (simp add: gc_batches.simps)
qed

lemma doGC_Delete:
  "doGC rng now st =
     fold Delete (map fst (filter (\<lambda>(sid, r). \<not> alive st (sess st r) now) (rng (sessions st)))) st"
  by (simp add: doGC_def gc_batches_Delete)

section \<open>Updating a live session in place\<close>

lemma update_inv:
  assumes inv: "store_inv st" and r: "r \<in> live st"
    and same: "sessions st' = sessions st" "opts st' = opts st" "length (heap st') = length (heap st)"
    and others: "\<And>r'. r' \<noteq> r \<Longrightarrow> sess st' r' = sess st r'"
    and keys: "sId (sess st' r) = sId (sess st r)" "sCapKey (sess st' r) = sCapKey (sess st r)"
    and len: "length (mem st) \<le> length (mem st')"
    and own: "owned_slices st' r \<subseteq> owned_slices st r \<union> {length (mem st)..<length (mem st')}"
    and unsh: "unshared (sess st' r)"
    and expiry: "sExpiresAt (sess st' r) = effectiveExpiry (sCreatedAt (sess st' r))
      (MaxLifetime (opts st)) (cExpiresAt (sCredential (sess st' r)))"
  shows "store_inv st'"
proof -
  have live': "live st' = live st" by (simp add: live_def same)
  have keys': "sId (sess st' q) = sId (sess st q)" "sCapKey (sess st' q) = sCapKey (sess st q)" for q
    using keys others by (cases "q = r"; simp)+
  have own_other: "owned_slices st' q = owned_slices st q" if "q \<noteq> r" for q
    using others [OF that] by (simp add: owned_slices_def)
  have bound: "q \<in> live st \<Longrightarrow> owned_slices st q \<subseteq> {..<length (mem st)}" for q
    using inv by (auto simp: store_inv_def separated_def)
  have disj: "q \<in> live st \<Longrightarrow> q \<noteq> r \<Longrightarrow> owned_slices st' r \<inter> owned_slices st q = {}" for q
    using inv r own bound [of q] by (fastforce simp: store_inv_def separated_def)
  have "map_ok st'"
    using inv by (simp add: store_inv_def map_ok_def same keys')
  moreover have "separated st'"
  proof -
    have "owned_slices st' q \<subseteq> {..<length (mem st')} \<and> unshared (sess st' q)" if "q \<in> live st" for q
    proof (cases "q = r")
      case True
      with own bound [OF r] len unsh show ?thesis by fastforce
    next
      case False
      with that inv bound [OF that] len own_other others show ?thesis
        by (fastforce simp: store_inv_def separated_def)
    qed
    moreover have "owned_slices st' q \<inter> owned_slices st' q' = {}"
      if "q \<in> live st" "q' \<in> live st" "q \<noteq> q'" for q q'
      using that disj [of q] disj [of q'] own_other inv
      by (cases "q = r"; cases "q' = r") (auto simp: store_inv_def separated_def)
    ultimately show ?thesis by (simp add: separated_def live')
  qed
  moreover have "wiped st'"
    using inv own_other others r by (metis live' same(3) store_inv_def wiped_def)
  moreover have "within_caps st'"
    using inv by (simp add: store_inv_def within_caps_def count_for_def same keys')
  moreover have "expiry_ok st'"
    using inv expiry others unfolding expiry_ok_def live' same store_inv_def by metis
  ultimately show ?thesis using inv by (simp add: store_inv_def same)
qed

lemma touch_inv:
  assumes inv: "store_inv st" and r: "r \<in> live st"
  shows "store_inv (touch r now st)"
proof -
  have rlen: "r < length (heap st)" using inv r live_lookup(2) by blast
  have "unshared (sess st r)" using inv r by (auto simp: store_inv_def separated_def)
  with inv r rlen show ?thesis
    by (intro update_inv [OF inv r])
       (auto simp: store_simps owned_slices_def session_slices_def unshared_def store_inv_def expiry_ok_def)
qed

section \<open>Inserting\<close>

definition spec_fresh :: "Spec \<Rightarrow> store \<Rightarrow> bool" where
  "spec_fresh spec st \<longleftrightarrow>
     slice_refs (spec_slices spec) \<subseteq> {..<length (mem st)} \<and>
     (\<forall>r \<in> live st. slice_refs (spec_slices spec) \<inter> owned_slices st r = {}) \<and>
     (spRefreshToken spec = None \<or> spRefreshToken spec \<notin> set (cred_slices (spCredential spec)))"

lemma newSession_slices [simp]: "session_slices (newSession os sid now spec) = spec_slices spec"
  by (simp add: session_slices_def newSession_def spec_slices_def)

lemma newSession_fields [simp]:
  "sId (newSession os sid now spec) = sid"
  "sCapKey (newSession os sid now spec) = perUserCapKey spec"
  "sCredential (newSession os sid now spec) = spCredential spec"
  "sRefreshToken (newSession os sid now spec) = spRefreshToken spec"
  "sCreatedAt (newSession os sid now spec) = now"
  "sLastSeen (newSession os sid now spec) = now"
  "sTransports (newSession os sid now spec) = []"
  "sExpiresAt (newSession os sid now spec) =
     effectiveExpiry now (MaxLifetime os) (cExpiresAt (spCredential spec))"
  by (simp_all add: newSession_def)

lemma map_insert_frame:
  fixes now :: Time and spec :: Spec
  assumes new: "lookup st sid = None"
  defines "st' \<equiv> map_insert sid (newSession (opts st) sid now spec) st" and "n \<equiv> length (heap st)"
  shows "sessions st' = sessions st @ [(sid, n)]" "live st' = insert n (live st)"
    "\<And>q. q < n \<Longrightarrow> sess st' q = sess st q" "sess st' n = newSession (opts st) sid now spec"
    "\<And>q. q < n \<Longrightarrow> owned_slices st' q = owned_slices st q" "owned_slices st' n = slice_refs (spec_slices spec)"
proof -
  have "sid \<notin> fst ` set (sessions st)" using new by (simp add: lookup_def map_of_eq_None_iff)
  then show ses: "sessions st' = sessions st @ [(sid, n)]" by (simp add: st'_def n_def store_simps update_fresh_alist)
  then show "live st' = insert n (live st)" by (auto simp: live_def)
  show old: "q < n \<Longrightarrow> sess st' q = sess st q" and s: "sess st' n = newSession (opts st) sid now spec" for q
    by (simp_all add: st'_def n_def store_simps nth_append)
  show "q < n \<Longrightarrow> owned_slices st' q = owned_slices st q" "owned_slices st' n = slice_refs (spec_slices spec)" for q
    by (simp_all add: owned_slices_def old s)
qed

lemma map_insert_map_ok:
  assumes ok: "map_ok st" and new: "lookup st sid = None"
  shows "map_ok (map_insert sid (newSession (opts st) sid now spec) st)" (is "map_ok ?st'")
proof -
  note F = map_insert_frame [OF new, where now = now and spec = spec]
  have "sid \<notin> fst ` set (sessions st)" using new by (simp add: lookup_def map_of_eq_None_iff)
  moreover have "p \<in> set (sessions st) \<Longrightarrow> snd p < length (heap st) \<and> sId (sess ?st' (snd p)) = fst p" for p
    using map_ok_entry [OF ok, of "fst p" "snd p"] F(3) by simp
  ultimately show ?thesis
    using ok F(4) by (auto simp: map_ok_def F(1)) (auto simp: store_simps less_Suc_eq)
qed

lemma map_insert_separated:
  assumes inv: "store_inv st" and new: "lookup st sid = None" and fresh: "spec_fresh spec st"
  shows "separated (map_insert sid (newSession (opts st) sid now spec) st)" (is "separated ?st'")
proof -
  note F = map_insert_frame [OF new, where now = now and spec = spec]
  have old: "q \<in> live st \<Longrightarrow> q < length (heap st)" for q using inv live_lookup(2) by blast
  have base: "q \<in> live st \<Longrightarrow> owned_slices st q \<subseteq> {..<length (mem st)} \<and> unshared (sess st q) \<and>
      slice_refs (spec_slices spec) \<inter> owned_slices st q = {}" for q
    using inv fresh by (simp add: store_inv_def separated_def spec_fresh_def)
  have pair: "q \<in> live st \<Longrightarrow> q' \<in> live st \<Longrightarrow> q \<noteq> q' \<Longrightarrow> owned_slices st q \<inter> owned_slices st q' = {}"
    for q q' using inv by (simp add: store_inv_def separated_def)
  have "unshared (newSession (opts st) sid now spec)" using fresh by (simp add: unshared_def spec_fresh_def)
  moreover have "slice_refs (spec_slices spec) \<subseteq> {..<length (mem st)}" using fresh by (simp add: spec_fresh_def)
  moreover have "mem ?st' = mem st" by (simp add: store_simps)
  ultimately show ?thesis
    unfolding separated_def F(2) using base pair old F(3-6) by (simp add: Int_commute)
qed

lemma map_insert_within_caps:
  assumes ok: "map_ok st" and caps: "within_caps st" and new: "lookup st sid = None"
    and room: "int (length (sessions st)) < MaxSessions (opts st)"
    and cap: "perUserCapKey spec = [] \<or> int (count_for st (perUserCapKey spec)) < MaxSessionsPerUser (opts st)"
  shows "within_caps (map_insert sid (newSession (opts st) sid now spec) st)" (is "within_caps ?st'")
proof -
  note F = map_insert_frame [OF new, where now = now and spec = spec]
  have capkeys: "filter (\<lambda>(sid, r). sCapKey (sess ?st' r) = k) (sessions st) =
      filter (\<lambda>(sid, r). sCapKey (sess st r) = k) (sessions st)" for k
    using map_ok_entry [OF ok] F(3) by (intro filter_cong) auto
  have "count_for ?st' k = count_for st k + (if perUserCapKey spec = k then 1 else 0)" for k
    unfolding count_for_def F(1) filter_append capkeys by (simp add: F(4))
  with caps room cap show ?thesis by (auto simp: within_caps_def F(1) map_insert_simps(2))
qed

lemma map_insert_inv:
  assumes inv: "store_inv st" and new: "lookup st sid = None"
    and fresh: "spec_fresh spec st"
    and room: "int (length (sessions st)) < MaxSessions (opts st)"
    and cap: "perUserCapKey spec = [] \<or>
      int (count_for st (perUserCapKey spec)) < MaxSessionsPerUser (opts st)"
  shows "store_inv (map_insert sid (newSession (opts st) sid now spec) st)"
    (is "store_inv ?st'")
proof -
  note F = map_insert_frame [OF new, where now = now and spec = spec]
  have old: "q \<in> live st \<Longrightarrow> q < length (heap st)" for q using inv live_lookup(2) by blast
  have "wiped ?st'"
    using inv F(3,5) by (simp add: wiped_def F(2) store_inv_def store_simps)
  moreover have "expiry_ok ?st'"
    using inv F(3,4) old by (simp add: expiry_ok_def F(2) store_inv_def) (simp add: store_simps)
  moreover have "map_ok ?st'" "within_caps ?st'"
    using inv map_insert_map_ok [OF _ new] map_insert_within_caps [OF _ _ new room cap] by (simp_all add: store_inv_def)
  ultimately show ?thesis using inv map_insert_separated [OF inv new fresh] by (simp add: store_inv_def store_simps)
qed

end
