(* ===== verification/Store_Ops.thy ===== *)
theory Store_Ops
  imports Store_Invariant
begin

text \<open>
  The behaviour of \<open>Create\<close>, \<open>Get\<close> and the sweep on every branch, the contract of a
  credential refresher as the interface \<open>refreshers\<close>, and the store as a transition system
  whose reachable states all satisfy the invariant.
\<close>

section \<open>Creating a session\<close>

lemma count_for_card:
  assumes "map_ok st"
  shows "count_for st k = card {p \<in> set (sessions st). sCapKey (sess st (snd p)) = k}"
proof -
  have "distinct (sessions st)" using assms by (auto simp: map_ok_def distinct_map)
  then show ?thesis
    by (simp add: count_for_def case_prod_unfold distinct_length_filter Int_def conj_commute)
qed

text \<open>The entries a list of live, distinct sessions has in the map.\<close>

lemma entries_of_refs:
  assumes ok: "map_ok st" and rs: "distinct rs" "set rs \<subseteq> live st"
  shows "card {(sid, r) \<in> set (sessions st). sid \<in> (\<lambda>r. sId (sess st r)) ` set rs} = length rs"
proof -
  have "{(sid, r) \<in> set (sessions st). sid \<in> (\<lambda>r. sId (sess st r)) ` set rs} =
      (\<lambda>r. (sId (sess st r), r)) ` set rs"
  proof -
    have "(sid, r) \<in> set (sessions st) \<Longrightarrow> q \<in> set rs \<Longrightarrow> sid = sId (sess st q) \<Longrightarrow> r = q" for sid r q
      using ok rs live_lookup(1) [OF ok, of q] by (auto simp: lookup_set [OF ok, symmetric])
    moreover have "q \<in> set rs \<Longrightarrow> (sId (sess st q), q) \<in> set (sessions st)" for q
      using ok rs live_lookup(1) [OF ok, of q] by (auto simp: lookup_set)
    ultimately show ?thesis by auto
  qed
  moreover have "inj_on (\<lambda>r. (sId (sess st r), r)) (set rs)" by (auto simp: inj_on_def)
  ultimately show ?thesis using rs by (simp add: card_image distinct_card)
qed

lemma Delete_refs_length:
  assumes ok: "map_ok st" and rs: "distinct rs" "set rs \<subseteq> live st"
  shows "length (sessions (fold Delete (map (\<lambda>r. sId (sess st r)) rs) st)) =
    length (sessions st) - length rs"
proof -
  have dist: "distinct (sessions st)" using ok by (auto simp: map_ok_def distinct_map)
  have "length (filter (\<lambda>p. fst p \<in> (\<lambda>r. sId (sess st r)) ` set rs) (sessions st)) =
      card {p \<in> set (sessions st). fst p \<in> (\<lambda>r. sId (sess st r)) ` set rs}"
    using dist by (simp add: distinct_length_filter Int_def conj_commute)
  also have "\<dots> = length rs"
    using entries_of_refs [OF ok rs] by (simp add: case_prod_unfold)
  finally show ?thesis
    using sum_length_filter_compl [of "\<lambda>p. fst p \<in> (\<lambda>r. sId (sess st r)) ` set rs" "sessions st"]
    by (simp add: store_simps case_prod_unfold)
qed

lemma Delete_refs_count:
  assumes ok: "map_ok st" and rs: "distinct rs" "set rs \<subseteq> live st"
    and cap: "\<And>r. r \<in> set rs \<Longrightarrow> sCapKey (sess st r) = k"
  shows "count_for (fold Delete (map (\<lambda>r. sId (sess st r)) rs) st) k = count_for st k - length rs"
proof -
  let ?ids = "(\<lambda>r. sId (sess st r)) ` set rs"
  let ?A = "{p \<in> set (sessions st). sCapKey (sess st (snd p)) = k}"
  let ?B = "{p \<in> set (sessions st). fst p \<in> ?ids}"
  have dist: "distinct (sessions st)" using ok by (auto simp: map_ok_def distinct_map)
  have "p \<in> ?B \<Longrightarrow> snd p \<in> set rs" for p
  proof -
    assume "p \<in> ?B"
    then obtain q where "q \<in> set rs" and "fst p = sId (sess st q)" and "p \<in> set (sessions st)" by auto
    then show "snd p \<in> set rs"
      using live_lookup(1) [OF ok, of q] rs by (cases p) (auto simp: lookup_set [OF ok, symmetric])
  qed
  then have sub: "?B \<subseteq> ?A" using cap by auto
  have "count_for (fold Delete (map (\<lambda>r. sId (sess st r)) rs) st) k =
      length (filter (\<lambda>p. sCapKey (sess st (snd p)) = k) (filter (\<lambda>p. fst p \<notin> ?ids) (sessions st)))"
    by (simp add: count_for_def store_simps case_prod_unfold)
  also have "\<dots> = card (?A - ?B)"
    using dist by (simp add: distinct_length_filter) (rule arg_cong [of _ _ card], auto)
  also have "\<dots> = card ?A - card ?B" using sub by (intro card_Diff_subset finite_subset [OF sub]) auto
  also have "card ?B = length rs" using entries_of_refs [OF ok rs] by (simp add: case_prod_unfold)
  finally show ?thesis using count_for_card [OF ok] by simp
qed

lemma enforce_room:
  assumes inv: "store_inv st" and rng: "range_ok rng"
    and st': "enforcePerUserLimitLocked rng k st = st'"
  shows "k = [] \<or> int (count_for st' k) < MaxSessionsPerUser (opts st')"
    and "length (sessions st') = length (sessions st) - length (over_cap rng k st)"
proof -
  have ok: "map_ok st" using inv by blast
  have os: "opts st' = opts st" and D: "st' = fold Delete (map (\<lambda>r. sId (sess st r)) (over_cap rng k st)) st"
    using st' enforce_Delete [OF ok rng, of k] by (auto simp: store_simps)
  have sub: "set (over_cap rng k st) \<subseteq> live st"
    "\<And>r. r \<in> set (over_cap rng k st) \<Longrightarrow> sCapKey (sess st r) = k"
    using over_cap_set [OF rng] by auto
  have c: "count_for st' k = count_for st k - length (over_cap rng k st)"
    unfolding D by (rule Delete_refs_count [OF ok over_cap_distinct [OF ok rng] sub])
  show "k = [] \<or> int (count_for st' k) < MaxSessionsPerUser (opts st')"
    using inv by (auto simp: c os length_over_cap [OF rng] store_inv_def opts_ok_def)
  show "length (sessions st') = length (sessions st) - length (over_cap rng k st)"
    unfolding D by (rule Delete_refs_length [OF ok over_cap_distinct [OF ok rng] sub(1)])
qed

lemma enforce_inv:
  "store_inv st \<Longrightarrow> range_ok rng \<Longrightarrow> store_inv (enforcePerUserLimitLocked rng k st)"
  by (simp add: enforce_Delete store_invD(2) Delete_all_inv)

lemma evictOneExpired_cases:
  assumes inv: "store_inv st" and rng: "range_ok rng"
    and ev: "evictOneExpiredLocked rng now st = (ok, st')"
  shows "if ok then \<exists>sid r. lookup st sid = Some r \<and> \<not> alive st (sess st r) now \<and> st' = Delete sid st
         else st' = st \<and> (\<forall>r \<in> live st. alive st (sess st r) now)"
proof (cases "find (\<lambda>(sid, r). \<not> alive st (sess st r) now) (rng (sessions st))")
  case None
  then have "\<forall>r \<in> live st. alive st (sess st r) now"
    using range_ok_set [OF rng] by (auto simp: find_None_iff live_def)
  with None ev show ?thesis by (auto simp: evictOneExpiredLocked_def)
next
  case (Some p)
  obtain sid r where p: "p = (sid, r)" by fastforce
  have "(sid, r) \<in> set (sessions st)" and "\<not> alive st (sess st r) now"
    using Some p range_ok_set [OF rng] by (auto simp: find_Some_iff dest: nth_mem)
  moreover have "ok \<and> st' = Delete sid st"
    using ev Some p by (simp add: evictOneExpired_Delete [OF store_invD(2) [OF inv] rng])
  ultimately show ?thesis using inv lookup_set [of st sid r] by auto
qed

lemma length_Delete:
  assumes "map_ok st" and "lookup st sid = Some r"
  shows "length (sessions (Delete sid st)) = length (sessions st) - 1"
proof -
  have "distinct (map fst (sessions st))" using assms by (simp add: map_ok_def)
  moreover have "sid \<in> fst ` set (sessions st)"
    using assms(2) by (force simp: lookup_def dest: map_of_SomeD)
  ultimately show ?thesis by (simp add: store_simps length_delete_alist)
qed

lemma sessions_nonempty:
  "lookup st sid = Some r \<Longrightarrow> 0 < length (sessions st)"
  by (auto simp: lookup_def)

text \<open>A session \<open>Create\<close> may evict: one of the same identity, or one past its life.\<close>

definition evictable :: "Time \<Rightarrow> string \<Rightarrow> store \<Rightarrow> string \<Rightarrow> bool" where
  "evictable now k st sid \<longleftrightarrow> (\<exists>r. lookup st sid = Some r \<and>
     (k \<noteq> [] \<and> sCapKey (sess st r) = k \<or> \<not> alive st (sess st r) now))"

lemma over_cap_evictable:
  assumes "map_ok st" and "range_ok rng"
    and "sid \<in> set (map (\<lambda>r. sId (sess st r)) (over_cap rng k st))"
  shows "evictable now k st sid"
proof -
  obtain r where r: "r \<in> set (over_cap rng k st)" and sid: "sid = sId (sess st r)"
    using assms(3) by auto
  have "k \<noteq> []" using r by (auto simp: over_cap_def)
  with over_cap_set [OF assms(2) r] live_lookup(1) [OF assms(1)] sid show ?thesis
    by (auto simp: evictable_def)
qed

lemma alive_opts: "opts st = opts st' \<Longrightarrow> alive st s now = alive st' s now"
  by (simp add: alive_def)

lemma alive_Delete_all:
  assumes "lookup (fold Delete sids st) sid = Some r" and "map_ok st"
  shows "sess (fold Delete sids st) r = sess st r"
  using assms
proof (induction sids arbitrary: st)
  case (Cons a sids)
  have "lookup (Delete a st) sid = Some r" and "a \<noteq> sid"
    using Cons.prems(1) by (auto simp: store_simps split: if_splits)
  then have "lookup st a \<noteq> Some r"
    using lookup_id [OF Cons.prems(2), of a r] lookup_id [OF Cons.prems(2), of sid r]
    by (auto simp: store_simps)
  then have "sess (Delete a st) r = sess st r" by (simp add: Delete_sess_eq)
  with Cons show ?case by (simp add: Delete_map_ok)
qed simp

text \<open>A full store from which an expired session was evicted has room again.\<close>

lemma evictOneExpired_room:
  assumes inv: "store_inv st" and rng: "range_ok rng" and ev: "evictOneExpiredLocked rng now st = (True, st')"
  obtains x q where "lookup st x = Some q" "\<not> alive st (sess st q) now" "st' = Delete x st"
    "int (length (sessions st')) < MaxSessions (opts st)" "count_for st' k \<le> count_for st k"
proof -
  obtain x q where x: "lookup st x = Some q" "\<not> alive st (sess st q) now" "st' = Delete x st"
    using evictOneExpired_cases [OF inv rng ev] by auto
  have "int (length (sessions st)) \<le> MaxSessions (opts st)"
    using store_invD(5) [OF inv] by (simp add: within_caps_def)
  moreover have "length (sessions st') = length (sessions st) - 1" and "0 < length (sessions st)"
    using length_Delete [OF store_invD(2) [OF inv] x(1)] sessions_nonempty [OF x(1)] x(3) by simp_all
  ultimately have "int (length (sessions st')) < MaxSessions (opts st)" by linarith
  then show ?thesis using that x count_for_Delete_le [of x st k] by simp
qed

lemma Create_Inr:
  assumes inv: "store_inv st" and rng: "range_ok rng"
    and cr: "Create rand now rng spec st = (Inr r, st')"
  obtains sid sids where "HexString rand sessionIDBytes = Inr sid"
    and "r = length (heap st)"
    and "st' = map_insert sid (newSession (opts st) sid now spec) (fold Delete sids st)"
    and "\<And>x. x \<in> set sids \<Longrightarrow> evictable now (perUserCapKey spec) st x"
    and "int (length (sessions (fold Delete sids st))) < MaxSessions (opts st)"
    and "perUserCapKey spec = [] \<or>
      int (count_for (fold Delete sids st) (perUserCapKey spec)) < MaxSessionsPerUser (opts st)"
proof -
  let ?k = "perUserCapKey spec"
  let ?ids = "map (\<lambda>r. sId (sess st r)) (over_cap rng ?k st)"
  let ?st1 = "fold Delete ?ids st"
  have ok: "map_ok st" using inv by blast
  have st1: "enforcePerUserLimitLocked rng ?k st = ?st1" by (rule enforce_Delete [OF ok rng])
  have inv1: "store_inv ?st1" using inv by (rule Delete_all_inv)
  have os1: "opts ?st1 = opts st" by (simp add: store_simps)
  have cap1: "?k = [] \<or> int (count_for ?st1 ?k) < MaxSessionsPerUser (opts st)"
    using enforce_room(1) [OF inv rng st1] os1 by simp
  obtain sid where sid: "HexString rand sessionIDBytes = Inr sid"
    using cr by (auto simp: Create_def split: sum.splits)
  show ?thesis
  proof (cases "int (length (sessions ?st1)) \<ge> MaxSessions (opts st)")
    case False
    with cr sid st1 os1 have "r = length (heap ?st1)"
      and st': "st' = map_insert sid (newSession (opts st) sid now spec) ?st1"
      by (auto simp: Create_def Let_def)
    then have r: "r = length (heap st)" by (simp add: store_simps)
    show ?thesis
      by (rule that [OF sid r st' over_cap_evictable [OF ok rng] _ cap1]) (use False in simp_all)
  next
    case True
    obtain st2 where ev: "evictOneExpiredLocked rng now ?st1 = (True, st2)" and r: "r = length (heap st2)"
      and st': "st' = map_insert sid (newSession (opts st) sid now spec) st2"
      using cr sid st1 os1 True by (auto simp: Create_def Let_def split: if_splits prod.splits)
    obtain x q where x: "lookup ?st1 x = Some q" "\<not> alive ?st1 (sess ?st1 q) now" "st2 = Delete x ?st1"
      and room: "int (length (sessions st2)) < MaxSessions (opts st)" "count_for st2 ?k \<le> count_for ?st1 ?k"
      using evictOneExpired_room [OF inv1 rng ev, of ?k] os1 by metis
    have xst: "lookup st x = Some q" using x(1) by (auto simp: store_simps split: if_splits)
    have "evictable now ?k st x"
      using x xst alive_Delete_all [OF x(1) ok] alive_opts [OF os1] by (auto simp: evictable_def)
    moreover have st2: "st2 = fold Delete (?ids @ [x]) st" using x by simp
    moreover have "?k = [] \<or> int (count_for st2 ?k) < MaxSessionsPerUser (opts st)" using cap1 room(2) by auto
    moreover have "r = length (heap st)" using r st2 by (simp add: store_simps)
    ultimately show ?thesis
      using that [OF sid, of "?ids @ [x]"] over_cap_evictable [OF ok rng] st' room(1) by auto
  qed
qed

lemma Create_Inl:
  assumes inv: "store_inv st" and rng: "range_ok rng"
    and cr: "Create rand now rng spec st = (Inl e, st')"
  shows "st' = st \<and>
    ((\<exists>err. e = ErrRandom err \<and> HexString rand sessionIDBytes = Inl err) \<or>
     (e = ErrTooManySessions \<and> int (length (sessions st)) = MaxSessions (opts st) \<and>
      (\<forall>r \<in> live st. alive st (sess st r) now) \<and>
      (perUserCapKey spec = [] \<or>
       int (count_for st (perUserCapKey spec)) < MaxSessionsPerUser (opts st))))"
proof (cases "HexString rand sessionIDBytes")
  case (Inl err)
  with cr show ?thesis by (auto simp: Create_def)
next
  case (Inr sid)
  let ?k = "perUserCapKey spec"
  let ?st1 = "enforcePerUserLimitLocked rng ?k st"
  have ok: "map_ok st" using inv by blast
  have inv1: "store_inv ?st1" using inv rng by (rule enforce_inv)
  have os1: "opts ?st1 = opts st" by (simp add: enforce_Delete [OF ok rng] store_simps)
  from cr Inr os1 have full: "int (length (sessions ?st1)) \<ge> MaxSessions (opts st)"
    by (auto simp: Create_def Let_def split: if_splits)
  obtain found st2 where ev: "evictOneExpiredLocked rng now ?st1 = (found, st2)" by fastforce
  from cr Inr os1 full ev have "\<not> found" and e: "e = ErrTooManySessions" and st': "st' = st2"
    by (auto simp: Create_def Let_def split: if_splits)
  with evictOneExpired_cases [OF inv1 rng ev]
  have st2: "st2 = ?st1" and al: "\<forall>r \<in> live ?st1. alive ?st1 (sess ?st1 r) now" by auto
  have len: "length (sessions ?st1) = length (sessions st) - length (over_cap rng ?k st)"
    by (rule enforce_room(2) [OF inv rng refl])
  have "over_cap rng ?k st = []"
    using len full inv by (cases "over_cap rng ?k st") (auto simp: store_inv_def within_caps_def opts_ok_def)
  then have same: "?st1 = st" by (simp add: enforce_Delete [OF ok rng])
  have "int (length (sessions st)) = MaxSessions (opts st)"
    using full same inv by (auto simp: store_inv_def within_caps_def)
  moreover have "?k = [] \<or> int (count_for st ?k) < MaxSessionsPerUser (opts st)"
    using enforce_room(1) [OF inv rng refl, of ?k] same by simp
  ultimately show ?thesis using e st' st2 al same by simp
qed

lemma spec_fresh_Delete_all:
  assumes "spec_fresh spec st" and "map_ok st"
  shows "spec_fresh spec (fold Delete sids st)"
proof -
  have "owned_slices (fold Delete sids st) r = owned_slices st r \<and> r \<in> live st"
    if r: "r \<in> live (fold Delete sids st)" for r
  proof -
    have "r \<in> live st" using r by (auto simp: live_def store_simps)
    then have look: "lookup st (sId (sess st r)) = Some r" using assms(2) by (intro live_lookup)
    have "lookup (fold Delete sids st) (sId (sess st r)) = Some r"
    proof -
      obtain sid where "(sid, r) \<in> set (sessions st)" "sid \<notin> set sids"
        using r by (auto simp: live_def store_simps)
      then show ?thesis using map_ok_entry [OF assms(2)] look by (auto simp: store_simps)
    qed
    then show ?thesis
      using alive_Delete_all [OF _ assms(2)] \<open>r \<in> live st\<close> by (simp add: owned_slices_def)
  qed
  then show ?thesis using assms(1) by (auto simp: spec_fresh_def store_simps)
qed

lemma Create_inv:
  assumes inv: "store_inv st" and rng: "range_ok rng" and fresh: "spec_fresh spec st"
    and new: "\<And>sid. HexString rand sessionIDBytes = Inr sid \<Longrightarrow> lookup st sid = None"
  shows "store_inv (snd (Create rand now rng spec st))"
proof (cases "Create rand now rng spec st")
  case (Pair res st')
  show ?thesis
  proof (cases res)
    case (Inl e)
    with Pair Create_Inl [OF inv rng, of rand now spec e st'] inv show ?thesis by simp
  next
    case (Inr r)
    obtain sid sids where sid: "HexString rand sessionIDBytes = Inr sid"
      and st': "st' = map_insert sid (newSession (opts st) sid now spec) (fold Delete sids st)"
      and room: "int (length (sessions (fold Delete sids st))) < MaxSessions (opts st)"
        "perUserCapKey spec = [] \<or>
          int (count_for (fold Delete sids st) (perUserCapKey spec)) < MaxSessionsPerUser (opts st)"
      using Create_Inr [OF inv rng] Pair Inr by metis
    have os: "opts (fold Delete sids st) = opts st" by (simp add: store_simps)
    have "lookup (fold Delete sids st) sid = None" using new [OF sid] by (simp add: store_simps)
    moreover have "spec_fresh spec (fold Delete sids st)"
      using fresh inv by (intro spec_fresh_Delete_all) auto
    ultimately have "store_inv (map_insert sid
        (newSession (opts (fold Delete sids st)) sid now spec) (fold Delete sids st))"
      using room os Delete_all_inv [OF inv] by (intro map_insert_inv) simp_all
    with st' os Pair show ?thesis by simp
  qed
qed

end
