(* ===== verification/Store_Refinement.thy ===== *)
theory Store_Refinement
  imports Store_Ops
begin

text \<open>
  What the session store promises, without pointers or memory: a map from session IDs to
  session values whose credentials are plain contents, with \<open>Delete\<close>, the sweep, \<open>Get\<close> and
  \<open>Create\<close> as functions on that map. The detailed store implements it: abstracting after an
  operation is the same as operating on the abstraction. The proofs rest on the separation
  part of the invariant, since zeroing one session's bytes must not reach another's.
\<close>

section \<open>The abstract store\<close>

type_synonym acred = "Kind \<times> string \<times> string \<times> string \<times> string"

record asession =
  aMode :: Mode
  aUsername :: string
  aCapKey :: string
  aCreatedAt :: Time
  aRefresher :: "refresher_id option"
  aCred :: acred
  aCredExpiry :: Time
  aRefreshToken :: "string option"
  aLastSeen :: Time
  aExpiresAt :: Time

type_synonym astore = "string \<rightharpoonup> asession"

type_synonym arefresh = "refresher_id \<Rightarrow> string option \<Rightarrow> string + acred \<times> Time \<times> string option"

definition aalive :: "Options \<Rightarrow> asession \<Rightarrow> Time \<Rightarrow> bool" where
  "aalive os a now \<longleftrightarrow>
     now \<le> aCreatedAt a + MaxLifetime os \<and>
     (aRefresher a = None \<and> aCredExpiry a \<noteq> zeroTime \<longrightarrow> now \<le> aCredExpiry a) \<and>
     Sub now (aLastSeen a) \<le> IdleTimeout os"

definition aexpired :: "asession \<Rightarrow> Time \<Rightarrow> bool" where
  "aexpired a now \<longleftrightarrow> aCredExpiry a \<noteq> zeroTime \<and> aCredExpiry a < now"

definition adue :: "asession \<Rightarrow> Time \<Rightarrow> bool" where
  "adue a now \<longleftrightarrow> aCredExpiry a \<noteq> zeroTime \<and> aCredExpiry a \<le> now + refreshWindow"

definition arenew :: "Options \<Rightarrow> arefresh \<Rightarrow> Time \<Rightarrow> Time \<Rightarrow> asession \<Rightarrow> asession" where
  "arenew os ar now recheck a =
     (case aRefresher a of
        None \<Rightarrow> a
      | Some rid \<Rightarrow>
          if adue a now \<and> adue a recheck then
            (case ar rid (aRefreshToken a) of
               Inl _ \<Rightarrow> a
             | Inr (c, e, rt) \<Rightarrow>
                 a\<lparr>aCred := c, aCredExpiry := e,
                   aRefreshToken := (case rt of None \<Rightarrow> aRefreshToken a | Some t \<Rightarrow> Some t),
                   aExpiresAt := effectiveExpiry (aCreatedAt a) (MaxLifetime os) e\<rparr>)
          else a)"

definition aDelete :: "string \<Rightarrow> astore \<Rightarrow> astore" where
  "aDelete sid A = A(sid := None)"

definition aGC :: "Options \<Rightarrow> Time \<Rightarrow> astore \<Rightarrow> astore" where
  "aGC os now A = (\<lambda>sid. case A sid of None \<Rightarrow> None | Some a \<Rightarrow> if aalive os a now then Some a else None)"

definition aGet ::
  "Options \<Rightarrow> arefresh \<Rightarrow> Time \<times> Time \<times> Time \<times> Time \<Rightarrow> string \<Rightarrow> astore \<Rightarrow>
   (store_error + asession) \<times> astore" where
  "aGet os ar clock sid A =
     (case clock of (t0, t1, t2, t3) \<Rightarrow>
      (case A sid of
         None \<Rightarrow> (Inl ErrNotFound, A)
       | Some a \<Rightarrow>
           if \<not> aalive os a t0 then (Inl ErrExpired, aDelete sid A)
           else
             let a = arenew os ar t0 t1 a
             in if aexpired a t2 then (Inl ErrExpired, aDelete sid A)
                else (Inr (a\<lparr>aLastSeen := t3\<rparr>), A(sid \<mapsto> a\<lparr>aLastSeen := t3\<rparr>))))"

section \<open>The abstraction function\<close>

definition content :: "mem \<Rightarrow> slice \<Rightarrow> string option" where
  "content m s = map_option (\<lambda>r. slice_get m (Some r)) s"

definition view :: "mem \<Rightarrow> Session \<Rightarrow> asession" where
  "view m s =
     \<lparr>aMode = sMode s, aUsername = sUsername s, aCapKey = sCapKey s, aCreatedAt = sCreatedAt s,
      aRefresher = sRefresher s, aCred = cred_view m (sCredential s),
      aCredExpiry = cExpiresAt (sCredential s), aRefreshToken = content m (sRefreshToken s),
      aLastSeen = sLastSeen s, aExpiresAt = sExpiresAt s\<rparr>"

definition abs :: "store \<Rightarrow> astore" where
  "abs st sid = map_option (\<lambda>r. view (mem st) (sess st r)) (lookup st sid)"

lemma view_cong:
  assumes "\<And>t. t \<in> set (session_slices s) \<Longrightarrow> slice_get m t = slice_get m' t"
  shows "view m s = view m' s"
  using assms
  by (cases "sRefreshToken s")
     (simp_all add: view_def cred_view_def content_def session_slices_def cred_slices_def)

lemma view_append:
  assumes "slice_refs (session_slices s) \<subseteq> {..<length m}"
  shows "view (m @ xs) s = view m s"
proof (rule view_cong)
  fix t assume "t \<in> set (session_slices s)"
  with assms have "slice_ok m t" by (cases t) (auto simp: slice_refs_def slice_ok_def)
  then show "slice_get (m @ xs) t = slice_get m t" by (rule slice_get_append)
qed

lemma view_fields [simp]:
  "aCreatedAt (view m s) = sCreatedAt s" "aRefresher (view m s) = sRefresher s"
  "aCredExpiry (view m s) = cExpiresAt (sCredential s)" "aLastSeen (view m s) = sLastSeen s"
  "aCapKey (view m s) = sCapKey s" "aExpiresAt (view m s) = sExpiresAt s"
  "aRefreshToken (view m s) = content m (sRefreshToken s)" "aMode (view m s) = sMode s"
  "aUsername (view m s) = sUsername s" "aCred (view m s) = cred_view m (sCredential s)"
  by (simp_all add: view_def)

lemma alive_view: "alive st s now \<longleftrightarrow> aalive (opts st) (view m s) now"
  by (auto simp: alive_def aalive_def time_simps)

lemma expired_view: "credentialExpired s now \<longleftrightarrow> aexpired (view m s) now"
  by (auto simp: credentialExpired_def aexpired_def time_simps)

lemma needsRefresh_view:
  "needsRefresh s now refreshWindow \<longleftrightarrow> sRefresher s \<noteq> None \<and> adue (view m s) now"
  by (auto simp: needsRefresh_def adue_def time_simps split: option.split)

section \<open>Delete and the sweep\<close>

lemma Delete_view_other:
  assumes inv: "store_inv st" and "lookup st sid = Some r" and "r' \<in> live st" and "r' \<noteq> r"
  shows "view (mem (Delete sid st)) (sess (Delete sid st) r') = view (mem st) (sess st r')"
proof -
  have "owned_slices st r \<inter> owned_slices st r' = {}"
    using assms lookup_live [of st sid r] by (auto simp: store_inv_def separated_def)
  then have "slice_get (mem (Delete sid st)) t = slice_get (mem st) t"
    if "t \<in> set (session_slices (sess st r'))" for t
    using that assms(2) unfolding Delete_present [OF assms(2)] owned_slices_def
    by (intro slice_get_fold_disjoint)
  then show ?thesis unfolding Delete_sess [OF assms(2,4)] by (rule view_cong)
qed

lemma abs_Delete:
  assumes inv: "store_inv st"
  shows "abs (Delete sid st) = aDelete sid (abs st)"
proof (cases "lookup st sid")
  case None
  then show ?thesis by (auto simp: Delete_absent abs_def aDelete_def fun_eq_iff)
next
  case (Some r)
  have "abs (Delete sid st) x = (if x = sid then None else abs st x)" for x
  proof (cases "lookup st x")
    case None
    then show ?thesis by (simp add: abs_def store_simps)
  next
    case (Some q)
    have "x \<noteq> sid \<Longrightarrow> q \<noteq> r"
      using lookup_id [OF store_invD(2) [OF inv] Some]
        lookup_id [OF store_invD(2) [OF inv] \<open>lookup st sid = Some r\<close>] by auto
    then show ?thesis
      using Some Delete_view_other [OF inv \<open>lookup st sid = Some r\<close> lookup_live [OF Some]]
      by (simp add: abs_def store_simps)
  qed
  then show ?thesis by (auto simp: aDelete_def fun_eq_iff)
qed

lemma abs_Delete_all:
  assumes "store_inv st"
  shows "abs (fold Delete sids st) = (\<lambda>sid. if sid \<in> set sids then None else abs st sid)"
  using assms
proof (induction sids arbitrary: st)
  case (Cons a sids)
  then show ?case by (auto simp: Delete_inv abs_Delete aDelete_def fun_eq_iff)
qed simp

lemma expired_ids:
  assumes "store_inv st" and "range_ok rng"
  shows "sid \<in> set (map fst (filter (\<lambda>(sid, r). \<not> alive st (sess st r) now) (rng (sessions st)))) \<longleftrightarrow>
    (\<exists>r. lookup st sid = Some r \<and> \<not> alive st (sess st r) now)"
  using assms range_ok_set [OF assms(2)] lookup_set [of st] by (force simp: image_iff)

lemma abs_doGC:
  assumes inv: "store_inv st" and rng: "range_ok rng"
  shows "abs (doGC rng now st) = aGC (opts st) now (abs st)"
  unfolding doGC_Delete abs_Delete_all [OF inv] expired_ids [OF inv rng]
  by (auto simp: aGC_def abs_def fun_eq_iff alive_view [where m = "mem st"] split: option.splits)

lemma doGC_inv: "store_inv st \<Longrightarrow> store_inv (doGC rng now st)"
  by (simp add: doGC_Delete Delete_all_inv)

section \<open>Refreshing\<close>

text \<open>
  The contract of the interface \<open>Refresher\<close>: a refresh leaves existing arrays alone, what it
  returns is freshly allocated, and the outcome depends on the content of the refresh token.
\<close>

locale refreshers =
  fixes refresh :: "refresher_id \<Rightarrow> Refresh" and ar :: arefresh
  assumes refresh_allocates: "refresh rid m s = (m', res) \<Longrightarrow> \<exists>xs. m' = m @ xs"
    and refresh_fresh: "refresh rid m s = (m', Inr (c, rt)) \<Longrightarrow>
      slice_refs (cred_slices c @ [rt]) \<subseteq> {length m..<length m'}"
    and refresh_unshared: "refresh rid m s = (m', Inr (c, rt)) \<Longrightarrow>
      rt = None \<or> rt \<notin> set (cred_slices c)"
    and refresh_content: "slice_ok m s \<Longrightarrow> refresh rid m s = (m', res) \<Longrightarrow>
      ar rid (content m s) =
        (case res of Inl e \<Rightarrow> Inl e
         | Inr (c, rt) \<Rightarrow> Inr (cred_view m' c, cExpiresAt c, content m' rt))"

lemma applyRefresh_simps [store_simps]:
  "sessions (applyRefresh r c rt st) = sessions st"
  "opts (applyRefresh r c rt st) = opts st"
  "length (heap (applyRefresh r c rt st)) = length (heap st)"
  "length (mem (applyRefresh r c rt st)) = length (mem st)"
  by (cases rt; simp add: applyRefresh_def Let_def dropTransportsLocked_def Credential_Zero_def)+

text \<open>The slices a refresh overwrites.\<close>

definition retired :: "Session \<Rightarrow> slice \<Rightarrow> slice list" where
  "retired s rt = cred_slices (sCredential s) @ (if rt = None then [] else [sRefreshToken s])"

lemma applyRefresh_mem:
  "mem (applyRefresh r c rt st) = fold (\<lambda>s m. zeroBytes m s) (retired (sess st r) rt) (mem st)"
  by (cases rt) (simp_all add: applyRefresh_def Let_def dropTransportsLocked_def Credential_Zero_def
      retired_def cred_slices_def)

lemma applyRefresh_heap:
  "heap (applyRefresh r c rt st) = (heap st)[r := (sess st r)\<lparr>sCredential := c,
     sRefreshToken := (if rt = None then sRefreshToken (sess st r) else rt), sTransports := [],
     sExpiresAt := effectiveExpiry (sCreatedAt (sess st r)) (MaxLifetime (opts st)) (cExpiresAt c)\<rparr>]"
  by (cases rt) (simp_all add: applyRefresh_def Let_def dropTransportsLocked_def Credential_Zero_def)

lemma refreshTokenCopy_eq:
  "refreshTokenCopy m s =
     (if sRefreshToken s = None then (m, None)
      else (m @ [slice_get m (sRefreshToken s)], Some (length m)))"
  by (cases "sRefreshToken s") (simp_all add: refreshTokenCopy_def alloc_def)

lemma refreshTokenCopy_append: "refreshTokenCopy m s = (m', tok) \<Longrightarrow> \<exists>xs. m' = m @ xs"
  by (simp add: refreshTokenCopy_eq split: if_splits) blast

lemma slice_refs_simps [simp]:
  "slice_refs [] = {}" "slice_refs (None # ss) = slice_refs ss"
  "slice_refs (Some r # ss) = insert r (slice_refs ss)"
  by (auto simp: slice_refs_def)

lemma refreshTokenCopy_new:
  "refreshTokenCopy m s = (m', tok) \<Longrightarrow> slice_ok m' tok \<and> slice_refs [tok] \<subseteq> {length m..<length m'}"
  by (auto simp: refreshTokenCopy_eq slice_ok_def split: if_splits)

lemma refreshTokenCopy_content:
  "refreshTokenCopy m s = (m', tok) \<Longrightarrow> content m' tok = content m (sRefreshToken s)"
  by (cases "sRefreshToken s") (auto simp: refreshTokenCopy_eq content_def slice_get_def [of "m @ xs" for xs])


text \<open>What one refresh attempt does to the session it is for and to every other one.\<close>

definition refreshed :: "arefresh \<Rightarrow> Time \<Rightarrow> Time \<Rightarrow> nat \<Rightarrow> store \<Rightarrow> store \<Rightarrow> bool" where
  "refreshed ar t0 t1 r st st' \<longleftrightarrow>
     store_inv st' \<and> sessions st' = sessions st \<and> opts st' = opts st \<and>
     view (mem st') (sess st' r) = arenew (opts st) ar t0 t1 (view (mem st) (sess st r)) \<and>
     (\<forall>q \<in> live st. q \<noteq> r \<longrightarrow> view (mem st') (sess st' q) = view (mem st) (sess st q))"

lemma store_inv_mem_append:
  assumes "store_inv st"
  shows "store_inv (st\<lparr>mem := mem st @ xs\<rparr>)"
  using assms
  by (simp add: store_inv_def map_ok_def separated_def wiped_def within_caps_def expiry_ok_def
      live_def owned_slices_def count_for_def) fastforce

lemma view_mem_append:
  assumes "store_inv st" and "q \<in> live st"
  shows "view (mem st @ xs) (sess st q) = view (mem st) (sess st q)"
  using assms by (intro view_append) (auto simp: store_inv_def separated_def owned_slices_def)

lemma zeroBytes_fresh:
  assumes "slice_refs [tok] \<subseteq> {length m..<n}"
  shows "\<exists>ys. zeroBytes (m @ xs) tok = m @ ys"
  using assms by (cases tok) (auto simp: zeroBytes_def list_update_append)

context refreshers
begin

lemma maybeRefresh_none:
  assumes "store_inv st" and "\<not> (needsRefresh (sess st r) t0 refreshWindow \<and> needsRefresh (sess st r) t1 refreshWindow)"
  shows "maybeRefresh refresh t0 t1 r st = (None, st)" and "refreshed ar t0 t1 r st st"
  using assms
  by (auto simp: maybeRefresh_def refreshed_def arenew_def needsRefresh_view [where m = "mem st"]
      split: option.split)

lemma needsRefresh_refresher:
  "needsRefresh s now w \<Longrightarrow> \<exists>rid. sRefresher s = Some rid"
  by (auto simp: needsRefresh_def split: option.splits)

lemma maybeRefresh_failed:
  assumes inv: "store_inv st" and r: "r \<in> live st"
    and due: "needsRefresh (sess st r) t0 refreshWindow" "needsRefresh (sess st r) t1 refreshWindow"
    and rid: "sRefresher (sess st r) = Some rid"
    and copy: "refreshTokenCopy (mem st) (sess st r) = (m1, tok)"
    and res: "refresh rid m1 tok = (m2, Inl e)"
  shows "\<exists>xs. maybeRefresh refresh t0 t1 r st = (Some e, st\<lparr>mem := mem st @ xs\<rparr>)"
    and "refreshed ar t0 t1 r st (snd (maybeRefresh refresh t0 t1 r st))"
proof -
  obtain xs where m2: "m2 = mem st @ xs"
    using refreshTokenCopy_append [OF copy] refresh_allocates [OF res] by auto
  obtain ys where ys: "zeroBytes m2 tok = mem st @ ys"
    using refreshTokenCopy_new [OF copy] zeroBytes_fresh m2 by metis
  have mr: "maybeRefresh refresh t0 t1 r st = (Some e, st\<lparr>mem := mem st @ ys\<rparr>)"
    using due rid copy res ys by (simp add: maybeRefresh_def)
  then show "\<exists>xs. maybeRefresh refresh t0 t1 r st = (Some e, st\<lparr>mem := mem st @ xs\<rparr>)" by blast
  have "ar rid (content (mem st) (sRefreshToken (sess st r))) = Inl e"
    using refresh_content [OF _ res] refreshTokenCopy_new [OF copy] refreshTokenCopy_content [OF copy]
    by simp
  then show "refreshed ar t0 t1 r st (snd (maybeRefresh refresh t0 t1 r st))"
    using inv r store_inv_mem_append [OF inv] view_mem_append [OF inv] rid
    by (simp add: mr refreshed_def arenew_def)
qed

lemma maybeRefresh_success:
  assumes inv: "store_inv st" and r: "r \<in> live st"
    and due: "needsRefresh (sess st r) t0 refreshWindow" "needsRefresh (sess st r) t1 refreshWindow"
    and rid: "sRefresher (sess st r) = Some rid"
    and copy: "refreshTokenCopy (mem st) (sess st r) = (m1, tok)"
    and res: "refresh rid m1 tok = (m2, Inr (c, rt))"
    and mr: "maybeRefresh refresh t0 t1 r st = (err, st')"
  shows "err = None"
    and "mem st' = fold (\<lambda>s m. zeroBytes m s) (retired (sess st r) rt @ [tok]) m2"
    and "sessions st' = sessions st" and "opts st' = opts st"
    and "heap st' = (heap st)[r := (sess st r)\<lparr>sCredential := c,
     sRefreshToken := (if rt = None then sRefreshToken (sess st r) else rt), sTransports := [],
     sExpiresAt := effectiveExpiry (sCreatedAt (sess st r)) (MaxLifetime (opts st)) (cExpiresAt c)\<rparr>]"
    and "closed st' = closed st @ cleanups_of (sTransports (sess st r))"
proof -
  have "err = None"
    and st': "st' = (applyRefresh r c rt (st\<lparr>mem := m2\<rparr>))
      \<lparr>mem := zeroBytes (mem (applyRefresh r c rt (st\<lparr>mem := m2\<rparr>))) tok\<rparr>"
    using mr due rid copy res by (auto simp: maybeRefresh_def Let_def)
  then show "err = None" by simp
  show "mem st' = fold (\<lambda>s m. zeroBytes m s) (retired (sess st r) rt @ [tok]) m2"
    by (simp add: st' applyRefresh_mem)
  show "sessions st' = sessions st" "opts st' = opts st" by (simp_all add: st' store_simps)
  show "heap st' = (heap st)[r := (sess st r)\<lparr>sCredential := c,
     sRefreshToken := (if rt = None then sRefreshToken (sess st r) else rt), sTransports := [],
     sExpiresAt := effectiveExpiry (sCreatedAt (sess st r)) (MaxLifetime (opts st)) (cExpiresAt c)\<rparr>]"
    by (simp add: st' applyRefresh_heap)
  show "closed st' = closed st @ cleanups_of (sTransports (sess st r))"
    by (cases rt) (simp_all add: st' applyRefresh_def Let_def dropTransportsLocked_def Credential_Zero_def)
qed

lemma refresh_memory:
  assumes inv: "store_inv st" and r: "r \<in> live st"
    and due: "needsRefresh (sess st r) t0 refreshWindow" "needsRefresh (sess st r) t1 refreshWindow"
    and rid: "sRefresher (sess st r) = Some rid"
    and copy: "refreshTokenCopy (mem st) (sess st r) = (m1, tok)"
    and res: "refresh rid m1 tok = (m2, Inr (c, rt))"
    and mr: "maybeRefresh refresh t0 t1 r st = (err, st')"
  shows "length (mem st) \<le> length m1 \<and> length m1 \<le> length m2 \<and> length (mem st') = length m2"
    and "slice_ok m1 tok"
    and "\<And>t. t \<in> set (cred_slices c @ [rt]) \<Longrightarrow> slice_get (mem st') t = slice_get m2 t"
    and "\<And>t. slice_refs [t] \<subseteq> {..<length (mem st)} \<Longrightarrow>
      slice_refs (retired (sess st r) rt) \<inter> slice_refs [t] = {} \<Longrightarrow>
      slice_get (mem st') t = slice_get (mem st) t"
proof -
  note st' = maybeRefresh_success [OF inv r due rid copy res mr]
  let ?s = "sess st r"
  obtain xs where m1: "m1 = mem st @ xs" using refreshTokenCopy_append [OF copy] by blast
  obtain ys where m2: "m2 = m1 @ ys" using refresh_allocates [OF res] by blast
  have tok: "slice_refs [tok] \<subseteq> {length (mem st)..<length m1}" and tokok: "slice_ok m1 tok"
    using refreshTokenCopy_new [OF copy] by simp_all
  show lens: "length (mem st) \<le> length m1 \<and> length m1 \<le> length m2 \<and> length (mem st') = length m2"
    by (simp add: st' m1 m2)
  show "slice_ok m1 tok" by (rule tokok)
  have keep: "slice_get (mem st') t = slice_get m2 t"
    if "slice_refs (retired ?s rt @ [tok]) \<inter> slice_refs [t] = {}" for t
    unfolding st'(2) using that by (rule slice_get_fold_disjoint) simp
  show "slice_get (mem st') t = slice_get (mem st) t"
    if "slice_refs [t] \<subseteq> {..<length (mem st)}" "slice_refs (retired ?s rt) \<inter> slice_refs [t] = {}" for t
  proof -
    have "slice_ok (mem st) t" using that(1) by (cases t) (auto simp: slice_ok_def)
    moreover have "slice_refs (retired ?s rt @ [tok]) \<inter> slice_refs [t] = {}"
      using that tok by (fastforce simp: slice_refs_def)
    ultimately show ?thesis using keep by (simp add: m1 m2 mem_simps)
  qed
  show "slice_get (mem st') t = slice_get m2 t" if "t \<in> set (cred_slices c @ [rt])" for t
  proof (rule keep)
    have "slice_refs [t] \<subseteq> {length m1..<length m2}"
      using that refresh_fresh [OF res] by (auto simp: slice_refs_def)
    moreover have "slice_refs (retired ?s rt) \<subseteq> {..<length (mem st)}"
      using inv r by (auto simp: store_inv_def separated_def retired_def owned_slices_def
          session_slices_def slice_refs_def)
    ultimately show "slice_refs (retired ?s rt @ [tok]) \<inter> slice_refs [t] = {}"
      using tok lens by (fastforce simp: slice_refs_def)
  qed
qed

lemma refresh_success_inv:
  assumes inv: "store_inv st" and r: "r \<in> live st"
    and due: "needsRefresh (sess st r) t0 refreshWindow" "needsRefresh (sess st r) t1 refreshWindow"
    and rid: "sRefresher (sess st r) = Some rid"
    and copy: "refreshTokenCopy (mem st) (sess st r) = (m1, tok)"
    and res: "refresh rid m1 tok = (m2, Inr (c, rt))"
    and mr: "maybeRefresh refresh t0 t1 r st = (err, st')"
  shows "store_inv st'"
proof (rule update_inv [OF inv r])
  note st' = maybeRefresh_success [OF inv r due rid copy res mr]
  note lens = refresh_memory(1) [OF inv r due rid copy res mr]
  let ?s = "sess st r"
  have rlen: "r < length (heap st)" using inv r live_lookup(2) by blast
  have own: "owned_slices st r \<subseteq> {..<length (mem st)}"
    using inv r by (simp add: store_inv_def separated_def)
  have new: "slice_refs (cred_slices c @ [rt]) \<subseteq> {length m1..<length m2}" by (rule refresh_fresh [OF res])
  show "owned_slices st' r \<subseteq> owned_slices st r \<union> {length (mem st)..<length (mem st')}"
    using new lens rlen
    by (auto simp: st' owned_slices_def session_slices_def slice_refs_def split: if_splits)
  have "sRefreshToken ?s = None \<or> sRefreshToken ?s \<notin> set (cred_slices c)"
    using new own lens
    by (cases "sRefreshToken ?s")
       (fastforce simp: slice_refs_def owned_slices_def session_slices_def)+
  then show "unshared (sess st' r)"
    using refresh_unshared [OF res] rlen by (simp add: st' unshared_def)
  show "sessions st' = sessions st" "opts st' = opts st" "length (heap st') = length (heap st)"
    "length (mem st) \<le> length (mem st')"
    using lens by (simp_all add: st')
qed (simp_all add: maybeRefresh_success [OF inv r due rid copy res mr] live_lookup(2) [OF store_invD(2) [OF inv] r])

lemma refreshed_success:
  assumes inv: "store_inv st" and r: "r \<in> live st"
    and due: "needsRefresh (sess st r) t0 refreshWindow" "needsRefresh (sess st r) t1 refreshWindow"
    and rid: "sRefresher (sess st r) = Some rid"
    and copy: "refreshTokenCopy (mem st) (sess st r) = (m1, tok)"
    and res: "refresh rid m1 tok = (m2, Inr (c, rt))"
    and mr: "maybeRefresh refresh t0 t1 r st = (err, st')"
  shows "refreshed ar t0 t1 r st st'"
proof -
  note st' = maybeRefresh_success [OF inv r due rid copy res mr]
  note memory = refresh_memory [OF inv r due rid copy res mr]
  let ?s = "sess st r"
  have rlen: "r < length (heap st)" using inv r live_lookup(2) by blast
  have bound: "q \<in> live st \<Longrightarrow> owned_slices st q \<subseteq> {..<length (mem st)} \<and> unshared (sess st q)" for q
    using inv by (simp add: store_inv_def separated_def)
  have disj: "q \<in> live st \<Longrightarrow> q \<noteq> r \<Longrightarrow> owned_slices st r \<inter> owned_slices st q = {}" for q
    using inv r by (simp add: store_inv_def separated_def)
  have rtk: "rt = None \<Longrightarrow> content (mem st') (sRefreshToken ?s) = content (mem st) (sRefreshToken ?s)"
  proof -
    assume "rt = None"
    then have "slice_refs (retired ?s rt) \<inter> slice_refs [sRefreshToken ?s] = {}"
      using bound [OF r] by (auto simp: retired_def unshared_def slice_refs_def)
    moreover have "slice_refs [sRefreshToken ?s] \<subseteq> {..<length (mem st)}"
      using bound [OF r] by (auto simp: owned_slices_def session_slices_def slice_refs_def)
    ultimately show ?thesis using memory(4) by (cases "sRefreshToken ?s") (simp_all add: content_def)
  qed
  have "ar rid (content (mem st) (sRefreshToken ?s)) = Inr (cred_view m2 c, cExpiresAt c, content m2 rt)"
    using refresh_content [OF memory(2) res] refreshTokenCopy_content [OF copy] by simp
  moreover have "cred_view (mem st') c = cred_view m2 c"
    using memory(3) by (simp add: cred_view_def cred_slices_def)
  moreover have "content (mem st') rt = content m2 rt"
    using memory(3) by (cases rt) (simp_all add: content_def)
  ultimately have vr: "view (mem st') (sess st' r) = arenew (opts st) ar t0 t1 (view (mem st) ?s)"
    using due rid rtk rlen needsRefresh_view [where m = "mem st"]
    by (cases rt) (auto simp: st' arenew_def view_def content_def)
  have vo: "view (mem st') (sess st' q) = view (mem st) (sess st q)" if q: "q \<in> live st" "q \<noteq> r" for q
  proof -
    have "slice_get (mem st') t = slice_get (mem st) t" if "t \<in> set (session_slices (sess st q))" for t
      using that bound [OF q(1)] disj [OF q]
      by (intro memory(4)) (auto simp: owned_slices_def slice_refs_def retired_def session_slices_def split: if_splits)
    with q show ?thesis by (simp add: st'(5)) (rule view_cong, simp)
  qed
  show ?thesis
    using refresh_success_inv [OF inv r due rid copy res mr] vr vo by (simp add: refreshed_def st'(3,4))
qed

lemma maybeRefresh_refreshed:
  assumes inv: "store_inv st" and r: "r \<in> live st"
  shows "refreshed ar t0 t1 r st (snd (maybeRefresh refresh t0 t1 r st))"
proof (cases "needsRefresh (sess st r) t0 refreshWindow \<and> needsRefresh (sess st r) t1 refreshWindow")
  case False
  then show ?thesis using maybeRefresh_none [OF inv] by simp
next
  case True
  obtain rid m1 tok m2 res where *: "sRefresher (sess st r) = Some rid"
    "refreshTokenCopy (mem st) (sess st r) = (m1, tok)" "refresh rid m1 tok = (m2, res)"
    using needsRefresh_refresher True by (metis surj_pair)
  obtain err st' where mr: "maybeRefresh refresh t0 t1 r st = (err, st')" by fastforce
  show ?thesis
  proof (cases res)
    case (Inl e)
    then show ?thesis using maybeRefresh_failed(2) [OF inv r _ _ *(1,2)] * True by simp
  next
    case (Inr p)
    then show ?thesis
      using refreshed_success [OF inv r _ _ *(1,2) _ mr] * True mr by (cases p) simp
  qed
qed

lemma Get_cases:
  assumes inv: "store_inv st" and r: "lookup st sid = Some r"
    and al: "alive st (sess st r) t0"
    and st1: "st1 = snd (maybeRefresh refresh t0 t1 r st)"
  shows "Get refresh (t0, t1, t2, t3) sid st =
      (if credentialExpired (sess st1 r) t2 then (Inl ErrExpired, Delete sid st1) else (Inr r, touch r t3 st1))"
    and "store_inv st1" and "lookup st1 = lookup st"
    and "abs st1 = (abs st)(sid \<mapsto> arenew (opts st) ar t0 t1 (view (mem st) (sess st r)))"
proof -
  have R: "refreshed ar t0 t1 r st st1"
    unfolding st1 using maybeRefresh_refreshed [OF inv lookup_live [OF r]] .
  show "Get refresh (t0, t1, t2, t3) sid st =
      (if credentialExpired (sess st1 r) t2 then (Inl ErrExpired, Delete sid st1) else (Inr r, touch r t3 st1))"
    using r al by (simp add: Get_def st1 split: prod.split)
  show "store_inv st1" using R by (simp add: refreshed_def)
  show look: "lookup st1 = lookup st" using R by (simp add: refreshed_def lookup_def fun_eq_iff)
  show "abs st1 = (abs st)(sid \<mapsto> arenew (opts st) ar t0 t1 (view (mem st) (sess st r)))"
  proof
    fix x
    show "abs st1 x = ((abs st)(sid \<mapsto> arenew (opts st) ar t0 t1 (view (mem st) (sess st r)))) x"
    proof (cases "lookup st x")
      case None
      then show ?thesis using r by (auto simp: abs_def look)
    next
      case (Some q)
      have "x \<noteq> sid \<Longrightarrow> q \<noteq> r"
        using lookup_id [OF store_invD(2) [OF inv] Some] lookup_id [OF store_invD(2) [OF inv] r] by auto
      then show ?thesis
        using R Some r lookup_live [OF Some] by (auto simp: abs_def look refreshed_def)
    qed
  qed
qed

lemma Get_inv:
  assumes inv: "store_inv st"
  shows "store_inv (snd (Get refresh clock sid st))"
proof -
  obtain t0 t1 t2 t3 where clock: "clock = (t0, t1, t2, t3)" by (metis surj_pair)
  show ?thesis
  proof (cases "lookup st sid")
    case None
    then show ?thesis using inv by (simp add: Get_def clock)
  next
    case (Some r)
    show ?thesis
    proof (cases "alive st (sess st r) t0")
      case False
      then show ?thesis using Some inv by (simp add: Get_def clock Delete_inv)
    next
      case True
      note G = Get_cases(1) [OF inv Some True refl, of t1 t2 t3] Get_cases(2-4) [OF inv Some True refl, of t1]
      have "r \<in> live (snd (maybeRefresh refresh t0 t1 r st))"
        using G(3) Some by (intro lookup_live [of _ sid]) simp
      then show ?thesis unfolding clock G(1) using G(2) by (simp add: Delete_inv touch_inv)
    qed
  qed
qed

lemma abs_touch:
  assumes inv: "store_inv st" and r: "lookup st sid = Some r"
  shows "abs (touch r now st) = (abs st)(sid \<mapsto> (view (mem st) (sess st r))\<lparr>aLastSeen := now\<rparr>)"
proof
  fix x
  have rlen: "r < length (heap st)" using lookup_id [OF store_invD(2) [OF inv] r] by simp
  show "abs (touch r now st) x = ((abs st)(sid \<mapsto> (view (mem st) (sess st r))\<lparr>aLastSeen := now\<rparr>)) x"
  proof (cases "lookup st x")
    case None
    then show ?thesis using r by (auto simp: abs_def lookup_def store_simps)
  next
    case (Some q)
    have "x \<noteq> sid \<Longrightarrow> q \<noteq> r"
      using lookup_id [OF store_invD(2) [OF inv] Some] lookup_id [OF store_invD(2) [OF inv] r] by auto
    then show ?thesis
      using Some r rlen by (auto simp: abs_def lookup_def store_simps view_def)
  qed
qed

lemma Get_refines:
  assumes inv: "store_inv st" and G: "Get refresh clock sid st = (res, st')"
  shows "aGet (opts st) ar clock sid (abs st) =
    (map_sum id (\<lambda>r. view (mem st') (sess st' r)) res, abs st')"
proof -
  obtain t0 t1 t2 t3 where clock: "clock = (t0, t1, t2, t3)" by (metis surj_pair)
  show ?thesis
  proof (cases "lookup st sid")
    case None
    then show ?thesis using G by (auto simp: Get_def clock aGet_def abs_def)
  next
    case (Some r)
    have A: "abs st sid = Some (view (mem st) (sess st r))" using Some by (simp add: abs_def)
    show ?thesis
    proof (cases "alive st (sess st r) t0")
      case False
      then show ?thesis
        using G Some inv A by (auto simp: Get_def clock aGet_def abs_Delete alive_view [where m = "mem st"])
    next
      case True
      let ?st1 = "snd (maybeRefresh refresh t0 t1 r st)"
      note GC = Get_cases(1) [OF inv Some True refl, of t1 t2 t3] Get_cases(2-4) [OF inv Some True refl, of t1]
      have look1: "lookup ?st1 sid = Some r" using GC(3) Some by simp
      have v1: "view (mem ?st1) (sess ?st1 r) = arenew (opts st) ar t0 t1 (view (mem st) (sess st r))"
        using fun_cong [OF GC(4), of sid] look1 by (simp add: abs_def)
      have rlen: "r < length (heap ?st1)" using lookup_id [OF store_invD(2) [OF GC(2)] look1] by simp
      have "view (mem (touch r t3 ?st1)) (sess (touch r t3 ?st1) r) =
          (view (mem ?st1) (sess ?st1 r))\<lparr>aLastSeen := t3\<rparr>"
        using rlen by (simp add: store_simps view_def)
      then show ?thesis
        using G GC True A v1 abs_touch [OF GC(2) look1] abs_Delete [OF GC(2)]
        by (auto simp: clock aGet_def Let_def alive_view [where m = "mem st"]
            expired_view [where m = "mem ?st1"] aDelete_def split: if_splits)
    qed
  qed
qed

end

section \<open>The store as its clients use it\<close>

text \<open>
  A handler looks a session up and deletes it; it never sees the map. The contract it relies on:
  both operations keep the invariant, a deletion removes exactly its session, a lookup adds
  none, and a missing session is reported as such and changes nothing.
\<close>

datatype 'c session_call = CallGet 'c string | CallDelete string

fun run_call :: "('c \<Rightarrow> string \<Rightarrow> 's \<Rightarrow> 'r \<times> 's) \<Rightarrow> (string \<Rightarrow> 's \<Rightarrow> 's) \<Rightarrow> 'c session_call \<Rightarrow> 's \<Rightarrow> 's" where
  "run_call get delete (CallGet c sid) st = snd (get c sid st)"
| "run_call get delete (CallDelete sid) st = delete sid st"

locale session_store =
  fixes ok :: "'s \<Rightarrow> bool" and contents :: "'s \<Rightarrow> string \<Rightarrow> 'v option"
    and get :: "'c \<Rightarrow> string \<Rightarrow> 's \<Rightarrow> (store_error + 'r) \<times> 's" and delete :: "string \<Rightarrow> 's \<Rightarrow> 's"
  assumes delete_ok: "ok st \<Longrightarrow> ok (delete sid st)"
    and delete_removes: "ok st \<Longrightarrow> contents (delete sid st) = (contents st)(sid := None)"
    and get_ok: "ok st \<Longrightarrow> ok (snd (get c sid st))"
    and get_adds_none: "ok st \<Longrightarrow> dom (contents (snd (get c sid st))) \<subseteq> dom (contents st)"
    and get_missing: "contents st sid = None \<Longrightarrow> get c sid st = (Inl ErrNotFound, st)"
begin

lemma calls_ok: "ok st \<Longrightarrow> ok (fold (run_call get delete) calls st)"
proof (induction calls arbitrary: st)
  case (Cons a calls)
  then show ?case by (cases a) (simp_all add: delete_ok get_ok)
qed simp

lemma calls_add_none: "ok st \<Longrightarrow> dom (contents (fold (run_call get delete) calls st)) \<subseteq> dom (contents st)"
proof (induction calls arbitrary: st)
  case (Cons a calls)
  have "ok (run_call get delete a st)" "dom (contents (run_call get delete a st)) \<subseteq> dom (contents st)"
    using Cons.prems get_adds_none by (cases a; auto simp: delete_ok get_ok delete_removes)+
  with Cons.IH show ?case by fastforce
qed simp

text \<open>A session that is gone stays gone, whatever is looked up and deleted afterwards.\<close>

lemma gone_stays_gone:
  assumes "ok st" and "contents st sid = None"
  shows "fst (get c sid (fold (run_call get delete) calls st)) = Inl ErrNotFound"
proof -
  have "contents (fold (run_call get delete) calls st) sid = None"
    using calls_add_none [OF assms(1), of calls] assms(2) by blast
  then show ?thesis by (simp add: get_missing)
qed

end

lemma aGet_adds_none: "dom (snd (aGet os ar clock sid A)) \<subseteq> dom A"
  by (cases clock) (auto simp: aGet_def aDelete_def Let_def split: option.splits if_splits)

sublocale refreshers \<subseteq> store: session_store store_inv abs "Get refresh" Delete
proof
  fix st sid clock
  show "store_inv st \<Longrightarrow> store_inv (Delete sid st)" using Delete_all_inv [of st "[sid]"] by simp
  show "store_inv st \<Longrightarrow> abs (Delete sid st) = (abs st)(sid := None)" by (simp add: abs_Delete aDelete_def)
  show "store_inv st \<Longrightarrow> store_inv (snd (Get refresh clock sid st))" by (rule Get_inv)
  show "store_inv st \<Longrightarrow> dom (abs (snd (Get refresh clock sid st))) \<subseteq> dom (abs st)"
    using Get_refines [of st clock sid] aGet_adds_none [of "opts st" ar clock sid "abs st"] by (metis prod.collapse snd_conv)
  show "abs st sid = None \<Longrightarrow> Get refresh clock sid st = (Inl ErrNotFound, st)"
    by (cases clock) (auto simp: Get_def abs_def)
qed

end
