(* ===== verification/Request_Auth.thy ===== *)
theory Request_Auth
  imports Store_Refinement
begin

text \<open>
  \<open>pkg/auth/session/context.go\<close>: the identity of one request, backed by a stored session or
  by the credential of a bearer token. A session-backed identity reads its credential through
  the session's pointer on every call; a snapshot would share the slices that a refresh or an
  eviction zeroes.
\<close>

section \<open>The resolved identity of a request\<close>

definition TransportKeyK8s :: string where "TransportKeyK8s = ''k8s''"

record RequestAuth =
  raMode :: Mode
  raUsername :: string
  raSession :: "nat option"
  raEphemeral :: Credential

definition NewSessionAuth :: "store \<Rightarrow> nat \<Rightarrow> RequestAuth" where
  "NewSessionAuth st r =
     \<lparr>raMode = sMode (sess st r), raUsername = sUsername (sess st r), raSession = Some r,
      raEphemeral = emptyCredential\<rparr>"

definition NewEphemeralAuth :: "Credential \<Rightarrow> string \<Rightarrow> RequestAuth" where
  "NewEphemeralAuth cred username =
     \<lparr>raMode = ModeSAToken, raUsername = username, raSession = None, raEphemeral = cred\<rparr>"

definition RequestAuth_Credential :: "store \<Rightarrow> RequestAuth \<Rightarrow> Credential" where
  "RequestAuth_Credential st ra =
     (case raSession ra of Some r \<Rightarrow> sCredential (sess st r) | None \<Rightarrow> raEphemeral ra)"

definition SessionID :: "store \<Rightarrow> RequestAuth \<Rightarrow> string" where
  "SessionID st ra = (case raSession ra of None \<Rightarrow> [] | Some r \<Rightarrow> sId (sess st r))"

text \<open>\<open>s.transportFor\<close> on the session a pointer refers to.\<close>

definition transport_at ::
  "nat \<Rightarrow> string \<Rightarrow> TransportBuilder \<Rightarrow> store \<Rightarrow> (string + RoundTripper) \<times> store" where
  "transport_at r key build st =
     (case transportFor (mem st) key build (sess st r) (closed st) of
        (res, s, log) \<Rightarrow> (res, st\<lparr>heap := (heap st)[r := s], closed := log\<rparr>))"

definition RequestAuth_TransportFor ::
  "string \<Rightarrow> TransportBuilder option \<Rightarrow> RequestAuth \<Rightarrow> store \<Rightarrow> (string + RoundTripper) \<times> store" where
  "RequestAuth_TransportFor key build ra st =
     (case build of
        None \<Rightarrow> (Inl ''no transport builder provided'', st)
      | Some build \<Rightarrow>
          (case raSession ra of
             Some r \<Rightarrow> transport_at r key build st
           | None \<Rightarrow> (map_sum id fst (build (mem st) (raEphemeral ra)), st)))"

text \<open>The value a request context carries under the key of this package.\<close>

type_synonym request_context = "RequestAuth option"

definition WithRequestAuth :: "request_context \<Rightarrow> RequestAuth \<Rightarrow> request_context" where
  "WithRequestAuth ctx ra = Some ra"

definition RequestAuthFrom :: "request_context \<Rightarrow> RequestAuth option" where
  "RequestAuthFrom ctx = ctx"

text \<open>\<open>now\<close> is the reading of \<open>time.Now\<close>, \<open>clock\<close> the readings of the store's clock.\<close>

definition KeepAlive ::
  "(refresher_id \<Rightarrow> Refresh) \<Rightarrow> Time \<Rightarrow> Time \<times> Time \<times> Time \<times> Time \<Rightarrow> RequestAuth \<Rightarrow> store \<Rightarrow> bool \<times> store" where
  "KeepAlive refresh now clock ra st =
     (case raSession ra of
        None \<Rightarrow>
          (if IsZero (cExpiresAt (raEphemeral ra)) then (True, st)
           else (Before now (cExpiresAt (raEphemeral ra)), st))
      | Some r \<Rightarrow>
          (case Get refresh clock (sId (sess st r)) st of
             (Inl err, st) \<Rightarrow> (False, st)
           | (Inr _, st) \<Rightarrow> (True, st)))"

definition Invalidate :: "RequestAuth \<Rightarrow> store \<Rightarrow> store" where
  "Invalidate ra st =
     (case raSession ra of None \<Rightarrow> st | Some r \<Rightarrow> Delete (sId (sess st r)) st)"

section \<open>The store's operations on request identities\<close>

lemma transport_at_simps [store_simps]:
  "sessions (snd (transport_at r key build st)) = sessions st"
  "opts (snd (transport_at r key build st)) = opts st"
  "mem (snd (transport_at r key build st)) = mem st"
  "length (heap (snd (transport_at r key build st))) = length (heap st)"
  by (simp_all add: transport_at_def split: prod.split)

text \<open>Caching a transport changes nothing of a session but its cache.\<close>

lemma transport_at_sess:
  "sess (snd (transport_at r key build st)) q =
     (sess st q)\<lparr>sTransports := sTransports (sess (snd (transport_at r key build st)) q)\<rparr>"
proof -
  obtain res s log where t: "transportFor (mem st) key build (sess st r) (closed st) = (res, s, log)"
    by (cases "transportFor (mem st) key build (sess st r) (closed st)")
  then have "s = (sess st r)\<lparr>sTransports := sTransports s\<rparr>" by (rule transportFor_frame)
  then show ?thesis
    by (cases "q = r \<and> r < length (heap st)") (auto simp: transport_at_def t list_update_beyond)
qed

lemma transport_at_fields:
  "sId (sess (snd (transport_at r key build st)) q) = sId (sess st q)"
  "sCapKey (sess (snd (transport_at r key build st)) q) = sCapKey (sess st q)"
  "sCredential (sess (snd (transport_at r key build st)) q) = sCredential (sess st q)"
  "sRefreshToken (sess (snd (transport_at r key build st)) q) = sRefreshToken (sess st q)"
  "sExpiresAt (sess (snd (transport_at r key build st)) q) = sExpiresAt (sess st q)"
  "sCreatedAt (sess (snd (transport_at r key build st)) q) = sCreatedAt (sess st q)"
  "view m (sess (snd (transport_at r key build st)) q) = view m (sess st q)"
  by (subst transport_at_sess, simp add: view_def)+

lemma transport_at_other:
  "q \<noteq> r \<Longrightarrow> sess (snd (transport_at r key build st)) q = sess st q"
  by (simp add: transport_at_def split: prod.split)

lemma transport_at_inv:
  assumes inv: "store_inv st" and r: "r \<in> live st"
  shows "store_inv (snd (transport_at r key build st))"
proof (rule update_inv [OF inv r])
  show "unshared (sess (snd (transport_at r key build st)) r)"
    using inv r by (simp add: unshared_def transport_at_fields store_inv_def separated_def)
  show "sExpiresAt (sess (snd (transport_at r key build st)) r) =
      effectiveExpiry (sCreatedAt (sess (snd (transport_at r key build st)) r)) (MaxLifetime (opts st))
        (cExpiresAt (sCredential (sess (snd (transport_at r key build st)) r)))"
    using inv r by (simp add: transport_at_fields store_inv_def expiry_ok_def)
qed (simp_all add: store_simps transport_at_fields transport_at_other owned_slices_def session_slices_def)

lemma abs_transport_at: "abs (snd (transport_at r key build st)) = abs st"
  by (rule ext) (simp add: abs_def lookup_def store_simps transport_at_fields)

lemma KeepAlive_session:
  "raSession ra = Some r \<Longrightarrow>
   KeepAlive refresh now clock ra st =
     (case Get refresh clock (sId (sess st r)) st of (res, st') \<Rightarrow> (\<exists>q. res = Inr q, st'))"
  by (auto simp: KeepAlive_def split: prod.split sum.split)

text \<open>Invalidating the identity of a session deletes that session.\<close>

lemma Invalidate_session:
  assumes "store_inv st'" and "sId (sess st' r) = sid"
  shows "Invalidate (NewSessionAuth st r) st' = Delete sid st'"
    and "abs (Invalidate (NewSessionAuth st r) st') = (abs st')(sid := None)"
  using assms by (simp_all add: Invalidate_def NewSessionAuth_def abs_Delete aDelete_def fun_eq_iff)

end
