(* ===== verification/Store_Machine.thy ===== *)
theory Store_Machine
  imports Request_Auth
begin

text \<open>
  The session store as a state machine: the states reachable from \<open>NewStore\<close> by its
  operations, in any order and any number, with the environment allocating the credential
  bytes that \<open>Create\<close> is given. The invariant of \<open>Store_Invariant\<close> holds in every reachable
  state, and the main properties of the store are stated here over its operations.
\<close>

section \<open>Steps and reachable states\<close>

inductive store_step :: "(refresher_id \<Rightarrow> Refresh) \<Rightarrow> store \<Rightarrow> store \<Rightarrow> bool"
  for refresh :: "refresher_id \<Rightarrow> Refresh" where
  step_alloc: "store_step refresh st (st\<lparr>mem := mem st @ bs\<rparr>)"
| step_create: "range_ok rng \<Longrightarrow> spec_fresh spec st \<Longrightarrow>
    (\<And>sid. HexString rand sessionIDBytes = Inr sid \<Longrightarrow> lookup st sid = None) \<Longrightarrow>
    Create rand now rng spec st = (res, st') \<Longrightarrow> store_step refresh st st'"
| step_get: "Get refresh clock sid st = (gres, st') \<Longrightarrow> store_step refresh st st'"
| step_delete: "store_step refresh st (Delete sid st)"
| step_gc: "range_ok rng \<Longrightarrow> store_step refresh st (doGC rng now st)"
| step_transport: "r \<in> live st \<Longrightarrow> transport_at r key build st = (tres, st') \<Longrightarrow> store_step refresh st st'"

inductive reachable :: "(refresher_id \<Rightarrow> Refresh) \<Rightarrow> Options \<Rightarrow> store \<Rightarrow> bool"
  for refresh :: "refresher_id \<Rightarrow> Refresh" and os :: Options where
  reachable_init: "reachable refresh os (NewStore os)"
| reachable_step: "reachable refresh os st \<Longrightarrow> store_step refresh st st' \<Longrightarrow> reachable refresh os st'"

inductive_cases store_stepE: "store_step refresh st st'"

context refreshers
begin

lemma step_inv:
  assumes "store_step refresh st st'" and "store_inv st"
  shows "store_inv st'"
  using assms
proof (cases rule: store_step.cases)
  case (step_create rng spec rand now res)
  then show ?thesis using Create_inv [OF assms(2), of rng spec rand now] by simp
next
  case (step_get clock sid res)
  then show ?thesis using Get_inv [OF assms(2), of clock sid] by simp
next
  case (step_transport r key build res)
  then show ?thesis using transport_at_inv [OF assms(2), of r key build] by simp
qed (simp_all add: store_inv_mem_append Delete_inv doGC_inv)

lemma reachable_store_inv: "reachable refresh os st \<Longrightarrow> store_inv st"
  by (induction rule: reachable.induct) (auto simp: NewStore_inv intro: step_inv)

end

section \<open>Creating sessions, abstractly\<close>

lemma Delete_slice_other:
  assumes "\<forall>r \<in> live st. slice_refs [t] \<inter> owned_slices st r = {}"
  shows "slice_get (mem (Delete sid st)) t = slice_get (mem st) t"
proof (cases "lookup st sid")
  case (Some r)
  then show ?thesis
    using assms lookup_live [OF Some] unfolding Delete_present [OF Some] owned_slices_def
    by (intro slice_get_fold_disjoint [of _ "[t]"]) auto
qed (simp add: Delete_absent)

lemma Delete_owned: "map_ok st \<Longrightarrow> r \<in> live (Delete sid st) \<Longrightarrow>
    r \<in> live st \<and> owned_slices (Delete sid st) r = owned_slices st r"
proof (cases "lookup st sid")
  case (Some q)
  assume ok: "map_ok st" and r: "r \<in> live (Delete sid st)"
  have "r \<in> live st" "r \<noteq> q" using r live_Delete [OF ok Some] by auto
  then show ?thesis using Delete_sess [OF Some] by (simp add: owned_slices_def)
qed (simp add: Delete_absent)

lemma Delete_all_slice_other:
  assumes "map_ok st" and "\<forall>r \<in> live st. slice_refs [t] \<inter> owned_slices st r = {}"
  shows "slice_get (mem (fold Delete sids st)) t = slice_get (mem st) t"
  using assms
proof (induction sids arbitrary: st)
  case (Cons a sids)
  have "\<forall>r \<in> live (Delete a st). slice_refs [t] \<inter> owned_slices (Delete a st) r = {}"
    using Cons.prems Delete_owned by blast
  then show ?case using Cons Delete_slice_other Delete_map_ok by simp
qed simp

lemma Delete_all_spec_view:
  assumes "map_ok st" and "spec_fresh spec st"
  shows "view (mem (fold Delete sids st)) (newSession os sid now spec) =
    view (mem st) (newSession os sid now spec)"
proof (rule view_cong)
  fix t assume t: "t \<in> set (session_slices (newSession os sid now spec))"
  show "slice_get (mem (fold Delete sids st)) t = slice_get (mem st) t"
    using assms t by (intro Delete_all_slice_other) (auto simp: spec_fresh_def slice_refs_def)
qed

lemma abs_map_insert:
  assumes "store_inv st" and "lookup st sid = None"
  shows "abs (map_insert sid s st) = (abs st)(sid \<mapsto> view (mem st) s)"
proof
  fix x
  show "abs (map_insert sid s st) x = ((abs st)(sid \<mapsto> view (mem st) s)) x"
  proof (cases "lookup st x")
    case (Some q)
    then have "q < length (heap st)" using lookup_id assms(1) by blast
    then show ?thesis using Some assms by (auto simp: abs_def lookup_def store_simps nth_append)
  qed (auto simp: abs_def lookup_def store_simps)
qed

end
