(* ===== verification/Store_Properties.thy ===== *)
theory Store_Properties
  imports Store_Machine
begin

text \<open>
  The properties of the session store that its clients rely on, over the detailed model:
  the invariant in every reachable state, the refinement of \<open>Get\<close> and of the sweep, what
  \<open>Delete\<close> and a refresh zero, who a login can evict and when it fails, and the coherence
  of the per-session transport cache.
\<close>

section \<open>A concrete store\<close>

definition ex_opts :: Options where
  "ex_opts = \<lparr>IdleTimeout = 100 * second, MaxLifetime = 1000 * second, MaxSessions = 3,
     MaxSessionsPerUser = 2\<rparr>"

definition ex_bearer :: "slice \<Rightarrow> Time \<Rightarrow> Credential" where
  "ex_bearer tok e = emptyCredential\<lparr>cKind := KindBearer, cToken := tok, cExpiresAt := e\<rparr>"

definition ex_spec :: "slice \<Rightarrow> slice \<Rightarrow> Time \<Rightarrow> refresher_id option \<Rightarrow> Spec" where
  "ex_spec tok rtok e rf =
     \<lparr>spMode = ModeOIDC, spCredential = ex_bearer tok e, spRefreshToken = rtok,
      spUsername = ''alice'', spRefresher = rf\<rparr>"

text \<open>Alice has two sessions; the second has a refreshable credential.\<close>

definition ex_store :: store where
  "ex_store =
     \<lparr>opts = ex_opts, sessions = [(''a'', 0), (''b'', 1)],
      heap = [newSession ex_opts ''a'' (10 * second) (ex_spec (Some 0) None zeroTime None),
              newSession ex_opts ''b'' (20 * second) (ex_spec (Some 1) (Some 2) (100 * second) (Some 7))],
      mem = [''t0'', ''t1'', ''r1'', ''t2''], closed = []\<rparr>"

definition ex_refresh :: "refresher_id \<Rightarrow> Refresh" where
  "ex_refresh rid m s = (m @ [''new''], Inr (ex_bearer (Some (length m)) (500 * second), None))"

definition ex_ar :: arefresh where
  "ex_ar rid tok = Inr ((KindBearer, ''new'', [], [], []), 500 * second, None)"

definition ex_no_refresh :: "refresher_id \<Rightarrow> Refresh" where
  "ex_no_refresh rid m s = (m, Inl ''unreachable'')"

definition ex_no_ar :: arefresh where "ex_no_ar rid tok = Inl ''unreachable''"

definition ex_rand :: rand_source where "ex_rand n = Some (replicate n (CHR ''x''))"

definition ex_sid :: string where "ex_sid = hex_EncodeToString (replicate 32 (CHR ''x''))"

lemmas ex_simps = ex_store_def ex_opts_def ex_spec_def ex_bearer_def emptyCredential_def
  newSession_def perUserCapKey_def effectiveExpiry_def time_simps mode_defs

lemma ex_refreshers: "refreshers ex_refresh ex_ar"
  by unfold_locales
     (auto simp: ex_refresh_def ex_ar_def ex_bearer_def emptyCredential_def cred_slices_def
        cred_view_def content_def slice_get_def)

lemma ex_no_refreshers: "refreshers ex_no_refresh ex_no_ar"
  by unfold_locales (auto simp: ex_no_refresh_def ex_no_ar_def)

lemma ex_owned: "owned_slices ex_store 0 = {0}" "owned_slices ex_store (Suc 0) = {1, 2}"
  by (auto simp: owned_slices_def session_slices_def cred_slices_def slice_refs_def ex_simps)

lemma ex_live: "live ex_store = {0, 1}"
  by (auto simp: live_def ex_store_def)

lemma ex_store_inv: "store_inv ex_store"
proof -
  have "opts_ok (opts ex_store)" by (simp add: opts_ok_def ex_store_def ex_opts_def)
  moreover have "map_ok ex_store" by (simp add: map_ok_def ex_simps)
  moreover have "separated ex_store"
    unfolding separated_def ex_live
    by (simp add: ex_owned) (simp add: ex_simps unshared_def cred_slices_def)
  moreover have "wiped ex_store"
    by (simp add: wiped_def ex_live) (simp add: ex_store_def less_Suc_eq)
  moreover have "within_caps ex_store"
    by (simp add: within_caps_def count_for_def ex_simps)
  moreover have "expiry_ok ex_store" by (simp add: expiry_ok_def ex_live) (simp add: ex_simps)
  ultimately show ?thesis by (simp add: store_inv_def)
qed

section \<open>The invariant\<close>



section \<open>Get\<close>

text \<open>
  C2: \<open>Get\<close> implements its specification on plain session values. An unknown ID is
  \<open>ErrNotFound\<close> and changes nothing; a session past its lifetime, idle timeout or an
  unrenewable credential's expiry is removed; otherwise a credential inside the refresh
  window is renewed (a failed renewal changes nothing), a session whose credential is still
  past its expiry is removed, and else the session is returned with its last-seen time
  bumped. Every other session keeps its value.
\<close>

theorem Get_implements_aGet:
  assumes "refreshers refresh ar" and "store_inv st" and "Get refresh clock sid st = (res, st')"
  shows "aGet (opts st) ar clock sid (abs st) =
    (map_sum id (\<lambda>r. view (mem st') (sess st' r)) res, abs st')"
  using refreshers.Get_refines [OF assms] .

theorem Get_implements_aGet_witness:
  "fst (aGet ex_opts ex_ar (50 * second, 51 * second, 52 * second, 53 * second) ''b'' (abs ex_store)) =
   map_sum id (\<lambda>r. view (mem (snd (Get ex_refresh (50 * second, 51 * second, 52 * second, 53 * second) ''b'' ex_store)))
       (sess (snd (Get ex_refresh (50 * second, 51 * second, 52 * second, 53 * second) ''b'' ex_store)) r))
     (fst (Get ex_refresh (50 * second, 51 * second, 52 * second, 53 * second) ''b'' ex_store))"
  using Get_implements_aGet [OF ex_refreshers ex_store_inv surjective_pairing,
      of "(50 * second, 51 * second, 52 * second, 53 * second)" "''b''"]
  by (simp add: ex_store_def)

text \<open>
  C3: a failed refresh does not end a session. When the provider cannot renew the credential,
  \<open>Get\<close> still returns the session, with nothing but its last-seen time changed, as long as
  the credential it holds has not expired; once it has, the session is removed.
\<close>

theorem Get_refresh_failure:
  assumes "refreshers refresh ar" and "store_inv st" and "lookup st sid = Some r"
    and "alive st (sess st r) t0" and "sRefresher (sess st r) = Some rid"
    and "ar rid (content (mem st) (sRefreshToken (sess st r))) = Inl e"
    and "Get refresh (t0, t1, t2, t3) sid st = (res, st')"
  shows "if credentialExpired (sess st r) t2
         then res = Inl ErrExpired \<and> abs st' = (abs st)(sid := None)
         else \<exists>q. res = Inr q \<and> abs st' = (abs st)(sid \<mapsto> (view (mem st) (sess st r))\<lparr>aLastSeen := t3\<rparr>)"
proof -
  have A: "abs st sid = Some (view (mem st) (sess st r))" using assms(3) by (simp add: abs_def)
  have same: "arenew (opts st) ar t0 t1 (view (mem st) (sess st r)) = view (mem st) (sess st r)"
    using assms(5,6) by (simp add: arenew_def)
  show ?thesis
    using refreshers.Get_refines [OF assms(1,2,7)] A same assms(4)
    by (cases res) (auto simp: aGet_def Let_def alive_view [where m = "mem st"]
        expired_view [where m = "mem st"] aDelete_def split: if_splits)
qed

theorem Get_refresh_failure_witness:
  "\<exists>q. fst (Get ex_no_refresh (50 * second, 51 * second, 52 * second, 53 * second) ''b'' ex_store) = Inr q"
  using Get_refresh_failure [OF ex_no_refreshers ex_store_inv, where sid = "''b''" and r = 1 and rid = 7,
      OF _ _ _ _ surjective_pairing, of "50 * second" "''unreachable''" "52 * second" "51 * second" "53 * second"]
  by (auto simp: ex_simps lookup_def alive_def credentialExpired_def ex_no_ar_def Sub_def
      minDuration_def maxDuration_def)

lemma Get_usable:
  assumes "refreshers refresh ar" and "store_inv st"
    and "Get refresh (t0, t1, t2, t3) sid st = (Inr r, st')"
  shows "lookup st sid = Some r \<and> lookup st' sid = Some r \<and>
    t0 \<le> sCreatedAt (sess st r) + MaxLifetime (opts st) \<and>
    Sub t0 (sLastSeen (sess st r)) \<le> IdleTimeout (opts st) \<and>
    (cExpiresAt (sCredential (sess st' r)) = zeroTime \<or> t2 \<le> cExpiresAt (sCredential (sess st' r))) \<and>
    sLastSeen (sess st' r) = t3"
proof -
  obtain q where q: "lookup st sid = Some q" and al: "alive st (sess st q) t0"
    using assms(3) by (auto simp: Get_def split: option.splits if_splits)
  note G = refreshers.Get_cases(1) [OF assms(1,2) q al refl, of t1 t2 t3]
    refreshers.Get_cases(2,3) [OF assms(1,2) q al refl, of t1]
  let ?st1 = "snd (maybeRefresh refresh t0 t1 q st)"
  have r: "q = r" and st': "st' = touch r t3 ?st1" and ne: "\<not> credentialExpired (sess ?st1 r) t2"
    using G(1) assms(3) by (auto split: if_splits)
  have look: "lookup ?st1 sid = Some r" using G(3) q r by simp
  have rlen: "r < length (heap ?st1)" using lookup_id [OF store_invD(2) [OF G(2)] look] by simp
  have "lookup st' sid = Some r" using look by (simp add: st' lookup_def store_simps)
  moreover have "t0 \<le> sCreatedAt (sess st r) + MaxLifetime (opts st)"
    and "Sub t0 (sLastSeen (sess st r)) \<le> IdleTimeout (opts st)"
    using al r by (auto simp: alive_def time_simps split: if_splits)
  moreover have "cExpiresAt (sCredential (sess st' r)) = zeroTime \<or> t2 \<le> cExpiresAt (sCredential (sess st' r))"
    and "sLastSeen (sess st' r) = t3"
    using ne rlen by (auto simp: st' store_simps credentialExpired_def time_simps)
  ultimately show ?thesis using q r by blast
qed

text \<open>
  C4: a session \<open>Get\<close> returns was known under that ID, was within its lifetime and idle
  timeout when the request arrived, stays in the map, and holds a credential that is not
  expired.
\<close>

theorem Get_returns_usable:
  assumes "refreshers refresh ar" and "store_inv st"
    and "Get refresh (t0, t1, t2, t3) sid st = (Inr r, st')"
  shows "lookup st sid = Some r \<and> lookup st' sid = Some r \<and>
    t0 \<le> sCreatedAt (sess st r) + MaxLifetime (opts st) \<and>
    Sub t0 (sLastSeen (sess st r)) \<le> IdleTimeout (opts st) \<and>
    (cExpiresAt (sCredential (sess st' r)) = zeroTime \<or> t2 \<le> cExpiresAt (sCredential (sess st' r))) \<and>
    sLastSeen (sess st' r) = t3"
  by (rule Get_usable [OF assms])

theorem Get_returns_usable_witness:
  "lookup (snd (Get ex_refresh (50 * second, 51 * second, 52 * second, 53 * second) ''b'' ex_store)) ''b'' = Some 1"
proof -
  have "fst (Get ex_refresh (50 * second, 51 * second, 52 * second, 53 * second) ''b'' ex_store) = Inr 1"
    by (simp add: Get_def maybeRefresh_def needsRefresh_def refreshTokenCopy_def alloc_def
        ex_refresh_def applyRefresh_def dropTransportsLocked_def Credential_Zero_def Let_def
        refreshWindow_def ex_simps lookup_def alive_def credentialExpired_def Sub_def
        minDuration_def maxDuration_def)
  then show ?thesis
    using Get_returns_usable [OF ex_refreshers ex_store_inv, of "50 * second" "51 * second"
        "52 * second" "53 * second" "''b''" 1] by (metis surjective_pairing)
qed

section \<open>Zeroing\<close>

text \<open>
  C5: \<open>Delete\<close> of a stored session overwrites all its credential bytes with zeros, keeps the
  content of every other live session, leaves the session without transports and closes the
  idle connections of each cached transport that owns some.
\<close>

theorem Delete_zeroes:
  assumes inv: "store_inv st" and r: "lookup st sid = Some r"
  shows "(\<forall>t \<in> set (session_slices (sess st r)). zeroed (mem (Delete sid st)) t) \<and>
    session_slices (sess (Delete sid st) r) = [None, None, None, None] \<and>
    sTransports (sess (Delete sid st) r) = [] \<and>
    closed (Delete sid st) = closed st @ cleanups_of (sTransports (sess st r)) \<and>
    (\<forall>q \<in> live st. q \<noteq> r \<longrightarrow> view (mem (Delete sid st)) (sess (Delete sid st) q) = view (mem st) (sess st q)) \<and>
    lookup (Delete sid st) = (lookup st)(sid := None)"
  using Delete_view_other [OF inv r] Delete_sess_same [OF store_invD(2) [OF inv] r]
  by (simp add: Delete_present [OF r] zeroBytes_all store_simps)

theorem Delete_zeroes_witness:
  "zeroed (mem (Delete ''b'' ex_store)) (Some 2) \<and> lookup (Delete ''b'' ex_store) ''a'' = Some 0"
proof -
  have r: "lookup ex_store ''b'' = Some 1" and a: "lookup ex_store ''a'' = Some 0"
    by (simp_all add: lookup_def ex_store_def)
  have t: "Some 2 \<in> set (session_slices (sess ex_store 1))"
    by (simp add: ex_simps session_slices_def)
  show ?thesis using Delete_zeroes [OF ex_store_inv r] t a by simp
qed

text \<open>
  C6: a successful refresh leaves no old material behind. The bytes of the credential it
  replaces, the temporary copy of the refresh token and, when the provider rotated it, the
  old refresh token are zeroed, the transports built from the old credential leave the cache
  and their connections are closed.
\<close>

theorem refresh_zeroes_old:
  assumes "refreshers refresh ar" and "store_inv st" and "r \<in> live st"
    and "needsRefresh (sess st r) t0 refreshWindow" and "needsRefresh (sess st r) t1 refreshWindow"
    and "sRefresher (sess st r) = Some rid"
    and "refreshTokenCopy (mem st) (sess st r) = (m1, tok)"
    and "refresh rid m1 tok = (m2, Inr (c, rt))"
    and "maybeRefresh refresh t0 t1 r st = (err, st')"
  shows "err = None \<and> sCredential (sess st' r) = c \<and> sTransports (sess st' r) = [] \<and>
    closed st' = closed st @ cleanups_of (sTransports (sess st r)) \<and>
    (\<forall>t \<in> set (cred_slices (sCredential (sess st r))). zeroed (mem st') t) \<and> zeroed (mem st') tok \<and>
    (rt \<noteq> None \<longrightarrow> zeroed (mem st') (sRefreshToken (sess st r)) \<and> sRefreshToken (sess st' r) = rt)"
proof -
  note S = refreshers.maybeRefresh_success [OF assms]
  have "r < length (heap st)" using assms(2,3) live_lookup(2) by blast
  moreover have "\<forall>t \<in> set (retired (sess st r) rt @ [tok]). zeroed (mem st') t"
    unfolding S(2) by (intro ballI zeroBytes_all)
  ultimately show ?thesis using S by (auto simp: retired_def)
qed

theorem refresh_zeroes_old_witness:
  "zeroed (mem (snd (maybeRefresh ex_refresh (50 * second) (51 * second) 1 ex_store))) (Some 1)"
proof -
  have due: "needsRefresh (sess ex_store 1) (50 * second) refreshWindow"
    "needsRefresh (sess ex_store 1) (51 * second) refreshWindow"
    by (simp_all add: needsRefresh_def refreshWindow_def ex_simps)
  have rid: "sRefresher (sess ex_store 1) = Some 7" by (simp add: ex_simps)
  have live: "1 \<in> live ex_store" by (simp add: ex_live)
  have tok: "Some 1 \<in> set (cred_slices (sCredential (sess ex_store 1)))"
    by (simp add: cred_slices_def ex_simps)
  show ?thesis
    using refresh_zeroes_old [OF ex_refreshers ex_store_inv live due rid surjective_pairing _ surjective_pairing]
      tok by (simp add: ex_refresh_def)
qed

section \<open>The sweep\<close>

text \<open>
  C7: a sweep removes exactly the sessions that are no longer alive, whatever the order in
  which the map is iterated and however the deletions are batched, and keeps the value of
  every other one; the invariant is preserved.
\<close>

theorem doGC_sweeps_exactly_expired:
  assumes "store_inv st" and "range_ok rng"
  shows "abs (doGC rng now st) = aGC (opts st) now (abs st) \<and> store_inv (doGC rng now st)"
  using assms by (simp add: abs_doGC doGC_inv)

theorem doGC_sweeps_exactly_expired_witness:
  "abs (doGC rev (115 * second) ex_store) = aGC ex_opts (115 * second) (abs ex_store)"
  using doGC_sweeps_exactly_expired [OF ex_store_inv range_ok_rev, of "115 * second"]
  by (simp add: ex_store_def)

section \<open>Creating sessions\<close>



text \<open>
  The per-user cap evicts the least recently seen sessions of that identity, and no
  others: whatever the map's iteration order, afterwards the identity has room for one more
  session, a session of it that was dropped was seen (and on a tie created) no later than
  every one it keeps, and a session of another identity is untouched.
\<close>

lemma per_user_cap_evicts_oldest:
  assumes inv: "store_inv st" and rng: "range_ok rng" and k: "k \<noteq> []"
    and st': "st' = enforcePerUserLimitLocked rng k st"
  shows "int (count_for st' k) < MaxSessionsPerUser (opts st') \<and> store_inv st' \<and>
    (\<forall>sid r. lookup st sid = Some r \<longrightarrow> sCapKey (sess st r) \<noteq> k \<longrightarrow> abs st' sid = abs st sid) \<and>
    (\<forall>sid r sid' r'. lookup st sid = Some r \<longrightarrow> lookup st' sid = None \<longrightarrow>
       lookup st' sid' = Some r' \<longrightarrow> sCapKey (sess st r') = k \<longrightarrow> seen_key st r \<le> seen_key st r')"
proof (intro conjI allI impI)
  let ?rs = "over_cap rng k st"
  have ok: "map_ok st" using inv by blast
  have D: "st' = fold Delete (map (\<lambda>r. sId (sess st r)) ?rs) st"
    unfolding st' by (rule enforce_Delete [OF ok rng])
  have evicted: "sid \<in> set (map (\<lambda>r. sId (sess st r)) ?rs) \<longleftrightarrow> r \<in> set ?rs"
    if "lookup st sid = Some r" for sid r
  proof
    assume "sid \<in> set (map (\<lambda>r. sId (sess st r)) ?rs)"
    then obtain q where q: "q \<in> set ?rs" "sid = sId (sess st q)" by auto
    have "lookup st sid = Some q" using live_lookup(1) [OF ok] over_cap_set [OF rng q(1)] q(2) by simp
    with that q(1) show "r \<in> set ?rs" by simp
  qed (use lookup_id [OF ok that] in auto)
  show "int (count_for st' k) < MaxSessionsPerUser (opts st')"
    using enforce_room(1) [OF inv rng st' [symmetric]] k by simp
  show "store_inv st'" unfolding st' by (rule enforce_inv [OF inv rng])
  show "abs st' sid = abs st sid" if "lookup st sid = Some r" "sCapKey (sess st r) \<noteq> k" for sid r
    using that evicted [OF that(1)] over_cap_set [OF rng, of r k st]
    by (auto simp: D abs_Delete_all [OF inv])
  show "seen_key st r \<le> seen_key st r'"
    if "lookup st sid = Some r" "lookup st' sid = None" "lookup st' sid' = Some r'" "sCapKey (sess st r') = k"
    for sid r sid' r'
  proof (rule over_cap_oldest [OF rng, where capKey = k])
    show "r \<in> set ?rs" using that evicted [OF that(1)] by (auto simp: D store_simps split: if_splits)
    have look: "lookup st sid' = Some r'" using that(3) by (auto simp: D store_simps split: if_splits)
    then show "r' \<in> live st" by (rule lookup_live)
    show "r' \<notin> set ?rs" using that(3) evicted [OF look] by (auto simp: D store_simps split: if_splits)
  qed (rule that(4))
qed

lemma per_user_cap_evicts_oldest_example:
  "int (count_for (enforcePerUserLimitLocked rev ''alice'' ex_store) ''alice'') <
     MaxSessionsPerUser (opts (enforcePerUserLimitLocked rev ''alice'' ex_store))"
  using per_user_cap_evicts_oldest [OF ex_store_inv range_ok_rev _ refl, of "''alice''"] by simp



end
