(* ===== verification/Store_Concurrency.thy ===== *)
theory Store_Concurrency
  imports Store_Properties
begin

text \<open>
  The session store under concurrent requests. \<open>Get\<close> and \<open>Delete\<close> are not atomic: they take and
  release the store's lock, the session's lock and the session's refresh lock several times. Here
  each of them is a thread whose steps are the sections of the code between two lock operations,
  and any number of threads run in any order. A thread that runs alone does what the atomic
  \<open>Get\<close> of \<open>Session_Store\<close> does; the refresh lock excludes concurrent refreshes of a session and no
  thread is ever stuck; but a deletion that overlaps a refresh leaves a fresh credential in a
  session that is no longer in the store.
\<close>

section \<open>Threads\<close>

datatype result = GetResult "store_error + nat" | DeleteResult

text \<open>
  Where a thread is in \<open>Get\<close> (\<open>G\<close>) or \<open>Delete\<close> (\<open>D\<close>): before the lookup, the liveness check, the
  test whether a refresh is due, at the refresh lock, before the second test, the copy of the
  refresh token, the call of the provider, the update of the session, the deferred calls that
  release the lock, the final expiry check, the last-seen update; before the removal from the
  map and the zeroing; and finished.
\<close>

datatype pc =
    GLookup string
  | GAlive string nat
  | GNeeds string nat Time
  | GLock string nat
  | GRecheck string nat
  | GCopy string nat
  | GRefresh string nat slice
  | GApply string nat slice Credential slice
  | GRelease string nat slice
  | GExpired string nat
  | GTouch nat
  | DRemove string result
  | DZero nat result
  | Done result

type_synonym locks = "nat \<rightharpoonup> nat"

text \<open>One step of thread \<open>tid\<close>; \<open>now\<close> is the reading of the clock in a step that reads it. \<open>None\<close>: the
  thread is finished or waits for the refresh lock.\<close>

fun thread_step ::
  "(refresher_id \<Rightarrow> Refresh) \<Rightarrow> nat \<Rightarrow> Time \<Rightarrow> pc \<Rightarrow> store \<Rightarrow> locks \<Rightarrow> (pc \<times> store \<times> locks) option" where
  "thread_step refresh tid now (GLookup sid) st L =
     Some (case lookup st sid of None \<Rightarrow> Done (GetResult (Inl ErrNotFound)) | Some r \<Rightarrow> GAlive sid r, st, L)"
| "thread_step refresh tid now (GAlive sid r) st L =
     Some (if \<not> alive st (sess st r) now then DRemove sid (GetResult (Inl ErrExpired)) else GNeeds sid r now, st, L)"
| "thread_step refresh tid now (GNeeds sid r t0) st L =
     Some (if needsRefresh (sess st r) t0 refreshWindow then GLock sid r else GExpired sid r, st, L)"
| "thread_step refresh tid now (GLock sid r) st L =
     (if L r = None then Some (GRecheck sid r, st, L(r \<mapsto> tid)) else None)"
| "thread_step refresh tid now (GRecheck sid r) st L =
     Some (if \<not> needsRefresh (sess st r) now refreshWindow then GRelease sid r None else GCopy sid r, st, L)"
| "thread_step refresh tid now (GCopy sid r) st L =
     (case refreshTokenCopy (mem st) (sess st r) of (m, tok) \<Rightarrow> Some (GRefresh sid r tok, st\<lparr>mem := m\<rparr>, L))"
| "thread_step refresh tid now (GRefresh sid r tok) st L =
     (case sRefresher (sess st r) of
        None \<Rightarrow> Some (GRelease sid r tok, st, L)
      | Some rid \<Rightarrow>
          (case refresh rid (mem st) tok of
             (m, Inl err) \<Rightarrow> Some (GRelease sid r tok, st\<lparr>mem := m\<rparr>, L)
           | (m, Inr (cred, rt)) \<Rightarrow> Some (GApply sid r tok cred rt, st\<lparr>mem := m\<rparr>, L)))"
| "thread_step refresh tid now (GApply sid r tok cred rt) st L =
     Some (GRelease sid r tok, applyRefresh r cred rt st, L)"
| "thread_step refresh tid now (GRelease sid r tok) st L =
     Some (GExpired sid r, st\<lparr>mem := zeroBytes (mem st) tok\<rparr>, L(r := None))"
| "thread_step refresh tid now (GExpired sid r) st L =
     Some (if credentialExpired (sess st r) now then DRemove sid (GetResult (Inl ErrExpired)) else GTouch r, st, L)"
| "thread_step refresh tid now (GTouch r) st L = Some (Done (GetResult (Inr r)), touch r now st, L)"
| "thread_step refresh tid now (DRemove sid res) st L =
     Some (case lookup st sid of None \<Rightarrow> Done res | Some r \<Rightarrow> DZero r res, map_delete sid st, L)"
| "thread_step refresh tid now (DZero r res) st L = Some (Done res, zero_at r st, L)"
| "thread_step refresh tid now (Done res) st L = None"

section \<open>A thread on its own\<close>

definition clock_at :: "Time \<times> Time \<times> Time \<times> Time \<Rightarrow> pc \<Rightarrow> Time" where
  "clock_at clock pc =
     (case clock of (t0, t1, t2, t3) \<Rightarrow>
      (case pc of GRecheck _ _ \<Rightarrow> t1 | GExpired _ _ \<Rightarrow> t2 | GTouch _ \<Rightarrow> t3 | _ \<Rightarrow> t0))"

fun solo :: "nat \<Rightarrow> (refresher_id \<Rightarrow> Refresh) \<Rightarrow> nat \<Rightarrow> Time \<times> Time \<times> Time \<times> Time \<Rightarrow> pc \<Rightarrow> store \<Rightarrow> locks \<Rightarrow> pc \<times> store \<times> locks" where
  "solo 0 refresh tid clock pc st L = (pc, st, L)"
| "solo (Suc n) refresh tid clock pc st L =
     (case thread_step refresh tid (clock_at clock pc) pc st L of
        None \<Rightarrow> (pc, st, L)
      | Some (pc', st', L') \<Rightarrow> solo n refresh tid clock pc' st' L')"

lemma solo_delete:
  "2 \<le> n \<Longrightarrow> solo n refresh tid clock (DRemove sid res) st L = (Done res, Delete sid st, L)"
  by (cases n; cases "n - 1"; cases "n - 2"; cases "lookup st sid") (auto simp: Delete_def)

lemma solo_done [simp]: "solo n refresh tid clock (Done res) st L = (Done res, st, L)"
  by (cases n) auto

text \<open>The steps of a thread that is not stuck, one at a time.\<close>

lemma solo_next:
  "thread_step refresh tid (clock_at clock pc) pc st L = Some (pc', st', L') \<Longrightarrow>
   solo (Suc n) refresh tid clock pc st L = solo n refresh tid clock pc' st' L'"
  by simp

lemma solo_touch: "solo (Suc n) refresh tid (t0, t1, t2, t3) (GTouch r) st L = (Done (GetResult (Inr r)), touch r t3 st, L)"
  by (simp add: clock_at_def)

lemma solo_expired:
  assumes "2 \<le> n"
  shows "solo (Suc n) refresh tid (t0, t1, t2, t3) (GExpired sid r) st L =
    (if credentialExpired (sess st r) t2 then (Done (GetResult (Inl ErrExpired)), Delete sid st, L)
     else (Done (GetResult (Inr r)), touch r t3 st, L))"
proof (cases "credentialExpired (sess st r) t2")
  case True
  then have "thread_step refresh tid (clock_at (t0, t1, t2, t3) (GExpired sid r)) (GExpired sid r) st L =
      Some (DRemove sid (GetResult (Inl ErrExpired)), st, L)" by (simp add: clock_at_def)
  from solo_next [OF this] show ?thesis using True solo_delete [OF assms] by simp
next
  case False
  then have step: "thread_step refresh tid (clock_at (t0, t1, t2, t3) (GExpired sid r)) (GExpired sid r) st L =
      Some (GTouch r, st, L)" by (simp add: clock_at_def)
  obtain k where "n = Suc k" using assms by (cases n) auto
  then show ?thesis using False solo_next [OF step, of n] solo_touch by simp
qed

lemma solo_refresh:
  assumes due: "needsRefresh (sess st r) t1 refreshWindow" and free: "L r = None" and n: "3 \<le> n"
    and mr: "maybeRefresh refresh t0 t1 r st = (err, st')" and due0: "needsRefresh (sess st r) t0 refreshWindow"
  shows "\<exists>k. 2 \<le> k \<and> solo (n + 6) refresh tid (t0, t1, t2, t3) (GLock sid r) st L =
    solo (Suc k) refresh tid (t0, t1, t2, t3) (GExpired sid r) st' L"
proof -
  let ?c = "(t0, t1, t2, t3)" and ?L = "L(r \<mapsto> tid)"
  have L: "?L(r := None) = L" using free by auto
  obtain m tok where copy: "refreshTokenCopy (mem st) (sess st r) = (m, tok)" by fastforce
  obtain rid where rid: "sRefresher (sess st r) = Some rid"
    using due by (auto simp: needsRefresh_def split: option.splits)
  obtain m' res where res: "refresh rid m tok = (m', res)" by fastforce
  have "solo (n + 6) refresh tid ?c (GLock sid r) st L = solo (n + 5) refresh tid ?c (GRecheck sid r) st ?L"
    using solo_next [where n = "n + 5"] free by (simp add: numeral_eq_Suc)
  also have "\<dots> = solo (n + 4) refresh tid ?c (GCopy sid r) st ?L"
    using solo_next [where n = "n + 4"] due by (simp add: numeral_eq_Suc clock_at_def)
  also have "\<dots> = solo (n + 3) refresh tid ?c (GRefresh sid r tok) (st\<lparr>mem := m\<rparr>) ?L"
    using solo_next [where n = "n + 3"] copy by (simp add: numeral_eq_Suc)
  finally have start: "solo (n + 6) refresh tid ?c (GLock sid r) st L =
      solo (n + 3) refresh tid ?c (GRefresh sid r tok) (st\<lparr>mem := m\<rparr>) ?L" .
  have release: "solo (Suc k) refresh tid ?c (GRelease sid r tok) s ?L =
      solo k refresh tid ?c (GExpired sid r) (s\<lparr>mem := zeroBytes (mem s) tok\<rparr>) L" for k s
    using L by simp
  show ?thesis
  proof (cases res)
    case (Inl e)
    then have "st' = st\<lparr>mem := zeroBytes m' tok\<rparr>"
      using mr due due0 copy rid res by (simp add: maybeRefresh_def)
    moreover have "solo (n + 3) refresh tid ?c (GRefresh sid r tok) (st\<lparr>mem := m\<rparr>) ?L =
        solo (Suc (Suc n)) refresh tid ?c (GRelease sid r tok) (st\<lparr>mem := m'\<rparr>) ?L"
      using rid res Inl by (simp add: numeral_eq_Suc)
    ultimately show ?thesis
      using start release [of "Suc n" "st\<lparr>mem := m'\<rparr>"] n by (intro exI [of _ n]) (simp del: solo.simps)
  next
    case (Inr x)
    obtain cred rt where x: "x = (cred, rt)" by fastforce
    let ?s = "applyRefresh r cred rt (st\<lparr>mem := m'\<rparr>)"
    have "st' = ?s\<lparr>mem := zeroBytes (mem ?s) tok\<rparr>"
      using mr due due0 copy rid res Inr x by (auto simp: maybeRefresh_def Let_def)
    moreover have "solo (n + 3) refresh tid ?c (GRefresh sid r tok) (st\<lparr>mem := m\<rparr>) ?L =
        solo (Suc n) refresh tid ?c (GRelease sid r tok) ?s ?L"
      using rid res Inr x by (simp add: numeral_eq_Suc)
    moreover obtain k where "n = Suc k" "2 \<le> k" using n by (cases n) auto
    ultimately show ?thesis
      using start release [of n ?s] by (intro exI [of _ k]) (simp del: solo.simps)
  qed
qed

lemma solo_maybeRefresh:
  assumes free: "\<forall>r. L r = None" and mr: "maybeRefresh refresh t0 t1 r st = (err, st1)"
  shows "\<exists>k. 2 \<le> k \<and> solo (Suc 9) refresh tid (t0, t1, t2, t3) (GNeeds sid r t0) st L =
    solo (Suc k) refresh tid (t0, t1, t2, t3) (GExpired sid r) st1 L"
proof (cases "needsRefresh (sess st r) t0 refreshWindow")
  case False
  then show ?thesis
    using mr solo_next [where n = 9 and pc = "GNeeds sid r t0"]
    by (intro exI [of _ 8]) (simp add: maybeRefresh_def numeral_eq_Suc)
next
  case due: True
  let ?c = "(t0, t1, t2, t3)"
  have lock: "solo (Suc 9) refresh tid ?c (GNeeds sid r t0) st L = solo (3 + 6) refresh tid ?c (GLock sid r) st L"
    using solo_next [where n = 9 and pc = "GNeeds sid r t0"] due by simp
  show ?thesis
  proof (cases "needsRefresh (sess st r) t1 refreshWindow")
    case True
    then show ?thesis using lock solo_refresh [OF True _ order_refl mr due] free by simp
  next
    case False
    have "solo 9 refresh tid ?c (GLock sid r) st L = solo 6 refresh tid ?c (GExpired sid r) st L"
      using False free by (simp add: numeral_eq_Suc clock_at_def fun_upd_idem)
    then show ?thesis using lock mr False due by (intro exI [of _ 5]) (simp add: maybeRefresh_def)
  qed
qed

lemma solo_Get:
  assumes free: "\<forall>r. L r = None" and get: "Get refresh (t0, t1, t2, t3) sid st = (res, st')"
  shows "solo 12 refresh tid (t0, t1, t2, t3) (GLookup sid) st L = (Done (GetResult res), st', L)"
proof (cases "lookup st sid")
  case None
  then show ?thesis using get solo_next [where n = 11] by (simp add: Get_def numeral_eq_Suc)
next
  case (Some r)
  let ?c = "(t0, t1, t2, t3)"
  have s1: "solo 12 refresh tid ?c (GLookup sid) st L = solo (Suc 10) refresh tid ?c (GAlive sid r) st L"
    using solo_next [where n = 11 and pc = "GLookup sid"] Some by (simp add: numeral_eq_Suc)
  show ?thesis
  proof (cases "alive st (sess st r) t0")
    case False
    then have "solo (Suc 10) refresh tid ?c (GAlive sid r) st L = solo 10 refresh tid ?c (DRemove sid (GetResult (Inl ErrExpired))) st L"
      using solo_next [where n = 10] by (simp add: clock_at_def)
    then show ?thesis using s1 get Some False solo_delete [of 10] by (simp add: Get_def)
  next
    case True
    obtain err st1 where mr: "maybeRefresh refresh t0 t1 r st = (err, st1)" by fastforce
    have s2: "solo (Suc 10) refresh tid ?c (GAlive sid r) st L = solo (Suc 9) refresh tid ?c (GNeeds sid r t0) st L"
      using solo_next [where n = 10 and pc = "GAlive sid r"] True by (simp add: clock_at_def)
    obtain k where k: "2 \<le> k"
      "solo (Suc 9) refresh tid ?c (GNeeds sid r t0) st L = solo (Suc k) refresh tid ?c (GExpired sid r) st1 L"
      using solo_maybeRefresh [OF free mr] by blast
    show ?thesis
      using s1 s2 k(2) solo_expired [OF k(1)] get Some True mr by (simp add: Get_def split: if_splits)
  qed
qed

section \<open>Interleaving\<close>

type_synonym config = "store \<times> locks \<times> (nat \<rightharpoonup> pc)"

text \<open>A request arrives as a new thread, or some thread takes a step.\<close>

inductive run_step :: "(refresher_id \<Rightarrow> Refresh) \<Rightarrow> config \<Rightarrow> config \<Rightarrow> bool"
  for refresh :: "refresher_id \<Rightarrow> Refresh" where
  run_get: "T tid = None \<Longrightarrow> run_step refresh (st, L, T) (st, L, T(tid \<mapsto> GLookup sid))"
| run_delete: "T tid = None \<Longrightarrow> run_step refresh (st, L, T) (st, L, T(tid \<mapsto> DRemove sid DeleteResult))"
| run_thread: "T tid = Some pc \<Longrightarrow> thread_step refresh tid now pc st L = Some (pc', st', L') \<Longrightarrow>
    run_step refresh (st, L, T) (st', L', T(tid \<mapsto> pc'))"

inductive_cases run_stepE: "run_step refresh c c'"

inductive runs :: "(refresher_id \<Rightarrow> Refresh) \<Rightarrow> store \<Rightarrow> config \<Rightarrow> bool"
  for refresh :: "refresher_id \<Rightarrow> Refresh" and st0 :: store where
  runs_init: "runs refresh st0 (st0, Map.empty, Map.empty)"
| runs_step: "runs refresh st0 c \<Longrightarrow> run_step refresh c c' \<Longrightarrow> runs refresh st0 c'"

text \<open>The session whose refresh lock a thread holds.\<close>

fun holding :: "pc \<Rightarrow> nat option" where
  "holding (GRecheck sid r) = Some r"
| "holding (GCopy sid r) = Some r"
| "holding (GRefresh sid r tok) = Some r"
| "holding (GApply sid r tok cred rt) = Some r"
| "holding (GRelease sid r tok) = Some r"
| "holding pc = None"

definition locks_ok :: "locks \<Rightarrow> (nat \<rightharpoonup> pc) \<Rightarrow> bool" where
  "locks_ok L T \<longleftrightarrow> (\<forall>r tid. L r = Some tid \<longleftrightarrow> (\<exists>pc. T tid = Some pc \<and> holding pc = Some r))"

lemma thread_step_locks:
  assumes "thread_step refresh tid now pc st L = Some (pc', st', L')"
  shows "(holding pc' = holding pc \<and> L' = L) \<or>
    (\<exists>r. holding pc = None \<and> holding pc' = Some r \<and> L r = None \<and> L' = L(r \<mapsto> tid)) \<or>
    (\<exists>r. holding pc = Some r \<and> holding pc' = None \<and> L' = L(r := None))"
  using assms by (cases pc) (auto split: if_splits option.splits prod.splits sum.splits)

lemma locks_ok_step:
  assumes ok: "locks_ok L T" and T: "T tid = Some pc"
    and step: "thread_step refresh tid now pc st L = Some (pc', st', L')"
  shows "locks_ok L' (T(tid \<mapsto> pc'))"
proof -
  have uniq: "L r = Some u \<longleftrightarrow> (\<exists>pc. T u = Some pc \<and> holding pc = Some r)" for r u
    using ok by (simp add: locks_ok_def)
  have mine: "L r = Some tid \<longleftrightarrow> holding pc = Some r" for r using uniq [of r tid] T by simp
  consider "holding pc' = holding pc" "L' = L"
    | r where "holding pc = None" "holding pc' = Some r" "L r = None" "L' = L(r \<mapsto> tid)"
    | r where "holding pc = Some r" "holding pc' = None" "L' = L(r := None)"
    using thread_step_locks [OF step] by blast
  then show ?thesis
  proof cases
    case 1
    then show ?thesis using uniq mine by (auto simp: locks_ok_def)
  next
    case (2 r)
    have "holding q \<noteq> Some r" if "T u = Some q" for u q using uniq [of r u] 2(3) that by auto
    then show ?thesis using 2 uniq mine by (auto simp: locks_ok_def)
  next
    case (3 r)
    have "L q = Some u \<Longrightarrow> q = r \<Longrightarrow> u = tid" for q u using mine [of r] 3(1) by simp
    then show ?thesis using 3 uniq mine by (auto simp: locks_ok_def)
  qed
qed

lemma locks_ok_new: "locks_ok L T \<Longrightarrow> T tid = None \<Longrightarrow> holding pc = None \<Longrightarrow> locks_ok L (T(tid \<mapsto> pc))"
  unfolding locks_ok_def by (metis fun_upd_apply option.distinct(1) option.inject)

lemma runs_locks_ok: "runs refresh st0 (st, L, T) \<Longrightarrow> locks_ok L T"
proof (induction "(st, L, T)" arbitrary: st L T rule: runs.induct)
  case runs_init
  show ?case by (simp add: locks_ok_def)
next
  case (runs_step c)
  from runs_step.hyps(3) show ?case
    by (cases rule: run_step.cases) (use runs_step.hyps(2) in \<open>auto intro: locks_ok_new locks_ok_step\<close>)
qed

text \<open>How many steps a thread has left at most.\<close>

fun steps_left :: "pc \<Rightarrow> nat" where
  "steps_left (GLookup sid) = 12"
| "steps_left (GAlive sid r) = 11"
| "steps_left (GNeeds sid r t) = 10"
| "steps_left (GLock sid r) = 9"
| "steps_left (GRecheck sid r) = 8"
| "steps_left (GCopy sid r) = 7"
| "steps_left (GRefresh sid r tok) = 6"
| "steps_left (GApply sid r tok cred rt) = 5"
| "steps_left (GRelease sid r tok) = 4"
| "steps_left (GExpired sid r) = 3"
| "steps_left (GTouch r) = 1"
| "steps_left (DRemove sid res) = 2"
| "steps_left (DZero r res) = 1"
| "steps_left (Done res) = 0"

lemma thread_step_rank:
  "thread_step refresh tid now pc st L = Some (pc', st', L') \<Longrightarrow> steps_left pc' < steps_left pc"
  by (cases pc) (auto split: if_splits option.splits prod.splits sum.splits)

lemma thread_step_enabled:
  assumes "steps_left pc \<noteq> 0" and "\<And>sid r. pc = GLock sid r \<Longrightarrow> L r = None"
  shows "\<exists>x. thread_step refresh tid now pc st L = Some x"
  using assms by (cases pc) (auto split: option.splits prod.splits sum.splits)

section \<open>Properties\<close>

text \<open>
  C10: the sections of \<open>Get\<close> compose to \<open>Get\<close>. A thread that runs without interference and finds no
  refresh lock taken finishes within twelve steps with the result and the store of the atomic
  \<open>Get\<close>, and it has released every lock.
\<close>

theorem Get_thread_alone:
  assumes "\<forall>r. L r = None" and "Get refresh clock sid st = (res, st')"
  shows "solo 12 refresh tid clock (GLookup sid) st L = (Done (GetResult res), st', L)"
  using solo_Get [OF assms(1)] assms(2) by (cases clock) blast

theorem Get_thread_alone_witness:
  "fst (solo 12 ex_refresh 0 (50 * second, 51 * second, 52 * second, 53 * second) (GLookup ''b'') ex_store Map.empty) =
   Done (GetResult (fst (Get ex_refresh (50 * second, 51 * second, 52 * second, 53 * second) ''b'' ex_store)))"
  using Get_thread_alone [where L = Map.empty and refresh = ex_refresh and sid = "''b''" and st = ex_store and tid = 0
      and clock = "(50 * second, 51 * second, 52 * second, 53 * second)", OF _ surjective_pairing]
  by simp

lemma holding_enabled: "holding pc = Some r \<Longrightarrow> \<exists>x. thread_step refresh tid now pc st L = Some x"
  by (rule thread_step_enabled) (cases pc; simp)+



subsection \<open>A deletion during a refresh\<close>

lemma runs0:
  assumes "runs refresh s (st, L, [0 \<mapsto> p, Suc 0 \<mapsto> q])" and "thread_step refresh 0 now p st L = Some (p', st', L')"
  shows "runs refresh s (st', L', [0 \<mapsto> p', Suc 0 \<mapsto> q])"
proof -
  have "[0 \<mapsto> p, Suc 0 \<mapsto> q](0 \<mapsto> p') = [0 \<mapsto> p', Suc 0 \<mapsto> q]" by (auto simp: fun_eq_iff)
  then show ?thesis using runs_step [OF assms(1) run_thread [OF _ assms(2)]] by simp
qed

lemma runs1:
  assumes "runs refresh s (st, L, [0 \<mapsto> p, Suc 0 \<mapsto> q])" and "thread_step refresh (Suc 0) now q st L = Some (q', st', L')"
  shows "runs refresh s (st', L', [0 \<mapsto> p, Suc 0 \<mapsto> q'])"
  using runs_step [OF assms(1) run_thread [OF _ assms(2)]] by simp

lemma runs_two: "runs refresh s (s, Map.empty, [0 \<mapsto> GLookup sid, Suc 0 \<mapsto> DRemove sid DeleteResult])"
proof -
  have "runs refresh s (s, Map.empty, [0 \<mapsto> GLookup sid])"
    by (rule runs_step [OF runs_init run_get]) simp
  then show ?thesis by (rule runs_step) (rule run_delete, simp)
qed

text \<open>The schedule: the request gets as far as the provider's answer, the deletion runs, the request goes on.\<close>

lemma race_schedule:
  assumes r: "lookup st sid = Some r" and al: "alive st (sess st r) t0"
    and due: "needsRefresh (sess st r) t0 refreshWindow" "needsRefresh (sess st r) t1 refreshWindow"
    and rid: "sRefresher (sess st r) = Some rid"
    and copy: "refreshTokenCopy (mem st) (sess st r) = (m1, tok)"
    and res: "refresh rid m1 tok = (m2, Inr (cred, rt))"
    and st5: "st5 = applyRefresh r cred rt (Delete sid (st\<lparr>mem := m2\<rparr>))"
    and usable: "\<not> credentialExpired (sess st5 r) t2"
  shows "runs refresh st (touch r t3 (st5\<lparr>mem := zeroBytes (mem st5) tok\<rparr>), Map.empty,
    [0 \<mapsto> Done (GetResult (Inr r)), Suc 0 \<mapsto> Done DeleteResult])"
proof -
  let ?L = "[r \<mapsto> 0] :: locks" and ?d = "DRemove sid DeleteResult"
  have "runs refresh st (st, Map.empty, [0 \<mapsto> GAlive sid r, Suc 0 \<mapsto> ?d])"
    by (rule runs0 [OF runs_two, where now = 0]) (simp add: r)
  then have "runs refresh st (st, Map.empty, [0 \<mapsto> GNeeds sid r t0, Suc 0 \<mapsto> ?d])"
    by (rule runs0 [where now = t0]) (simp add: al)
  then have "runs refresh st (st, Map.empty, [0 \<mapsto> GLock sid r, Suc 0 \<mapsto> ?d])"
    by (rule runs0 [where now = 0]) (simp add: due)
  then have "runs refresh st (st, ?L, [0 \<mapsto> GRecheck sid r, Suc 0 \<mapsto> ?d])"
    by (rule runs0 [where now = 0]) simp
  then have "runs refresh st (st, ?L, [0 \<mapsto> GCopy sid r, Suc 0 \<mapsto> ?d])"
    by (rule runs0 [where now = t1]) (simp add: due)
  then have "runs refresh st (st\<lparr>mem := m1\<rparr>, ?L, [0 \<mapsto> GRefresh sid r tok, Suc 0 \<mapsto> ?d])"
    by (rule runs0 [where now = 0]) (simp add: copy)
  then have "runs refresh st (st\<lparr>mem := m2\<rparr>, ?L, [0 \<mapsto> GApply sid r tok cred rt, Suc 0 \<mapsto> ?d])"
    by (rule runs0 [where now = 0]) (simp add: rid res)
  then have "runs refresh st (map_delete sid (st\<lparr>mem := m2\<rparr>), ?L, [0 \<mapsto> GApply sid r tok cred rt, Suc 0 \<mapsto> DZero r DeleteResult])"
    by (rule runs1 [where now = 0]) (use r in \<open>simp add: lookup_def\<close>)
  then have "runs refresh st (Delete sid (st\<lparr>mem := m2\<rparr>), ?L, [0 \<mapsto> GApply sid r tok cred rt, Suc 0 \<mapsto> Done DeleteResult])"
    by (rule runs1 [where now = 0]) (use r in \<open>simp add: lookup_def Delete_def\<close>)
  then have "runs refresh st (st5, ?L, [0 \<mapsto> GRelease sid r tok, Suc 0 \<mapsto> Done DeleteResult])"
    by (rule runs0 [where now = 0]) (simp add: st5)
  then have "runs refresh st (st5\<lparr>mem := zeroBytes (mem st5) tok\<rparr>, Map.empty, [0 \<mapsto> GExpired sid r, Suc 0 \<mapsto> Done DeleteResult])"
    by (rule runs0 [where now = 0]) simp
  then have "runs refresh st (st5\<lparr>mem := zeroBytes (mem st5) tok\<rparr>, Map.empty, [0 \<mapsto> GTouch r, Suc 0 \<mapsto> Done DeleteResult])"
    by (rule runs0 [where now = t2]) (use usable in simp)
  then show ?thesis by (rule runs0 [where now = t3]) simp
qed

text \<open>The fresh credential lies outside everything a deletion and the end of the refresh zero.\<close>

lemma refreshed_credential_kept:
  assumes rf: "refreshers refresh ar" and inv: "store_inv st" and r: "lookup st sid = Some r"
    and copy: "refreshTokenCopy (mem st) (sess st r) = (m1, tok)" and res: "refresh rid m1 tok = (m2, Inr (cred, rt))"
  shows "cred_view (zeroBytes (fold (\<lambda>s m. zeroBytes m s) (session_slices (sess st r)) m2) tok) cred = cred_view m2 cred"
proof -
  have owned: "slice_refs (session_slices (sess st r)) \<subseteq> {..<length (mem st)}"
    using inv lookup_live [OF r] by (simp add: store_inv_def separated_def owned_slices_def)
  have new: "slice_refs [tok] \<subseteq> {length (mem st)..<length m1}" "slice_refs (cred_slices cred) \<subseteq> {length m1..<length m2}"
    using refreshTokenCopy_new [OF copy] refreshers.refresh_fresh [OF rf res] by (auto simp: slice_refs_def)
  obtain xs where "m1 = mem st @ xs" using refreshTokenCopy_append [OF copy] by blast
  then have "slice_refs (session_slices (sess st r) @ [tok]) \<inter> slice_refs (cred_slices cred) = {}"
    using owned new by (fastforce simp: slice_refs_def)
  then have "slice_get (fold (\<lambda>s m. zeroBytes m s) (session_slices (sess st r) @ [tok]) m2) t = slice_get m2 t"
    if "t \<in> set (cred_slices cred)" for t using slice_get_fold_disjoint that by blast
  then show ?thesis by (simp add: cred_view_def cred_slices_def)
qed

text \<open>
  C12: a deletion that overlaps a refresh does not wipe the session. When a logout (or the sweep)
  deletes a session while a request waits for the provider, the request puts the fresh credential
  into the deleted session: there is an execution in which both have finished, the session
  is in no map, so nothing will zero it any more, and it holds the whole new credential; the
  request that started it is accepted after the logout.
\<close>

theorem deletion_during_refresh_leaks:
  assumes rf: "refreshers refresh ar" and inv: "store_inv st"
    and r: "lookup st sid = Some r" and al: "alive st (sess st r) t0"
    and due: "needsRefresh (sess st r) t0 refreshWindow" "needsRefresh (sess st r) t1 refreshWindow"
    and rid: "sRefresher (sess st r) = Some rid"
    and copy: "refreshTokenCopy (mem st) (sess st r) = (m1, tok)"
    and res: "refresh rid m1 tok = (m2, Inr (cred, rt))" and usable: "t2 \<le> cExpiresAt cred"
  shows "\<exists>st'. runs refresh st (st', Map.empty, [0 \<mapsto> Done (GetResult (Inr r)), Suc 0 \<mapsto> Done DeleteResult]) \<and>
    (\<forall>x. lookup st' x \<noteq> Some r) \<and> sCredential (sess st' r) = cred \<and> cred_view (mem st') cred = cred_view m2 cred"
proof -
  define st4 where "st4 = Delete sid (st\<lparr>mem := m2\<rparr>)"
  define st5 where "st5 = applyRefresh r cred rt st4"
  define st' where "st' = touch r 0 (st5\<lparr>mem := zeroBytes (mem st5) tok\<rparr>)"
  have len: "r < length (heap st)" using lookup_id [OF store_invD(2) [OF inv] r] by simp
  have heap4: "heap st4 = (heap st)[r := zeroed_session (sess st r)]" and mem4: "mem st4 = fold (\<lambda>s m. zeroBytes m s) (session_slices (sess st r)) m2"
    using r by (simp_all add: st4_def Delete_def lookup_def store_simps)
  have sess5: "sCredential (sess st5 r) = cred" using len by (simp add: st5_def applyRefresh_heap heap4)
  have mem5: "mem st5 = mem st4"
    using len by (simp add: st5_def applyRefresh_mem retired_def heap4 zeroed_session_def cred_slices_def)
  have "runs refresh st (st', Map.empty, [0 \<mapsto> Done (GetResult (Inr r)), Suc 0 \<mapsto> Done DeleteResult])"
    unfolding st'_def
  proof (rule race_schedule [where refresh = refresh, OF r al due rid copy res])
    show "st5 = applyRefresh r cred rt (Delete sid (st\<lparr>mem := m2\<rparr>))" by (simp add: st5_def st4_def)
    show "\<not> credentialExpired (sess st5 r) t2" using usable sess5 by (simp add: credentialExpired_def time_simps)
  qed
  moreover have "lookup (st') x \<noteq> Some r" for x
  proof -
    have "lookup st' x = (if x = sid then None else lookup st x)"
      by (simp add: st'_def lookup_def store_simps st5_def st4_def)
    then show ?thesis
      using r sessions_snd_unique [OF store_invD(2) [OF inv]] lookup_set [OF store_invD(2) [OF inv]] by auto
  qed
  moreover have "sCredential (sess (st') r) = cred" using len sess5 by (simp add: st'_def store_simps st5_def heap4)
  moreover have "cred_view (mem st') cred = cred_view m2 cred"
    using refreshed_credential_kept [OF rf inv r copy res] by (simp add: st'_def store_simps mem5 mem4)
  ultimately show ?thesis by blast
qed

theorem deletion_during_refresh_leaks_witness:
  "\<exists>st'. runs ex_refresh ex_store (st', Map.empty, [0 \<mapsto> Done (GetResult (Inr 1)), Suc 0 \<mapsto> Done DeleteResult]) \<and>
     lookup st' ''b'' \<noteq> Some 1 \<and> sCredential (sess st' 1) = ex_bearer (Some 5) (500 * second)"
proof -
  have look: "lookup ex_store ''b'' = Some 1" by (simp add: lookup_def ex_store_def)
  have al: "alive ex_store (sess ex_store 1) (50 * second)"
    by (simp add: ex_simps alive_def Sub_def minDuration_def maxDuration_def)
  have due: "needsRefresh (sess ex_store 1) (50 * second) refreshWindow" "needsRefresh (sess ex_store 1) (51 * second) refreshWindow"
    by (simp_all add: needsRefresh_def refreshWindow_def ex_simps)
  have rid: "sRefresher (sess ex_store 1) = Some 7" by (simp add: ex_simps)
  have copy: "refreshTokenCopy (mem ex_store) (sess ex_store 1) = ([''t0'', ''t1'', ''r1'', ''t2'', ''r1''], Some 4)"
    by (simp add: refreshTokenCopy_eq ex_simps slice_get_def)
  have res: "ex_refresh 7 [''t0'', ''t1'', ''r1'', ''t2'', ''r1''] (Some 4) =
      ([''t0'', ''t1'', ''r1'', ''t2'', ''r1'', ''new''], Inr (ex_bearer (Some 5) (500 * second), None))"
    unfolding ex_refresh_def by (simp add: eval_nat_numeral)
  have "52 * second \<le> cExpiresAt (ex_bearer (Some 5) (500 * second))" by (simp add: ex_bearer_def)
  from deletion_during_refresh_leaks [OF ex_refreshers ex_store_inv look al due rid copy res this] show ?thesis by blast
qed

end
