(* ===== verification/Base64.thy ===== *)
theory Base64
  imports Go_Strings
begin

text \<open>
  Go's \<open>encoding/base64\<close> as the server uses it: the standard and URL alphabets with padding
  and the raw URL alphabet without. As in Go, decoding skips carriage returns and line feeds
  wherever they occur and does not check the unused bits of a last, partial group.

  An encoding is an interface with one law, decoding what was encoded; the three encodings
  are its instances.
\<close>

section \<open>Encodings\<close>

record Encoding =
  alphabet :: string
  padded :: bool

definition base64_letters :: string where
  "base64_letters = ''ABCDEFGHIJKLMNOPQRSTUVWXYZabcdefghijklmnopqrstuvwxyz0123456789''"

definition StdEncoding :: Encoding where
  "StdEncoding = \<lparr>alphabet = base64_letters @ ''+/'', padded = True\<rparr>"

definition URLEncoding :: Encoding where
  "URLEncoding = \<lparr>alphabet = base64_letters @ ''-_'', padded = True\<rparr>"

definition RawURLEncoding :: Encoding where
  "RawURLEncoding = \<lparr>alphabet = base64_letters @ ''-_'', padded = False\<rparr>"

definition sextets :: "nat \<Rightarrow> nat list" where
  "sextets n = [n div 262144, n div 4096 mod 64, n div 64 mod 64, n mod 64]"

definition octets :: "nat \<Rightarrow> string" where
  "octets n = [char_of (n div 65536), char_of (n div 256), char_of n]"

definition group24 :: "char \<Rightarrow> char \<Rightarrow> char \<Rightarrow> nat" where
  "group24 a b c = of_char a * 65536 + of_char b * 256 + of_char c"

definition digits :: "Encoding \<Rightarrow> nat list \<Rightarrow> string" where
  "digits enc = map (\<lambda>i. alphabet enc ! i)"

definition padding :: "Encoding \<Rightarrow> nat \<Rightarrow> string" where
  "padding enc n = (if padded enc then replicate n (CHR ''='') else [])"

fun EncodeToString :: "Encoding \<Rightarrow> string \<Rightarrow> string" where
  "EncodeToString enc [] = []"
| "EncodeToString enc [a] = digits enc (take 2 (sextets (group24 a (CHR 0x00) (CHR 0x00)))) @ padding enc 2"
| "EncodeToString enc [a, b] = digits enc (take 3 (sextets (group24 a b (CHR 0x00)))) @ padding enc 1"
| "EncodeToString enc (a # b # c # rest) = digits enc (sextets (group24 a b c)) @ EncodeToString enc rest"

fun index_of :: "char \<Rightarrow> string \<Rightarrow> nat option" where
  "index_of c [] = None"
| "index_of c (x # xs) = (if x = c then Some 0 else map_option Suc (index_of c xs))"

text \<open>The value of one to four digits, left aligned.\<close>

definition quantum :: "Encoding \<Rightarrow> string \<Rightarrow> nat option" where
  "quantum enc cs =
     (case map (\<lambda>c. index_of c (alphabet enc)) cs of
        [Some a, Some b] \<Rightarrow> Some (a * 262144 + b * 4096)
      | [Some a, Some b, Some c] \<Rightarrow> Some (a * 262144 + b * 4096 + c * 64)
      | [Some a, Some b, Some c, Some d] \<Rightarrow> Some (a * 262144 + b * 4096 + c * 64 + d)
      | _ \<Rightarrow> None)"

fun decode_quanta :: "Encoding \<Rightarrow> string \<Rightarrow> string option" where
  "decode_quanta enc [] = Some []"
| "decode_quanta enc [a] = None"
| "decode_quanta enc [a, b] =
     (if padded enc then None else map_option (\<lambda>n. take 1 (octets n)) (quantum enc [a, b]))"
| "decode_quanta enc [a, b, c] =
     (if padded enc then None else map_option (\<lambda>n. take 2 (octets n)) (quantum enc [a, b, c]))"
| "decode_quanta enc (a # b # c # d # rest) =
     (if padded enc \<and> rest = [] \<and> c = CHR ''='' \<and> d = CHR ''='' then
        map_option (\<lambda>n. take 1 (octets n)) (quantum enc [a, b])
      else if padded enc \<and> rest = [] \<and> d = CHR ''='' then
        map_option (\<lambda>n. take 2 (octets n)) (quantum enc [a, b, c])
      else
        (case quantum enc [a, b, c, d] of
           None \<Rightarrow> None
         | Some n \<Rightarrow> map_option (\<lambda>r. octets n @ r) (decode_quanta enc rest)))"

definition DecodeString :: "Encoding \<Rightarrow> string \<Rightarrow> string option" where
  "DecodeString enc s = decode_quanta enc (filter (\<lambda>c. c \<noteq> CHR 0x0D \<and> c \<noteq> CHR 0x0A) s)"

section \<open>Decoding what was encoded\<close>

definition encoding_ok :: "Encoding \<Rightarrow> bool" where
  "encoding_ok enc \<longleftrightarrow> length (alphabet enc) = 64 \<and> distinct (alphabet enc) \<and>
     CHR ''='' \<notin> set (alphabet enc) \<and> CHR 0x0D \<notin> set (alphabet enc) \<and> CHR 0x0A \<notin> set (alphabet enc)"

lemma encodings_ok: "encoding_ok StdEncoding" "encoding_ok URLEncoding" "encoding_ok RawURLEncoding"
  by (simp_all add: encoding_ok_def StdEncoding_def URLEncoding_def RawURLEncoding_def base64_letters_def)

lemma index_of_nth: "distinct xs \<Longrightarrow> i < length xs \<Longrightarrow> index_of (xs ! i) xs = Some i"
proof (induction xs arbitrary: i)
  case (Cons x xs)
  then show ?case by (cases i) auto
qed simp

lemma of_char_bound: "(of_char a :: nat) \<le> 255"
  using of_char_lt_256 [of a] by linarith

lemma group24_bound: "group24 a b c < 16777216"
  using of_char_bound [of a] of_char_bound [of b] of_char_bound [of c] by (simp add: group24_def)

lemma char_of_low: "char_of (n * 256 + of_char x :: nat) = x"
  by (simp add: char_of_eq_iff take_bit_eq_mod)

lemma octets_group24: "octets (group24 a b c) = [a, b, c]"
proof -
  have d: "group24 a b c div 65536 = of_char a" "group24 a b c div 256 = of_char a * 256 + of_char b"
    using of_char_bound [of b] of_char_bound [of c] by (simp_all add: group24_def)
  have "group24 a b c = (of_char a * 256 + of_char b) * 256 + of_char c" by (simp add: group24_def)
  then have "char_of (group24 a b c) = c" by (simp only: char_of_low)
  then show ?thesis by (simp only: octets_def d char_of_low char_of_char)
qed

lemma sextets_bound: "i \<in> set (sextets (group24 a b c)) \<Longrightarrow> i < 64"
  using group24_bound [of a b c] by (auto simp: sextets_def)

lemma sextets_value:
  fixes n :: nat
  assumes "n < 16777216"
  shows "n div 262144 * 262144 + n div 4096 mod 64 * 4096 + n div 64 mod 64 * 64 + n mod 64 = n"
proof -
  have "n div 64 = n div 64 div 64 * 64 + n div 64 mod 64" by simp
  moreover have "n div 4096 = n div 4096 div 64 * 64 + n div 4096 mod 64" by simp
  moreover have "n div 4096 div 64 = n div 262144" "n div 64 div 64 = n div 4096"
    by (simp_all flip: div_mult2_eq)
  moreover have "n = n div 64 * 64 + n mod 64" by simp
  ultimately show ?thesis by linarith
qed

lemma digits_index:
  assumes "encoding_ok enc" and "\<forall>i \<in> set is. i < 64"
  shows "map (\<lambda>c. index_of c (alphabet enc)) (digits enc is) = map Some is"
  using assms by (auto simp: digits_def encoding_ok_def index_of_nth)

lemma digits_plain:
  assumes "encoding_ok enc" and "\<forall>i \<in> set is. i < 64" and "c \<in> set (digits enc is)"
  shows "c \<noteq> CHR ''='' \<and> c \<noteq> CHR 0x0D \<and> c \<noteq> CHR 0x0A"
proof -
  have "c \<in> set (alphabet enc)" using assms by (auto simp: digits_def encoding_ok_def)
  then show ?thesis using assms(1) by (auto simp: encoding_ok_def)
qed

lemma quantum_sextets:
  assumes "encoding_ok enc" and "n < 16777216"
  shows "quantum enc (digits enc (sextets n)) = Some n"
    and "n mod 64 = 0 \<Longrightarrow> quantum enc (digits enc (take 3 (sextets n))) = Some n"
    and "n mod 4096 = 0 \<Longrightarrow> quantum enc (digits enc (take 2 (sextets n))) = Some n"
proof -
  have b: "n div 262144 < 64" using assms(2) by simp
  have idx: "map (\<lambda>c. index_of c (alphabet enc)) (digits enc (take k (sextets n))) =
      map Some (take k (sextets n))" for k
    using assms(1) b by (intro digits_index) (auto simp: sextets_def dest!: in_set_takeD)
  note v = sextets_value [OF assms(2)]
  show "quantum enc (digits enc (sextets n)) = Some n"
    using idx [of 4] v by (simp add: quantum_def sextets_def)
  show "quantum enc (digits enc (take 3 (sextets n))) = Some n" if "n mod 64 = 0"
    using idx [of 3] v that by (simp add: quantum_def sextets_def)
  show "quantum enc (digits enc (take 2 (sextets n))) = Some n" if "n mod 4096 = 0"
  proof -
    have "n mod (64 * 64) = 64 * (n div 64 mod 64) + n mod 64" by (rule mod_mult2_eq)
    then have "n mod 64 = 0 \<and> n div 64 mod 64 = 0" using that by simp
    then show ?thesis using idx [of 2] v by (simp add: quantum_def sextets_def)
  qed
qed

lemma filter_digits:
  assumes "encoding_ok enc" and "\<forall>i \<in> set is. i < 64"
  shows "filter (\<lambda>c. c \<noteq> CHR 0x0D \<and> c \<noteq> CHR 0x0A) (digits enc is) = digits enc is"
  using digits_plain [OF assms] by (simp add: filter_id_conv)

lemma filter_padding [simp]:
  "filter (\<lambda>c. c \<noteq> CHR 0x0D \<and> c \<noteq> CHR 0x0A) (padding enc n) = padding enc n"
  by (simp add: padding_def filter_id_conv)

lemma take_sextets_bound: "i \<in> set (take k (sextets (group24 a b c))) \<Longrightarrow> i < 64"
  by (meson in_set_takeD sextets_bound)

lemma EncodeToString_plain:
  "encoding_ok enc \<Longrightarrow>
   filter (\<lambda>c. c \<noteq> CHR 0x0D \<and> c \<noteq> CHR 0x0A) (EncodeToString enc s) = EncodeToString enc s"
  by (induction enc s rule: EncodeToString.induct)
     (simp_all add: filter_digits sextets_bound take_sextets_bound)

text \<open>A group of four digits that is not padding decodes on its own.\<close>

lemma decode_quanta_group:
  assumes "quantum enc [a, b, c, d] = Some n" and "d \<noteq> CHR ''=''"
  shows "decode_quanta enc (a # b # c # d # rest) = map_option (\<lambda>r. octets n @ r) (decode_quanta enc rest)"
  using assms by simp

lemma digits_sextets:
  "digits enc (sextets n) = [alphabet enc ! (n div 262144), alphabet enc ! (n div 4096 mod 64),
     alphabet enc ! (n div 64 mod 64), alphabet enc ! (n mod 64)]"
  by (simp add: digits_def sextets_def)

lemma alphabet_not_padding: "encoding_ok enc \<Longrightarrow> i < 64 \<Longrightarrow> alphabet enc ! i \<noteq> CHR ''=''"
  by (metis encoding_ok_def nth_mem)

lemma decode_quanta_encode:
  "encoding_ok enc \<Longrightarrow> decode_quanta enc (EncodeToString enc s) = Some s"
proof (induction enc s rule: EncodeToString.induct)
  case (2 enc a)
  let ?n = "group24 a (CHR 0x00) (CHR 0x00)"
  have "quantum enc (digits enc (take 2 (sextets ?n))) = Some ?n"
    using 2 by (intro quantum_sextets(3) group24_bound) (simp_all add: group24_def)
  then show ?case
    by (simp add: sextets_def digits_def padding_def octets_group24 numeral_2_eq_2)
next
  case (3 enc a b)
  let ?n = "group24 a b (CHR 0x00)"
  have "quantum enc (digits enc (take 3 (sextets ?n))) = Some ?n"
    using 3 by (intro quantum_sextets(2) group24_bound) (simp_all add: group24_def)
  moreover have "alphabet enc ! (?n div 64 mod 64) \<noteq> CHR ''=''"
    using 3 by (intro alphabet_not_padding) simp_all
  ultimately show ?case
    by (simp add: sextets_def digits_def padding_def octets_group24 numeral_3_eq_3)
next
  case (4 enc a b c rest)
  let ?n = "group24 a b c"
  have "quantum enc (digits enc (sextets ?n)) = Some ?n"
    using 4 by (intro quantum_sextets(1) group24_bound)
  moreover have "alphabet enc ! (?n mod 64) \<noteq> CHR ''=''"
    using 4 by (intro alphabet_not_padding) simp_all
  ultimately show ?case
    using 4 by (simp add: digits_sextets octets_group24 del: decode_quanta.simps(5) add: decode_quanta_group)
qed simp

section \<open>The interface\<close>

locale codec =
  fixes encode :: "string \<Rightarrow> string" and decode :: "string \<Rightarrow> string option"
  assumes decode_encode: "decode (encode s) = Some s"
begin

lemma encode_inject: "encode s = encode t \<longleftrightarrow> s = t"
  by (metis decode_encode option.inject)

end

lemma DecodeString_EncodeToString:
  "encoding_ok enc \<Longrightarrow> DecodeString enc (EncodeToString enc s) = Some s"
  by (simp add: DecodeString_def EncodeToString_plain decode_quanta_encode)

interpretation std: codec "EncodeToString StdEncoding" "DecodeString StdEncoding"
  by unfold_locales (simp add: DecodeString_EncodeToString encodings_ok)

interpretation url: codec "EncodeToString URLEncoding" "DecodeString URLEncoding"
  by unfold_locales (simp add: DecodeString_EncodeToString encodings_ok)

interpretation rawurl: codec "EncodeToString RawURLEncoding" "DecodeString RawURLEncoding"
  by unfold_locales (simp add: DecodeString_EncodeToString encodings_ok)

lemma EncodeToString_alphabet:
  "encoding_ok enc \<Longrightarrow> set (EncodeToString enc s) \<subseteq> set (alphabet enc) \<union> {CHR ''=''}"
proof (induction enc s rule: EncodeToString.induct)
  case (4 enc a b c rest)
  have "set (digits enc (sextets (group24 a b c))) \<subseteq> set (alphabet enc)"
    using 4 sextets_bound by (fastforce simp: digits_def encoding_ok_def)
  with 4 show ?case by auto
qed (use take_sextets_bound in \<open>fastforce simp: digits_def encoding_ok_def padding_def split: if_splits\<close>)+

end
