(* ===== verification/Password.thy ===== *)
theory Password
  imports Base64 Random_Source
begin

text \<open>
  \<open>pkg/password\<close>: the store of the static admin password, its two backends (\<open>InMemory\<close> and
  the Kubernetes Secret \<open>K8sSecret\<close>) and the Argon2id hasher. The backend and the hasher are
  interfaces of the code and locales here. The key derivation \<open>argon2.IDKey\<close> and the dynamic
  Kubernetes client are parameters.
\<close>

section \<open>Errors\<close>

datatype api_error = NotFound | OtherError string

datatype pw_error =
    ErrNotInitialized
  | ErrInvalidPassword
  | ErrSalt rand_error
  | ErrHash string
  | ErrSecret string
  | ErrSecretData string
  | PanicNotString

section \<open>The hasher\<close>

record Argon2id =
  a2_time :: nat
  a2_memory :: nat
  a2_threads :: nat
  a2_keyLen :: nat

definition NewArgon2id :: Argon2id where
  "NewArgon2id = \<lparr>a2_time = 2, a2_memory = 19 * 1024, a2_threads = 1, a2_keyLen = 32\<rparr>"

text \<open>A hasher is a function of the password and the salt.\<close>

type_synonym hasher = "string \<Rightarrow> string \<Rightarrow> pw_error + string"

definition Argon2id_Hash ::
  "(string \<Rightarrow> string \<Rightarrow> nat \<Rightarrow> nat \<Rightarrow> nat \<Rightarrow> nat \<Rightarrow> string) \<Rightarrow> Argon2id \<Rightarrow> hasher" where
  "Argon2id_Hash IDKey h password salt =
     Inr (IDKey password salt (a2_time h) (a2_memory h) (a2_threads h) (a2_keyLen h))"

section \<open>The in-memory backend\<close>

record InMemory =
  im_set :: bool
  im_hash :: string
  im_salt :: string

definition NewInMemory :: InMemory where
  "NewInMemory = \<lparr>im_set = False, im_hash = [], im_salt = []\<rparr>"

definition InMemory_Read :: "InMemory \<Rightarrow> InMemory \<times> (pw_error + (string \<times> string) option)" where
  "InMemory_Read w = (if \<not> im_set w then (w, Inr None) else (w, Inr (Some (im_hash w, im_salt w))))"

definition InMemory_Write :: "string \<Rightarrow> string \<Rightarrow> InMemory \<Rightarrow> InMemory \<times> pw_error option" where
  "InMemory_Write hash salt w = (w\<lparr>im_hash := hash, im_salt := salt, im_set := True\<rparr>, None)"

section \<open>The Secret backend\<close>

text \<open>
  An unstructured Secret object: the fields the backend writes, the field \<open>data\<close> as
  \<open>NestedMap\<close> finds it (absent, not a map, or a map), and the rest.
\<close>

datatype json_value = JString string | JOther string

datatype nested_data = NoData | NotAMap string | DataMap "(string \<times> json_value) list"

record Secret =
  objAPIVersion :: string
  objKind :: string
  objNamespace :: string
  objName :: string
  objData :: nested_data
  objRest :: "(string \<times> json_value) list"

text \<open>The dynamic client on Secrets, over some state of the cluster.\<close>

record 'c SecretClient =
  sc_get :: "string \<Rightarrow> string \<Rightarrow> 'c \<Rightarrow> 'c \<times> (api_error + Secret)"
  sc_create :: "string \<Rightarrow> Secret \<Rightarrow> 'c \<Rightarrow> 'c \<times> api_error option"
  sc_update :: "string \<Rightarrow> Secret \<Rightarrow> 'c \<Rightarrow> 'c \<times> api_error option"

record K8sSecret =
  secretNamespace :: string
  secretName :: string

definition k8sSecretGVR :: "string \<times> string \<times> string" where
  "k8sSecretGVR = ('''', ''v1'', ''secrets'')"

definition readSecret ::
  "'c SecretClient \<Rightarrow> K8sSecret \<Rightarrow> 'c \<Rightarrow> 'c \<times> Secret option \<times> bool \<times> string option" where
  "readSecret client rw w =
     (case sc_get client (secretNamespace rw) (secretName rw) w of
        (w, Inl NotFound) \<Rightarrow> (w, None, False, None)
      | (w, Inl (OtherError e)) \<Rightarrow> (w, None, False, Some e)
      | (w, Inr secret) \<Rightarrow> (w, Some secret, True, None))"

definition readData :: "Secret \<Rightarrow> pw_error + string \<times> string" where
  "readData secret =
     (case objData secret of
        NotAMap e \<Rightarrow> Inl (ErrSecretData e)
      | NoData \<Rightarrow> Inl (ErrSecretData ''no data in secret'')
      | DataMap d \<Rightarrow>
          (case map_of d ''hash'' of
             None \<Rightarrow> Inl (ErrSecretData ''hash is missing from data'')
           | Some hashI \<Rightarrow>
               (case map_of d ''salt'' of
                  None \<Rightarrow> Inl (ErrSecretData ''salt is missing from data'')
                | Some saltI \<Rightarrow>
                    (case (hashI, saltI) of
                       (JString hashS, JString saltS) \<Rightarrow>
                         (case DecodeString StdEncoding hashS of
                            None \<Rightarrow> Inl (ErrSecretData ''error when base64-decoding hash'')
                          | Some hash \<Rightarrow>
                              (case DecodeString StdEncoding saltS of
                                 None \<Rightarrow> Inl (ErrSecretData ''error when base64-decoding salt'')
                               | Some salt \<Rightarrow> Inr (hash, salt)))
                     | _ \<Rightarrow> Inl PanicNotString))))"

text \<open>The test of \<open>ok\<close> comes before the test of \<open>err\<close>, as in the code.\<close>

definition K8sSecret_Read ::
  "'c SecretClient \<Rightarrow> K8sSecret \<Rightarrow> 'c \<Rightarrow> 'c \<times> (pw_error + (string \<times> string) option)" where
  "K8sSecret_Read client rw w =
     (case readSecret client rw w of
        (w, secret, ok, err) \<Rightarrow>
          if \<not> ok then (w, Inr None)
          else
            (case err of
               Some e \<Rightarrow> (w, Inl (ErrSecret e))
             | None \<Rightarrow>
                 (case secret of
                    None \<Rightarrow> (w, Inr None)
                  | Some s \<Rightarrow> (w, map_sum id Some (readData s)))))"

definition secret_data :: "string \<Rightarrow> string \<Rightarrow> nested_data" where
  "secret_data hash salt =
     DataMap [(''hash'', JString (EncodeToString StdEncoding hash)),
              (''salt'', JString (EncodeToString StdEncoding salt))]"

definition api_message :: "api_error \<Rightarrow> string" where
  "api_message e = (case e of NotFound \<Rightarrow> ''not found'' | OtherError m \<Rightarrow> m)"

definition K8sSecret_Write ::
  "'c SecretClient \<Rightarrow> K8sSecret \<Rightarrow> string \<Rightarrow> string \<Rightarrow> 'c \<Rightarrow> 'c \<times> pw_error option" where
  "K8sSecret_Write client rw hash salt w =
     (case readSecret client rw w of
        (w, secret, ok, err) \<Rightarrow>
          (case err of
             Some e \<Rightarrow> (w, Some (ErrSecret e))
           | None \<Rightarrow>
               let data = secret_data hash salt
               in case secret of
                    None \<Rightarrow>
                      (case sc_create client (secretNamespace rw)
                              \<lparr>objAPIVersion = fst k8sSecretGVR @ ''/'' @ fst (snd k8sSecretGVR),
                               objKind = ''Secret'', objNamespace = secretNamespace rw,
                               objName = secretName rw, objData = data, objRest = []\<rparr> w of
                         (w, e) \<Rightarrow> (w, map_option (\<lambda>e. ErrSecret (api_message e)) e))
                  | Some s \<Rightarrow>
                      (case sc_update client (secretNamespace rw) (s\<lparr>objData := data\<rparr>) w of
                         (w, e) \<Rightarrow> (w, map_option (\<lambda>e. ErrSecret (api_message e)) e))))"

section \<open>The password store\<close>

definition defaultPassword :: string where "defaultPassword = ''admin''"
definition saltLength :: nat where "saltLength = 16"

text \<open>\<open>cachedSalt\<close> is \<open>nil\<close> until the store is initialised. \<open>'rw\<close> is the backend's state.\<close>

record 'rw pwstore =
  cachedSalt :: "string option"
  cachedHash :: string
  rw :: 'rw

type_synonym 'rw Read = "'rw \<Rightarrow> 'rw \<times> (pw_error + (string \<times> string) option)"
type_synonym 'rw Write = "string \<Rightarrow> string \<Rightarrow> 'rw \<Rightarrow> 'rw \<times> pw_error option"

definition NewPasswordStore :: "'rw \<Rightarrow> 'rw pwstore" where
  "NewPasswordStore w = \<lparr>cachedSalt = None, cachedHash = [], rw = w\<rparr>"

definition Init ::
  "'rw Read \<Rightarrow> 'rw Write \<Rightarrow> hasher \<Rightarrow> rand_source \<Rightarrow> 'rw pwstore \<Rightarrow> pw_error option \<times> 'rw pwstore" where
  "Init read write hash rand s =
     (case read (rw s) of
        (w, Inl err) \<Rightarrow> (Some err, s\<lparr>rw := w\<rparr>)
      | (w, Inr (Some (h, salt))) \<Rightarrow> (None, s\<lparr>cachedSalt := Some salt, cachedHash := h, rw := w\<rparr>)
      | (w, Inr None) \<Rightarrow>
          (case Bytes rand saltLength of
             Inl err \<Rightarrow> (Some (ErrSalt err), s\<lparr>rw := w\<rparr>)
           | Inr salt \<Rightarrow>
               (case hash defaultPassword salt of
                  Inl err \<Rightarrow> (Some err, s\<lparr>rw := w\<rparr>)
                | Inr h \<Rightarrow>
                    (case write h salt w of
                       (w, Some err) \<Rightarrow> (Some err, s\<lparr>rw := w\<rparr>)
                     | (w, None) \<Rightarrow>
                         (None, s\<lparr>cachedSalt := Some salt, cachedHash := h, rw := w\<rparr>)))))"

definition Update :: "'rw Write \<Rightarrow> hasher \<Rightarrow> string \<Rightarrow> 'rw pwstore \<Rightarrow> pw_error option \<times> 'rw pwstore" where
  "Update write hash password s =
     (case cachedSalt s of
        None \<Rightarrow> (Some ErrNotInitialized, s)
      | Some salt \<Rightarrow>
          (case hash password salt of
             Inl err \<Rightarrow> (Some err, s)
           | Inr h \<Rightarrow>
               (case write h salt (rw s) of
                  (w, Some err) \<Rightarrow> (Some err, s\<lparr>rw := w\<rparr>)
                | (w, None) \<Rightarrow> (None, s\<lparr>cachedHash := h, rw := w\<rparr>))))"

text \<open>\<open>subtle.ConstantTimeCompare\<close>: 1 for equal contents.\<close>

definition ConstantTimeCompare :: "string \<Rightarrow> string \<Rightarrow> int" where
  "ConstantTimeCompare a b = (if a = b then 1 else 0)"

definition Compare :: "hasher \<Rightarrow> string \<Rightarrow> 'rw pwstore \<Rightarrow> pw_error option" where
  "Compare hash password s =
     (case cachedSalt s of
        None \<Rightarrow> Some ErrNotInitialized
      | Some salt \<Rightarrow>
          (case hash password salt of
             Inl err \<Rightarrow> Some err
           | Inr h \<Rightarrow> if ConstantTimeCompare h (cachedHash s) \<noteq> 1 then Some ErrInvalidPassword else None))"

end
