(* ===== verification/Password_Properties.thy ===== *)
theory Password_Properties
  imports Password
begin

text \<open>
  The contract of a password backend as a locale, what the password store promises over any
  backend that keeps it, the in-memory backend as an instance, and the Secret backend as an
  instance when the API server's reads only fail with \<open>NotFound\<close>. Without that condition the
  Secret backend breaks the contract: a failed read is reported as an absent password.
\<close>

section \<open>Backends\<close>

locale readwriter =
  fixes read :: "'rw Read" and "write" :: "'rw Write" and stored :: "'rw \<Rightarrow> (string \<times> string) option"
  assumes read_value: "read w = (w', Inr v) \<Longrightarrow> v = stored w \<and> stored w' = stored w"
    and read_error: "read w = (w', Inl e) \<Longrightarrow> stored w' = stored w"
    and write_value: "write h salt w = (w', None) \<Longrightarrow> stored w' = Some (h, salt)"
    and write_error: "write h salt w = (w', Some e) \<Longrightarrow> stored w' = stored w"
begin

text \<open>The cached password is the stored one.\<close>

definition in_sync :: "'rw pwstore \<Rightarrow> bool" where
  "in_sync s \<longleftrightarrow> (\<exists>salt. cachedSalt s = Some salt \<and> stored (rw s) = Some (cachedHash s, salt))"

lemma Init_existing:
  assumes "stored (rw s) = Some (h, salt)" and "Init read write hash rand s = (err, s')"
  shows "stored (rw s') = Some (h, salt)"
    and "err = None \<Longrightarrow> cachedSalt s' = Some salt \<and> cachedHash s' = h"
  using assms by (auto simp: Init_def split: prod.splits sum.splits option.splits
      dest: read_value read_error)

lemma Init_in_sync:
  assumes "Init read write hash rand s = (None, s')"
  shows "in_sync s'"
  using assms
  by (auto simp: Init_def in_sync_def split: prod.splits sum.splits option.splits
      dest: read_value write_value)

lemma Init_first:
  assumes "stored (rw s) = None" and "Init read write hash rand s = (None, s')"
  shows "\<exists>salt h. cachedSalt s' = Some salt \<and> hash defaultPassword salt = Inr h \<and> cachedHash s' = h"
  using assms
  by (auto simp: Init_def split: prod.splits sum.splits option.splits dest: read_value)

lemma Update_in_sync:
  assumes "in_sync s" and "Update write hash p s = (err, s')"
  shows "in_sync s'"
  using assms
  by (auto simp: Update_def in_sync_def split: prod.splits sum.splits option.splits
      dest: write_value write_error)

lemma Update_result:
  assumes "Update write hash p s = (err, s')"
  shows "cachedSalt s' = cachedSalt s"
    and "err = None \<Longrightarrow> \<exists>salt. cachedSalt s = Some salt \<and> hash p salt = Inr (cachedHash s')"
    and "err \<noteq> None \<Longrightarrow> cachedHash s' = cachedHash s"
  using assms by (auto simp: Update_def split: prod.splits sum.splits option.splits)

text \<open>A restart finds the password it left.\<close>

lemma restart_same:
  assumes "in_sync s" and "Init read write hash rand (NewPasswordStore (rw s)) = (None, s')"
  shows "Compare hash p s' = Compare hash p s"
proof -
  obtain salt where salt: "cachedSalt s = Some salt" "stored (rw s) = Some (cachedHash s, salt)"
    using assms(1) by (auto simp: in_sync_def)
  have "cachedSalt s' = Some salt \<and> cachedHash s' = cachedHash s"
    using Init_existing(2) [of "NewPasswordStore (rw s)" "cachedHash s" salt] assms(2) salt
    by (simp add: NewPasswordStore_def)
  then show ?thesis using salt by (simp add: Compare_def split: sum.split)
qed

end

lemma Compare_None_iff:
  "Compare hash p s = None \<longleftrightarrow> (\<exists>salt. cachedSalt s = Some salt \<and> hash p salt = Inr (cachedHash s))"
  by (auto simp: Compare_def ConstantTimeCompare_def split: option.splits sum.splits)

section \<open>The in-memory backend\<close>

definition InMemory_stored :: "InMemory \<Rightarrow> (string \<times> string) option" where
  "InMemory_stored w = (if im_set w then Some (im_hash w, im_salt w) else None)"

interpretation in_memory: readwriter InMemory_Read InMemory_Write InMemory_stored
  by unfold_locales
     (auto simp: InMemory_Read_def InMemory_Write_def InMemory_stored_def split: if_splits)

section \<open>The Secret backend\<close>

text \<open>
  What the API server promises of Secrets: a read returns the object, a successful write is
  what a later read finds, and a failed call changes nothing.
\<close>

definition secret_api_ok ::
  "'c SecretClient \<Rightarrow> (string \<Rightarrow> string \<Rightarrow> 'c \<Rightarrow> Secret option) \<Rightarrow> bool" where
  "secret_api_ok client obj \<longleftrightarrow>
     (\<forall>ns n c c' r. sc_get client ns n c = (c', r) \<longrightarrow>
        obj ns n c' = obj ns n c \<and>
        (case r of Inr s \<Rightarrow> obj ns n c = Some s \<and> objName s = n
         | Inl NotFound \<Rightarrow> obj ns n c = None | Inl (OtherError _) \<Rightarrow> True)) \<and>
     (\<forall>ns s c c' e. sc_create client ns s c = (c', e) \<longrightarrow>
        (case e of None \<Rightarrow> (\<exists>s'. obj ns (objName s) c' = Some s' \<and> objData s' = objData s)
         | Some _ \<Rightarrow> obj ns (objName s) c' = obj ns (objName s) c)) \<and>
     (\<forall>ns s c c' e. sc_update client ns s c = (c', e) \<longrightarrow>
        (case e of None \<Rightarrow> (\<exists>s'. obj ns (objName s) c' = Some s' \<and> objData s' = objData s)
         | Some _ \<Rightarrow> obj ns (objName s) c' = obj ns (objName s) c))"

text \<open>Reads of the Secret fail with nothing but \<open>NotFound\<close>.\<close>

definition reads_reliable :: "'c SecretClient \<Rightarrow> bool" where
  "reads_reliable client \<longleftrightarrow> (\<forall>ns n c c' e. sc_get client ns n c \<noteq> (c', Inl (OtherError e)))"

definition K8sSecret_stored ::
  "(string \<Rightarrow> string \<Rightarrow> 'c \<Rightarrow> Secret option) \<Rightarrow> K8sSecret \<Rightarrow> 'c \<Rightarrow> (string \<times> string) option" where
  "K8sSecret_stored obj ks c =
     (case obj (secretNamespace ks) (secretName ks) c of
        None \<Rightarrow> None
      | Some s \<Rightarrow> (case readData s of Inl _ \<Rightarrow> None | Inr v \<Rightarrow> Some v))"

lemma readData_secret_data: "objData s = secret_data h salt \<Longrightarrow> readData s = Inr (h, salt)"
  by (simp add: readData_def secret_data_def std.decode_encode)

lemma readSecret_cases:
  assumes "secret_api_ok client obj" and "readSecret client ks w = (w', s, ok, err)"
  shows "obj (secretNamespace ks) (secretName ks) w' = obj (secretNamespace ks) (secretName ks) w \<and>
    ok = (s \<noteq> None) \<and> (err \<noteq> None \<longrightarrow> s = None) \<and>
    (err = None \<longrightarrow> obj (secretNamespace ks) (secretName ks) w = s) \<and>
    (\<forall>x. s = Some x \<longrightarrow> objName x = secretName ks)"
  using assms
  by (fastforce simp: readSecret_def secret_api_ok_def split: prod.splits sum.splits api_error.splits)

lemma secret_api_okD:
  assumes "secret_api_ok client obj" and "f = sc_create \<or> f = sc_update"
    and "f client ns s c = (c', e)"
  shows "case e of None \<Rightarrow> \<exists>s'. obj ns (objName s) c' = Some s' \<and> objData s' = objData s
    | Some _ \<Rightarrow> obj ns (objName s) c' = obj ns (objName s) c"
  using assms unfolding secret_api_ok_def by blast

lemma K8sSecret_Write_stored:
  assumes api: "secret_api_ok client obj" and wr: "K8sSecret_Write client ks h salt w = (w', e)"
  shows "if e = None then K8sSecret_stored obj ks w' = Some (h, salt)
         else K8sSecret_stored obj ks w' = K8sSecret_stored obj ks w"
proof -
  obtain w1 s ok err where rs: "readSecret client ks w = (w1, s, ok, err)" by (metis surj_pair)
  note R = readSecret_cases [OF api rs]
  let ?at = "obj (secretNamespace ks) (secretName ks)"
  show ?thesis
  proof (cases err)
    case (Some x)
    then show ?thesis using wr R by (auto simp: K8sSecret_Write_def rs K8sSecret_stored_def)
  next
    case None
    let ?new = "\<lparr>objAPIVersion = fst k8sSecretGVR @ ''/'' @ fst (snd k8sSecretGVR),
      objKind = ''Secret'', objNamespace = secretNamespace ks, objName = secretName ks,
      objData = secret_data h salt, objRest = []\<rparr>"
    define x where "x = (case s of None \<Rightarrow> ?new | Some s \<Rightarrow> s\<lparr>objData := secret_data h salt\<rparr>)"
    define f :: "'a SecretClient \<Rightarrow> string \<Rightarrow> Secret \<Rightarrow> 'a \<Rightarrow> 'a \<times> api_error option"
      where "f = (case s of None \<Rightarrow> sc_create | Some _ \<Rightarrow> sc_update)"
    obtain w2 e2 where f2: "f client (secretNamespace ks) x w1 = (w2, e2)" by fastforce
    have f: "f = sc_create \<or> f = sc_update" by (simp add: f_def split: option.split)
    have x: "objName x = secretName ks" "objData x = secret_data h salt"
      using R by (simp_all add: x_def split: option.split)
    have w': "w' = w2" "e = map_option (\<lambda>e. ErrSecret (api_message e)) e2"
      using wr None f2 by (auto simp: K8sSecret_Write_def rs Let_def f_def x_def split: option.splits)
    have "case e2 of None \<Rightarrow> \<exists>s'. ?at w2 = Some s' \<and> objData s' = objData x | Some _ \<Rightarrow> ?at w2 = ?at w1"
      using secret_api_okD [OF api f f2] by (simp only: x(1))
    then show ?thesis
      using R w' x by (cases e2) (auto simp: K8sSecret_stored_def readData_secret_data)
  qed
qed

lemma K8sSecret_readwriter:
  assumes api: "secret_api_ok client obj" and rel: "reads_reliable client"
  shows "readwriter (K8sSecret_Read client ks) (K8sSecret_Write client ks) (K8sSecret_stored obj ks)"
proof
  fix w w' v e h salt
  obtain w1 s ok err where rs: "readSecret client ks w = (w1, s, ok, err)" by (metis surj_pair)
  note R = readSecret_cases [OF api rs]
  have err: "err = None"
    using rs rel by (auto simp: readSecret_def reads_reliable_def split: prod.splits sum.splits api_error.splits)
  show "K8sSecret_Read client ks w = (w', Inr v) \<Longrightarrow>
      v = K8sSecret_stored obj ks w \<and> K8sSecret_stored obj ks w' = K8sSecret_stored obj ks w"
    using R err by (cases s) (auto simp: K8sSecret_Read_def rs K8sSecret_stored_def
        map_sum_def split: sum.splits if_splits)
  show "K8sSecret_Read client ks w = (w', Inl e) \<Longrightarrow> K8sSecret_stored obj ks w' = K8sSecret_stored obj ks w"
    using R err by (cases s) (auto simp: K8sSecret_Read_def rs K8sSecret_stored_def split: if_splits)
  show "K8sSecret_Write client ks h salt w = (w', None) \<Longrightarrow> K8sSecret_stored obj ks w' = Some (h, salt)"
    using K8sSecret_Write_stored [OF api] by (metis (full_types))
  show "K8sSecret_Write client ks h salt w = (w', Some e) \<Longrightarrow>
      K8sSecret_stored obj ks w' = K8sSecret_stored obj ks w"
    using K8sSecret_Write_stored [OF api] by (metis option.distinct(1))
qed

section \<open>Properties\<close>

text \<open>
  A cluster with at most one Secret, and the same one behind a client whose first read fails
  with an error other than \<open>NotFound\<close>.
\<close>

definition one_secret :: "string \<Rightarrow> string \<Rightarrow> Secret option \<Rightarrow> Secret option" where
  "one_secret ns n c = (case c of None \<Rightarrow> None | Some s \<Rightarrow> if objName s = n then Some s else None)"

definition one_client :: "Secret option SecretClient" where
  "one_client =
     \<lparr>sc_get = (\<lambda>ns n c. (c, case one_secret ns n c of None \<Rightarrow> Inl NotFound | Some s \<Rightarrow> Inr s)),
      sc_create = (\<lambda>ns s c. (Some s, None)), sc_update = (\<lambda>ns s c. (Some s, None))\<rparr>"

definition flaky_client :: "(bool \<times> Secret option) SecretClient" where
  "flaky_client =
     \<lparr>sc_get = (\<lambda>ns n c.
        if fst c then ((False, snd c), Inl (OtherError ''timeout''))
        else (c, case one_secret ns n (snd c) of None \<Rightarrow> Inl NotFound | Some s \<Rightarrow> Inr s)),
      sc_create = (\<lambda>ns s c. ((fst c, Some s), None)), sc_update = (\<lambda>ns s c. ((fst c, Some s), None))\<rparr>"

definition ex_ks :: K8sSecret where "ex_ks = \<lparr>secretNamespace = ''ns'', secretName = ''pw''\<rparr>"

definition ex_hash :: hasher where "ex_hash p salt = Inr (p @ salt)"

definition ex_salt :: rand_source where "ex_salt n = Some (replicate n (CHR ''s''))"

lemma one_client_ok: "secret_api_ok one_client one_secret" "reads_reliable one_client"
  by (auto simp: secret_api_ok_def reads_reliable_def one_client_def one_secret_def split: option.splits)

lemma flaky_client_ok: "secret_api_ok flaky_client (\<lambda>ns n c. one_secret ns n (snd c))"
  by (auto simp: secret_api_ok_def flaky_client_def one_secret_def split: option.splits if_splits)

text \<open>
  C24: with the Secret backend on an API server whose reads are reliable, a password change is
  durable: after \<open>Init\<close> and a successful \<open>Update\<close>, a restarted server that initialises from the
  same cluster accepts exactly the passwords whose hash under the stored salt is the hash of the
  new password.
\<close>

theorem password_update_durable:
  assumes "secret_api_ok client obj" and "reads_reliable client"
    and "Init (K8sSecret_Read client ks) (K8sSecret_Write client ks) hash rand (NewPasswordStore c) = (None, s0)"
    and "Update (K8sSecret_Write client ks) hash p s0 = (None, s1)"
    and "Init (K8sSecret_Read client ks) (K8sSecret_Write client ks) hash rand' (NewPasswordStore (rw s1)) = (None, s2)"
  shows "\<exists>salt h. hash p salt = Inr h \<and> (\<forall>q. Compare hash q s2 = None \<longleftrightarrow> hash q salt = Inr h)"
proof -
  note RW = K8sSecret_readwriter [OF assms(1,2), of ks]
  have sync: "readwriter.in_sync (K8sSecret_stored obj ks) s1"
    using readwriter.Update_in_sync [OF RW readwriter.Init_in_sync [OF RW assms(3)] assms(4)] .
  obtain salt where salt: "cachedSalt s0 = Some salt" "hash p salt = Inr (cachedHash s1)"
    using readwriter.Update_result(2) [OF RW assms(4)] by auto
  have "cachedSalt s1 = Some salt" using readwriter.Update_result(1) [OF RW assms(4)] salt by simp
  then have "Compare hash q s2 = None \<longleftrightarrow> hash q salt = Inr (cachedHash s1)" for q
    using readwriter.restart_same [OF RW sync assms(5)] by (simp add: Compare_None_iff)
  with salt show ?thesis by blast
qed

theorem password_update_durable_witness:
  "\<exists>s0 s1 s2 salt h.
     Update (K8sSecret_Write one_client ex_ks) ex_hash ''pw1'' s0 = (None, s1) \<and>
     Init (K8sSecret_Read one_client ex_ks) (K8sSecret_Write one_client ex_ks) ex_hash ex_salt
       (NewPasswordStore (rw s1)) = (None, s2) \<and>
     ex_hash ''pw1'' salt = Inr h \<and> (\<forall>q. Compare ex_hash q s2 = None \<longleftrightarrow> ex_hash q salt = Inr h)"
proof -
  let ?init = "Init (K8sSecret_Read one_client ex_ks) (K8sSecret_Write one_client ex_ks) ex_hash ex_salt"
  let ?s0 = "snd (?init (NewPasswordStore None))"
  let ?s1 = "snd (Update (K8sSecret_Write one_client ex_ks) ex_hash ''pw1'' ?s0)"
  let ?s2 = "snd (?init (NewPasswordStore (rw ?s1)))"
  note run = Init_def Update_def K8sSecret_Read_def K8sSecret_Write_def readSecret_def one_client_def
    one_secret_def NewPasswordStore_def Bytes_def ex_salt_def ex_hash_def ex_ks_def readData_secret_data
  have i: "?init (NewPasswordStore None) = (None, ?s0)" by (simp add: run)
  have u: "Update (K8sSecret_Write one_client ex_ks) ex_hash ''pw1'' ?s0 = (None, ?s1)"
    by (simp add: run Let_def)
  have r: "?init (NewPasswordStore (rw ?s1)) = (None, ?s2)" by (simp add: run Let_def)
  show ?thesis using password_update_durable [OF one_client_ok i u r] u r by blast
qed

text \<open>
  C23: a failed read of the Secret resets the admin password. When the first read of the
  Secret fails with any error but \<open>NotFound\<close> (a timeout, a permission error) and the calls
  after it succeed, \<open>Init\<close> reports success and the stored password becomes the default one,
  whatever password was stored before.
\<close>

theorem Init_resets_password_on_read_error:
  assumes api: "secret_api_ok client obj"
    and fail: "sc_get client (secretNamespace ks) (secretName ks) c = (c1, Inl (OtherError e))"
    and salt: "rand saltLength = Some salt" and h: "hash defaultPassword salt = Inr h"
    and ok: "K8sSecret_Write client ks h salt c1 = (c2, None)"
  shows "\<exists>s. Init (K8sSecret_Read client ks) (K8sSecret_Write client ks) hash rand (NewPasswordStore c) = (None, s) \<and>
    rw s = c2 \<and> K8sSecret_stored obj ks c2 = Some (h, salt) \<and> Compare hash defaultPassword s = None"
proof -
  have "K8sSecret_Read client ks c = (c1, Inr None)"
    using fail by (simp add: K8sSecret_Read_def readSecret_def)
  then have "Init (K8sSecret_Read client ks) (K8sSecret_Write client ks) hash rand (NewPasswordStore c) =
      (None, \<lparr>cachedSalt = Some salt, cachedHash = h, rw = c2\<rparr>)"
    using salt h ok by (simp add: Init_def NewPasswordStore_def Bytes_def)
  moreover have "K8sSecret_stored obj ks c2 = Some (h, salt)"
    using K8sSecret_Write_stored [OF api ok] by simp
  ultimately show ?thesis using h by (simp add: Compare_None_iff)
qed

theorem Init_resets_password_on_read_error_witness:
  "\<exists>c s. K8sSecret_stored (\<lambda>ns n c. one_secret ns n (snd c)) ex_ks c = Some (''secret'', ''salt'') \<and>
     Init (K8sSecret_Read flaky_client ex_ks) (K8sSecret_Write flaky_client ex_ks) ex_hash ex_salt
       (NewPasswordStore c) = (None, s) \<and> Compare ex_hash defaultPassword s = None"
proof -
  let ?obj = "\<lparr>objAPIVersion = ''v1'', objKind = ''Secret'', objNamespace = ''ns'', objName = ''pw'',
    objData = secret_data ''secret'' ''salt'', objRest = []\<rparr>"
  let ?c = "(True, Some ?obj)"
  let ?s = "replicate saltLength (CHR ''s'')"
  have st: "K8sSecret_stored (\<lambda>ns n c. one_secret ns n (snd c)) ex_ks ?c = Some (''secret'', ''salt'')"
    by (simp add: K8sSecret_stored_def one_secret_def ex_ks_def readData_secret_data)
  have "sc_get flaky_client (secretNamespace ex_ks) (secretName ex_ks) ?c =
      ((False, Some ?obj), Inl (OtherError ''timeout''))" by (simp add: flaky_client_def)
  moreover have "ex_salt saltLength = Some ?s" by (simp add: ex_salt_def)
  moreover have "ex_hash defaultPassword ?s = Inr (defaultPassword @ ?s)" by (simp add: ex_hash_def)
  moreover have "K8sSecret_Write flaky_client ex_ks (defaultPassword @ ?s) ?s (False, Some ?obj) =
      ((False, Some (?obj\<lparr>objData := secret_data (defaultPassword @ ?s) ?s\<rparr>)), None)"
    by (simp add: K8sSecret_Write_def readSecret_def flaky_client_def one_secret_def ex_ks_def)
  ultimately show ?thesis
    using Init_resets_password_on_read_error [OF flaky_client_ok] st by blast
qed

text \<open>
  The in-memory backend keeps the contract with no conditions: \<open>Init\<close> never replaces a
  password that is stored, it makes the default password the accepted one when none is, and a
  failed \<open>Update\<close> changes neither the accepted nor the stored password.
\<close>

lemma in_memory_password:
  assumes "Init InMemory_Read InMemory_Write hash rand (NewPasswordStore w) = (None, s)"
    and "Update InMemory_Write hash p s = (err, s')"
  shows "(case InMemory_stored w of
      Some (h, salt) \<Rightarrow> InMemory_stored (rw s) = Some (h, salt) \<and> cachedSalt s = Some salt \<and> cachedHash s = h
    | None \<Rightarrow> Compare hash defaultPassword s = None) \<and>
    (if err = None then Compare hash p s' = None
     else cachedHash s' = cachedHash s \<and> cachedSalt s' = cachedSalt s \<and> InMemory_stored (rw s') = InMemory_stored (rw s))"
proof -
  have rws: "rw (NewPasswordStore w) = w" by (simp add: NewPasswordStore_def)
  have "case InMemory_stored w of
      Some (h, salt) \<Rightarrow> InMemory_stored (rw s) = Some (h, salt) \<and> cachedSalt s = Some salt \<and> cachedHash s = h
    | None \<Rightarrow> Compare hash defaultPassword s = None"
    using in_memory.Init_existing [OF _ assms(1)] in_memory.Init_first [OF _ assms(1)]
    by (auto simp: rws Compare_None_iff split: option.split)
  moreover have "if err = None then Compare hash p s' = None
     else cachedHash s' = cachedHash s \<and> cachedSalt s' = cachedSalt s \<and> InMemory_stored (rw s') = InMemory_stored (rw s)"
    using assms(2)
    by (auto simp: Update_def Compare_None_iff InMemory_Write_def split: option.splits sum.splits)
  ultimately show ?thesis by blast
qed

lemma in_memory_password_example:
  "Compare ex_hash defaultPassword
     (snd (Init InMemory_Read InMemory_Write ex_hash ex_salt (NewPasswordStore NewInMemory))) = None"
proof -
  let ?s = "snd (Init InMemory_Read InMemory_Write ex_hash ex_salt (NewPasswordStore NewInMemory))"
  have "Init InMemory_Read InMemory_Write ex_hash ex_salt (NewPasswordStore NewInMemory) = (None, ?s)"
    by (simp add: Init_def InMemory_Read_def InMemory_Write_def NewPasswordStore_def NewInMemory_def
        Bytes_def ex_salt_def ex_hash_def)
  moreover have "InMemory_stored NewInMemory = None" by (simp add: InMemory_stored_def NewInMemory_def)
  ultimately show ?thesis
    using in_memory_password [OF _ surjective_pairing, of ex_hash ex_salt NewInMemory ?s] by force
qed

end
