(* ===== verification/Http.thy ===== *)
theory Http
  imports Session
begin

text \<open>
  Requests and responses as the handlers see them, \<open>pkg/server/errors\<close> and
  \<open>pkg/server/utils/cookie\<close>. A request is what \<open>net/http\<close> parsed: method, path, query, host,
  header fields under their canonical names and cookies. A response collects what a handler
  wrote: the status and body of \<open>c.JSON\<close>, header fields, cookies, a redirect, and whether the
  chain was aborted.
\<close>

section \<open>Requests and responses\<close>

record Request =
  reqMethod :: string
  reqPath :: string
  reqQuery :: "(string \<times> string) list"
  reqHost :: string
  reqRemoteAddr :: string
  reqHeader :: "(string \<times> string) list"
  reqCookies :: "(string \<times> string) list"
  reqBody :: string

datatype SameSite = SameSiteDefaultMode | SameSiteLaxMode | SameSiteStrictMode | SameSiteUnset

record Cookie =
  ckName :: string
  ckValue :: string
  ckPath :: string
  ckMaxAge :: int
  ckSecure :: bool
  ckHttpOnly :: bool
  ckSameSite :: SameSite

datatype body = BodyNone | BodyString string | BodyBytes string

record Response =
  respStatus :: int
  respBody :: body
  respHeader :: "(string \<times> string) list"
  respCookies :: "Cookie list"
  respErrors :: "string list"
  respAborted :: bool

definition newResponse :: Response where
  "newResponse = \<lparr>respStatus = 200, respBody = BodyNone, respHeader = [], respCookies = [],
     respErrors = [], respAborted = False\<rparr>"

definition GetHeader :: "Request \<Rightarrow> string \<Rightarrow> string" where
  "GetHeader req name = (case map_of (reqHeader req) name of None \<Rightarrow> [] | Some v \<Rightarrow> v)"

definition Query :: "Request \<Rightarrow> string \<Rightarrow> string" where
  "Query req name = (case map_of (reqQuery req) name of None \<Rightarrow> [] | Some v \<Rightarrow> v)"

definition SetCookie :: "Cookie \<Rightarrow> Response \<Rightarrow> Response" where
  "SetCookie ck w = w\<lparr>respCookies := respCookies w @ [ck]\<rparr>"

definition JSON :: "int \<Rightarrow> body \<Rightarrow> Response \<Rightarrow> Response" where
  "JSON code b w = w\<lparr>respStatus := code, respBody := b\<rparr>"

definition Abort :: "Response \<Rightarrow> Response" where
  "Abort w = w\<lparr>respAborted := True\<rparr>"

definition Header :: "string \<Rightarrow> string \<Rightarrow> Response \<Rightarrow> Response" where
  "Header k v w = w\<lparr>respHeader := AList.update k v (respHeader w)\<rparr>"

abbreviation StatusOK :: int where "StatusOK \<equiv> 200"
abbreviation StatusAccepted :: int where "StatusAccepted \<equiv> 202"
abbreviation StatusFound :: int where "StatusFound \<equiv> 302"
abbreviation StatusSeeOther :: int where "StatusSeeOther \<equiv> 303"
abbreviation StatusBadRequest :: int where "StatusBadRequest \<equiv> 400"
abbreviation StatusUnauthorized :: int where "StatusUnauthorized \<equiv> 401"
abbreviation StatusForbidden :: int where "StatusForbidden \<equiv> 403"
abbreviation StatusNotFound :: int where "StatusNotFound \<equiv> 404"
abbreviation StatusRequestEntityTooLarge :: int where "StatusRequestEntityTooLarge \<equiv> 413"
abbreviation StatusTooManyRequests :: int where "StatusTooManyRequests \<equiv> 429"
abbreviation StatusInternalServerError :: int where "StatusInternalServerError \<equiv> 500"
abbreviation StatusNotImplemented :: int where "StatusNotImplemented \<equiv> 501"
abbreviation StatusBadGateway :: int where "StatusBadGateway \<equiv> 502"
abbreviation StatusServiceUnavailable :: int where "StatusServiceUnavailable \<equiv> 503"

section \<open>Server errors\<close>

record ServerError =
  seCode :: int
  seErr :: "string option"
  seMessage :: string

definition HandleError :: "ServerError \<Rightarrow> Response \<Rightarrow> Response" where
  "HandleError e w =
     (let w = (case seErr e of None \<Rightarrow> w | Some err \<Rightarrow> w\<lparr>respErrors := respErrors w @ [err]\<rparr>)
      in if seCode e = StatusInternalServerError
         then JSON (seCode e) (BodyString ''Internal Server Error'') w
         else JSON (seCode e) (BodyString (seMessage e)) w)"

text \<open>What \<open>LogError\<close> logs, if anything.\<close>

definition LogError :: "ServerError option \<Rightarrow> string option" where
  "LogError e = (case e of None \<Rightarrow> None | Some e \<Rightarrow> seErr e)"

lemma HandleError_status [simp]: "respStatus (HandleError e w) = seCode e"
  by (simp add: HandleError_def JSON_def Let_def)

text \<open>The message of an internal error never reaches the client.\<close>

lemma HandleError_internal:
  "seCode e = StatusInternalServerError \<Longrightarrow> respBody (HandleError e w) = BodyString ''Internal Server Error''"
  by (simp add: HandleError_def JSON_def Let_def)

lemma HandleError_cookies [simp]:
  "respCookies (HandleError e w) = respCookies w" "respHeader (HandleError e w) = respHeader w"
  by (simp_all add: HandleError_def JSON_def Let_def split: option.split)

section \<open>Cookies\<close>

definition SessionCookieName :: string where "SessionCookieName = ''antrea-ui-session''"
definition sessionCookiePath :: string where "sessionCookiePath = ''/''"
definition refreshTokenCookieName :: string where "refreshTokenCookieName = ''antrea-ui-refresh-token''"
definition refreshTokenCookiePath :: string where "refreshTokenCookiePath = ''/auth''"
definition legacyOIDCIDTokenCookieName :: string where
  "legacyOIDCIDTokenCookieName = ''antrea-ui-oidc-id-token''"

definition SetSessionCookie :: "string \<Rightarrow> bool \<Rightarrow> SameSite \<Rightarrow> Response \<Rightarrow> Response" where
  "SetSessionCookie sessionID cookieSecure sameSite w =
     SetCookie \<lparr>ckName = SessionCookieName, ckValue = sessionID, ckPath = sessionCookiePath,
       ckMaxAge = 0, ckSecure = cookieSecure, ckHttpOnly = True, ckSameSite = sameSite\<rparr> w"

definition GetSessionCookie :: "Request \<Rightarrow> string option" where
  "GetSessionCookie req =
     (case map_of (reqCookies req) SessionCookieName of
        None \<Rightarrow> None
      | Some v \<Rightarrow> if v = [] then None else Some v)"

definition expired_cookie :: "string \<Rightarrow> string \<Rightarrow> Cookie" where
  "expired_cookie name path =
     \<lparr>ckName = name, ckValue = [], ckPath = path, ckMaxAge = -1, ckSecure = False,
      ckHttpOnly = False, ckSameSite = SameSiteUnset\<rparr>"

definition UnsetSessionCookie :: "Response \<Rightarrow> Response" where
  "UnsetSessionCookie w = SetCookie (expired_cookie SessionCookieName sessionCookiePath) w"

definition UnsetLegacyCookies :: "Request \<Rightarrow> Response \<Rightarrow> Response" where
  "UnsetLegacyCookies req w =
     (let w = (case map_of (reqCookies req) refreshTokenCookieName of
                 None \<Rightarrow> w
               | Some _ \<Rightarrow> SetCookie (expired_cookie refreshTokenCookieName refreshTokenCookiePath) w)
      in fold (\<lambda>(name, v) w.
           if HasPrefix name legacyOIDCIDTokenCookieName
           then SetCookie (expired_cookie name refreshTokenCookiePath) w else w) (reqCookies req) w)"

text \<open>Clearing cookies writes nothing but expired cookies.\<close>

lemma legacy_fold:
  "fold (\<lambda>(name, v) w. if HasPrefix name legacyOIDCIDTokenCookieName
      then SetCookie (expired_cookie name refreshTokenCookiePath) w else w) cs w =
   w\<lparr>respCookies := respCookies w @
      map (\<lambda>(name, v). expired_cookie name refreshTokenCookiePath)
        (filter (\<lambda>(name, v). HasPrefix name legacyOIDCIDTokenCookieName) cs)\<rparr>"
  by (induction cs arbitrary: w) (auto simp: SetCookie_def)

lemma UnsetLegacyCookies_cookies:
  "respCookies (UnsetLegacyCookies req w) = respCookies w @
     (if map_of (reqCookies req) refreshTokenCookieName = None then []
      else [expired_cookie refreshTokenCookieName refreshTokenCookiePath]) @
     map (\<lambda>(name, v). expired_cookie name refreshTokenCookiePath)
       (filter (\<lambda>(name, v). HasPrefix name legacyOIDCIDTokenCookieName) (reqCookies req))"
  by (auto simp: UnsetLegacyCookies_def legacy_fold SetCookie_def split: option.split)

lemma UnsetLegacyCookies_frame:
  "UnsetLegacyCookies req w = w\<lparr>respCookies := respCookies (UnsetLegacyCookies req w)\<rparr>"
  by (auto simp: UnsetLegacyCookies_def legacy_fold SetCookie_def split: option.split)

end
