(* ===== verification/Rate_Limit.thy ===== *)
theory Rate_Limit
  imports Http
begin

text \<open>
  \<open>pkg/server/ratelimit\<close>: parsing of rates, the key that identifies a client, the global and
  per-client limiters and the middleware. The token bucket (\<open>golang.org/x/time/rate\<close>) and the
  LRU cache (\<open>golang-lru\<close>) are parameters; so are the three operations on addresses of package
  \<open>net\<close> (\<open>ParseIP\<close>, \<open>IsPrivate\<close>, \<open>String\<close>), collected in the record \<open>netip\<close>.
\<close>

section \<open>Rates\<close>

text \<open>A rate of \<open>r\<close> events in \<open>d\<close> seconds; the code divides the two as floating-point numbers.\<close>

type_synonym rate = "nat \<times> nat"

definition is_digit :: "char \<Rightarrow> bool" where
  "is_digit c \<longleftrightarrow> c \<in> set ''0123456789''"

definition digit_val :: "char \<Rightarrow> nat" where
  "digit_val c = of_char c - 48"

definition decimal :: "string \<Rightarrow> nat" where
  "decimal s = foldl (\<lambda>n c. n * 10 + digit_val c) 0 s"

text \<open>The first group of the expression: \<open>0|[1-9]+[0-9]*\<close>.\<close>

definition rate_number :: "string \<Rightarrow> bool" where
  "rate_number s \<longleftrightarrow> s = ''0'' \<or> s \<noteq> [] \<and> list_all is_digit s \<and> hd s \<noteq> CHR ''0''"

definition rate_unit :: "string \<Rightarrow> nat option" where
  "rate_unit u =
     (if u = ''s'' then Some 1 else if u = ''m'' then Some 60 else if u = ''h'' then Some 3600 else None)"

datatype rate_error = NotARate | RateOverflow | NegativeBurst | CacheSize

definition rateFromStr :: "string \<Rightarrow> rate_error + rate" where
  "rateFromStr s =
     (case Cut s (CHR ''/'') of
        (n, u, found) \<Rightarrow>
          if \<not> found \<or> \<not> rate_number n then Inl NotARate
          else
            (case rate_unit u of
               None \<Rightarrow> Inl NotARate
             | Some d \<Rightarrow> if decimal n < 2 ^ 64 then Inr (decimal n, d) else Inl RateOverflow))"

record rl_config =
  ratePerSecond :: rate
  burstSize :: int

definition newConfig :: "string \<Rightarrow> int \<Rightarrow> rate_error + rl_config" where
  "newConfig rateStr burst =
     (case rateFromStr rateStr of
        Inl e \<Rightarrow> Inl e
      | Inr r \<Rightarrow> if burst < 0 then Inl NegativeBurst else Inr \<lparr>ratePerSecond = r, burstSize = burst\<rparr>)"

section \<open>Client keys\<close>

record 'ip netip =
  ParseIP :: "string \<Rightarrow> 'ip option"
  IsPrivate :: "'ip \<Rightarrow> bool"
  IPString :: "'ip \<Rightarrow> string"

definition header_values :: "Request \<Rightarrow> string \<Rightarrow> string list" where
  "header_values req name = map snd (filter (\<lambda>(k, v). k = name) (reqHeader req))"

definition last_colon :: "string \<Rightarrow> (string \<times> string) option" where
  "last_colon s = (case Cut (rev s) (CHR '':'') of (p, h, found) \<Rightarrow> if found then Some (rev h, rev p) else None)"

definition SplitHostPort :: "string \<Rightarrow> (string \<times> string) option" where
  "SplitHostPort hostport =
     (case last_colon hostport of
        None \<Rightarrow> None
      | Some (before, port) \<Rightarrow>
          if HasPrefix hostport ''['' then
            (case Cut hostport (CHR '']'') of
               (h, rest, found) \<Rightarrow>
                 if \<not> found \<or> rest \<noteq> CHR '':'' # port then None
                 else if CHR ''['' \<in> set (tl hostport) \<or> CHR '']'' \<in> set rest then None
                 else Some (tl h, port))
          else if CHR '':'' \<in> set before \<or> CHR ''['' \<in> set hostport \<or> CHR '']'' \<in> set hostport then None
          else Some (before, port))"

definition getIPFromXFFHeader :: "'ip netip \<Rightarrow> Request \<Rightarrow> 'ip option" where
  "getIPFromXFFHeader net req =
     (let parts = concat (map (\<lambda>v. Split v (CHR '','')) (header_values req ''X-Forwarded-For''));
          public = (\<lambda>p. case ParseIP net (TrimSpace p) of None \<Rightarrow> None
                        | Some ip \<Rightarrow> if IsPrivate net ip then None else Some ip)
      in case List.map_filter public (rev parts) of [] \<Rightarrow> None | ip # _ \<Rightarrow> Some ip)"

definition getIPFromHeader :: "'ip netip \<Rightarrow> Request \<Rightarrow> string \<Rightarrow> 'ip option" where
  "getIPFromHeader net req name =
     (let value = TrimSpace (GetHeader req name) in if value = [] then None else ParseIP net value)"

definition ClientKeyIP :: "'ip netip \<Rightarrow> Request \<Rightarrow> string" where
  "ClientKeyIP net req =
     (case getIPFromXFFHeader net req of
        Some ip \<Rightarrow> IPString net ip
      | None \<Rightarrow>
          (case getIPFromHeader net req ''X-Real-Ip'' of
             Some ip \<Rightarrow> IPString net ip
           | None \<Rightarrow>
               let remoteAddr = TrimSpace (reqRemoteAddr req)
               in case SplitHostPort remoteAddr of None \<Rightarrow> remoteAddr | Some (host, _) \<Rightarrow> host))"

section \<open>Limiters\<close>

text \<open>The token bucket: a new one for a rate and burst, and whether an event at a time is allowed.\<close>

record 'l bucket =
  NewLimiter :: "rate \<Rightarrow> int \<Rightarrow> 'l"
  AllowN :: "'l \<Rightarrow> Time \<Rightarrow> bool \<times> 'l"

record 'l GlobalRateLimiter =
  grl :: 'l

definition NewGlobalRateLimiter :: "'l bucket \<Rightarrow> string \<Rightarrow> int \<Rightarrow> rate_error + 'l GlobalRateLimiter" where
  "NewGlobalRateLimiter b rateStr burst =
     (case newConfig rateStr burst of
        Inl e \<Rightarrow> Inl e
      | Inr c \<Rightarrow> Inr \<lparr>grl = NewLimiter b (ratePerSecond c) (burstSize c)\<rparr>)"

definition GlobalRateLimiter_Allow ::
  "'l bucket \<Rightarrow> Time \<Rightarrow> Request \<Rightarrow> 'l GlobalRateLimiter \<Rightarrow> bool \<times> 'l GlobalRateLimiter" where
  "GlobalRateLimiter_Allow b t req l = (case AllowN b (grl l) t of (ok, rl) \<Rightarrow> (ok, \<lparr>grl = rl\<rparr>))"

text \<open>The two constructors that panic where the plain ones return an error.\<close>

datatype 'a or_die = Panics rate_error | Returns 'a

definition OrDie :: "rate_error + 'a \<Rightarrow> 'a or_die" where
  "OrDie r = (case r of Inl err \<Rightarrow> Panics err | Inr l \<Rightarrow> Returns l)"

definition NewGlobalRateLimiterOrDie :: "'l bucket \<Rightarrow> string \<Rightarrow> int \<Rightarrow> 'l GlobalRateLimiter or_die" where
  "NewGlobalRateLimiterOrDie b rate burst = OrDie (NewGlobalRateLimiter b rate burst)"

text \<open>The LRU cache: get, and add unless present. Its values are pointers to limiters.\<close>

record ('v, 'c) lru =
  lru_new :: "int \<Rightarrow> 'c option"
  lru_Get :: "string \<Rightarrow> 'c \<Rightarrow> 'v option \<times> 'c"
  lru_PeekOrAdd :: "string \<Rightarrow> 'v \<Rightarrow> 'c \<Rightarrow> 'v option \<times> 'c"
  lru_Add :: "string \<Rightarrow> 'v \<Rightarrow> 'c \<Rightarrow> 'c"

record ('l, 'c) ClientRateLimiter =
  crlConfig :: rl_config
  crlCache :: 'c
  crlLimiters :: "'l list"

definition NewClientRateLimiter ::
  "(nat, 'c) lru \<Rightarrow> string \<Rightarrow> int \<Rightarrow> int \<Rightarrow> rate_error + ('l, 'c) ClientRateLimiter" where
  "NewClientRateLimiter L rateStr burst maxSize =
     (case newConfig rateStr burst of
        Inl e \<Rightarrow> Inl e
      | Inr c \<Rightarrow>
          (case lru_new L maxSize of
             None \<Rightarrow> Inl CacheSize
           | Some cache \<Rightarrow> Inr \<lparr>crlConfig = c, crlCache = cache, crlLimiters = []\<rparr>))"

definition NewClientRateLimiterOrDie ::
  "(nat, 'c) lru \<Rightarrow> string \<Rightarrow> int \<Rightarrow> int \<Rightarrow> ('l, 'c) ClientRateLimiter or_die" where
  "NewClientRateLimiterOrDie L rate burst maxSize = OrDie (NewClientRateLimiter L rate burst maxSize)"

definition ClientRateLimiter_Allow ::
  "'l bucket \<Rightarrow> (nat, 'c) lru \<Rightarrow> (Request \<Rightarrow> string) \<Rightarrow> Time \<Rightarrow> Request \<Rightarrow>
   ('l, 'c) ClientRateLimiter \<Rightarrow> bool \<times> ('l, 'c) ClientRateLimiter" where
  "ClientRateLimiter_Allow b L keyFn t req l =
     (let key = keyFn req;
          (found, cache) = lru_Get L key (crlCache l);
          (p, l) = (case found of
             Some p \<Rightarrow> (p, l\<lparr>crlCache := cache\<rparr>)
           | None \<Rightarrow>
               let rl = NewLimiter b (ratePerSecond (crlConfig l)) (burstSize (crlConfig l));
                   p = length (crlLimiters l);
                   (previous, cache) = lru_PeekOrAdd L key p cache;
                   l = l\<lparr>crlCache := cache, crlLimiters := crlLimiters l @ [rl]\<rparr>
               in (case previous of Some q \<Rightarrow> (q, l) | None \<Rightarrow> (p, l)));
          (ok, rl) = AllowN b (crlLimiters l ! p) t
      in (ok, l\<lparr>crlLimiters := (crlLimiters l)[p := rl]\<rparr>))"

text \<open>The middleware: \<open>allow\<close> is the limiter's answer.\<close>

definition MiddlewareWithClock :: "(Time \<Rightarrow> Request \<Rightarrow> 'l \<Rightarrow> bool \<times> 'l) \<Rightarrow> Time \<Rightarrow> Request \<Rightarrow> 'l \<Rightarrow> Response \<Rightarrow> Response \<times> 'l" where
  "MiddlewareWithClock allow now req l w =
     (case allow now req l of
        (True, l) \<Rightarrow> (w, l)
      | (False, l) \<Rightarrow> (Abort (w\<lparr>respStatus := StatusTooManyRequests\<rparr>), l))"

section \<open>Decimal numbers\<close>

lemma digit_val_char: "(n :: nat) < 10 \<Longrightarrow> digit_val (char_of (48 + n)) = n"
  by (simp add: digit_val_def)

lemma is_digit_char: "(n :: nat) < 10 \<Longrightarrow> is_digit (char_of (48 + n))"
proof -
  assume "n < 10"
  then have "n = 0 \<or> n = 1 \<or> n = 2 \<or> n = 3 \<or> n = 4 \<or> n = 5 \<or> n = 6 \<or> n = 7 \<or> n = 8 \<or> n = 9" by arith
  then show ?thesis by (elim disjE) (simp_all add: is_digit_def char_of_eq_iff)
qed

lemmas digit_char = is_digit_char digit_val_char

lemma char_digit: "is_digit c \<Longrightarrow> digit_val c < 10 \<and> char_of (48 + digit_val c) = c"
  by (auto simp: is_digit_def digit_val_def char_of_eq_iff)

lemma decimal_snoc: "decimal (s @ [c]) = decimal s * 10 + digit_val c"
  by (simp add: decimal_def)

lemma dec_nat_digits: "list_all is_digit (dec_nat n) \<and> dec_nat n \<noteq> []"
proof (induction n rule: dec_nat.induct)
  case (1 n)
  then show ?case by (cases "n < 10") (simp_all add: dec_nat.simps [of n] digit_char)
qed

lemma decimal_dec_nat: "decimal (dec_nat n) = n"
proof (induction n rule: dec_nat.induct)
  case (1 n)
  show ?case
  proof (cases "n < 10")
    case True
    then show ?thesis by (simp add: dec_nat.simps [of n] decimal_def digit_char)
  next
    case False
    then show ?thesis using 1 by (simp add: dec_nat.simps [of n] decimal_snoc digit_char)
  qed
qed

lemma dec_nat_leading: "n \<noteq> 0 \<Longrightarrow> hd (dec_nat n) \<noteq> CHR ''0''"
proof (induction n rule: dec_nat.induct)
  case (1 n)
  show ?case
  proof (cases "n < 10")
    case True
    then have "digit_val (hd (dec_nat n)) = n" by (simp add: dec_nat.simps [of n] digit_char)
    with 1(2) show ?thesis by (auto simp: digit_val_def)
  next
    case False
    then have "hd (dec_nat n) = hd (dec_nat (n div 10))"
      using dec_nat_digits [of "n div 10"] by (simp add: dec_nat.simps [of n])
    with 1 False show ?thesis by (simp add: div_eq_0_iff)
  qed
qed

lemma rate_number_dec_nat: "rate_number (dec_nat n)"
proof (cases "n = 0")
  case True
  have "dec_nat 0 = ''0''" by (simp add: dec_nat.simps char_of_eq_iff)
  with True show ?thesis by (simp add: rate_number_def)
next
  case False
  then show ?thesis using dec_nat_digits dec_nat_leading by (simp add: rate_number_def)
qed

lemma decimal_pos: "s \<noteq> [] \<Longrightarrow> list_all is_digit s \<Longrightarrow> hd s \<noteq> CHR ''0'' \<Longrightarrow> 0 < decimal s"
proof (induction s rule: rev_induct)
  case (snoc c s)
  show ?case
  proof (cases "s = []")
    case True
    with snoc show ?thesis by (auto simp: decimal_def digit_val_def is_digit_def)
  next
    case False
    with snoc show ?thesis by (simp add: decimal_snoc)
  qed
qed simp

lemma dec_nat_decimal: "rate_number s \<Longrightarrow> dec_nat (decimal s) = s"
proof (induction s rule: rev_induct)
  case (snoc c s)
  show ?case
  proof (cases "s = []")
    case True
    with snoc have "is_digit c" by (auto simp: rate_number_def is_digit_def)
    with True show ?thesis using char_digit [of c] by (simp add: decimal_def dec_nat.simps [of "digit_val c"])
  next
    case False
    with snoc.prems have s: "list_all is_digit s" "hd s \<noteq> CHR ''0''" "is_digit c"
      by (auto simp: rate_number_def)
    then have num: "rate_number s" using False by (simp add: rate_number_def)
    have "0 < decimal s" using False s by (intro decimal_pos)
    moreover have "digit_val c < 10" "char_of (48 + digit_val c) = c" using char_digit [OF s(3)] by simp_all
    ultimately show ?thesis using snoc.IH [OF num] by (simp add: decimal_snoc dec_nat.simps [of "decimal s * 10 + digit_val c"])
  qed
qed (simp add: rate_number_def)

lemma rate_number_no_slash: "rate_number s \<Longrightarrow> CHR ''/'' \<notin> set s"
  by (auto simp: rate_number_def list_all_iff is_digit_def)

section \<open>Properties\<close>

text \<open>
  A rate string is accepted exactly when it is the decimal form of a 64-bit number, a
  slash and one of the units \<open>s\<close>, \<open>m\<close> and \<open>h\<close>, and it then means that many events per 1, 60 or
  3600 seconds. Parsing inverts printing.
\<close>

lemma rateFromStr_iff:
  "rateFromStr s = Inr (n, d) \<longleftrightarrow>
     n < 2 ^ 64 \<and> (\<exists>u. rate_unit u = Some d \<and> s = dec_nat n @ CHR ''/'' # u)"
proof
  assume l: "rateFromStr s = Inr (n, d)"
  then obtain m u where c: "Cut s (CHR ''/'') = (m, u, True)" and m: "rate_number m"
    and u: "rate_unit u = Some d" and n: "n = decimal m" "n < 2 ^ 64"
    by (auto simp: rateFromStr_def split: prod.splits if_splits option.splits)
  then show "n < 2 ^ 64 \<and> (\<exists>u. rate_unit u = Some d \<and> s = dec_nat n @ CHR ''/'' # u)"
    using Cut_found [OF c] dec_nat_decimal [OF m] by auto
next
  assume r: "n < 2 ^ 64 \<and> (\<exists>u. rate_unit u = Some d \<and> s = dec_nat n @ CHR ''/'' # u)"
  then obtain u where "rate_unit u = Some d" and "s = dec_nat n @ CHR ''/'' # u" by blast
  with r show "rateFromStr s = Inr (n, d)"
    by (simp add: rateFromStr_def rate_number_no_slash [OF rate_number_dec_nat]
        rate_number_dec_nat decimal_dec_nat)
qed

text \<open>
  The rates the server builds from its configuration are in that form: an \<open>OrDie\<close> constructor called
  with one and a burst that is not negative returns.
\<close>

lemma newConfig_printed:
  assumes "0 \<le> n" and "n < 2 ^ 64" and "rate_unit u = Some d" and "0 \<le> burst"
  shows "newConfig (dec_int n @ CHR ''/'' # u) burst = Inr \<lparr>ratePerSecond = (nat n, d), burstSize = burst\<rparr>"
proof -
  have "rateFromStr (dec_int n @ CHR ''/'' # u) = Inr (nat n, d)"
    using assms unfolding rateFromStr_iff by (auto simp: dec_int_def)
  then show ?thesis using assms(4) by (simp add: newConfig_def)
qed

lemma Split_append: "Split (s @ c # t) c = Split s c @ Split t c"
proof (induction s)
  case (Cons x s)
  then show ?case
    using Split_nonempty [of s c] by (cases "Split s c") auto
qed simp


definition ex_req :: Request where
  "ex_req = \<lparr>reqMethod = ''GET'', reqPath = ''/'', reqQuery = [], reqHost = ''ui'', reqRemoteAddr = ''10.0.0.1:80'',
     reqHeader = [(''X-Forwarded-For'', ''1.1.1.1,9.9.9.9'')], reqCookies = [], reqBody = []\<rparr>"


text \<open>What the LRU cache promises, over the map it represents: entries disappear by eviction
  only and nothing is returned that was not added under that key.\<close>

definition lru_ok :: "('v, 'c) lru \<Rightarrow> ('c \<Rightarrow> string \<Rightarrow> 'v option) \<Rightarrow> bool" where
  "lru_ok L ent \<longleftrightarrow>
     (\<forall>n c. lru_new L n = Some c \<longrightarrow> (\<forall>k. ent c k = None)) \<and>
     (\<forall>k c v c'. lru_Get L k c = (v, c') \<longrightarrow> v = ent c k \<and> ent c' = ent c) \<and>
     (\<forall>k v c p c'. lru_PeekOrAdd L k v c = (p, c') \<longrightarrow> p = ent c k \<and>
        ent c' k = (case p of None \<Rightarrow> Some v | Some q \<Rightarrow> Some q) \<and>
        (\<forall>k'. k' \<noteq> k \<longrightarrow> ent c' k' = None \<or> ent c' k' = ent c k')) \<and>
     (\<forall>k v c. ent (lru_Add L k v c) k = Some v \<and>
        (\<forall>k'. k' \<noteq> k \<longrightarrow> ent (lru_Add L k v c) k' = None \<or> ent (lru_Add L k v c) k' = ent c k'))"

text \<open>The limiters of different clients are different.\<close>

definition crl_ok :: "('c \<Rightarrow> string \<Rightarrow> nat option) \<Rightarrow> ('l, 'c) ClientRateLimiter \<Rightarrow> bool" where
  "crl_ok ent l \<longleftrightarrow>
     (\<forall>k p. ent (crlCache l) k = Some p \<longrightarrow> p < length (crlLimiters l)) \<and>
     (\<forall>k k' p. ent (crlCache l) k = Some p \<longrightarrow> ent (crlCache l) k' = Some p \<longrightarrow> k = k')"

definition limiter_of :: "('c \<Rightarrow> string \<Rightarrow> nat option) \<Rightarrow> ('l, 'c) ClientRateLimiter \<Rightarrow> string \<Rightarrow> 'l option" where
  "limiter_of ent l k = map_option (\<lambda>p. crlLimiters l ! p) (ent (crlCache l) k)"

lemma NewClientRateLimiter_ok:
  assumes "lru_ok L ent" and "NewClientRateLimiter L rateStr burst n = Inr l"
  shows "crl_ok ent l"
  using assms by (auto simp: NewClientRateLimiter_def lru_ok_def crl_ok_def split: sum.splits if_splits option.splits)

text \<open>A limiter appended under a new key leaves the others where they were.\<close>

lemma crl_appended:
  assumes ok: "crl_ok ent l" and key: "ent c key = Some (length (crlLimiters l))"
    and others: "\<And>k. k \<noteq> key \<Longrightarrow> ent c k = None \<or> ent c k = ent (crlCache l) k"
    and l': "l' = l\<lparr>crlCache := c, crlLimiters := crlLimiters l @ [x]\<rparr>"
  shows "crl_ok ent l'" "limiter_of ent l' key = Some x"
    "\<And>k. k \<noteq> key \<Longrightarrow> limiter_of ent l' k = None \<or> limiter_of ent l' k = limiter_of ent l k"
proof -
  let ?p = "length (crlLimiters l)"
  have old: "ent c k = Some p \<Longrightarrow> k \<noteq> key \<Longrightarrow> ent (crlCache l) k = Some p \<and> p < ?p" for k p
    using ok others [of k] by (auto simp: crl_ok_def)
  have "k = k'" if "ent c k = Some p" "ent c k' = Some p" for k k' p
  proof (cases "k = key \<or> k' = key")
    case True
    then show ?thesis using that key old [of k p] old [of k' p] by (metis less_irrefl option.inject)
  next
    case False
    then show ?thesis using that ok old [of k p] old [of k' p] unfolding crl_ok_def by blast
  qed
  moreover have "p < Suc ?p" if "ent c k = Some p" for k p
    using that key old [of k p] by (cases "k = key") auto
  ultimately show "crl_ok ent l'" by (simp add: crl_ok_def l')
  show "limiter_of ent l' k = None \<or> limiter_of ent l' k = limiter_of ent l k" if "k \<noteq> key" for k
    using old [of k] that by (cases "ent c k") (auto simp: limiter_of_def l' nth_append)
  show "limiter_of ent l' key = Some x" using key by (simp add: limiter_of_def l')
qed

text \<open>
  Clients are limited independently. A request is decided by the bucket of its own key
  (a new one with the configured rate and burst when the key has none), exactly that bucket
  is charged, and the bucket of every other key is unchanged unless the cache evicted it.
\<close>

lemma client_limiter_isolated:
  assumes lru: "lru_ok L ent" and ok: "crl_ok ent l"
    and allow: "ClientRateLimiter_Allow b L keyFn t req l = (res, l')"
  shows "crl_ok ent l' \<and>
    (let own = (case limiter_of ent l (keyFn req) of Some x \<Rightarrow> x
         | None \<Rightarrow> NewLimiter b (ratePerSecond (crlConfig l)) (burstSize (crlConfig l)))
     in res = fst (AllowN b own t) \<and> limiter_of ent l' (keyFn req) = Some (snd (AllowN b own t))) \<and>
    (\<forall>k. k \<noteq> keyFn req \<longrightarrow> limiter_of ent l' k = None \<or> limiter_of ent l' k = limiter_of ent l k)"
proof -
  let ?key = "keyFn req"
  obtain v c1 where g: "lru_Get L ?key (crlCache l) = (v, c1)" by fastforce
  then have g': "v = ent (crlCache l) ?key" "ent c1 = ent (crlCache l)" using lru by (auto simp: lru_ok_def)
  show ?thesis
  proof (cases v)
    case (Some p)
    obtain o' x where a: "AllowN b (crlLimiters l ! p) t = (o', x)" by fastforce
    have l': "res = o'" "l' = l\<lparr>crlCache := c1, crlLimiters := (crlLimiters l)[p := x]\<rparr>"
      using allow g Some a by (auto simp: ClientRateLimiter_Allow_def)
    have p: "p < length (crlLimiters l)" "\<And>k. ent (crlCache l) k = Some p \<Longrightarrow> k = ?key"
      using ok g' Some unfolding crl_ok_def by metis+
    have "crl_ok ent l'" using ok g'(2) by (simp add: crl_ok_def l')
    moreover have "limiter_of ent l' k = limiter_of ent l k" if "k \<noteq> ?key" for k
      using p(2) [of k] that g'(2)
      by (cases "ent (crlCache l) k") (auto simp: limiter_of_def l' intro!: nth_list_update_neq)
    moreover have "limiter_of ent l ?key = Some (crlLimiters l ! p)" "limiter_of ent l' ?key = Some x"
      using trans [OF g'(1) [symmetric] Some] g'(2) p(1) by (simp_all add: limiter_of_def l'(2))
    ultimately show ?thesis using a by (simp add: l'(1))
  next
    case None
    let ?p = "length (crlLimiters l)"
    let ?new = "NewLimiter b (ratePerSecond (crlConfig l)) (burstSize (crlConfig l))"
    obtain q c2 where pa: "lru_PeekOrAdd L ?key ?p c1 = (q, c2)" by fastforce
    have q: "q = None" and c2: "ent c2 ?key = Some ?p"
      "\<And>k. k \<noteq> ?key \<Longrightarrow> ent c2 k = None \<or> ent c2 k = ent (crlCache l) k"
      using lru pa g' None unfolding lru_ok_def by (metis option.simps(4))+
    obtain o' x where a: "AllowN b ?new t = (o', x)" by fastforce
    have l': "res = o'" "l' = l\<lparr>crlCache := c2, crlLimiters := crlLimiters l @ [x]\<rparr>"
      using allow g None pa q a by (auto simp: ClientRateLimiter_Allow_def Let_def)
    show ?thesis
      using a g' None crl_appended [OF ok c2 l'(2)] by (simp add: limiter_of_def l'(1))
  qed
qed

text \<open>An unbounded cache and a bucket that allows a fixed number of events.\<close>

definition ex_lru :: "('v, (string \<times> 'v) list) lru" where
  "ex_lru = \<lparr>lru_new = (\<lambda>n. Some []), lru_Get = (\<lambda>k c. (map_of c k, c)),
     lru_PeekOrAdd = (\<lambda>k v c. case map_of c k of Some p \<Rightarrow> (Some p, c) | None \<Rightarrow> (None, AList.update k v c)),
     lru_Add = (\<lambda>k v c. AList.update k v c)\<rparr>"

definition ex_bucket :: "int bucket" where
  "ex_bucket = \<lparr>NewLimiter = (\<lambda>r n. n), AllowN = (\<lambda>n t. (n > 0, n - 1))\<rparr>"

lemma ex_lru_ok: "lru_ok ex_lru map_of"
  by (auto simp: lru_ok_def ex_lru_def split: option.splits)

definition ex_crl :: "(int, (string \<times> nat) list) ClientRateLimiter" where
  "ex_crl = \<lparr>crlConfig = \<lparr>ratePerSecond = (5, 60), burstSize = 10\<rparr>, crlCache = [], crlLimiters = []\<rparr>"

lemma client_limiter_isolated_example:
  "limiter_of map_of (snd (ClientRateLimiter_Allow ex_bucket ex_lru reqHost 0 ex_req ex_crl)) ''ui'' = Some 9"
proof -
  have lim: "limiter_of map_of ex_crl ''ui'' = None" by (simp add: limiter_of_def ex_crl_def)
  have host: "reqHost ex_req = ''ui''" by (simp add: ex_req_def)
  have burst: "burstSize (crlConfig ex_crl) = 10" by (simp add: ex_crl_def)
  have "crl_ok map_of ex_crl" by (simp add: crl_ok_def ex_crl_def)
  then show ?thesis
    using client_limiter_isolated [OF ex_lru_ok _ surjective_pairing, of ex_crl ex_bucket reqHost 0 ex_req]
    by (simp add: lim host burst Let_def ex_bucket_def)
qed

end
