(* ===== verification/Go_Url.thy ===== *)
theory Go_Url
  imports Go_Strings
begin

text \<open>
  \<open>net/url\<close> as far as the server relies on it: which strings \<open>url.Parse\<close> accepts and the scheme
  and host it finds. The parsing of a bracketed IP literal (which the Go releases changed
  several times) is an argument \<open>ip\<close>: the host it stands for, or \<^const>\<open>None\<close> for an error.
\<close>

section \<open>Escapes\<close>

definition ishex :: "char \<Rightarrow> bool" where
  "ishex c \<longleftrightarrow> c \<in> set ''0123456789abcdefABCDEF''"

definition unhex :: "char \<Rightarrow> nat" where
  "unhex c =
     (let n = of_char c :: nat in
      if 48 \<le> n \<and> n \<le> 57 then n - 48
      else if 97 \<le> n \<and> n \<le> 102 then n - 87
      else if 65 \<le> n \<and> n \<le> 70 then n - 55 else 0)"

definition is_alnum :: "char \<Rightarrow> bool" where
  "is_alnum c \<longleftrightarrow>
     (let n = of_char c :: nat in 48 \<le> n \<and> n \<le> 57 \<or> 65 \<le> n \<and> n \<le> 90 \<or> 97 \<le> n \<and> n \<le> 122)"

text \<open>\<open>!shouldEscape(c, encodeHost)\<close>.\<close>

definition host_char :: "char \<Rightarrow> bool" where
  "host_char c \<longleftrightarrow> is_alnum c \<or> c \<in> set ''!$&()*+,;=:[]<>-_.~'' \<or> c = CHR 0x27 \<or> c = CHR 0x22"

text \<open>\<open>unescape\<close>: in host mode an ASCII byte must be allowed in a host and only \<open>%25\<close> and bytes
  above 0x7f may be escaped; in the other modes every well-formed escape is accepted.\<close>

fun unescape :: "bool \<Rightarrow> string \<Rightarrow> string option" where
  "unescape host [] = Some []"
| "unescape host (c # s) =
     (if c = CHR ''%'' then
        (case s of
           a # b # rest \<Rightarrow>
             if \<not> ishex a \<or> \<not> ishex b then None
             else if host \<and> unhex a < 8 \<and> \<not> (a = CHR ''2'' \<and> b = CHR ''5'') then None
             else map_option ((#) (char_of (unhex a * 16 + unhex b))) (unescape host rest)
         | _ \<Rightarrow> None)
      else if host \<and> (of_char c :: nat) < 128 \<and> \<not> host_char c then None
      else map_option ((#) c) (unescape host s))"

section \<open>Parsing\<close>

definition is_ctl :: "char \<Rightarrow> bool" where
  "is_ctl c \<longleftrightarrow> (of_char c :: nat) < 32 \<or> (of_char c :: nat) = 127"

definition is_letter :: "char \<Rightarrow> bool" where
  "is_letter c \<longleftrightarrow> (let n = of_char c :: nat in 65 \<le> n \<and> n \<le> 90 \<or> 97 \<le> n \<and> n \<le> 122)"

fun get_scheme :: "string \<Rightarrow> string \<Rightarrow> (string \<times> string) option" where
  "get_scheme seen [] = Some ([], seen)"
| "get_scheme seen (c # s) =
     (if is_letter c then get_scheme (seen @ [c]) s
      else if is_alnum c \<or> c \<in> set ''+-.'' then
        (if seen = [] then Some ([], c # s) else get_scheme (seen @ [c]) s)
      else if c = CHR '':'' then (if seen = [] then None else Some (seen, s))
      else Some ([], seen @ c # s))"

definition validOptionalPort :: "string \<Rightarrow> bool" where
  "validOptionalPort port \<longleftrightarrow>
     (case port of [] \<Rightarrow> True
      | c # ds \<Rightarrow> c = CHR '':'' \<and> list_all (\<lambda>d. d \<in> set ''0123456789'') ds)"

definition validUserinfo :: "string \<Rightarrow> bool" where
  "validUserinfo s \<longleftrightarrow>
     list_all (\<lambda>c. is_alnum c \<or> c \<in> set ''-._:~!$&()*+,;=%@'' \<or> c = CHR 0x27) s"

definition parseHost :: "(string \<Rightarrow> string option) \<Rightarrow> string \<Rightarrow> string option" where
  "parseHost ip host =
     (if CHR ''['' \<in> set host then ip host
      else
        (case Cut host (CHR '':'') of
           (h, port, True) \<Rightarrow> if validOptionalPort (CHR '':'' # port) then unescape True host else None
         | (h, port, False) \<Rightarrow> unescape True host))"

text \<open>The part after the last \<open>@\<close>, and what stands before it.\<close>

definition split_userinfo :: "string \<Rightarrow> string option \<times> string" where
  "split_userinfo authority =
     (case Cut (rev authority) (CHR ''@'') of
        (h, u, True) \<Rightarrow> (Some (rev u), rev h)
      | (h, u, False) \<Rightarrow> (None, authority))"

definition parseAuthority :: "(string \<Rightarrow> string option) \<Rightarrow> string \<Rightarrow> string option" where
  "parseAuthority ip authority =
     (case split_userinfo authority of
        (ui, host) \<Rightarrow>
          (case parseHost ip host of
             None \<Rightarrow> None
           | Some h \<Rightarrow>
               (case ui of
                  None \<Rightarrow> Some h
                | Some u \<Rightarrow> if validUserinfo u \<and> unescape False u \<noteq> None then Some h else None)))"

record URL =
  urlScheme :: string
  urlHost :: string

definition cut_query :: "string \<Rightarrow> string" where
  "cut_query rest = fst (Cut rest (CHR ''?''))"

definition url_parse :: "(string \<Rightarrow> string option) \<Rightarrow> string \<Rightarrow> URL option" where
  "url_parse ip raw =
     (if list_ex is_ctl raw then None
      else if raw = ''*'' then Some \<lparr>urlScheme = [], urlHost = []\<rparr>
      else
        (case get_scheme [] raw of
           None \<Rightarrow> None
         | Some (sch, rest) \<Rightarrow>
             let scheme = ToLower sch;
                 rest = cut_query rest
             in if \<not> HasPrefix rest ''/'' \<and> scheme \<noteq> [] then Some \<lparr>urlScheme = scheme, urlHost = []\<rparr>
                else if \<not> HasPrefix rest ''/'' \<and> CHR '':'' \<in> set (fst (Cut rest (CHR ''/''))) then None
                else if (scheme \<noteq> [] \<or> \<not> HasPrefix rest ''///'') \<and> HasPrefix rest ''//'' then
                  (let authority = fst (Cut (drop 2 rest) (CHR ''/''));
                       path = drop (2 + length authority) rest
                   in case parseAuthority ip authority of
                        None \<Rightarrow> None
                      | Some h \<Rightarrow>
                          if unescape False path = None then None
                          else Some \<lparr>urlScheme = scheme, urlHost = h\<rparr>)
                else if unescape False rest = None then None
                else Some \<lparr>urlScheme = scheme, urlHost = []\<rparr>))"

definition Parse :: "(string \<Rightarrow> string option) \<Rightarrow> string \<Rightarrow> URL option" where
  "Parse ip raw =
     (case Cut raw (CHR ''#'') of
        (u, frag, _) \<Rightarrow>
          (case url_parse ip u of
             None \<Rightarrow> None
           | Some url \<Rightarrow> if frag \<noteq> [] \<and> unescape False frag = None then None else Some url))"

section \<open>Facts\<close>

text \<open>What \<open>Parse\<close> accepts has no control characters before the fragment.\<close>

lemma Parse_no_ctl:
  assumes "Parse ip raw = Some u"
  shows "\<not> list_ex is_ctl (fst (Cut raw (CHR ''#'')))"
  using assms by (auto simp: Parse_def url_parse_def split: prod.splits option.splits if_splits)

lemma get_scheme_slash: "get_scheme [] (CHR ''/'' # s) = Some ([], CHR ''/'' # s)"
  by (simp add: is_letter_def is_alnum_def)

text \<open>A host found by \<open>Parse\<close> without brackets has no backslash, slash, space or \<open>@\<close>.\<close>

lemma host_char_safe: "host_char c \<Longrightarrow> c \<notin> {CHR ''/'', CHR 0x5C, CHR '' '', CHR ''@'', CHR ''?'', CHR ''#''}"
  by (auto simp: host_char_def is_alnum_def)

end
