(* ===== verification/K8s_Credentials.thy ===== *)
theory K8s_Credentials
  imports Request_Auth Base64
begin

text \<open>
  \<open>pkg/k8s/credentials.go\<close> and \<open>pkg/k8s/factory.go\<close>: credentials from a kubeconfig or a bearer
  token, the expiry of a JWT, and the transports that authenticate as a credential.

  Parameters: \<open>Load\<close> (\<open>clientcmd.Load\<close>), \<open>pem\<close> (the first PEM block of a file), \<open>x509\<close> (the
  \<open>NotAfter\<close> of a certificate), \<open>exp\<close> (the field \<open>exp\<close> that \<open>json.Unmarshal\<close> finds, 0 if absent, or
  an error), \<open>tls\<close> (the error, if any, of building a TLS transport with a certificate and key)
  and \<open>review\<close> (the API server's answer to a SelfSubjectReview over a transport).
\<close>

section \<open>Token expiry\<close>

definition wrap64 :: "int \<Rightarrow> int" where
  "wrap64 n = (n + 2 ^ 63) mod 2 ^ 64 - 2 ^ 63"

text \<open>\<open>time.Unix(sec, 0)\<close>: seconds are counted from year 1 in 64 bits, with wrap-around.\<close>

definition unixToInternal :: int where "unixToInternal = 62135596800"

definition Unix :: "int \<Rightarrow> Time" where
  "Unix sec = wrap64 (sec + unixToInternal) * second"

type_synonym json_exp = "string \<Rightarrow> int option"

definition JWTExpiry :: "json_exp \<Rightarrow> string \<Rightarrow> Time" where
  "JWTExpiry exp token =
     (let parts = Split (TrimSpace token) (CHR ''.'')
      in if length parts \<noteq> 3 then zeroTime
         else
           (case DecodeString RawURLEncoding (parts ! 1) of
              None \<Rightarrow> zeroTime
            | Some payload \<Rightarrow>
                (case exp payload of
                   None \<Rightarrow> zeroTime
                 | Some e \<Rightarrow> if e = 0 then zeroTime else Unix e)))"

section \<open>Credentials\<close>

datatype cred_error =
    TokenEmpty
  | NotYAML
  | NoCurrentContext
  | NoContext string
  | NoUser string
  | UsesExec
  | UsesAuthProvider string
  | UsesTokenFile
  | UsesCertFiles
  | UsesBasicAuth
  | NoUsableCredential string
  | CertNotPEM
  | CertNotX509
  | CertExpired Time
  | KeyNotPEM

text \<open>The texts of these errors; \<open>quote\<close> is the verb \<open>%q\<close>, \<open>rfc3339\<close> the format of a time in UTC.\<close>

definition cred_error_text :: "(string \<Rightarrow> string) \<Rightarrow> (Time \<Rightarrow> string) \<Rightarrow> cred_error \<Rightarrow> string" where
  "cred_error_text quote rfc3339 e =
     (case e of
        TokenEmpty \<Rightarrow> ''token is empty''
      | NotYAML \<Rightarrow> ''kubeconfig is not valid YAML/JSON''
      | NoCurrentContext \<Rightarrow> ''kubeconfig has no current-context''
      | NoContext name \<Rightarrow> ''kubeconfig has no context named '' @ quote name
      | NoUser name \<Rightarrow> ''kubeconfig has no user named '' @ quote name
      | UsesExec \<Rightarrow>
          ''kubeconfig uses an exec credential plugin, which Antrea UI cannot run on your behalf. '' @
          ''Run the plugin locally and paste the resulting token instead, or use a different login method''
      | UsesAuthProvider name \<Rightarrow>
          ''kubeconfig uses an auth-provider ('' @ name @ ''), which Antrea UI does not support. '' @
          ''Use a token or client certificate credential, or a different login method''
      | UsesTokenFile \<Rightarrow>
          ''kubeconfig references a token file, which only exists on your machine. Paste the token itself instead''
      | UsesCertFiles \<Rightarrow>
          ''kubeconfig references certificate files, which only exist on your machine. '' @
          ''Use `kubectl config view --raw --minify` to produce a kubeconfig with the data embedded''
      | UsesBasicAuth \<Rightarrow> ''kubeconfig uses HTTP basic authentication, which Antrea UI does not support''
      | NoUsableCredential name \<Rightarrow> ''kubeconfig user '' @ quote name @ '' has no usable credential''
      | CertNotPEM \<Rightarrow> ''client-certificate-data is not valid PEM''
      | CertNotX509 \<Rightarrow> ''client-certificate-data is not a valid X.509 certificate''
      | CertExpired t \<Rightarrow> ''client certificate expired on '' @ rfc3339 t
      | KeyNotPEM \<Rightarrow> ''client-key-data is not valid PEM'')"

definition BearerCredential :: "json_exp \<Rightarrow> mem \<Rightarrow> slice \<Rightarrow> cred_error + Credential" where
  "BearerCredential exp m token =
     (if TrimSpace (slice_get m token) = [] then Inl TokenEmpty
      else Inr (emptyCredential\<lparr>cKind := KindBearer, cToken := token,
                  cExpiresAt := JWTExpiry exp (slice_get m token)\<rparr>))"

definition certCredential ::
  "(string \<Rightarrow> string option) \<Rightarrow> (string \<Rightarrow> Time option) \<Rightarrow> Time \<Rightarrow> mem \<Rightarrow> slice \<Rightarrow> slice \<Rightarrow>
   cred_error + Credential" where
  "certCredential pem x509 now m certPEM keyPEM =
     (case pem (slice_get m certPEM) of
        None \<Rightarrow> Inl CertNotPEM
      | Some block \<Rightarrow>
          (case x509 block of
             None \<Rightarrow> Inl CertNotX509
           | Some notAfter \<Rightarrow>
               if After now notAfter then Inl (CertExpired notAfter)
               else
                 (case pem (slice_get m keyPEM) of
                    None \<Rightarrow> Inl KeyNotPEM
                  | Some _ \<Rightarrow> Inr (emptyCredential\<lparr>cKind := KindCert, cCertPEM := certPEM,
                                  cKeyPEM := keyPEM, cExpiresAt := notAfter\<rparr>))))"

record AuthInfo =
  aiExec :: bool
  aiAuthProvider :: "string option"
  aiToken :: string
  aiTokenFile :: string
  aiClientCertificateData :: string
  aiClientKeyData :: string
  aiClientCertificate :: string
  aiClientKey :: string
  aiUsername :: string

record Kubeconfig =
  kcCurrentContext :: string
  kcContexts :: "(string \<times> string) list"
  kcAuthInfos :: "(string \<times> AuthInfo) list"

definition CredentialFromKubeconfig ::
  "(string \<Rightarrow> Kubeconfig option) \<Rightarrow> json_exp \<Rightarrow> (string \<Rightarrow> string option) \<Rightarrow> (string \<Rightarrow> Time option) \<Rightarrow>
   Time \<Rightarrow> mem \<Rightarrow> string \<Rightarrow> mem \<times> (cred_error + Credential)" where
  "CredentialFromKubeconfig Load exp pem x509 now m data =
     (case Load data of
        None \<Rightarrow> (m, Inl NotYAML)
      | Some cfg \<Rightarrow>
          if kcCurrentContext cfg = [] then (m, Inl NoCurrentContext)
          else
            (case map_of (kcContexts cfg) (kcCurrentContext cfg) of
               None \<Rightarrow> (m, Inl (NoContext (kcCurrentContext cfg)))
             | Some user \<Rightarrow>
                 (case map_of (kcAuthInfos cfg) user of
                    None \<Rightarrow> (m, Inl (NoUser user))
                  | Some ai \<Rightarrow>
                      if aiExec ai then (m, Inl UsesExec)
                      else if aiAuthProvider ai \<noteq> None then (m, Inl (UsesAuthProvider (the (aiAuthProvider ai))))
                      else if aiToken ai \<noteq> [] then
                        (let (m, tok) = alloc m (aiToken ai) in (m, BearerCredential exp m tok))
                      else if aiTokenFile ai \<noteq> [] then (m, Inl UsesTokenFile)
                      else if aiClientCertificateData ai \<noteq> [] \<and> aiClientKeyData ai \<noteq> [] then
                        (let (m, cert) = alloc m (aiClientCertificateData ai);
                             (m, key) = alloc m (aiClientKeyData ai)
                         in (m, certCredential pem x509 now m cert key))
                      else if aiClientCertificate ai \<noteq> [] \<or> aiClientKey ai \<noteq> [] then (m, Inl UsesCertFiles)
                      else if aiUsername ai \<noteq> [] then (m, Inl UsesBasicAuth)
                      else (m, Inl (NoUsableCredential user)))))"

section \<open>The client factory\<close>

record ClientFactory =
  cfUpstream :: string
  cfTransportKey :: string

definition NewClientFactory :: "string option \<Rightarrow> string \<Rightarrow> string \<Rightarrow> string + ClientFactory" where
  "NewClientFactory anonErr upstream transportKey =
     (case anonErr of
        Some e \<Rightarrow> Inl (''failed to build anonymous base transport: '' @ e)
      | None \<Rightarrow> Inr \<lparr>cfUpstream = upstream, cfTransportKey = transportKey\<rparr>)"

definition TransportFor :: "(string \<Rightarrow> string \<Rightarrow> string option) \<Rightarrow> ClientFactory \<Rightarrow> TransportBuilder" where
  "TransportFor tls f m cred =
     (if cKind cred = KindBearer then
        Inr (BearerAuthRoundTripper (slice_get m (cToken cred)) (AnonymousTransport (cfUpstream f)), None)
      else if cKind cred = KindCert then
        (case tls (slice_get m (cCertPEM cred)) (slice_get m (cKeyPEM cred)) of
           Some e \<Rightarrow> Inl (''failed to build client certificate transport: '' @ e)
         | None \<Rightarrow>
             let rt = ClientCertTransport (cfUpstream f) (slice_get m (cCertPEM cred)) (slice_get m (cKeyPEM cred))
             in Inr (rt, Some rt))
      else if cKind cred = KindImpersonate then
        Inr (ImpersonatingRoundTripper (cUserName cred) (ServiceAccountTransport (cfUpstream f)), None)
      else Inl (''unsupported credential kind '' @ CHR 0x22 # cKind cred @ [CHR 0x22]))"

definition TransportForRequest ::
  "(string \<Rightarrow> string \<Rightarrow> string option) \<Rightarrow> ClientFactory \<Rightarrow> RequestAuth option \<Rightarrow> store \<Rightarrow>
   (string + RoundTripper) \<times> store" where
  "TransportForRequest tls f ra st =
     (case ra of
        None \<Rightarrow> (Inl ''request is not authenticated'', st)
      | Some ra \<Rightarrow> RequestAuth_TransportFor (cfTransportKey f) (Some (TransportFor tls f)) ra st)"

text \<open>Clients for a request. A client is the transport it sends through; \<open>newErr\<close> is the error, if any, of
  client-go's constructor.\<close>

definition DynamicClient :: "(RoundTripper \<Rightarrow> string option) \<Rightarrow> RoundTripper \<Rightarrow> string + RoundTripper" where
  "DynamicClient newErr rt = (case newErr rt of Some err \<Rightarrow> Inl err | None \<Rightarrow> Inr rt)"

definition DynamicClientForRequest ::
  "(string \<Rightarrow> string \<Rightarrow> string option) \<Rightarrow> (RoundTripper \<Rightarrow> string option) \<Rightarrow> ClientFactory \<Rightarrow> RequestAuth option \<Rightarrow> store \<Rightarrow>
   (string + RoundTripper) \<times> store" where
  "DynamicClientForRequest tls newErr f ra st =
     (case TransportForRequest tls f ra st of
        (Inl err, st) \<Rightarrow> (Inl err, st)
      | (Inr rt, st) \<Rightarrow> (DynamicClient newErr rt, st))"

definition KubernetesClientForRequest ::
  "(string \<Rightarrow> string \<Rightarrow> string option) \<Rightarrow> (RoundTripper \<Rightarrow> string option) \<Rightarrow> ClientFactory \<Rightarrow> RequestAuth option \<Rightarrow> store \<Rightarrow>
   (string + RoundTripper) \<times> store" where
  "KubernetesClientForRequest tls newErr f ra st =
     (case TransportForRequest tls f ra st of
        (Inl err, st) \<Rightarrow> (Inl err, st)
      | (Inr rt, st) \<Rightarrow> (case newErr rt of Some err \<Rightarrow> (Inl err, st) | None \<Rightarrow> (Inr rt, st)))"

text \<open>\<open>ValidateCredential\<close>: the username, and the transports whose connections it closed.\<close>

definition ValidateCredential ::
  "(string \<Rightarrow> string \<Rightarrow> string option) \<Rightarrow> (RoundTripper \<Rightarrow> 'e + string) \<Rightarrow> (string \<Rightarrow> 'e) \<Rightarrow>
   ClientFactory \<Rightarrow> mem \<Rightarrow> Credential \<Rightarrow> ('e + string) \<times> RoundTripper list" where
  "ValidateCredential tls review lift f m cred =
     (case TransportFor tls f m cred of
        Inl e \<Rightarrow> (Inl (lift e), [])
      | Inr (rt, cleanup) \<Rightarrow> (review rt, case cleanup of None \<Rightarrow> [] | Some t \<Rightarrow> [t]))"

section \<open>Facts\<close>

text \<open>The identity a round tripper presents to the API server.\<close>

datatype identity = IdAnonymous | IdBearer string | IdCert string string | IdImpersonate string | IdServiceAccount

fun presents :: "RoundTripper \<Rightarrow> identity" where
  "presents (AnonymousTransport u) = IdAnonymous"
| "presents (ServiceAccountTransport u) = IdServiceAccount"
| "presents (BearerAuthRoundTripper t rt) = IdBearer t"
| "presents (ClientCertTransport u c k) = IdCert c k"
| "presents (ImpersonatingRoundTripper u rt) = IdImpersonate u"

definition cred_identity :: "mem \<Rightarrow> Credential \<Rightarrow> identity" where
  "cred_identity m c =
     (if cKind c = KindBearer then IdBearer (slice_get m (cToken c))
      else if cKind c = KindCert then IdCert (slice_get m (cCertPEM c)) (slice_get m (cKeyPEM c))
      else IdImpersonate (cUserName c))"

lemma TransportFor_presents:
  "TransportFor tls f m c = Inr (rt, cl) \<Longrightarrow> presents rt = cred_identity m c"
  by (auto simp: TransportFor_def cred_identity_def Let_def split: if_splits option.splits)

text \<open>Only a client-certificate transport owns connections, and its cleanup closes its own.\<close>

lemma TransportFor_cleanup:
  "TransportFor tls f m c = Inr (rt, cl) \<Longrightarrow> cl = (if cKind c = KindCert then Some rt else None)"
  by (auto simp: TransportFor_def Let_def kind_defs split: if_splits option.splits)

lemma TransportFor_view:
  assumes "cred_view m c = cred_view m' c'"
  shows "TransportFor tls f m c = TransportFor tls f m' c'"
  using assms by (simp add: TransportFor_def cred_view_def Let_def split: option.split)

lemma kubeconfig_allocates:
  "CredentialFromKubeconfig Load exp pem x509 now m data = (m', res) \<Longrightarrow> \<exists>xs. m' = m @ xs"
  by (auto simp: CredentialFromKubeconfig_def alloc_def Let_def split: option.splits if_splits)

lemma BearerCredential_Inr:
  "BearerCredential exp m t = Inr c \<Longrightarrow> cKind c = KindBearer \<and> cToken c = t \<and> cCertPEM c = None \<and> cKeyPEM c = None \<and>
     cExpiresAt c = JWTExpiry exp (slice_get m t) \<and> cUserName c = []"
  by (auto simp: BearerCredential_def emptyCredential_def split: if_splits)

lemma certCredential_Inr:
  "certCredential pem x509 now m ct ky = Inr c \<Longrightarrow> cKind c = KindCert \<and> cCertPEM c = ct \<and> cKeyPEM c = ky \<and>
     cToken c = None \<and> now \<le> cExpiresAt c"
  by (auto simp: certCredential_def emptyCredential_def time_simps split: if_splits option.splits)

section \<open>Properties\<close>

text \<open>
  A request never reaches the API server as somebody else. The transport a session hands
  out, cached or newly built, presents exactly the identity of the credential the session
  holds at that moment, for every key and every factory.
\<close>

lemma session_transport_identity:
  assumes "cache_ok (\<lambda>k. TransportFor tls (F k)) m s"
    and "transportFor m key (TransportFor tls (F key)) s log = (Inr rt, s', log')"
  shows "presents rt = cred_identity m (sCredential s) \<and> cache_ok (\<lambda>k. TransportFor tls (F k)) m s'"
  using transportFor_current [OF assms] transportFor_cache_ok [OF assms] TransportFor_presents by blast

lemma session_transport_identity_example:
  "presents (BearerAuthRoundTripper ''tok'' (AnonymousTransport ''api'')) =
     cred_identity [''tok''] (emptyCredential\<lparr>cKind := KindBearer, cToken := Some 0\<rparr>)"
proof -
  let ?c = "emptyCredential\<lparr>cKind := KindBearer, cToken := Some 0\<rparr>"
  let ?s = "\<lparr>sId = ''a'', sMode = ModeSAToken, sCreatedAt = 0, sUsername = [], sCapKey = [],
    sRefresher = None, sCredential = ?c, sRefreshToken = None, sLastSeen = 0, sExpiresAt = 0,
    sTransports = []\<rparr>"
  let ?F = "\<lambda>k. \<lparr>cfUpstream = ''api'', cfTransportKey = k\<rparr>"
  have "fst (transportFor [''tok''] ''k8s'' (TransportFor (\<lambda>c k. None) (?F ''k8s'')) ?s []) =
      Inr (BearerAuthRoundTripper ''tok'' (AnonymousTransport ''api''))"
    by (simp add: transportFor_def dropSupersededTransportsLocked_def transportUpstream_def
        TransportFor_def slice_get_def split: prod.split)
  then show ?thesis
    using session_transport_identity [where tls = "\<lambda>c k. None" and F = ?F and m = "[''tok'']" and s = ?s
        and key = "''k8s''" and log = "[]"]
    by (metis Session.select_convs(7) Session.select_convs(11) cache_ok_empty prod.collapse)
qed

text \<open>
  What a kubeconfig upload can turn into. A credential is extracted only from an embedded
  token or an embedded, parseable and unexpired client certificate with its key; a user entry
  with an exec plugin or an auth provider is always refused, whatever else it holds, and the
  credential carries exactly the token or the certificate of the selected user.
\<close>

lemma kubeconfig_credential:
  assumes "CredentialFromKubeconfig Load exp pem x509 now m data = (m', Inr c)"
  shows "\<exists>cfg user ai. Load data = Some cfg \<and>
    map_of (kcContexts cfg) (kcCurrentContext cfg) = Some user \<and> map_of (kcAuthInfos cfg) user = Some ai \<and>
    \<not> aiExec ai \<and> aiAuthProvider ai = None \<and>
    (if aiToken ai \<noteq> []
     then cred_identity m' c = IdBearer (aiToken ai) \<and> cExpiresAt c = JWTExpiry exp (aiToken ai)
     else cred_identity m' c = IdCert (aiClientCertificateData ai) (aiClientKeyData ai) \<and> now \<le> cExpiresAt c)"
proof -
  obtain cfg user ai where cfg: "Load data = Some cfg" "map_of (kcContexts cfg) (kcCurrentContext cfg) = Some user"
    "map_of (kcAuthInfos cfg) user = Some ai" and ai: "\<not> aiExec ai" "aiAuthProvider ai = None"
    using assms by (auto simp: CredentialFromKubeconfig_def split: option.splits if_splits)
  have "if aiToken ai \<noteq> []
     then cred_identity m' c = IdBearer (aiToken ai) \<and> cExpiresAt c = JWTExpiry exp (aiToken ai)
     else cred_identity m' c = IdCert (aiClientCertificateData ai) (aiClientKeyData ai) \<and> now \<le> cExpiresAt c"
    using assms cfg ai
    by (auto simp: CredentialFromKubeconfig_def alloc_def Let_def cred_identity_def slice_get_def
        nth_append kind_defs split: if_splits dest!: BearerCredential_Inr certCredential_Inr)
  with cfg ai show ?thesis by blast
qed

definition ex_kubeconfig :: Kubeconfig where
  "ex_kubeconfig =
     \<lparr>kcCurrentContext = ''ctx'', kcContexts = [(''ctx'', ''u'')],
      kcAuthInfos = [(''u'', \<lparr>aiExec = False, aiAuthProvider = None, aiToken = [], aiTokenFile = [],
        aiClientCertificateData = ''cert'', aiClientKeyData = ''key'', aiClientCertificate = [],
        aiClientKey = [], aiUsername = []\<rparr>)]\<rparr>"

lemma kubeconfig_credential_example:
  "\<exists>m c. CredentialFromKubeconfig (\<lambda>_. Some ex_kubeconfig) (\<lambda>_. None) Some (\<lambda>_. Some 10) 5 [] ''y'' = (m, Inr c) \<and>
     cred_identity m c = IdCert ''cert'' ''key''"
proof -
  let ?r = "CredentialFromKubeconfig (\<lambda>_. Some ex_kubeconfig) (\<lambda>_. None) Some (\<lambda>_. Some 10) 5 [] ''y''"
  obtain m c where r: "?r = (m, Inr c)"
    by (simp add: CredentialFromKubeconfig_def ex_kubeconfig_def alloc_def Let_def certCredential_def time_simps)
  show ?thesis using kubeconfig_credential [OF r] r by (simp add: ex_kubeconfig_def)
qed

text \<open>
  What an error about a kubeconfig discloses: a constant text, the expiry of a certificate, or one of
  three names the file holds, the current context, its user and the auth provider of that user. No
  error depends on a token, a certificate or a key.
\<close>

definition kubeconfig_names :: "Kubeconfig \<Rightarrow> string set" where
  "kubeconfig_names cfg =
     {kcCurrentContext cfg} \<union> snd ` set (kcContexts cfg) \<union> {n. \<exists>u ai. (u, ai) \<in> set (kcAuthInfos cfg) \<and> aiAuthProvider ai = Some n}"

definition disclosed :: "cred_error \<Rightarrow> string option" where
  "disclosed e =
     (case e of NoContext n \<Rightarrow> Some n | NoUser n \<Rightarrow> Some n | UsesAuthProvider n \<Rightarrow> Some n | NoUsableCredential n \<Rightarrow> Some n | _ \<Rightarrow> None)"

lemma kubeconfig_error_discloses:
  assumes "CredentialFromKubeconfig Load exp pem x509 now m data = (m', Inl e)" and "disclosed e = Some n"
  shows "\<exists>cfg. Load data = Some cfg \<and> n \<in> kubeconfig_names cfg"
proof -
  have bearer: "BearerCredential exp m'' t = Inl e \<Longrightarrow> disclosed e = None" for m'' t
    by (auto simp: BearerCredential_def disclosed_def split: if_splits)
  have cert: "certCredential pem x509 now m'' c k = Inl e \<Longrightarrow> disclosed e = None" for m'' c k
    by (auto simp: certCredential_def disclosed_def split: if_splits option.splits)
  obtain cfg where cfg: "Load data = Some cfg" using assms by (cases "Load data") (auto simp: CredentialFromKubeconfig_def disclosed_def)
  have names: "kcCurrentContext cfg \<in> kubeconfig_names cfg"
    "map_of (kcContexts cfg) c = Some u \<Longrightarrow> u \<in> kubeconfig_names cfg"
    "map_of (kcAuthInfos cfg) u = Some ai \<Longrightarrow> aiAuthProvider ai = Some n \<Longrightarrow> n \<in> kubeconfig_names cfg" for c u ai
    unfolding kubeconfig_names_def by (simp, force dest: map_of_SomeD, blast dest: map_of_SomeD)
  consider "e = NoContext (kcCurrentContext cfg)" | u where "map_of (kcContexts cfg) (kcCurrentContext cfg) = Some u" "disclosed e = Some u"
    | u ai x where "map_of (kcAuthInfos cfg) u = Some ai" "aiAuthProvider ai = Some x" "e = UsesAuthProvider x"
    | "disclosed e = None"
    using assms(1) cfg bearer cert
    by (auto simp: CredentialFromKubeconfig_def alloc_def Let_def disclosed_def split: option.split_asm if_split_asm)
  then show ?thesis using assms(2) cfg names by cases (auto simp: disclosed_def)
qed

text \<open>A context that does not exist is quoted to the caller.\<close>

lemma kubeconfig_error_quotes_context:
  assumes "Load data = Some cfg" and "kcCurrentContext cfg \<noteq> []" and "map_of (kcContexts cfg) (kcCurrentContext cfg) = None"
  shows "\<exists>e. CredentialFromKubeconfig Load exp pem x509 now m data = (m, Inl e) \<and>
    cred_error_text quote rfc3339 e = ''kubeconfig has no context named '' @ quote (kcCurrentContext cfg)"
  using assms by (simp add: CredentialFromKubeconfig_def cred_error_text_def)

end
