(* ===== verification/Authn.thy ===== *)
theory Authn
  imports Rate_Limit Go_Url K8s_Credentials
begin

text \<open>
  \<open>pkg/server/authn\<close>: who is making a request. The session cookie is looked up in the session
  store after the cross-origin gate; a bearer token is validated with the API server through
  a cache; redirect targets are checked. SHA-256, the LRU cache, the miss limiter and the
  API server's answer are parameters. Error texts that are only logged keep their constant part
  and the value they quote.
\<close>

section \<open>Bearer tokens\<close>

datatype k8s_error = Unauthorized | Forbidden | OtherStatus string

definition bearerCacheTTL :: Duration where "bearerCacheTTL = 60 * second"
definition bearerCacheSize :: int where "bearerCacheSize = 1024"
definition bearerMissRate :: string where "bearerMissRate = ''5/s''"
definition bearerMissBurst :: int where "bearerMissBurst = 10"
definition bearerMissClients :: int where "bearerMissClients = 10000"

record bearerCacheEntry =
  beUsername :: string
  beValidUntil :: Time

record ('c, 'l) bearerValidator =
  bvCache :: 'c
  bvLimiter :: 'l
  bvTtl :: Duration

text \<open>What validation consults outside the server.\<close>

record ('c, 'l) bearer_env =
  beSha256 :: "string \<Rightarrow> string"
  beLru :: "(bearerCacheEntry, 'c) lru"
  beAllow :: "Time \<Rightarrow> Request \<Rightarrow> 'l \<Rightarrow> bool \<times> 'l"
  beValidate :: "string \<Rightarrow> k8s_error + string"
  beExp :: json_exp

text \<open>\<open>L\<close> is the cache of validated tokens, \<open>limits\<close> the one of the per-client limiters.\<close>

definition newBearerValidator ::
  "(bearerCacheEntry, 'c) lru \<Rightarrow> (nat, 'k) lru \<Rightarrow> string + ('c, ('l, 'k) ClientRateLimiter) bearerValidator" where
  "newBearerValidator L limits =
     (case lru_new L bearerCacheSize of
        None \<Rightarrow> Inl ''error when initializing bearer token cache''
      | Some cache \<Rightarrow>
          (case NewClientRateLimiter limits bearerMissRate bearerMissBurst bearerMissClients of
             Inl e \<Rightarrow> Inl ''error when initializing bearer token rate limiter''
           | Inr l \<Rightarrow> Inr \<lparr>bvCache = cache, bvLimiter = l, bvTtl = bearerCacheTTL\<rparr>))"

definition cacheKey :: "(string \<Rightarrow> string) \<Rightarrow> string \<Rightarrow> string" where
  "cacheKey sha256 token = hex_EncodeToString (sha256 token)"

text \<open>The clock is read on entry (\<open>now\<close>) and after a validation (\<open>later\<close>).\<close>

definition validate ::
  "('c, 'l) bearer_env \<Rightarrow> Time \<times> Time \<Rightarrow> Request \<Rightarrow> string \<Rightarrow> ('c, 'l) bearerValidator \<Rightarrow>
   (ServerError + string) \<times> ('c, 'l) bearerValidator" where
  "validate env clock req token v =
     (case clock of (now, later) \<Rightarrow>
      let key = cacheKey (beSha256 env) token;
          (entry, cache) = lru_Get (beLru env) key (bvCache v);
          v = v\<lparr>bvCache := cache\<rparr>
      in if (case entry of Some e \<Rightarrow> Before now (beValidUntil e) | None \<Rightarrow> False)
         then (Inr (beUsername (the entry)), v)
         else
           let (ok, l) = beAllow env now req (bvLimiter v);
               v = v\<lparr>bvLimiter := l\<rparr>
           in if \<not> ok then
                (Inl \<lparr>seCode = StatusTooManyRequests, seErr = None,
                   seMessage = ''Too many token validations, please try again later''\<rparr>, v)
              else
                (case beValidate env token of
                   Inl (OtherStatus e) \<Rightarrow>
                     (Inl \<lparr>seCode = StatusServiceUnavailable, seErr = Some (''bearer token validation failed: '' @ e),
                        seMessage = ''Could not verify the token with Kubernetes, please try again later''\<rparr>, v)
                 | Inl _ \<Rightarrow>
                     (Inl \<lparr>seCode = StatusUnauthorized, seErr = None,
                        seMessage = ''Kubernetes rejected this token''\<rparr>, v)
                 | Inr username \<Rightarrow>
                     let validUntil = Add later (bvTtl v);
                         expiry = JWTExpiry (beExp env) token;
                         validUntil = (if \<not> IsZero expiry \<and> Before expiry validUntil then expiry else validUntil)
                     in (Inr username,
                         v\<lparr>bvCache := lru_Add (beLru env) key
                              \<lparr>beUsername = username, beValidUntil = validUntil\<rparr> (bvCache v)\<rparr>)))"

section \<open>The authenticator\<close>

definition DevOrigin :: string where "DevOrigin = ''http://localhost:3000''"

record AuthnConfig =
  acServerURL :: string
  acCookieSecure :: bool
  acBearerFallbackEnabled :: bool
  acHasValidator :: bool
  acDevMode :: bool

record Authenticator =
  auConfig :: AuthnConfig
  auServerOrigin :: string

definition New ::
  "(string \<Rightarrow> string option) \<Rightarrow> (bearerCacheEntry, 'c) lru \<Rightarrow> (nat, 'k) lru \<Rightarrow> AuthnConfig \<Rightarrow>
   string + Authenticator \<times> ('c, ('l, 'k) ClientRateLimiter) bearerValidator option" where
  "New ip L limits config =
     (if acBearerFallbackEnabled config \<and> \<not> acHasValidator config then
        Inl ''bearer token authentication is enabled but no credential validator was provided''
      else
        (case (if acBearerFallbackEnabled config then map_sum id Some (newBearerValidator L limits) else Inr None) of
           Inl e \<Rightarrow> Inl e
         | Inr bearer \<Rightarrow>
             if acServerURL config \<noteq> [] then
               (case Parse ip (acServerURL config) of
                  None \<Rightarrow> Inl (''invalid server URL '' @ squoted (acServerURL config))
                | Some u \<Rightarrow>
                    if urlHost u = [] then Inl (''invalid server URL '' @ squoted (acServerURL config))
                    else Inr (\<lparr>auConfig = config, auServerOrigin = urlScheme u @ ''://'' @ urlHost u\<rparr>, bearer))
             else Inr (\<lparr>auConfig = config, auServerOrigin = []\<rparr>, bearer)))"

definition SameSite :: "Authenticator \<Rightarrow> SameSite" where
  "SameSite a = (if acDevMode (auConfig a) then SameSiteLaxMode else SameSiteStrictMode)"

definition Authn_SetSessionCookie :: "Authenticator \<Rightarrow> string \<Rightarrow> Response \<Rightarrow> Response" where
  "Authn_SetSessionCookie a sid w = SetSessionCookie sid (acCookieSecure (auConfig a)) (SameSite a) w"

definition ClearSessionCookie :: "Response \<Rightarrow> Response" where
  "ClearSessionCookie w = UnsetSessionCookie w"

definition ClearLegacyCookies :: "Request \<Rightarrow> Response \<Rightarrow> Response" where
  "ClearLegacyCookies req w = UnsetLegacyCookies req w"

definition SessionIDFromRequest :: "Request \<Rightarrow> string option" where
  "SessionIDFromRequest req = GetSessionCookie req"

lemmas cookie_wrappers [simp] = ClearSessionCookie_def ClearLegacyCookies_def SessionIDFromRequest_def

definition originAllowed :: "(string \<Rightarrow> string option) \<Rightarrow> Authenticator \<Rightarrow> Request \<Rightarrow> string \<Rightarrow> bool" where
  "originAllowed ip a req origin =
     (if auServerOrigin a \<noteq> [] then EqualFold origin (auServerOrigin a)
      else
        (case Parse ip origin of
           None \<Rightarrow> False
         | Some u \<Rightarrow> urlHost u \<noteq> [] \<and> EqualFold (urlHost u) (reqHost req)))"

definition isTopLevelNavigation :: "Request \<Rightarrow> bool" where
  "isTopLevelNavigation req \<longleftrightarrow>
     GetHeader req ''Sec-Fetch-Mode'' = ''navigate'' \<and> GetHeader req ''Sec-Fetch-Dest'' = ''document''"

definition cross_origin_error :: "string \<Rightarrow> ServerError" where
  "cross_origin_error reason =
     \<lparr>seCode = StatusForbidden, seErr = Some (''cross-origin request rejected: '' @ reason),
      seMessage = ''Cross-origin request rejected''\<rparr>"

definition checkCrossOrigin ::
  "(string \<Rightarrow> string option) \<Rightarrow> Authenticator \<Rightarrow> Request \<Rightarrow> bool \<Rightarrow> ServerError option" where
  "checkCrossOrigin ip a req allowTopLevelNavigation =
     (let origin = GetHeader req ''Origin'';
          fetchSite = GetHeader req ''Sec-Fetch-Site''
      in if acDevMode (auConfig a) \<and> origin = DevOrigin then None
         else if fetchSite \<noteq> [] then
           (if fetchSite = ''same-origin'' \<or> fetchSite = ''none'' then None
            else if allowTopLevelNavigation \<and> isTopLevelNavigation req then None
            else Some (cross_origin_error (''Sec-Fetch-Site is '' @ fetchSite)))
         else if origin = [] then None
         else if originAllowed ip a req origin then None
         else Some (cross_origin_error (''Origin is '' @ origin)))"

definition checkCSRF :: "(string \<Rightarrow> string option) \<Rightarrow> Authenticator \<Rightarrow> Request \<Rightarrow> ServerError option" where
  "checkCSRF ip a req = checkCrossOrigin ip a req False"

definition sessionLookupError :: "store_error \<Rightarrow> store_error option" where
  "sessionLookupError e = (if e = ErrNotFound \<or> e = ErrExpired then None else Some e)"

definition bearerToken :: "Request \<Rightarrow> string option" where
  "bearerToken req =
     (let header = GetHeader req ''Authorization''
      in if header = [] then None
         else
           (case SplitN2 header (CHR '' '') of
              [scheme, token] \<Rightarrow> if \<not> EqualFold scheme ''Bearer'' \<or> token = [] then None else Some token
            | _ \<Rightarrow> None))"

text \<open>The state a request is resolved against: the session store and the bearer validator.\<close>

record ('c, 'l) auth_state =
  asStore :: store
  asBearer :: "('c, 'l) bearerValidator"

definition unauthorized :: "string \<Rightarrow> string option \<Rightarrow> ServerError" where
  "unauthorized msg err = \<lparr>seCode = StatusUnauthorized, seErr = err, seMessage = msg\<rparr>"

definition store_error_text :: "store_error \<Rightarrow> string" where
  "store_error_text e =
     (case e of ErrNotFound \<Rightarrow> ''session not found'' | ErrExpired \<Rightarrow> ''session expired''
      | ErrTooManySessions \<Rightarrow> ''too many active sessions'' | ErrRandom _ \<Rightarrow> ''error when generating random data'')"

definition Resolve ::
  "(string \<Rightarrow> string option) \<Rightarrow> ('c, 'l) bearer_env \<Rightarrow> (refresher_id \<Rightarrow> Refresh) \<Rightarrow>
   Time \<times> Time \<times> Time \<times> Time \<Rightarrow> Time \<times> Time \<Rightarrow> Authenticator \<Rightarrow> Request \<Rightarrow>
   ('c, 'l) auth_state \<Rightarrow> Response \<Rightarrow>
   (ServerError + RequestAuth) \<times> ('c, 'l) auth_state \<times> Response" where
  "Resolve ip env refresh clock bclock a req s w =
     (case GetSessionCookie req of
        Some sid \<Rightarrow>
          (case checkCSRF ip a req of
             Some e \<Rightarrow> (Inl e, s, w)
           | None \<Rightarrow>
               (case Get refresh clock sid (asStore s) of
                  (Inl err, st) \<Rightarrow>
                    (Inl (unauthorized ''Session is no longer valid, please log in again''
                            (map_option store_error_text (sessionLookupError err))),
                     s\<lparr>asStore := st\<rparr>, ClearLegacyCookies req (ClearSessionCookie w))
                | (Inr r, st) \<Rightarrow> (Inr (NewSessionAuth st r), s\<lparr>asStore := st\<rparr>, w)))
      | None \<Rightarrow>
          (case bearerToken req of
             Some token \<Rightarrow>
               if \<not> acBearerFallbackEnabled (auConfig a) then
                 (Inl (unauthorized ''Bearer token authentication is disabled (auth.bearerToken.enabled)'' None), s, w)
               else
                 (let (m, tok) = alloc (mem (asStore s)) token;
                      s = s\<lparr>asStore := (asStore s)\<lparr>mem := m\<rparr>\<rparr>;
                      (res, v) = validate env bclock req token (asBearer s);
                      s = s\<lparr>asBearer := v\<rparr>
                  in case res of
                       Inl e \<Rightarrow> (Inl e, s, w)
                     | Inr username \<Rightarrow>
                         (Inr (NewEphemeralAuth (emptyCredential\<lparr>cKind := KindBearer, cToken := tok,
                                 cExpiresAt := JWTExpiry (beExp env) token\<rparr>) username), s, w))
           | None \<Rightarrow>
               (Inl (unauthorized ''No authentication present (session cookie / Authorization header)'' None), s, w)))"

text \<open>Where the identity is put: the context of the request and the keys of the gin context.\<close>

record gin_context =
  gcRequest :: request_context
  gcKeys :: "(string \<times> RequestAuth) list"

definition ginContextKey :: string where "ginContextKey = ''antrea-ui/request-auth''"

definition Attach :: "RequestAuth \<Rightarrow> gin_context \<Rightarrow> gin_context" where
  "Attach ra c = c\<lparr>gcRequest := WithRequestAuth (gcRequest c) ra, gcKeys := AList.update ginContextKey ra (gcKeys c)\<rparr>"

definition RequestAuthFromGin :: "gin_context \<Rightarrow> RequestAuth option" where
  "RequestAuthFromGin c = map_of (gcKeys c) ginContextKey"

text \<open>The handlers that read the request context and those that read the gin context see the same identity.\<close>

lemma Attach_visible:
  "RequestAuthFrom (gcRequest (Attach ra c)) = Some ra" "RequestAuthFromGin (Attach ra c) = Some ra"
  by (simp_all add: Attach_def WithRequestAuth_def RequestAuthFrom_def RequestAuthFromGin_def update_conv')

text \<open>The middlewares: \<open>next\<close> is the rest of the chain, which gets the identity that was attached.\<close>

definition Middleware ::
  "(ServerError + RequestAuth) \<times> 's \<times> Response \<Rightarrow> (RequestAuth \<Rightarrow> 's \<Rightarrow> Response \<Rightarrow> 's \<times> Response) \<Rightarrow> 's \<times> Response" where
  "Middleware resolved next =
     (case resolved of
        (Inl e, s, w) \<Rightarrow> (s, Abort (HandleError e w))
      | (Inr ra, s, w) \<Rightarrow> next ra s w)"

definition csrfMiddleware ::
  "(string \<Rightarrow> string option) \<Rightarrow> Authenticator \<Rightarrow> bool \<Rightarrow> Request \<Rightarrow> ('s \<Rightarrow> Response \<Rightarrow> 's \<times> Response) \<Rightarrow>
   's \<Rightarrow> Response \<Rightarrow> 's \<times> Response" where
  "csrfMiddleware ip a allowTopLevelNavigation req next s w =
     (case checkCrossOrigin ip a req allowTopLevelNavigation of
        Some e \<Rightarrow> (s, Abort (HandleError e w))
      | None \<Rightarrow> next s w)"

definition CSRFMiddleware ::
  "(string \<Rightarrow> string option) \<Rightarrow> Authenticator \<Rightarrow> Request \<Rightarrow> ('s \<Rightarrow> Response \<Rightarrow> 's \<times> Response) \<Rightarrow> 's \<Rightarrow> Response \<Rightarrow> 's \<times> Response" where
  "CSRFMiddleware ip a = csrfMiddleware ip a False"

definition NavigationCSRFMiddleware ::
  "(string \<Rightarrow> string option) \<Rightarrow> Authenticator \<Rightarrow> Request \<Rightarrow> ('s \<Rightarrow> Response \<Rightarrow> 's \<times> Response) \<Rightarrow> 's \<Rightarrow> Response \<Rightarrow> 's \<times> Response" where
  "NavigationCSRFMiddleware ip a = csrfMiddleware ip a True"

definition SafeRedirectURL :: "(string \<Rightarrow> string option) \<Rightarrow> Authenticator \<Rightarrow> Request \<Rightarrow> string \<Rightarrow> string" where
  "SafeRedirectURL ip a req raw =
     (if raw = [] then []
      else
        (case Parse ip raw of
           None \<Rightarrow> []
         | Some u \<Rightarrow>
             if urlScheme u = [] \<and> urlHost u = [] then
               (if \<not> HasPrefix raw ''/'' \<or> HasPrefix raw ''//'' then []
                else if ContainsChar raw (CHR 0x5C) then []
                else raw)
             else if urlScheme u \<noteq> ''http'' \<and> urlScheme u \<noteq> ''https'' then []
             else if originAllowed ip a req (urlScheme u @ ''://'' @ urlHost u) then raw
             else []))"

end
