(* ===== verification/Authn_Properties.thy ===== *)
theory Authn_Properties
  imports Authn
begin

text \<open>
  Properties of request authentication: what a bearer identity rests on, the precedence of the
  session cookie and the cross-origin gate in front of it, and that a redirect target the
  server accepts keeps the browser on this deployment.
\<close>

section \<open>Bearer tokens\<close>

definition cache_hit :: "('c, 'l) bearer_env \<Rightarrow> Time \<Rightarrow> string \<Rightarrow> ('c, 'l) bearerValidator \<Rightarrow> bool" where
  "cache_hit env now token v =
     (case fst (lru_Get (beLru env) (cacheKey (beSha256 env) token) (bvCache v)) of
        Some e \<Rightarrow> Before now (beValidUntil e) | None \<Rightarrow> False)"

text \<open>
  Runs of the validator, with the validations the API server accepted: token, username and
  time. The API server's answers and the limiter may change from one request to the next.
\<close>

inductive bearer_run ::
  "(string \<Rightarrow> string) \<Rightarrow> (bearerCacheEntry, 'c) lru \<Rightarrow> json_exp \<Rightarrow> (string \<times> string \<times> Time) set \<Rightarrow>
   ('c, ('l, 'k) ClientRateLimiter) bearerValidator \<Rightarrow> bool"
  for sha256 :: "string \<Rightarrow> string" and L :: "(bearerCacheEntry, 'c) lru" and exp :: json_exp where
  run_init: "newBearerValidator L lim = Inr v \<Longrightarrow> bearer_run sha256 L exp {} v"
| run_step: "bearer_run sha256 L exp H v \<Longrightarrow>
    beSha256 env = sha256 \<Longrightarrow> beLru env = L \<Longrightarrow> beExp env = exp \<Longrightarrow>
    validate env (now, later) req token v = (res, v') \<Longrightarrow>
    bearer_run sha256 L exp
      (H \<union> {(token, u, later) |u. \<not> cache_hit env now token v \<and> res = Inr u}) v'"

definition vouched ::
  "(string \<Rightarrow> string) \<Rightarrow> json_exp \<Rightarrow> (string \<times> string \<times> Time) set \<Rightarrow> string \<Rightarrow> bearerCacheEntry \<Rightarrow> bool" where
  "vouched sha256 exp H k e \<longleftrightarrow> (\<exists>tok t. (tok, beUsername e, t) \<in> H \<and> k = cacheKey sha256 tok \<and>
     beValidUntil e \<le> t + bearerCacheTTL \<and>
     (JWTExpiry exp tok \<noteq> zeroTime \<longrightarrow> beValidUntil e \<le> JWTExpiry exp tok))"

text \<open>What one validation does to the cache.\<close>

lemma validate_cases:
  assumes lru: "lru_ok (beLru env) ent" and val: "validate env (now, later) req token v = (res, v')"
  shows "bvTtl v' = bvTtl v"
    and "ent (bvCache v') k = Some e \<Longrightarrow> ent (bvCache v) k = Some e \<or>
      (\<not> cache_hit env now token v \<and> res = Inr (beUsername e) \<and> k = cacheKey (beSha256 env) token \<and>
       beValidUntil e \<le> later + bvTtl v \<and>
       (JWTExpiry (beExp env) token \<noteq> zeroTime \<longrightarrow> beValidUntil e \<le> JWTExpiry (beExp env) token))"
    and "res = Inr u \<Longrightarrow> cache_hit env now token v \<Longrightarrow>
      \<exists>e. ent (bvCache v) (cacheKey (beSha256 env) token) = Some e \<and> beUsername e = u \<and> now < beValidUntil e"
    and "res = Inr u \<Longrightarrow> \<not> cache_hit env now token v \<Longrightarrow> beValidate env token = Inr u"
proof -
  let ?key = "cacheKey (beSha256 env) token"
  obtain entry cache where g: "lru_Get (beLru env) ?key (bvCache v) = (entry, cache)" by fastforce
  have g': "entry = ent (bvCache v) ?key" "ent cache = ent (bvCache v)"
    using lru g by (auto simp: lru_ok_def)
  have add: "ent (lru_Add (beLru env) ?key x cache) k = Some e \<Longrightarrow> k = ?key \<and> e = x \<or> ent (bvCache v) k = Some e" for x k e
    using lru g'(2) unfolding lru_ok_def by (metis option.distinct(1) option.inject)
  obtain ok l where al: "beAllow env now req (bvLimiter v) = (ok, l)" by fastforce
  have chit: "cache_hit env now token v = (case entry of Some e \<Rightarrow> Before now (beValidUntil e) | None \<Rightarrow> False)"
    by (simp add: cache_hit_def g)
  define until where "until = (if \<not> IsZero (JWTExpiry (beExp env) token) \<and>
      Before (JWTExpiry (beExp env) token) (Add later (bvTtl v))
    then JWTExpiry (beExp env) token else Add later (bvTtl v))"
  consider (hit) "cache_hit env now token v" "res = Inr (beUsername (the entry))" "v' = v\<lparr>bvCache := cache\<rparr>"
    | (err) x where "\<not> cache_hit env now token v" "res = Inl x" "v' = v\<lparr>bvCache := cache, bvLimiter := l\<rparr>"
    | (new) u where "\<not> cache_hit env now token v" "beValidate env token = Inr u" "res = Inr u"
        "v' = v\<lparr>bvLimiter := l, bvCache := lru_Add (beLru env) ?key \<lparr>beUsername = u, beValidUntil = until\<rparr> cache\<rparr>"
    using val
    by (simp add: validate_def Let_def g al chit [symmetric] until_def [symmetric]
        split: sum.split_asm k8s_error.split_asm if_split_asm) (blast dest: sym)+
  note V = this
  show "bvTtl v' = bvTtl v" by (rule V) simp_all
  show "res = Inr u \<Longrightarrow> cache_hit env now token v \<Longrightarrow>
      \<exists>e. ent (bvCache v) ?key = Some e \<and> beUsername e = u \<and> now < beValidUntil e"
    by (rule V) (auto simp: chit g'(1) [symmetric] time_simps split: option.splits)
  show "res = Inr u \<Longrightarrow> \<not> cache_hit env now token v \<Longrightarrow> beValidate env token = Inr u"
    by (rule V) simp_all
  show "ent (bvCache v') k = Some e \<Longrightarrow> ent (bvCache v) k = Some e \<or>
      (\<not> cache_hit env now token v \<and> res = Inr (beUsername e) \<and> k = ?key \<and>
       beValidUntil e \<le> later + bvTtl v \<and>
       (JWTExpiry (beExp env) token \<noteq> zeroTime \<longrightarrow> beValidUntil e \<le> JWTExpiry (beExp env) token))"
    by (rule V) (use g'(2) in \<open>auto simp: until_def time_simps dest!: add\<close>)
qed

lemma bearer_run_vouched:
  assumes "bearer_run sha256 L exp H v" and "lru_ok L ent"
  shows "bvTtl v = bearerCacheTTL \<and> (\<forall>k e. ent (bvCache v) k = Some e \<longrightarrow> vouched sha256 exp H k e)"
  using assms
proof (induction rule: bearer_run.induct)
  case (run_init lim v)
  then show ?case by (auto simp: newBearerValidator_def lru_ok_def split: option.splits sum.splits)
next
  case (run_step H v env now later req token res v')
  note VC = validate_cases [of env ent now later req token v res v']
  have lru: "lru_ok (beLru env) ent" using run_step by simp
  have mono: "vouched sha256 exp H k e \<Longrightarrow> vouched sha256 exp (H \<union> X) k e" for k e X
    by (auto simp: vouched_def)
  show ?case
    using run_step VC(1,2) [OF lru] mono by (fastforce simp: vouched_def)
qed

text \<open>
  C22: a bearer request is only ever given an identity that the API server confirmed for that
  token, now or at most a minute ago. If validation returns a username, either the API server
  has just accepted the token with that username, or it accepted a token with the same SHA-256
  hash with that username less than 60 seconds before, and that token's own expiry has not
  passed.
\<close>

theorem bearer_identity_confirmed:
  assumes "bearer_run sha256 L exp H v" and "lru_ok L ent"
    and "beSha256 env = sha256" and "beLru env = L" and "beExp env = exp"
    and "validate env (now, later) req token v = (Inr u, v')"
  shows "beValidate env token = Inr u \<or>
    (\<exists>tok t. (tok, u, t) \<in> H \<and> cacheKey sha256 tok = cacheKey sha256 token \<and>
       now < t + 60 * second \<and> (JWTExpiry exp tok \<noteq> zeroTime \<longrightarrow> now < JWTExpiry exp tok))"
proof (cases "cache_hit env now token v")
  case False
  then show ?thesis using validate_cases(4) [OF _ assms(6) refl] assms(2,4) by auto
next
  case True
  then obtain e where "ent (bvCache v) (cacheKey sha256 token) = Some e" "beUsername e = u" "now < beValidUntil e"
    using validate_cases(3) [OF _ assms(6) refl] assms(2-4) by auto
  then have "vouched sha256 exp H (cacheKey sha256 token) e" "beUsername e = u" "now < beValidUntil e"
    using bearer_run_vouched [OF assms(1,2)] by auto
  then obtain tok t where "(tok, u, t) \<in> H" "cacheKey sha256 token = cacheKey sha256 tok"
    "now < t + 60 * second" "JWTExpiry exp tok \<noteq> zeroTime \<longrightarrow> now < JWTExpiry exp tok"
    unfolding vouched_def bearerCacheTTL_def by force
  then show ?thesis by metis
qed

text \<open>The limiter of the validator: five validations a second, at most ten at once.\<close>

definition ex_limiter :: "(unit, (string \<times> nat) list) ClientRateLimiter" where
  "ex_limiter = \<lparr>crlConfig = \<lparr>ratePerSecond = (5, 1), burstSize = 10\<rparr>, crlCache = [], crlLimiters = []\<rparr>"

lemma bearer_limiter_rate: "newConfig bearerMissRate bearerMissBurst = Inr \<lparr>ratePerSecond = (5, 1), burstSize = 10\<rparr>"
proof -
  have "bearerMissRate = dec_nat 5 @ CHR ''/'' # ''s''"
    by (simp add: bearerMissRate_def dec_nat.simps char_eq_char_of)
  then have "rateFromStr bearerMissRate = Inr (5, 1)"
    unfolding rateFromStr_iff by (intro conjI exI [of _ "''s''"]) (simp_all only: rate_unit_def simp_thms if_True, simp)
  then show ?thesis by (simp add: newConfig_def bearerMissBurst_def)
qed

lemma ex_newBearerValidator:
  "newBearerValidator ex_lru ex_lru = Inr \<lparr>bvCache = [], bvLimiter = ex_limiter, bvTtl = bearerCacheTTL\<rparr>"
  by (simp add: newBearerValidator_def NewClientRateLimiter_def bearer_limiter_rate ex_lru_def ex_limiter_def)

text \<open>Setting up the validator fails only if the LRU library refuses one of the two sizes.\<close>

lemma newBearerValidator_fails_iff:
  "(\<exists>e. newBearerValidator L limits = Inl e) \<longleftrightarrow>
     lru_new L bearerCacheSize = None \<or> lru_new limits bearerMissClients = None"
  by (auto simp: newBearerValidator_def NewClientRateLimiter_def bearer_limiter_rate split: option.split)

definition ex_env :: "((string \<times> bearerCacheEntry) list, (unit, (string \<times> nat) list) ClientRateLimiter) bearer_env" where
  "ex_env = \<lparr>beSha256 = (\<lambda>t. t), beLru = ex_lru, beAllow = (\<lambda>t r l. (True, l)),
     beValidate = (\<lambda>t. if t = ''good'' then Inr ''alice'' else Inl Unauthorized), beExp = (\<lambda>_. None)\<rparr>"

theorem bearer_identity_confirmed_witness:
  "beValidate ex_env ''good'' = Inr ''alice''"
proof -
  let ?v = "\<lparr>bvCache = [], bvLimiter = ex_limiter, bvTtl = bearerCacheTTL\<rparr>"
  have "newBearerValidator ex_lru ex_lru = Inr ?v"
    by (rule ex_newBearerValidator)
  then have run: "bearer_run (\<lambda>t. t) ex_lru (\<lambda>_. None) {} ?v" by (rule run_init)
  have "\<exists>v'. validate ex_env (5, 6) ex_req ''good'' ?v = (Inr ''alice'', v')"
    by (simp add: validate_def ex_env_def ex_lru_def Let_def)
  then obtain v' where val: "validate ex_env (5, 6) ex_req ''good'' ?v = (Inr ''alice'', v')" by blast
  show ?thesis
    using bearer_identity_confirmed [OF run ex_lru_ok _ _ _ val] by (simp add: ex_env_def)
qed

section \<open>Resolving a request\<close>

text \<open>
  C13: what an authenticated request rests on. A request with a session cookie is never
  authenticated by its \<open>Authorization\<close> header: it is resolved to that session, and only after
  the cross-origin gate let it through. A request without one is resolved only by a bearer
  token that validation accepted, and only when the fallback is enabled; the identity then
  expires with the token. A request that fails is answered with an error status and is
  given no identity.
\<close>

theorem Resolve_sound:
  assumes "Resolve ip env refresh clock bclock a req s w = (res, s', w')"
  shows "case res of
      Inr ra \<Rightarrow>
        (case GetSessionCookie req of
           Some sid \<Rightarrow> checkCSRF ip a req = None \<and>
             (\<exists>r. Get refresh clock sid (asStore s) = (Inr r, asStore s') \<and> ra = NewSessionAuth (asStore s') r) \<and> w' = w
         | None \<Rightarrow> acBearerFallbackEnabled (auConfig a) \<and>
             (\<exists>token. bearerToken req = Some token \<and>
                fst (validate env bclock req token (asBearer s)) = Inr (raUsername ra) \<and>
                raMode ra = ModeSAToken \<and> raSession ra = None \<and>
                slice_get (mem (asStore s')) (cToken (raEphemeral ra)) = token \<and>
                cExpiresAt (raEphemeral ra) = JWTExpiry (beExp env) token) \<and> w' = w)
    | Inl e \<Rightarrow> seCode e \<in> {401, 403, 429, 503} \<and>
        (checkCSRF ip a req \<noteq> None \<and> GetSessionCookie req \<noteq> None \<longrightarrow> s' = s \<and> w' = w)"
proof (cases "GetSessionCookie req")
  case (Some sid)
  then show ?thesis
    using assms
    by (auto simp: Resolve_def unauthorized_def checkCSRF_def checkCrossOrigin_def cross_origin_error_def Let_def
        split: option.splits prod.splits sum.splits if_splits)
next
  case None
  have codes: "fst (validate env bclock req token v) = Inl e \<Longrightarrow> seCode e \<in> {401, 429, 503}" for token v e
    by (auto simp: validate_def Let_def split: prod.splits if_splits sum.splits k8s_error.splits)
  show ?thesis
    using assms None codes
    by (auto simp: Resolve_def unauthorized_def Let_def alloc_def slice_get_def NewEphemeralAuth_def
        split: option.splits prod.splits sum.splits if_splits)
       (metis fst_conv)+
qed

definition ex_bearer_req :: Request where
  "ex_bearer_req = ex_req\<lparr>reqHeader := [(''Authorization'', ''bearer good'')]\<rparr>"

definition ex_authn :: "bool \<Rightarrow> Authenticator" where
  "ex_authn bearer =
     \<lparr>auConfig = \<lparr>acServerURL = ''https://ui'', acCookieSecure = True, acBearerFallbackEnabled = bearer,
        acHasValidator = True, acDevMode = False\<rparr>, auServerOrigin = ''https://ui''\<rparr>"

definition ex_auth_state :: "((string \<times> bearerCacheEntry) list, (unit, (string \<times> nat) list) ClientRateLimiter) auth_state" where
  "ex_auth_state = \<lparr>asStore = NewStore \<lparr>IdleTimeout = 0, MaxLifetime = 0, MaxSessions = 0, MaxSessionsPerUser = 0\<rparr>,
     asBearer = \<lparr>bvCache = [], bvLimiter = ex_limiter, bvTtl = bearerCacheTTL\<rparr>\<rparr>"

definition ex_refuse :: "refresher_id \<Rightarrow> Refresh" where "ex_refuse rid m t = (m, Inl ''no'')"

lemma ex_bearerToken: "bearerToken ex_bearer_req = Some ''good''" "GetSessionCookie ex_bearer_req = None"
  by (simp_all add: bearerToken_def ex_bearer_req_def GetHeader_def ex_req_def SplitN2_def Let_def
      EqualFold_def ascii_lower_def char_eq_char_of GetSessionCookie_def)

theorem Resolve_sound_witness:
  "\<exists>ra s'. Resolve Some ex_env ex_refuse (0, 0, 0, 0) (1, 2) (ex_authn True) ex_bearer_req
      ex_auth_state newResponse = (Inr ra, s', newResponse) \<and> raMode ra = ModeSAToken \<and>
     slice_get (mem (asStore s')) (cToken (raEphemeral ra)) = ''good''"
proof -
  let ?R = "Resolve Some ex_env ex_refuse (0, 0, 0, 0) (1, 2) (ex_authn True) ex_bearer_req
      ex_auth_state newResponse"
  have "\<exists>ra s'. ?R = (Inr ra, s', newResponse)"
    by (simp add: Resolve_def ex_bearerToken ex_authn_def ex_auth_state_def validate_def ex_env_def ex_lru_def
        Let_def alloc_def)
  then obtain ra s' where R: "?R = (Inr ra, s', newResponse)" by blast
  then show ?thesis using Resolve_sound [OF R] by (auto simp: ex_bearerToken)
qed

text \<open>
  What the cross-origin gate does with a request the browser labels with a \<open>Sec-Fetch-Site\<close> other than
  \<open>same-origin\<close> or \<open>none\<close>, unless it is the development server's: it is refused, but for a top-level
  navigation to a route with the relaxed gate.
\<close>

definition cross_site :: "Authenticator \<Rightarrow> Request \<Rightarrow> bool" where
  "cross_site a req \<longleftrightarrow> GetHeader req ''Sec-Fetch-Site'' \<notin> {[], ''same-origin'', ''none''} \<and>
     \<not> (acDevMode (auConfig a) \<and> GetHeader req ''Origin'' = DevOrigin)"

lemma cross_site_gate:
  assumes "cross_site a req"
  obtains e where "seCode e = StatusForbidden"
    and "\<And>nav. checkCrossOrigin ip a req nav = (if nav \<and> isTopLevelNavigation req then None else Some e)"
proof
  let ?e = "cross_origin_error (''Sec-Fetch-Site is '' @ GetHeader req ''Sec-Fetch-Site'')"
  show "seCode ?e = StatusForbidden" by (simp add: cross_origin_error_def)
  show "checkCrossOrigin ip a req nav = (if nav \<and> isTopLevelNavigation req then None else Some ?e)" for nav
    using assms by (auto simp: cross_site_def checkCrossOrigin_def Let_def)
qed

section \<open>Redirect targets\<close>

text \<open>
  What a browser makes of a redirect target (WHATWG URL): it drops tabs and line breaks, and a
  reference that then starts with two slashes, forward or backward, names another host.
\<close>

definition browser_input :: "string \<Rightarrow> string" where
  "browser_input raw = filter (\<lambda>c. c \<noteq> CHR 0x09 \<and> c \<noteq> CHR 0x0A \<and> c \<noteq> CHR 0x0D) raw"

definition slash_like :: "char \<Rightarrow> bool" where
  "slash_like c \<longleftrightarrow> c = CHR ''/'' \<or> c = CHR 0x5C"

definition same_origin_path :: "string \<Rightarrow> bool" where
  "same_origin_path raw \<longleftrightarrow>
     (case browser_input raw of
        c # d # _ \<Rightarrow> c = CHR ''/'' \<and> \<not> slash_like d
      | [c] \<Rightarrow> c = CHR ''/''
      | [] \<Rightarrow> False)"

lemma browser_input_second:
  assumes "HasPrefix raw ''/''" and "\<not> HasPrefix raw ''//''" and "\<not> ContainsChar raw (CHR 0x5C)"
    and "\<not> list_ex is_ctl (fst (Cut raw (CHR ''#'')))"
  shows "same_origin_path raw"
proof -
  obtain s where s: "raw = CHR ''/'' # s" using assms(1) by (cases raw) (auto simp: HasPrefix_def)
  show ?thesis
  proof (cases s)
    case Nil
    then show ?thesis by (simp add: s same_origin_path_def browser_input_def)
  next
    case (Cons d t)
    have "d \<noteq> CHR ''/''" "d \<noteq> CHR 0x5C" using assms(2,3) by (auto simp: s Cons HasPrefix_def ContainsChar_def)
    moreover have "d \<noteq> CHR 0x09 \<and> d \<noteq> CHR 0x0A \<and> d \<noteq> CHR 0x0D"
      using assms(4) by (auto simp: s Cons is_ctl_def split: prod.splits if_splits)
    ultimately show ?thesis by (simp add: s Cons same_origin_path_def browser_input_def slash_like_def)
  qed
qed

text \<open>
  C21: no open redirect. \<open>SafeRedirectURL\<close> returns its argument or the empty string, and what it
  returns is either a reference that a browser resolves on this origin, although the browser
  treats backslashes as slashes and drops tabs and line breaks, or an \<open>http\<close> or \<open>https\<close> URL whose
  origin is the server's own (or whose host is the one the request was sent to, when no server
  URL is configured).
\<close>

theorem SafeRedirectURL_stays:
  assumes "SafeRedirectURL ip a req raw \<noteq> []"
  shows "SafeRedirectURL ip a req raw = raw \<and>
    (same_origin_path raw \<or>
     (\<exists>u. Parse ip raw = Some u \<and> urlScheme u \<in> {''http'', ''https''} \<and>
        (if auServerOrigin a \<noteq> [] then EqualFold (urlScheme u @ ''://'' @ urlHost u) (auServerOrigin a)
         else \<exists>v. Parse ip (urlScheme u @ ''://'' @ urlHost u) = Some v \<and> EqualFold (urlHost v) (reqHost req))))"
proof -
  obtain u where u: "Parse ip raw = Some u" using assms by (auto simp: SafeRedirectURL_def split: if_splits option.splits)
  show ?thesis
  proof (cases "urlScheme u = [] \<and> urlHost u = []")
    case True
    then have "HasPrefix raw ''/''" "\<not> HasPrefix raw ''//''" "\<not> ContainsChar raw (CHR 0x5C)"
      "SafeRedirectURL ip a req raw = raw"
      using assms u by (auto simp: SafeRedirectURL_def split: if_splits)
    then show ?thesis using browser_input_second Parse_no_ctl [OF u] by blast
  next
    case False
    then have "urlScheme u \<in> {''http'', ''https''}" "originAllowed ip a req (urlScheme u @ ''://'' @ urlHost u)"
      "SafeRedirectURL ip a req raw = raw"
      using assms u by (auto simp: SafeRedirectURL_def split: if_splits)
    then show ?thesis using u by (auto simp: originAllowed_def split: if_splits option.splits)
  qed
qed

theorem SafeRedirectURL_stays_witness:
  "same_origin_path ''/a?b=c'' \<and> SafeRedirectURL Some (ex_authn False) ex_req ''/a?b=c'' = ''/a?b=c''"
proof -
  have p: "Parse Some ''/a?b=c'' = Some \<lparr>urlScheme = [], urlHost = []\<rparr>"
    by (simp add: Parse_def url_parse_def is_ctl_def is_letter_def is_alnum_def cut_query_def HasPrefix_def Let_def)
  then have r: "SafeRedirectURL Some (ex_authn False) ex_req ''/a?b=c'' = ''/a?b=c''"
    by (simp add: SafeRedirectURL_def HasPrefix_def ContainsChar_def)
  then show ?thesis
    using SafeRedirectURL_stays [of Some "ex_authn False" ex_req "''/a?b=c''"] p by simp
qed

end
