(* ===== verification/Template.thy ===== *)
theory Template
  imports Go_Url
begin

text \<open>
  \<open>pkg/server/utils/template\<close>: templates with variables in double braces. The two regular
  expressions of the code match a variable with or without white space inside the braces; the
  leftmost-first scan they drive is written as a function that cuts a text into literal
  characters and variables. The main fact is that normalising a template and scanning the
  result again finds the variables and literals of the original text.
\<close>

section \<open>Scanning\<close>

definition is_word :: "char \<Rightarrow> bool" where
  "is_word c \<longleftrightarrow> is_alnum c \<or> c = CHR ''_''"

definition is_re_space :: "char \<Rightarrow> bool" where
  "is_re_space c \<longleftrightarrow> c \<in> {CHR 0x09, CHR 0x0A, CHR 0x0C, CHR 0x0D, CHR '' ''}"

definition match_var :: "bool \<Rightarrow> string \<Rightarrow> (string \<times> string) option" where
  "match_var spaces s =
     (if HasPrefix s ''{{'' then
        (let s1 = (if spaces then dropWhile is_re_space (drop 2 s) else drop 2 s);
             v = takeWhile is_word s1;
             s2 = dropWhile is_word s1;
             s3 = (if spaces then dropWhile is_re_space s2 else s2)
         in if v \<noteq> [] \<and> HasPrefix s3 ''}}'' then Some (v, drop 2 s3) else None)
      else None)"

datatype tpl_token = Lit char | Var string

lemma dropWhile_length: "length (dropWhile P s) \<le> length s"
  by (induction s) auto

lemma match_var_shorter: "match_var spaces s = Some (v, rest) \<Longrightarrow> length rest < length s"
proof -
  assume m: "match_var spaces s = Some (v, rest)"
  then have "2 \<le> length s" by (auto simp: match_var_def HasPrefix_iff split: if_splits)
  moreover have "length rest \<le> length (drop 2 s)"
    using m dropWhile_length [of is_re_space "dropWhile is_word (dropWhile is_re_space (drop 2 s))"]
      dropWhile_length [of is_word "dropWhile is_re_space (drop 2 s)"] dropWhile_length [of is_re_space "drop 2 s"]
      dropWhile_length [of is_word "drop 2 s"]
    by (auto simp: match_var_def Let_def split: if_splits)
  ultimately show ?thesis by simp
qed

function tokens :: "bool \<Rightarrow> string \<Rightarrow> tpl_token list" where
  "tokens spaces s =
     (case match_var spaces s of
        Some (v, rest) \<Rightarrow> Var v # tokens spaces rest
      | None \<Rightarrow> (case s of [] \<Rightarrow> [] | c # t \<Rightarrow> Lit c # tokens spaces t))"
  by pat_completeness auto
termination
  by (relation "measure (\<lambda>(b, s). length s)") (auto simp: match_var_shorter)

declare tokens.simps [simp del]

lemma tokens_var: "match_var b s = Some (v, rest) \<Longrightarrow> tokens b s = Var v # tokens b rest"
  by (simp add: tokens.simps [of b s])

lemma tokens_lit: "match_var b (c # t) = None \<Longrightarrow> tokens b (c # t) = Lit c # tokens b t"
  by (simp add: tokens.simps [of b "c # t"])

lemma tokens_Nil [simp]: "tokens b [] = []"
  by (simp add: tokens.simps [of b "[]"] match_var_def HasPrefix_def)

fun render_token :: "tpl_token \<Rightarrow> string" where
  "render_token (Lit c) = [c]"
| "render_token (Var v) = ''{{'' @ v @ ''}}''"

definition render :: "tpl_token list \<Rightarrow> string" where
  "render ts = concat (map render_token ts)"

definition token_vars :: "tpl_token list \<Rightarrow> string list" where
  "token_vars ts = List.map_filter (\<lambda>t. case t of Var v \<Rightarrow> Some v | Lit _ \<Rightarrow> None) ts"

section \<open>Templates\<close>

record Template =
  tplText :: string
  tplRequired :: "string list"

definition Template_New :: "string \<Rightarrow> string list \<Rightarrow> string + Template" where
  "Template_New tpl supportedVars =
     (let normalizedTpl = render (tokens True tpl);
          vars = token_vars (tokens False normalizedTpl)
      in case find (\<lambda>v. v \<notin> set supportedVars) vars of
           Some v \<Rightarrow> Inl (''unknown var in template: '' @ v)
         | None \<Rightarrow> Inr \<lparr>tplText = normalizedTpl, tplRequired = vars\<rparr>)"

fun subst_token :: "(string \<rightharpoonup> string) \<Rightarrow> tpl_token \<Rightarrow> string" where
  "subst_token values (Lit c) = [c]"
| "subst_token values (Var v) = (case values v of None \<Rightarrow> [] | Some x \<Rightarrow> x)"

definition Replace :: "(string \<rightharpoonup> string) \<Rightarrow> Template \<Rightarrow> string + string" where
  "Replace values t =
     (case find (\<lambda>v. values v = None) (tplRequired t) of
        Some v \<Rightarrow> Inl (''required var is missing: '' @ v)
      | None \<Rightarrow> Inr (concat (map (subst_token values) (tokens False (tplText t)))))"

section \<open>Normalising keeps the tokens\<close>

lemma render_Cons [simp]: "render (t # ts) = render_token t @ render ts" "render [] = []"
  by (simp_all add: render_def)

lemma match_var_word:
  assumes "match_var spaces s = Some (v, rest)"
  shows "list_all is_word v \<and> v \<noteq> []"
  using assms set_takeWhileD by (fastforce simp: match_var_def Let_def list_all_iff split: if_splits)

lemma brace_not_word [simp]: "\<not> is_word (CHR ''}'')" "\<not> is_word (CHR ''{'')"
  by (simp_all add: is_word_def is_alnum_def)

lemma word_not_space: "is_word c \<Longrightarrow> \<not> is_re_space c"
  by (auto simp: is_word_def is_alnum_def is_re_space_def)

text \<open>A variable without white space matches, with and without allowing white space.\<close>

lemma match_var_tight:
  assumes "list_all is_word v" and "v \<noteq> []"
  shows "match_var spaces (''{{'' @ v @ ''}}'' @ r) = Some (v, r)"
proof -
  have tw: "takeWhile is_word (v @ ''}}'' @ r) = v" "dropWhile is_word (v @ ''}}'' @ r) = ''}}'' @ r"
    using assms(1) by (simp_all add: list_all_iff)
  have "dropWhile is_re_space (v @ ''}}'' @ r) = v @ ''}}'' @ r"
    using assms by (cases v) (auto simp: word_not_space)
  moreover have "dropWhile is_re_space (''}}'' @ r) = ''}}'' @ r" by (simp add: is_re_space_def)
  ultimately show ?thesis
    using tw assms(2) by (simp add: match_var_def Let_def HasPrefix_def)
qed

lemma match_var_False_D:
  assumes "match_var False s = Some (v, r)"
  shows "s = ''{{'' @ v @ ''}}'' @ r"
  using assms by (auto simp: match_var_def Let_def HasPrefix_iff split: if_splits)
     (metis takeWhile_dropWhile_id)+

text \<open>The rendering starts with characters other than an opening brace only where the text does.\<close>

lemma render_literal_prefix:
  "render (tokens True t) = p @ q \<Longrightarrow> CHR ''{'' \<notin> set p \<Longrightarrow> \<exists>t'. t = p @ t'"
proof (induction p arbitrary: t)
  case (Cons c p)
  show ?case
  proof (cases "match_var True t")
    case (Some vr)
    then show ?thesis using Cons.prems by (cases vr) (simp add: tokens_var)
  next
    case None
    then obtain t1 where t: "t = c # t1" and "render (tokens True t1) = p @ q"
      using Cons.prems by (cases t) (auto simp: tokens_lit)
    then show ?thesis using Cons by auto
  qed
qed simp

lemma literal_no_match:
  assumes none: "match_var True (c # t) = None"
  shows "match_var False (c # render (tokens True t)) = None"
proof (rule ccontr)
  assume "match_var False (c # render (tokens True t)) \<noteq> None"
  then obtain v r where m: "match_var False (c # render (tokens True t)) = Some (v, r)" by auto
  have v: "list_all is_word v" "v \<noteq> []" using match_var_word [OF m] by auto
  have eq: "c = CHR ''{''" "render (tokens True t) = CHR ''{'' # v @ ''}}'' @ r"
    using match_var_False_D [OF m] by auto
  show False
  proof (cases "match_var True t")
    case (Some vr)
    then show False using eq v by (cases vr; cases v) (auto simp: tokens_var)
  next
    case None
    then obtain t1 where t: "t = CHR ''{'' # t1" and "render (tokens True t1) = (v @ ''}}'') @ r"
      using eq by (cases t) (auto simp: tokens_lit)
    moreover have "CHR ''{'' \<notin> set (v @ ''}}'')" using v brace_not_word(2) by (auto simp: list_all_iff)
    ultimately obtain t2 where "t1 = (v @ ''}}'') @ t2" using render_literal_prefix by blast
    then have "match_var True (c # t) = Some (v, t2)" using match_var_tight [OF v, of True t2] eq t by simp
    with none show False by simp
  qed
qed

lemma tokens_render: "tokens False (render (tokens True s)) = tokens True s"
proof (induction "True" s rule: tokens.induct)
  case (1 s)
  show ?case
  proof (cases "match_var True s")
    case (Some vr)
    obtain v rest where vr: "vr = (v, rest)" by fastforce
    have "match_var False (render (tokens True s)) = Some (v, render (tokens True rest))"
      using Some vr match_var_word [of True s v rest] match_var_tight [of v False "render (tokens True rest)"]
      by (simp add: tokens_var)
    then show ?thesis
      using Some vr 1 by (simp add: tokens_var del: render_Cons)
  next
    case None
    show ?thesis
    proof (cases s)
      case Nil
      then show ?thesis by simp
    next
      case (Cons c t)
      then show ?thesis
        using None 1 literal_no_match [of c t]
        by (simp add: tokens_lit)
    qed
  qed
qed

section \<open>Properties\<close>

text \<open>
  A template that is accepted uses supported variables only, and replacing them yields
  the template's text with each variable, however it is spaced inside its braces, replaced by
  its value and every other character kept. The values themselves are not expanded again, and
  replacing fails only when a variable of the template has no value.
\<close>

lemma template_replace:
  assumes "Template_New tpl supported = Inr t"
  shows "set (token_vars (tokens True tpl)) \<subseteq> set supported \<and>
    (if \<forall>v \<in> set (token_vars (tokens True tpl)). values v \<noteq> None
     then Replace values t = Inr (concat (map (subst_token values) (tokens True tpl)))
     else \<exists>e. Replace values t = Inl e)"
proof -
  have t: "t = \<lparr>tplText = render (tokens True tpl), tplRequired = token_vars (tokens True tpl)\<rparr>"
    and sup: "\<forall>v \<in> set (token_vars (tokens True tpl)). v \<in> set supported"
    using assms by (auto simp: Template_New_def Let_def tokens_render find_None_iff split: option.splits)
  show ?thesis
    using sup unfolding t
    by (auto simp: Replace_def tokens_render find_None_iff find_Some_iff split: option.splits)
qed

lemma template_replace_example:
  "\<exists>t. Template_New ''a{{ X }}'' [''X''] = Inr t \<and> Replace (map_of [(''X'', ''{{X}}'')]) t = Inr ''a{{X}}''"
proof -
  have m: "match_var True ''{{ X }}'' = Some (''X'', [])"
    by (simp add: match_var_def HasPrefix_def is_re_space_def is_word_def is_alnum_def)
  have n: "match_var True ''a{{ X }}'' = None" "match_var True [] = None" by (simp_all add: match_var_def HasPrefix_def)
  have tk: "tokens True ''a{{ X }}'' = [Lit (CHR ''a''), Var ''X'']"
    by (simp add: tokens_lit [OF n(1)] tokens_var [OF m])
  obtain t where t: "Template_New ''a{{ X }}'' [''X''] = Inr t"
    by (simp add: Template_New_def Let_def tokens_render) (simp add: tk token_vars_def map_filter_simps)
  show ?thesis
    using template_replace [OF t, of "map_of [(''X'', ''{{X}}'')]"] t
    by (simp add: tk token_vars_def map_filter_simps)
qed

end
