(* ===== verification/OAuth2_Provider.thy ===== *)
theory OAuth2_Provider
  imports Template Store_Properties Base64
begin

text \<open>
  The OIDC provider of \<open>pkg/server/oauth2.go\<close>: the signed OAuth2 state, nonces, the logout URL
  and the refresher of OIDC sessions. HMAC-SHA-256, SHA-256, JSON, the token endpoint and the
  ID-token verifier are parameters.

  The refresher is the instance of the interface \<open>refreshers\<close> that the session store relies on.
\<close>

section \<open>The provider\<close>

record OIDCProvider =
  opServerURL :: string
  opIssuerURL :: string
  opDiscoveryURL :: string
  opClientID :: string
  opClientSecret :: string
  opCallbackURL :: string
  opLogoutReturnURL :: string
  opLogoutTemplate :: Template
  opScopes :: "string list"
  opSecret :: string

definition DefaultOIDCScopes :: "string list" where
  "DefaultOIDCScopes = [''openid'', ''email'', ''groups'', ''offline_access'']"

definition sha256_BlockSize :: nat where "sha256_BlockSize = 64"

definition genRandomBytes :: "rand_source \<Rightarrow> nat \<Rightarrow> rand_error + string" where
  "genRandomBytes rand n = Bytes rand n"

definition genNonce :: "rand_source \<Rightarrow> rand_error + string" where
  "genNonce rand = HexString rand 32"

definition hashOIDCNonce :: "(string \<Rightarrow> string) \<Rightarrow> string \<Rightarrow> string" where
  "hashOIDCNonce sha256 nonce = EncodeToString URLEncoding (sha256 nonce)"

text \<open>\<open>callbackURL\<close> is the server URL joined with the callback path, \<open>returnURL\<close> the server URL with
  the message of a finished logout as its query.\<close>

definition NewOIDCProvider ::
  "(string \<Rightarrow> string option) \<Rightarrow> rand_source \<Rightarrow> (string \<Rightarrow> string) \<Rightarrow> (string \<Rightarrow> string) \<Rightarrow>
   string \<Rightarrow> string \<Rightarrow> string \<Rightarrow> string \<Rightarrow> string \<Rightarrow> string \<Rightarrow> string list \<Rightarrow> string + OIDCProvider" where
  "NewOIDCProvider ip rand callbackURL returnURL serverURL issuerURL discoveryURL clientID clientSecret logoutURLTemplate scopes =
     (case Parse ip serverURL of
        None \<Rightarrow> Inl (''invalid server URL '' @ squoted serverURL)
      | Some u \<Rightarrow>
          (case genRandomBytes rand sha256_BlockSize of
             Inl e \<Rightarrow> Inl ''error when generating secret for OAuth2 state''
           | Inr secret \<Rightarrow>
               (case Template_New logoutURLTemplate [''Token'', ''ClientID'', ''URL'', ''LogoutReturnURL''] of
                  Inl e \<Rightarrow> Inl (''logout URL is not a valid template: '' @ e)
                | Inr tpl \<Rightarrow>
                    Inr \<lparr>opServerURL = serverURL, opIssuerURL = issuerURL, opDiscoveryURL = discoveryURL,
                       opClientID = clientID, opClientSecret = clientSecret,
                       opCallbackURL = callbackURL serverURL, opLogoutReturnURL = returnURL serverURL,
                       opLogoutTemplate = tpl, opScopes = (if scopes = [] then DefaultOIDCScopes else scopes),
                       opSecret = secret\<rparr>)))"

text \<open>\<open>Init\<close>: discovery is retried with a doubling wait, at most 10 seconds, until it succeeds or
  the context ends. \<open>attempts\<close> are the outcomes, before the context ends, of the discovery calls
  at a URL; the result is the waits and whether discovery succeeded.\<close>

definition discovery_url :: "OIDCProvider \<Rightarrow> string" where
  "discovery_url p = (if opDiscoveryURL p \<noteq> [] \<and> opDiscoveryURL p \<noteq> opIssuerURL p then opDiscoveryURL p else opIssuerURL p)"

definition next_wait :: "Duration \<Rightarrow> Duration" where
  "next_wait wait = (let wait = 2 * wait in if wait > 10 * second then 10 * second else wait)"

fun discover :: "bool list \<Rightarrow> Duration \<Rightarrow> Duration list \<times> bool" where
  "discover [] wait = ([], False)"
| "discover (ok # attempts) wait =
     (if ok then ([], True)
      else (case discover attempts (next_wait wait) of (ws, r) \<Rightarrow> (wait # ws, r)))"

definition OIDC_Init :: "(string \<Rightarrow> bool list) \<Rightarrow> OIDCProvider \<Rightarrow> Duration list \<times> bool" where
  "OIDC_Init attempts p = discover (attempts (discovery_url p)) (1 * second)"

text \<open>The OAuth2 client of the provider; the endpoints are those that discovery found.\<close>

record oauth2_config =
  ocgClientID :: string
  ocgClientSecret :: string
  ocgRedirectURL :: string
  ocgEndpoint :: string
  ocgScopes :: "string list"

definition OAuth2Config :: "string \<Rightarrow> OIDCProvider \<Rightarrow> oauth2_config" where
  "OAuth2Config endpoint p =
     \<lparr>ocgClientID = opClientID p, ocgClientSecret = opClientSecret p, ocgRedirectURL = opCallbackURL p,
      ocgEndpoint = endpoint, ocgScopes = opScopes p\<rparr>"

definition Scopes :: "OIDCProvider \<Rightarrow> string list" where
  "Scopes p = opScopes p"

section \<open>Refreshing\<close>

text \<open>
  The token endpoint's answer to a refresh-token grant: an error, or the \<open>id_token\<close> (if it is
  there and a string) and the refresh token of the response. \<open>verify\<close> gives the expiry of a
  valid ID token.
\<close>

type_synonym token_source = "string \<Rightarrow> (string option \<times> string) option"

definition oidc_Refresh :: "token_source \<Rightarrow> (string \<Rightarrow> Time option) \<Rightarrow> Refresh" where
  "oidc_Refresh token verify m refreshToken =
     (if slice_get m refreshToken = [] then (m, Inl ''session has no refresh token'')
      else
        (case token (slice_get m refreshToken) of
           None \<Rightarrow> (m, Inl ''refresh token was rejected by the OIDC provider'')
         | Some (None, _) \<Rightarrow> (m, Inl ''no id_token in refresh response'')
         | Some (Some rawIDToken, newRT) \<Rightarrow>
             (case verify rawIDToken of
                None \<Rightarrow> (m, Inl ''failed to verify refreshed id_token'')
              | Some expiry \<Rightarrow>
                  (let (m, newRefreshToken) =
                         (if newRT \<noteq> [] \<and> newRT \<noteq> slice_get m refreshToken then alloc m newRT else (m, None));
                       (m, tok) = alloc m rawIDToken
                   in (m, Inr (emptyCredential\<lparr>cKind := KindBearer, cToken := tok, cExpiresAt := expiry\<rparr>,
                               newRefreshToken))))))"

text \<open>The same on contents.\<close>

definition oidc_arefresh :: "token_source \<Rightarrow> (string \<Rightarrow> Time option) \<Rightarrow> string option \<Rightarrow> string + acred \<times> Time \<times> string option" where
  "oidc_arefresh token verify rt =
     (let cur = (case rt of None \<Rightarrow> [] | Some t \<Rightarrow> t)
      in if cur = [] then Inl ''session has no refresh token''
         else
           (case token cur of
              None \<Rightarrow> Inl ''refresh token was rejected by the OIDC provider''
            | Some (None, _) \<Rightarrow> Inl ''no id_token in refresh response''
            | Some (Some rawIDToken, newRT) \<Rightarrow>
                (case verify rawIDToken of
                   None \<Rightarrow> Inl ''failed to verify refreshed id_token''
                 | Some expiry \<Rightarrow>
                     Inr ((KindBearer, rawIDToken, [], [], []), expiry,
                          if newRT \<noteq> [] \<and> newRT \<noteq> cur then Some newRT else None))))"

lemma content_get: "slice_get m s = (case content m s of None \<Rightarrow> [] | Some t \<Rightarrow> t)"
  by (cases s) (simp_all add: content_def)

lemma oidc_arefresh_content:
  "oidc_arefresh token verify (content m s) =
     (if slice_get m s = [] then Inl ''session has no refresh token''
      else
        (case token (slice_get m s) of
           None \<Rightarrow> Inl ''refresh token was rejected by the OIDC provider''
         | Some (None, _) \<Rightarrow> Inl ''no id_token in refresh response''
         | Some (Some rawIDToken, newRT) \<Rightarrow>
             (case verify rawIDToken of
                None \<Rightarrow> Inl ''failed to verify refreshed id_token''
              | Some expiry \<Rightarrow>
                  Inr ((KindBearer, rawIDToken, [], [], []), expiry,
                       if newRT \<noteq> [] \<and> newRT \<noteq> slice_get m s then Some newRT else None))))"
  unfolding oidc_arefresh_def Let_def content_get [of m s, symmetric] by (rule refl)

text \<open>A failed refresh allocates nothing; a successful one allocates the new token, after the
  rotated refresh token if there is one.\<close>

lemma oidc_Refresh_cases:
  assumes "oidc_Refresh token verify m s = (m', res)"
  obtains (failed) e where "res = Inl e" "m' = m" "oidc_arefresh token verify (content m s) = Inl e"
  | (kept) raw e where "m' = m @ [raw]"
      "res = Inr (emptyCredential\<lparr>cKind := KindBearer, cToken := Some (length m), cExpiresAt := e\<rparr>, None)"
      "oidc_arefresh token verify (content m s) = Inr ((KindBearer, raw, [], [], []), e, None)"
  | (rotated) raw e rt where "m' = m @ [rt, raw]"
      "res = Inr (emptyCredential\<lparr>cKind := KindBearer, cToken := Some (Suc (length m)), cExpiresAt := e\<rparr>, Some (length m))"
      "oidc_arefresh token verify (content m s) = Inr ((KindBearer, raw, [], [], []), e, Some rt)"
proof -
  let ?cur = "slice_get m s"
  note defs = oidc_Refresh_def oidc_arefresh_content
  consider (empty) "?cur = []" | (no_answer) "?cur \<noteq> []" "token ?cur = None"
    | (no_id_token) rt where "?cur \<noteq> []" "token ?cur = Some (None, rt)"
    | (unverified) raw rt where "?cur \<noteq> []" "token ?cur = Some (Some raw, rt)" "verify raw = None"
    | (renewed) raw rt e where "?cur \<noteq> []" "token ?cur = Some (Some raw, rt)" "verify raw = Some e"
    by (metis option.exhaust surj_pair)
  then show ?thesis
  proof cases
    case renewed
    then show ?thesis using assms that(2,3) by (auto simp: defs alloc_def Let_def split: if_splits)
  qed (use assms that(1) in \<open>auto simp: defs\<close>)
qed

interpretation oidc: refreshers "\<lambda>rid. oidc_Refresh token verify" "\<lambda>rid. oidc_arefresh token verify"
  for token verify
proof
  fix m s m' res c rt
  show "oidc_Refresh token verify m s = (m', res) \<Longrightarrow> \<exists>xs. m' = m @ xs"
    by (erule oidc_Refresh_cases) auto
  show "oidc_Refresh token verify m s = (m', Inr (c, rt)) \<Longrightarrow>
      slice_refs (cred_slices c @ [rt]) \<subseteq> {length m..<length m'}"
    by (erule oidc_Refresh_cases) (auto simp: cred_slices_def emptyCredential_def)
  show "oidc_Refresh token verify m s = (m', Inr (c, rt)) \<Longrightarrow> rt = None \<or> rt \<notin> set (cred_slices c)"
    by (erule oidc_Refresh_cases) (auto simp: cred_slices_def emptyCredential_def)
  show "oidc_Refresh token verify m s = (m', res) \<Longrightarrow>
      oidc_arefresh token verify (content m s) =
        (case res of Inl e \<Rightarrow> Inl e | Inr (c, rt) \<Rightarrow> Inr (cred_view m' c, cExpiresAt c, content m' rt))"
    by (erule oidc_Refresh_cases)
       (auto simp: cred_view_def content_def slice_get_def emptyCredential_def nth_append)
qed

section \<open>The OAuth2 state\<close>

record oauth2State =
  osNonce :: string
  osRedirectURL :: string

text \<open>JSON and the MAC.\<close>

record state_codec =
  scMarshal :: "oauth2State \<Rightarrow> string"
  scUnmarshal :: "string \<Rightarrow> oauth2State option"
  scHmac :: "string \<Rightarrow> string \<Rightarrow> string"

definition GetOAuth2State ::
  "state_codec \<Rightarrow> rand_source \<Rightarrow> OIDCProvider \<Rightarrow> string \<Rightarrow> rand_error + oauth2State \<times> string" where
  "GetOAuth2State C rand p redirectURL =
     (case genNonce rand of
        Inl e \<Rightarrow> Inl e
      | Inr nonce \<Rightarrow>
          (let state = \<lparr>osNonce = nonce, osRedirectURL = redirectURL\<rparr>;
               b64 = EncodeToString URLEncoding (scMarshal C state);
               raw = b64 @ ''.'' @ EncodeToString URLEncoding (scHmac C (opSecret p) b64)
           in Inr (state, raw)))"

definition ParseOAuth2State :: "state_codec \<Rightarrow> OIDCProvider \<Rightarrow> string \<Rightarrow> string + oauth2State" where
  "ParseOAuth2State C p raw =
     (case Split raw (CHR ''.'') of
        [s0, s1] \<Rightarrow>
          (case DecodeString URLEncoding s0 of
             None \<Rightarrow> Inl ''invalid format''
           | Some data \<Rightarrow>
               (case DecodeString URLEncoding s1 of
                  None \<Rightarrow> Inl ''invalid format''
                | Some signature \<Rightarrow>
                    if signature \<noteq> scHmac C (opSecret p) s0 then Inl ''invalid signature''
                    else
                      (case scUnmarshal C data of
                         None \<Rightarrow> Inl ''invalid format''
                       | Some state \<Rightarrow> Inr state)))
      | _ \<Rightarrow> Inl ''invalid format'')"

section \<open>The logout URL\<close>

definition upper_hex :: "nat \<Rightarrow> char" where
  "upper_hex n = ''0123456789ABCDEF'' ! n"

definition QueryEscape :: "string \<Rightarrow> string" where
  "QueryEscape s = concat (map (\<lambda>c.
     if is_alnum c \<or> c \<in> set ''-_.~'' then [c]
     else if c = CHR '' '' then ''+''
     else [CHR ''%'', upper_hex (of_char c div 16), upper_hex (of_char c mod 16)]) s)"

definition BuildLogoutURL :: "(string \<Rightarrow> string option) \<Rightarrow> OIDCProvider \<Rightarrow> string \<Rightarrow> string + string" where
  "BuildLogoutURL ip p idToken =
     (case Replace (map_of [(''Token'', QueryEscape idToken), (''ClientID'', QueryEscape (opClientID p)),
                            (''URL'', QueryEscape (opServerURL p)),
                            (''LogoutReturnURL'', QueryEscape (opLogoutReturnURL p))]) (opLogoutTemplate p) of
        Inl e \<Rightarrow> Inl e
      | Inr logoutURL \<Rightarrow>
          (case Parse ip logoutURL of
             None \<Rightarrow> Inl ''invalid logout URL''
           | Some _ \<Rightarrow> Inr logoutURL))"

lemma url_alphabet_no_dot: "CHR ''.'' \<notin> set (EncodeToString URLEncoding s)"
proof -
  have "CHR ''.'' \<notin> set (alphabet URLEncoding) \<union> {CHR ''=''}"
    by (simp add: URLEncoding_def base64_letters_def)
  then show ?thesis using EncodeToString_alphabet [OF encodings_ok(2), of s] by blast
qed

lemma ParseOAuth2State_signed:
  assumes "ParseOAuth2State C p raw = Inr st"
  shows "\<exists>b64 sig. Split raw (CHR ''.'') = [b64, sig] \<and>
    DecodeString URLEncoding sig = Some (scHmac C (opSecret p) b64) \<and>
    (\<exists>data. DecodeString URLEncoding b64 = Some data \<and> scUnmarshal C data = Some st)"
  using assms by (auto simp: ParseOAuth2State_def split: list.splits option.splits if_splits)

section \<open>Properties\<close>

text \<open>
  The OAuth2 state survives its round trip through the cookie: what \<open>GetOAuth2State\<close>
  produced parses to the state that was signed, with the same redirect URL and nonce, provided
  JSON decodes what it encoded for that state. Conversely a state that is accepted carries a
  MAC of its encoded data under the server's secret.
\<close>

lemma oauth2_state_roundtrip:
  assumes "GetOAuth2State C rand p redirectURL = Inr (st, raw)"
    and "scUnmarshal C (scMarshal C st) = Some st"
  shows "ParseOAuth2State C p raw = Inr st \<and> osRedirectURL st = redirectURL \<and>
    (\<forall>raw' st'. ParseOAuth2State C p raw' = Inr st' \<longrightarrow>
       (\<exists>b64 sig. raw' = b64 @ ''.'' @ sig \<and>
          DecodeString URLEncoding sig = Some (scHmac C (opSecret p) b64)))"
proof -
  let ?b = "EncodeToString URLEncoding (scMarshal C st)"
  have raw: "raw = ?b @ CHR ''.'' # EncodeToString URLEncoding (scHmac C (opSecret p) ?b)"
    and url: "osRedirectURL st = redirectURL"
    using assms(1) by (auto simp: GetOAuth2State_def Let_def split: sum.splits)
  have "Split raw (CHR ''.'') = [?b, EncodeToString URLEncoding (scHmac C (opSecret p) ?b)]"
    unfolding raw by (simp add: Split_append_sep url_alphabet_no_dot Split_absent)
  then have "ParseOAuth2State C p raw = Inr st"
    using assms(2) by (simp add: ParseOAuth2State_def url.decode_encode)
  moreover have "\<exists>b64 sig. raw' = b64 @ ''.'' @ sig \<and> DecodeString URLEncoding sig = Some (scHmac C (opSecret p) b64)"
    if signed: "ParseOAuth2State C p raw' = Inr st'" for raw' st'
  proof -
    obtain b64 sig where s: "Split raw' (CHR ''.'') = [b64, sig]"
      "DecodeString URLEncoding sig = Some (scHmac C (opSecret p) b64)"
      using ParseOAuth2State_signed [OF signed] by blast
    have "raw' = Join (Split raw' (CHR ''.'')) [CHR ''.'']" by simp
    with s show ?thesis by auto
  qed
  ultimately show ?thesis using url by blast
qed

definition ex_codec :: state_codec where
  "ex_codec = \<lparr>scMarshal = (\<lambda>s. osNonce s @ CHR ''|'' # osRedirectURL s),
     scUnmarshal = (\<lambda>d. case Cut d (CHR ''|'') of (n, r, f) \<Rightarrow> if f then Some \<lparr>osNonce = n, osRedirectURL = r\<rparr> else None),
     scHmac = (\<lambda>k d. k @ d)\<rparr>"

definition ex_oidc :: OIDCProvider where
  "ex_oidc = \<lparr>opServerURL = ''https://ui'', opIssuerURL = ''https://dex'', opDiscoveryURL = [], opClientID = ''id'',
     opClientSecret = ''secret'', opCallbackURL = ''https://ui/auth/oauth2/callback'', opLogoutReturnURL = ''https://ui?msg=x'',
     opLogoutTemplate = \<lparr>tplText = [], tplRequired = []\<rparr>, opScopes = DefaultOIDCScopes, opSecret = ''k''\<rparr>"

lemma oauth2_state_roundtrip_example:
  "\<exists>st raw. GetOAuth2State ex_codec (\<lambda>n. Some ''ab'') ex_oidc ''/x'' = Inr (st, raw) \<and>
     ParseOAuth2State ex_codec ex_oidc raw = Inr st \<and> osRedirectURL st = ''/x''"
proof -
  have nonce: "genNonce (\<lambda>n. Some ''ab'') = Inr ''6162''"
    by (simp add: genNonce_def HexString_def Bytes_def hex_EncodeToString_def hex_byte_def hex_digit_def)
  obtain st raw where g: "GetOAuth2State ex_codec (\<lambda>n. Some ''ab'') ex_oidc ''/x'' = Inr (st, raw)"
    and st: "st = \<lparr>osNonce = ''6162'', osRedirectURL = ''/x''\<rparr>"
    by (simp add: GetOAuth2State_def nonce Let_def)
  have "scUnmarshal ex_codec (scMarshal ex_codec st) = Some st" by (simp add: st ex_codec_def)
  then show ?thesis using oauth2_state_roundtrip [OF g] g by blast
qed



end
