(* ===== verification/Auth_Server.thy ===== *)
theory Auth_Server
  imports Authn_Properties OAuth2_Provider
begin

text \<open>
  The authentication endpoints of \<open>pkg/server/auth.go\<close> and \<open>pkg/server/oauth2.go\<close>: the three
  login forms, the OAuth2 login and callback, session information and logout, with the chain
  of middlewares in front of a login. A handler takes the state it works on and the response
  written so far and returns both.

  Parameters: the request body's JSON binding, the API server's validation of a credential,
  the password comparison, and for OIDC the token endpoint, the ID-token verifier and the
  re-encoding of a redirect URL's query. A response shows what the handlers write themselves;
  what gin writes when a body does not bind is not part of it. Error texts that are only logged
  keep their constant part.
\<close>

section \<open>Configuration\<close>

record serverConfig =
  BasicAuthEnabled :: bool
  OIDCAuthEnabled :: bool
  OIDCNeedsLogout :: bool
  KubeconfigAuthEnabled :: bool
  SATokenAuthEnabled :: bool
  scCookieSecure :: bool
  MaxLoginsPerSecond :: int
  AdminUserName :: string

definition maxLoginBodySize :: nat where "maxLoginBodySize = 256 * 1024"

section \<open>Creating a session\<close>

text \<open>The entropy, clock reading and iteration order that \<open>Create\<close> consumes.\<close>

record create_env =
  ceRand :: rand_source
  ceNow :: Time
  ceRange :: iteration

definition drop_old_session :: "Request \<Rightarrow> store \<Rightarrow> store" where
  "drop_old_session req st = (case SessionIDFromRequest req of Some oldID \<Rightarrow> Delete oldID st | None \<Rightarrow> st)"

definition createSession ::
  "create_env \<Rightarrow> Authenticator \<Rightarrow> Request \<Rightarrow> Spec \<Rightarrow> store \<Rightarrow> Response \<Rightarrow> ServerError option \<times> store \<times> Response" where
  "createSession E a req spec st w =
     (let st = drop_old_session req st
      in case Create (ceRand E) (ceNow E) (ceRange E) spec st of
           (Inl err, st) \<Rightarrow>
             (let st = st\<lparr>mem := fst (Spec_Zero (mem st) spec)\<rparr>
              in if err = ErrTooManySessions then
                   (Some \<lparr>seCode = StatusServiceUnavailable, seErr = None,
                      seMessage = ''Too many active sessions, please try again later''\<rparr>, st, w)
                 else
                   (Some \<lparr>seCode = StatusInternalServerError,
                      seErr = Some (''error when creating session: '' @ store_error_text err), seMessage = []\<rparr>, st, w))
         | (Inr r, st) \<Rightarrow>
             (None, st, ClearLegacyCookies req (Authn_SetSessionCookie a (sId (sess st r)) w)))"

text \<open>The API server's answer about a credential: an error, or the username.\<close>

type_synonym validator = "mem \<Rightarrow> Credential \<Rightarrow> string + string"

definition validateCredential :: "validator \<Rightarrow> mem \<Rightarrow> Credential \<Rightarrow> ServerError + string" where
  "validateCredential check m cred =
     (case check m cred of
        Inl err \<Rightarrow> Inl (unauthorized ''Kubernetes rejected this credential'' (Some (''credential validation failed: '' @ err)))
      | Inr username \<Rightarrow> Inr username)"

definition newSpec :: "Mode \<Rightarrow> string \<Rightarrow> Credential \<Rightarrow> Spec" where
  "newSpec mode username cred =
     \<lparr>spMode = mode, spCredential = cred, spRefreshToken = None, spUsername = username, spRefresher = None\<rparr>"

text \<open>How every login form ends.\<close>

definition finish :: "ServerError option \<times> store \<times> Response \<Rightarrow> store \<times> Response" where
  "finish r = (case r of (Some e, st, w) \<Rightarrow> (st, HandleError e w) | (None, st, w) \<Rightarrow> (st, w\<lparr>respStatus := StatusOK\<rparr>))"

section \<open>Login forms\<close>

definition BasicAuth :: "Request \<Rightarrow> (string \<times> string) option" where
  "BasicAuth req =
     (let auth = GetHeader req ''Authorization''
      in if length auth < 6 \<or> \<not> EqualFold (take 6 auth) ''Basic '' then None
         else
           (case DecodeString StdEncoding (drop 6 auth) of
              None \<Rightarrow> None
            | Some cs \<Rightarrow>
                (case Cut cs (CHR '':'') of (user, pw, ok) \<Rightarrow> if ok then Some (user, pw) else None)))"

definition Login_body ::
  "(string \<Rightarrow> bool) \<Rightarrow> create_env \<Rightarrow> Authenticator \<Rightarrow> serverConfig \<Rightarrow> Request \<Rightarrow> store \<Rightarrow> Response \<Rightarrow>
   ServerError option \<times> store \<times> Response" where
  "Login_body compare E a cfg req st w =
     (case BasicAuth req of
        None \<Rightarrow> (Some (unauthorized ''Basic Auth required'' None), st, w)
      | Some (user, password) \<Rightarrow>
          if user \<noteq> ''admin'' then (Some (unauthorized ''Must authenticate as admin'' None), st, w)
          else if \<not> compare password then (Some (unauthorized ''Invalid admin password'' None), st, w)
          else createSession E a req
                 (newSpec ModeAdmin user (emptyCredential\<lparr>cKind := KindImpersonate, cUserName := AdminUserName cfg\<rparr>)) st w)"

definition Login :: "(string \<Rightarrow> bool) \<Rightarrow> create_env \<Rightarrow> Authenticator \<Rightarrow> serverConfig \<Rightarrow> Request \<Rightarrow> store \<Rightarrow> Response \<Rightarrow> store \<times> Response" where
  "Login compare E a cfg req st w = finish (Login_body compare E a cfg req st w)"

definition bad_request :: "string \<Rightarrow> ServerError" where
  "bad_request msg = \<lparr>seCode = StatusBadRequest, seErr = None, seMessage = msg\<rparr>"

text \<open>What follows once a form yielded a credential: check it, then create the session; a
  credential that is refused is zeroed.\<close>

definition login_with ::
  "validator \<Rightarrow> create_env \<Rightarrow> Authenticator \<Rightarrow> Request \<Rightarrow> Mode \<Rightarrow> Credential \<Rightarrow> store \<Rightarrow> Response \<Rightarrow>
   ServerError option \<times> store \<times> Response" where
  "login_with check E a req mode cred st w =
     (case validateCredential check (mem st) cred of
        Inl sError \<Rightarrow> (Some sError, st\<lparr>mem := fst (Credential_Zero (mem st) cred)\<rparr>, w)
      | Inr username \<Rightarrow> createSession E a req (newSpec mode username cred) st w)"

text \<open>A request body as a reader: the bytes it delivers and whether it then fails instead of ending.\<close>

type_synonym body_reader = "string \<times> bool"

definition LoginWithToken_body ::
  "(body_reader \<Rightarrow> string option) \<Rightarrow> json_exp \<Rightarrow> (cred_error \<Rightarrow> string) \<Rightarrow> validator \<Rightarrow> create_env \<Rightarrow> Authenticator \<Rightarrow> Request \<Rightarrow>
   body_reader \<Rightarrow> store \<Rightarrow> Response \<Rightarrow> ServerError option \<times> store \<times> Response" where
  "LoginWithToken_body bind exp msg check E a req body st w =
     (case bind body of
        None \<Rightarrow> (Some (bad_request ''Invalid request body''), st, w)
      | Some token \<Rightarrow>
          (let (m, tok) = alloc (mem st) token;
               st = st\<lparr>mem := m\<rparr>
           in case BearerCredential exp m tok of
                Inl err \<Rightarrow> (Some (bad_request (msg err)), st, w)
              | Inr cred \<Rightarrow> login_with check E a req ModeSAToken cred st w))"

definition LoginWithToken where
  "LoginWithToken bind exp msg check E a req body st w =
     finish (LoginWithToken_body bind exp msg check E a req body st w)"

definition LoginWithKubeconfig_body ::
  "(body_reader \<Rightarrow> string option) \<Rightarrow> (mem \<Rightarrow> string \<Rightarrow> mem \<times> (cred_error + Credential)) \<Rightarrow> (cred_error \<Rightarrow> string) \<Rightarrow>
   validator \<Rightarrow> create_env \<Rightarrow> Authenticator \<Rightarrow> Request \<Rightarrow> body_reader \<Rightarrow> store \<Rightarrow> Response \<Rightarrow>
   ServerError option \<times> store \<times> Response" where
  "LoginWithKubeconfig_body bind fromKubeconfig msg check E a req body st w =
     (case bind body of
        None \<Rightarrow> (Some (bad_request ''Invalid request body''), st, w)
      | Some kubeconfig \<Rightarrow>
          (case fromKubeconfig (mem st) kubeconfig of
             (m, Inl err) \<Rightarrow> (Some (bad_request (msg err)), st\<lparr>mem := m\<rparr>, w)
           | (m, Inr cred) \<Rightarrow> login_with check E a req ModeKubeconfig cred (st\<lparr>mem := m\<rparr>) w))"

definition LoginWithKubeconfig where
  "LoginWithKubeconfig bind fromKubeconfig msg check E a req body st w =
     finish (LoginWithKubeconfig_body bind fromKubeconfig msg check E a req body st w)"

section \<open>Session information and logout\<close>

record SessionInfo =
  siAuthenticated :: bool
  siMode :: string
  siUsername :: string
  siExpiresAt :: "Time option"

text \<open>\<open>resolved\<close> is the outcome of \<open>Resolve\<close>, \<open>marshal\<close> the JSON encoding.\<close>

definition Session_handler ::
  "(SessionInfo \<Rightarrow> string) \<Rightarrow> (ServerError + RequestAuth) \<times> ('c, 'l) auth_state \<times> Response \<Rightarrow> ('c, 'l) auth_state \<times> Response" where
  "Session_handler marshal resolved =
     (case resolved of
        (Inl e, s, w) \<Rightarrow> (s, HandleError e w)
      | (Inr ra, s, w) \<Rightarrow>
          (let info = \<lparr>siAuthenticated = True, siMode = raMode ra, siUsername = raUsername ra,
             siExpiresAt = (case raSession ra of None \<Rightarrow> None | Some r \<Rightarrow> Some (sExpiresAt (sess (asStore s) r)))\<rparr>
           in (s, JSON StatusOK (BodyBytes (marshal info)) w)))"

text \<open>The \<open>Location\<close> is the target given to \<open>c.Redirect\<close>.\<close>

definition Redirect :: "int \<Rightarrow> string \<Rightarrow> Response \<Rightarrow> Response" where
  "Redirect code loc w = Header ''Location'' loc (w\<lparr>respStatus := code\<rparr>)"

definition logout_id_token :: "string \<Rightarrow> store \<Rightarrow> string" where
  "logout_id_token sid st =
     (case Peek st sid of
        None \<Rightarrow> []
      | Some r \<Rightarrow> if sMode (sess st r) = ModeOIDC then slice_get (mem st) (cToken (sCredential (sess st r))) else [])"

definition Logout ::
  "(string \<Rightarrow> string option) \<Rightarrow> (string \<Rightarrow> string + string) \<Rightarrow> Authenticator \<Rightarrow> serverConfig \<Rightarrow> Request \<Rightarrow> store \<Rightarrow> Response \<Rightarrow>
   store \<times> Response" where
  "Logout ip buildLogoutURL a cfg req st w =
     (let redirectURL = SafeRedirectURL ip a req (Query req ''redirect_url'');
          (idToken, st) = (case SessionIDFromRequest req of
             Some sid \<Rightarrow> (logout_id_token sid st, Delete sid st)
           | None \<Rightarrow> ([], st));
          w = ClearLegacyCookies req (ClearSessionCookie w)
      in if OIDCAuthEnabled cfg \<and> OIDCNeedsLogout cfg \<and> idToken \<noteq> [] then
           (case buildLogoutURL idToken of
              Inl e \<Rightarrow> (st, HandleError \<lparr>seCode = StatusInternalServerError,
                 seErr = Some (''error when building OIDC logout URL: '' @ e), seMessage = []\<rparr> w)
            | Inr logoutURL \<Rightarrow> (st, Redirect StatusSeeOther logoutURL w))
         else if redirectURL \<noteq> [] then (st, Redirect StatusFound redirectURL w)
         else (st, w\<lparr>respStatus := StatusOK\<rparr>))"

section \<open>The login chain\<close>

definition loginRateLimit :: "serverConfig \<Rightarrow> (string \<times> int) option" where
  "loginRateLimit cfg =
     (if MaxLoginsPerSecond cfg < 0 then None
      else Some (dec_int (MaxLoginsPerSecond cfg) @ ''/s'', if MaxLoginsPerSecond cfg > 0 then 1 else 0))"

definition loginClientCacheSize :: int where "loginClientCacheSize = 10000"

text \<open>The limiter shared by the login routes.\<close>

definition loginRateLimiter ::
  "(nat, 'k) lru \<Rightarrow> serverConfig \<Rightarrow> ('l, 'k) ClientRateLimiter option or_die" where
  "loginRateLimiter limits cfg =
     (case loginRateLimit cfg of
        None \<Rightarrow> Returns None
      | Some (rate, burst) \<Rightarrow> map_or_die Some (NewClientRateLimiterOrDie limits rate burst loginClientCacheSize))"

text \<open>The limit fits a Go \<open>int\<close> and the cache is made for a positive size, so it never panics; a negative
  limit is none at all, and the limit 0 admits nobody.\<close>

lemma loginRateLimiter_returns:
  assumes "MaxLoginsPerSecond cfg < 2 ^ 63" and "lru_new limits loginClientCacheSize = Some cache"
  shows "loginRateLimiter limits cfg =
    Returns (if MaxLoginsPerSecond cfg < 0 then None
      else Some \<lparr>crlConfig = \<lparr>ratePerSecond = (nat (MaxLoginsPerSecond cfg), 1),
          burstSize = (if MaxLoginsPerSecond cfg > 0 then 1 else 0)\<rparr>, crlCache = cache, crlLimiters = []\<rparr>)"
  using assms newConfig_printed [of "MaxLoginsPerSecond cfg" "''s''" 1]
  by (simp add: loginRateLimiter_def loginRateLimit_def NewClientRateLimiterOrDie_def OrDie_def NewClientRateLimiter_def rate_unit_def)

text \<open>\<open>http.MaxBytesReader\<close>: at most that many bytes, then an error if there are more.\<close>

definition limitBodySize :: "nat \<Rightarrow> string \<Rightarrow> body_reader" where
  "limitBodySize maxBytes body = (take maxBytes body, maxBytes < length body)"

text \<open>The handlers of a login route: the cross-origin gate, the limit on the body, the rate limit
  if there is one, the handler. \<open>'l\<close> is the limiter's state.\<close>

definition loginHandlers ::
  "(string \<Rightarrow> string option) \<Rightarrow> Authenticator \<Rightarrow> Request \<Rightarrow> (Time \<Rightarrow> Request \<Rightarrow> 'l \<Rightarrow> bool \<times> 'l) option \<Rightarrow> Time \<Rightarrow>
   (body_reader \<Rightarrow> 's \<Rightarrow> Response \<Rightarrow> 's \<times> Response) \<Rightarrow> 's \<times> 'l \<Rightarrow> Response \<Rightarrow> ('s \<times> 'l) \<times> Response" where
  "loginHandlers ip a req limiter now handler =
     CSRFMiddleware ip a req
       (\<lambda>(st, l) w.
          let run = handler (limitBodySize maxLoginBodySize (reqBody req))
          in case limiter of
               None \<Rightarrow> (case run st w of (st, w) \<Rightarrow> ((st, l), w))
             | Some allow \<Rightarrow>
                 (case MiddlewareWithClock allow now req l w of
                    (w, l) \<Rightarrow> if respAborted w then ((st, l), w)
                              else (case run st w of (st, w) \<Rightarrow> ((st, l), w))))"

text \<open>The handlers of the group \<open>/auth\<close> and what runs in front of one.\<close>

datatype auth_handler =
  HLogin | HLoginWithToken | HLoginWithKubeconfig | HSession | HLogout | HOAuth2Login | HOAuth2Callback

datatype auth_gate = NoGate | LoginChain | CSRFGate | NavigationCSRFGate

record auth_route =
  atMethod :: string
  atPath :: string
  atGate :: auth_gate
  atHandler :: auth_handler

definition auth_route_at :: "string \<Rightarrow> string \<Rightarrow> auth_gate \<Rightarrow> auth_handler \<Rightarrow> auth_route" where
  "auth_route_at m p g h = \<lparr>atMethod = m, atPath = p, atGate = g, atHandler = h\<rparr>"

definition AddOAuth2Routes :: "string \<Rightarrow> auth_route list" where
  "AddOAuth2Routes r =
     (let r = r @ ''/oauth2''
      in [auth_route_at ''GET'' (r @ ''/login'') NoGate HOAuth2Login,
          auth_route_at ''GET'' (r @ ''/callback'') NoGate HOAuth2Callback])"

definition AddAuthRoutes :: "serverConfig \<Rightarrow> auth_route list" where
  "AddAuthRoutes cfg =
     (let r = ''/auth''
      in (if BasicAuthEnabled cfg then [auth_route_at ''POST'' (r @ ''/login'') LoginChain HLogin] else []) @
         (if SATokenAuthEnabled cfg then [auth_route_at ''POST'' (r @ ''/login/token'') LoginChain HLoginWithToken] else []) @
         (if KubeconfigAuthEnabled cfg
          then [auth_route_at ''POST'' (r @ ''/login/kubeconfig'') LoginChain HLoginWithKubeconfig] else []) @
         [auth_route_at ''GET'' (r @ ''/session'') NoGate HSession,
          auth_route_at ''GET'' (r @ ''/logout'') NavigationCSRFGate HLogout,
          auth_route_at ''POST'' (r @ ''/logout'') CSRFGate HLogout] @
         (if OIDCAuthEnabled cfg then AddOAuth2Routes r else []))"

text \<open>A request on a route of the group: its gate, then its handler.\<close>

definition serve_auth_route ::
  "(string \<Rightarrow> string option) \<Rightarrow> Authenticator \<Rightarrow> (Time \<Rightarrow> Request \<Rightarrow> 'l \<Rightarrow> bool \<times> 'l) option \<Rightarrow> Time \<Rightarrow>
   (auth_handler \<Rightarrow> Request \<Rightarrow> body_reader \<Rightarrow> 's \<Rightarrow> Response \<Rightarrow> 's \<times> Response) \<Rightarrow> auth_route \<Rightarrow> Request \<Rightarrow>
   's \<times> 'l \<Rightarrow> Response \<Rightarrow> ('s \<times> 'l) \<times> Response" where
  "serve_auth_route ip a limiter now handlers r req =
     (let run = handlers (atHandler r) req;
          plain = (\<lambda>(s, l) w. case run (reqBody req, False) s w of (s, w) \<Rightarrow> ((s, l), w))
      in case atGate r of
           LoginChain \<Rightarrow> loginHandlers ip a req limiter now run
         | CSRFGate \<Rightarrow> CSRFMiddleware ip a req plain
         | NavigationCSRFGate \<Rightarrow> NavigationCSRFMiddleware ip a req plain
         | NoGate \<Rightarrow> plain)"

section \<open>The OAuth2 handlers\<close>

definition oauth2_cookie :: "bool \<Rightarrow> string \<Rightarrow> string \<Rightarrow> Cookie" where
  "oauth2_cookie secure name val =
     \<lparr>ckName = name, ckValue = val, ckPath = ''/auth/oauth2'', ckMaxAge = 0, ckSecure = secure,
      ckHttpOnly = True, ckSameSite = SameSiteLaxMode\<rparr>"

definition internal_error :: "string \<Rightarrow> ServerError" where
  "internal_error e = \<lparr>seCode = StatusInternalServerError, seErr = Some e, seMessage = []\<rparr>"

text \<open>\<open>authCodeURL\<close>: the URL a client configuration gives for a state and a nonce. The two random sources are the
  reads for the state's nonce and for the OIDC nonce.\<close>

definition OAuth2Login ::
  "(string \<Rightarrow> string option) \<Rightarrow> state_codec \<Rightarrow> (string \<Rightarrow> string) \<Rightarrow> (oauth2_config \<Rightarrow> string \<Rightarrow> string \<Rightarrow> string) \<Rightarrow> string \<Rightarrow> rand_source \<Rightarrow> rand_source \<Rightarrow>
   Authenticator \<Rightarrow> serverConfig \<Rightarrow> OIDCProvider \<Rightarrow> Request \<Rightarrow> Response \<Rightarrow> Response" where
  "OAuth2Login ip C sha256 authCodeURL endpoint rand1 rand2 a cfg p req w =
     (let redirectURL = SafeRedirectURL ip a req (Query req ''redirect_url'')
      in case GetOAuth2State C rand1 p redirectURL of
           Inl e \<Rightarrow> HandleError (internal_error ''error when generating OAuth2 state'') w
         | Inr (state, raw) \<Rightarrow>
             (let w = SetCookie (oauth2_cookie (scCookieSecure cfg) ''antrea-ui-oauth2-state'' raw) w
              in case genNonce rand2 of
                   Inl e \<Rightarrow> HandleError (internal_error ''error when generating OIDC nonce'') w
                 | Inr oidcNonce \<Rightarrow>
                     Redirect StatusSeeOther (authCodeURL (OAuth2Config endpoint p) (osNonce state) (hashOIDCNonce sha256 oidcNonce))
                       (SetCookie (oauth2_cookie (scCookieSecure cfg) ''antrea-ui-oidc-nonce'' oidcNonce) w)))"

text \<open>
  \<open>exchange\<close> is the token endpoint's answer to a code (the \<open>id_token\<close> if present and the refresh
  token), \<open>verify\<close> the expiry and nonce of a valid ID token, \<open>withAuthMethod\<close> the redirect URL with
  the query parameter \<open>auth_method=oidc\<close> set, \<open>ip\<close> the argument of \<open>Parse\<close>.
\<close>

record oidc_env =
  oeIP :: "string \<Rightarrow> string option"
  oeExchange :: "string \<Rightarrow> (string option \<times> string) option"
  oeVerify :: "string \<Rightarrow> (Time \<times> string) option"
  oeSha256 :: "string \<Rightarrow> string"
  oeWithAuthMethod :: "string \<Rightarrow> string"

definition oidc_spec :: "string \<Rightarrow> Time \<Rightarrow> string \<Rightarrow> mem \<Rightarrow> mem \<times> Spec" where
  "oidc_spec rawIDToken expiry refreshToken m =
     (let (m, rt) = (if refreshToken \<noteq> [] then alloc m refreshToken else (m, None));
          (m, tok) = alloc m rawIDToken
      in (m, \<lparr>spMode = ModeOIDC,
              spCredential = emptyCredential\<lparr>cKind := KindBearer, cToken := tok, cExpiresAt := expiry\<rparr>,
              spRefreshToken = rt, spUsername = [], spRefresher = Some 0\<rparr>))"

definition oidc_reject_message :: string where
  "oidc_reject_message = ''Kubernetes rejected the id_token issued by the OIDC provider. '' @
     ''The kube-apiserver must be configured to trust the same issuer and client ID '' @
     ''as Antrea UI (--oidc-issuer-url / --oidc-client-id, or the equivalent '' @
     ''structured authentication configuration). See docs/oidc.md.''"

text \<open>The checks of the callback before a session is created: the state and the ID token.\<close>

definition callback_token ::
  "state_codec \<Rightarrow> oidc_env \<Rightarrow> OIDCProvider \<Rightarrow> Request \<Rightarrow> ServerError + oauth2State \<times> string \<times> Time \<times> string" where
  "callback_token C V p req =
     (case map_of (reqQuery req) ''state'' of
        None \<Rightarrow> Inl (bad_request ''Missing state query param'')
      | Some state \<Rightarrow>
          (case map_of (reqCookies req) ''antrea-ui-oauth2-state'' of
             None \<Rightarrow> Inl (bad_request ''Missing OAuth2 state cookie'')
           | Some stateCookie \<Rightarrow>
               (case ParseOAuth2State C p stateCookie of
                  Inl e \<Rightarrow> Inl \<lparr>seCode = StatusBadRequest, seErr = Some e, seMessage = ''Invalid OAuth2 state cookie''\<rparr>
                | Inr cs \<Rightarrow>
                    if state \<noteq> osNonce cs then Inl (bad_request ''OAuth2 state mismatch'')
                    else
                      (case map_of (reqQuery req) ''code'' of
                         None \<Rightarrow> Inl (bad_request ''Missing code query param'')
                       | Some code \<Rightarrow>
                           (case oeExchange V code of
                              None \<Rightarrow> Inl (internal_error ''error when exchanging Code'')
                            | Some (None, _) \<Rightarrow> Inl (internal_error ''no id_token in token response'')
                            | Some (Some rawIDToken, refreshToken) \<Rightarrow>
                                (case oeVerify V rawIDToken of
                                   None \<Rightarrow> Inl (internal_error ''failed to verify id_token'')
                                 | Some (expiry, nonce) \<Rightarrow>
                                     (case map_of (reqCookies req) ''antrea-ui-oidc-nonce'' of
                                        None \<Rightarrow> Inl (bad_request ''Missing OIDC nonce cookie'')
                                      | Some nc \<Rightarrow>
                                          if nonce \<noteq> hashOIDCNonce (oeSha256 V) nc
                                          then Inl (internal_error ''invalid OIDC nonce'')
                                          else Inr (cs, rawIDToken, expiry, refreshToken))))))))"

text \<open>Where the callback sends the browser: the target of the state, or \<open>/\<close> if there is none or it does
  not parse.\<close>

definition callback_target :: "oidc_env \<Rightarrow> oauth2State \<Rightarrow> string" where
  "callback_target V cs =
     oeWithAuthMethod V
       (if osRedirectURL cs \<noteq> [] \<and> Parse (oeIP V) (osRedirectURL cs) \<noteq> None then osRedirectURL cs else ''/'')"

definition OAuth2Callback ::
  "state_codec \<Rightarrow> oidc_env \<Rightarrow> validator \<Rightarrow> create_env \<Rightarrow> Authenticator \<Rightarrow> OIDCProvider \<Rightarrow> Request \<Rightarrow> store \<Rightarrow> Response \<Rightarrow>
   store \<times> Response" where
  "OAuth2Callback C V check E a p req st w =
     (case callback_token C V p req of
        Inl e \<Rightarrow> (st, HandleError e w)
      | Inr (cs, rawIDToken, expiry, refreshToken) \<Rightarrow>
          (let (m, spec) = oidc_spec rawIDToken expiry refreshToken (mem st);
               st = st\<lparr>mem := m\<rparr>
           in case validateCredential check m (spCredential spec) of
                Inl e \<Rightarrow> (st\<lparr>mem := fst (Spec_Zero m spec)\<rparr>, HandleError (e\<lparr>seMessage := oidc_reject_message\<rparr>) w)
              | Inr username \<Rightarrow>
                  (case createSession E a req (spec\<lparr>spUsername := username\<rparr>) st w of
                     (Some e, st, w) \<Rightarrow> (st, HandleError e w)
                   | (None, st, w) \<Rightarrow>
                       (st, Redirect StatusFound (callback_target V cs)
                              (SetCookie (expired_cookie ''antrea-ui-oidc-nonce'' ''/auth/oauth2'')
                                (SetCookie (expired_cookie ''antrea-ui-oauth2-state'' ''/auth/oauth2'') w))))))"

end
