(* ===== verification/Auth_Properties.thy ===== *)
theory Auth_Properties
  imports Auth_Server
begin

text \<open>
  Properties of the login and logout endpoints over the session store: what a login leaves
  behind when it succeeds and when it fails, that replacing a session always fits, what the
  OAuth2 callback has checked before it creates a session, and what a logout ends.
\<close>

section \<open>Creating a session\<close>

text \<open>The iteration order is one and the random ID is not in use.\<close>

definition env_ok :: "create_env \<Rightarrow> store \<Rightarrow> bool" where
  "env_ok E st \<longleftrightarrow> range_ok (ceRange E) \<and>
     (\<forall>sid. HexString (ceRand E) sessionIDBytes = Inr sid \<longrightarrow> lookup st sid = None)"

lemma store_inv_mem_cong:
  "length m = length (mem st) \<Longrightarrow> store_inv (st\<lparr>mem := m\<rparr>) = store_inv st"
  by (simp add: store_inv_def map_ok_def separated_def wiped_def within_caps_def expiry_ok_def
      live_def owned_slices_def count_for_def)

lemma abs_zero_spec:
  assumes inv: "store_inv st" and fresh: "spec_fresh spec st"
  shows "abs (st\<lparr>mem := fst (Spec_Zero (mem st) spec)\<rparr>) = abs st"
proof
  fix x
  show "abs (st\<lparr>mem := fst (Spec_Zero (mem st) spec)\<rparr>) x = abs st x"
  proof (cases "lookup st x")
    case (Some r)
    have "slice_refs (spec_slices spec) \<inter> slice_refs (session_slices (sess st r)) = {}"
      using fresh lookup_live [OF Some] by (simp add: spec_fresh_def owned_slices_def)
    then have "view (fst (Spec_Zero (mem st) spec)) (sess st r) = view (mem st) (sess st r)"
      unfolding Spec_Zero_mem by (intro view_cong slice_get_fold_disjoint)
    then show ?thesis using Some by (simp add: abs_def lookup_def)
  qed (simp add: abs_def lookup_def)
qed

lemma drop_old_Delete: "drop_old_session req st = fold Delete (case GetSessionCookie req of None \<Rightarrow> [] | Some i \<Rightarrow> [i]) st"
  by (simp add: drop_old_session_def split: option.split)

lemma drop_old_inv: "store_inv st \<Longrightarrow> store_inv (drop_old_session req st)"
  by (simp add: drop_old_Delete Delete_all_inv)

lemma drop_old_simps:
  "opts (drop_old_session req st) = opts st" "length (mem (drop_old_session req st)) = length (mem st)"
  "lookup (drop_old_session req st) x = (if GetSessionCookie req = Some x then None else lookup st x)"
  by (auto simp: drop_old_session_def store_simps split: option.split)

lemma abs_drop_old:
  "store_inv st \<Longrightarrow> abs (drop_old_session req st) x = (if GetSessionCookie req = Some x then None else abs st x)"
  by (auto simp: drop_old_session_def abs_Delete aDelete_def split: option.split)

lemma drop_old_spec_fresh: "store_inv st \<Longrightarrow> spec_fresh spec st \<Longrightarrow> spec_fresh spec (drop_old_session req st)"
  unfolding drop_old_Delete by (rule spec_fresh_Delete_all) auto

definition session_cookie :: "Authenticator \<Rightarrow> string \<Rightarrow> Cookie" where
  "session_cookie a sid =
     \<lparr>ckName = SessionCookieName, ckValue = sid, ckPath = ''/'', ckMaxAge = 0,
      ckSecure = acCookieSecure (auConfig a), ckHttpOnly = True, ckSameSite = SameSite a\<rparr>"

text \<open>What a login leaves in the store and in the response.\<close>

definition logged_in :: "Authenticator \<Rightarrow> store \<Rightarrow> Response \<Rightarrow> string \<Rightarrow> asession \<Rightarrow> bool" where
  "logged_in a st w sid s \<longleftrightarrow> store_inv st \<and> abs st sid = Some s \<and> session_cookie a sid \<in> set (respCookies w)"

lemma createSession_refused:
  assumes inv: "store_inv st" and fresh: "spec_fresh spec st" and rng: "range_ok (ceRange E)"
    and c: "Create (ceRand E) (ceNow E) (ceRange E) spec (drop_old_session req st) = (Inl e, st1)"
    and cr: "createSession E a req spec st w = (err, st', w')"
  shows "store_inv st' \<and>
    (\<exists>x. err = Some x \<and> (\<forall>t \<in> set (spec_slices spec). zeroed (mem st') t) \<and> w' = w \<and> abs st' = abs (drop_old_session req st) \<and>
       (seCode x = StatusServiceUnavailable \<and> int (length (sessions (drop_old_session req st))) = MaxSessions (opts st) \<or>
        seCode x = StatusInternalServerError \<and> (\<exists>y. HexString (ceRand E) sessionIDBytes = Inl y)))"
proof -
  let ?st = "drop_old_session req st"
  have inv1: "store_inv ?st" and fresh1: "spec_fresh spec ?st"
    using drop_old_inv [OF inv] drop_old_spec_fresh [OF inv fresh] by auto
  note F = Create_Inl [OF inv1 rng c]
  then have st': "st' = ?st\<lparr>mem := fst (Spec_Zero (mem ?st) spec)\<rparr>" and w': "w' = w"
    using cr c by (auto simp: createSession_def Let_def split: if_splits)
  have "\<forall>t \<in> set (spec_slices spec). zeroed (mem st') t" by (simp add: st' Spec_Zero_mem zeroBytes_all)
  moreover have "store_inv st'" using inv1 by (simp add: st' store_inv_mem_cong Spec_Zero_mem)
  moreover have "abs st' = abs ?st" unfolding st' by (rule abs_zero_spec [OF inv1 fresh1])
  moreover have "\<exists>x. err = Some x \<and>
      (seCode x = StatusServiceUnavailable \<and> int (length (sessions ?st)) = MaxSessions (opts st) \<or>
       seCode x = StatusInternalServerError \<and> (\<exists>y. HexString (ceRand E) sessionIDBytes = Inl y))"
    using cr c F by (auto simp: createSession_def Let_def drop_old_simps split: if_splits)
  ultimately show ?thesis using w' by auto
qed

lemma session_cookie_set:
  "session_cookie a sid \<in> set (respCookies (UnsetLegacyCookies req (Authn_SetSessionCookie a sid w)))"
  "respStatus (UnsetLegacyCookies req (Authn_SetSessionCookie a sid w)) = respStatus w"
   apply (simp add: UnsetLegacyCookies_cookies Authn_SetSessionCookie_def SetSessionCookie_def SetCookie_def
      session_cookie_def sessionCookiePath_def)
  apply (subst UnsetLegacyCookies_frame, simp add: Authn_SetSessionCookie_def SetSessionCookie_def SetCookie_def)
  done

lemma createSession_created:
  assumes inv: "store_inv st" and fresh: "spec_fresh spec st" and env: "env_ok E st"
    and c: "Create (ceRand E) (ceNow E) (ceRange E) spec (drop_old_session req st) = (Inr r, st1)"
    and cr: "createSession E a req spec st w = (err, st', w')"
  shows "err = None \<and> respStatus w' = respStatus w \<and> (\<exists>sid. HexString (ceRand E) sessionIDBytes = Inr sid \<and>
    logged_in a st' w' sid (view (mem st) (newSession (opts st) sid (ceNow E) spec)) \<and>
    (\<forall>x. x \<noteq> sid \<longrightarrow> abs st' x = None \<or> abs st' x = abs st x))"
proof -
  let ?st = "drop_old_session req st"
  have inv1: "store_inv ?st" and fresh1: "spec_fresh spec ?st"
    using drop_old_inv [OF inv] drop_old_spec_fresh [OF inv fresh] by auto
  have rng: "range_ok (ceRange E)" using env by (simp add: env_ok_def)
  have new: "HexString (ceRand E) sessionIDBytes = Inr sid \<Longrightarrow> lookup ?st sid = None" for sid
    using env by (simp add: env_ok_def drop_old_simps)
  obtain sid sids where sid: "HexString (ceRand E) sessionIDBytes = Inr sid"
    and st1: "st1 = map_insert sid (newSession (opts ?st) sid (ceNow E) spec) (fold Delete sids ?st)"
    and r: "r = length (heap ?st)"
    using Create_Inr [OF inv1 rng c] by metis
  have inv': "store_inv st1" using Create_inv [where rand = "ceRand E" and now = "ceNow E", OF inv1 rng fresh1 new] c by simp
  have map: "abs st1 = (abs (fold Delete sids ?st))
      (sid \<mapsto> view (mem (fold Delete sids ?st)) (newSession (opts ?st) sid (ceNow E) spec))"
    unfolding st1 using Delete_all_inv [OF inv1] new [OF sid] by (intro abs_map_insert) (simp_all add: store_simps)
  then have "\<forall>x. x \<noteq> sid \<longrightarrow> abs st1 x = None \<or> abs st1 x = abs st x"
    by (simp add: abs_Delete_all [OF inv1] abs_drop_old [OF inv])
  moreover have A: "abs st1 sid = Some (view (mem ?st) (newSession (opts st) sid (ceNow E) spec))"
    using map Delete_all_spec_view [OF store_invD(2) [OF inv1] fresh1] by (simp add: drop_old_simps)
  have V: "view (mem ?st) (newSession (opts st) sid (ceNow E) spec) = view (mem st) (newSession (opts st) sid (ceNow E) spec)"
    unfolding drop_old_Delete using inv fresh by (intro Delete_all_spec_view) auto
  have "sId (sess st1 r) = sid" by (simp add: st1 r store_simps nth_append)
  then have "err = None" "st' = st1" "w' = UnsetLegacyCookies req (Authn_SetSessionCookie a sid w)"
    using cr c by (auto simp: createSession_def Let_def)
  ultimately show ?thesis using inv' A V sid session_cookie_set by (simp add: logged_in_def)
qed

lemma createSession_cases:
  assumes inv: "store_inv st" and fresh: "spec_fresh spec st" and env: "env_ok E st"
    and cr: "createSession E a req spec st w = (err, st', w')"
  shows "store_inv st' \<and>
    (case err of
       None \<Rightarrow> \<exists>sid. HexString (ceRand E) sessionIDBytes = Inr sid \<and>
         logged_in a st' w' sid (view (mem st) (newSession (opts st) sid (ceNow E) spec)) \<and>
         respStatus w' = respStatus w
     | Some e \<Rightarrow> (\<forall>t \<in> set (spec_slices spec). zeroed (mem st') t) \<and> w' = w \<and>
         abs st' = abs (drop_old_session req st) \<and>
         (seCode e = StatusServiceUnavailable \<and> int (length (sessions (drop_old_session req st))) = MaxSessions (opts st) \<or>
          seCode e = StatusInternalServerError \<and> (\<exists>x. HexString (ceRand E) sessionIDBytes = Inl x)))"
proof -
  obtain res st1 where c: "Create (ceRand E) (ceNow E) (ceRange E) spec (drop_old_session req st) = (res, st1)" by fastforce
  have rng: "range_ok (ceRange E)" using env by (simp add: env_ok_def)
  show ?thesis
  proof (cases res)
    case (Inl e)
    show ?thesis using createSession_refused [OF inv fresh rng c [unfolded Inl] cr] by auto
  next
    case (Inr r)
    show ?thesis using createSession_created [OF inv fresh env c [unfolded Inr] cr] by (auto simp: logged_in_def)
  qed
qed

text \<open>A credential in freshly allocated memory belongs to no session.\<close>

lemma spec_fresh_new:
  assumes inv: "store_inv st" and refs: "slice_refs (spec_slices spec) \<subseteq> {length (mem st)..<length (mem st @ xs)}"
    and unsh: "spRefreshToken spec = None \<or> spRefreshToken spec \<notin> set (cred_slices (spCredential spec))"
  shows "spec_fresh spec (st\<lparr>mem := mem st @ xs\<rparr>)"
proof -
  have "slice_refs (spec_slices spec) \<inter> owned_slices st r = {}" if "r \<in> live st" for r
  proof -
    have "owned_slices st r \<subseteq> {..<length (mem st)}" using inv that by (simp add: store_inv_def separated_def)
    with refs show ?thesis by fastforce
  qed
  then show ?thesis using refs unsh by (auto simp: spec_fresh_def live_def owned_slices_def)
qed

lemma env_ok_mem: "env_ok E (st\<lparr>mem := m\<rparr>) = env_ok E st"
  by (simp add: env_ok_def lookup_def)

lemma abs_mem_append:
  assumes inv: "store_inv st"
  shows "abs (st\<lparr>mem := mem st @ xs\<rparr>) = abs st"
proof
  fix x
  show "abs (st\<lparr>mem := mem st @ xs\<rparr>) x = abs st x"
    by (cases "lookup st x") (simp_all add: abs_def lookup_def view_mem_append [OF inv lookup_live, unfolded lookup_def])
qed

text \<open>A specification whose slices lie in freshly allocated memory, discarded or turned into a session.\<close>

definition new_spec :: "store \<Rightarrow> string list \<Rightarrow> Spec \<Rightarrow> bool" where
  "new_spec st xs spec \<longleftrightarrow> slice_refs (spec_slices spec) \<subseteq> {length (mem st)..<length (mem st @ xs)} \<and>
     (spRefreshToken spec = None \<or> spRefreshToken spec \<notin> set (cred_slices (spCredential spec)))"

lemma new_spec_username: "new_spec st xs (spec\<lparr>spUsername := u\<rparr>) = new_spec st xs spec"
  by (simp add: new_spec_def spec_slices_def)

lemma new_spec_discarded:
  assumes inv: "store_inv st" and new: "new_spec st xs spec" and st': "st' = st\<lparr>mem := fst (Spec_Zero (mem st @ xs) spec)\<rparr>"
  shows "store_inv st' \<and> abs st' = abs st \<and> (\<forall>t \<in> set (spec_slices spec). zeroed (mem st') t)"
proof -
  let ?st = "st\<lparr>mem := mem st @ xs\<rparr>"
  have inv1: "store_inv ?st" by (rule store_inv_mem_append [OF inv])
  have "spec_fresh spec ?st" using new by (intro spec_fresh_new [OF inv]) (simp_all add: new_spec_def)
  then have "abs st' = abs st" using abs_zero_spec [OF inv1] abs_mem_append [OF inv] by (simp add: st')
  moreover have "store_inv st'"
    using store_inv_mem_cong [of "fst (Spec_Zero (mem ?st) spec)" ?st] inv1 by (simp add: st' Spec_Zero_mem)
  ultimately show ?thesis by (simp add: st' Spec_Zero_mem zeroBytes_all)
qed

lemma new_spec_created:
  assumes inv: "store_inv st" and env: "env_ok E st" and new: "new_spec st xs spec"
    and cr: "createSession E a req spec (st\<lparr>mem := mem st @ xs\<rparr>) w = (err, st', w')"
  shows "store_inv st' \<and>
    (case err of
       None \<Rightarrow> \<exists>sid. HexString (ceRand E) sessionIDBytes = Inr sid \<and>
         logged_in a st' w' sid (view (mem st @ xs) (newSession (opts st) sid (ceNow E) spec))
     | Some e \<Rightarrow> (\<forall>t \<in> set (spec_slices spec). zeroed (mem st') t) \<and> w' = w \<and> abs st' = abs (drop_old_session req st) \<and>
         seCode e \<in> {StatusServiceUnavailable, StatusInternalServerError})"
proof -
  let ?st = "st\<lparr>mem := mem st @ xs\<rparr>"
  have inv1: "store_inv ?st" by (rule store_inv_mem_append [OF inv])
  have "spec_fresh spec ?st" using new by (intro spec_fresh_new [OF inv]) (simp_all add: new_spec_def)
  moreover have "abs (drop_old_session req ?st) = abs (drop_old_session req st)"
    using abs_drop_old [OF inv1] abs_drop_old [OF inv] abs_mem_append [OF inv] by (simp add: fun_eq_iff)
  ultimately show ?thesis
    using createSession_cases [OF inv1 _ _ cr] env by (cases err) (auto simp: env_ok_mem)
qed

lemma dom_drop_old: "store_inv st \<Longrightarrow> dom (abs (drop_old_session req st)) \<subseteq> dom (abs st)"
  by (auto simp: abs_drop_old split: if_splits)

text \<open>What happens once a form yielded a credential in fresh memory.\<close>

lemma login_with_cases:
  assumes inv: "store_inv st" and env: "env_ok E st"
    and refs: "slice_refs (cred_slices cred) \<subseteq> {length (mem st)..<length (mem st @ xs)}"
    and log: "login_with check E a req mode cred (st\<lparr>mem := mem st @ xs\<rparr>) w = (err, st', w')"
  shows "store_inv st' \<and>
    (case err of
       None \<Rightarrow> \<exists>sid user. check (mem st @ xs) cred = Inr user \<and> HexString (ceRand E) sessionIDBytes = Inr sid \<and>
         logged_in a st' w' sid (view (mem st @ xs) (newSession (opts st) sid (ceNow E) (newSpec mode user cred)))
     | Some e \<Rightarrow> (\<forall>t \<in> set (cred_slices cred). zeroed (mem st') t) \<and> w' = w \<and>
         (abs st' = abs st \<or> abs st' = abs (drop_old_session req st)) \<and>
         seCode e \<in> {StatusUnauthorized, StatusServiceUnavailable, StatusInternalServerError})"
proof -
  have slices: "spec_slices (newSpec mode user cred) = cred_slices cred @ [None]" for user
    by (simp add: spec_slices_def newSpec_def)
  have new: "new_spec st xs (newSpec mode user cred)" for user
    using refs by (simp add: new_spec_def slices slice_refs_def) (simp add: newSpec_def)
  show ?thesis
  proof (cases "check (mem st @ xs) cred")
    case (Inl e)
    have "st' = st\<lparr>mem := fst (Spec_Zero (mem st @ xs) (newSpec mode [] cred))\<rparr>"
      and "w' = w" "\<exists>x. err = Some x \<and> seCode x = StatusUnauthorized"
      using log Inl by (auto simp: login_with_def validateCredential_def Credential_Zero_mem Spec_Zero_mem
          slices unauthorized_def)
    then show ?thesis using new_spec_discarded [OF inv new] by (auto simp: slices)
  next
    case (Inr user)
    have "createSession E a req (newSpec mode user cred) (st\<lparr>mem := mem st @ xs\<rparr>) w = (err, st', w')"
      using log Inr by (simp add: login_with_def validateCredential_def)
    from new_spec_created [OF inv env new this] show ?thesis using Inr by (cases err) (auto simp: slices)
  qed
qed

lemma view_newSession:
  "aMode (view m (newSession os sid now spec)) = spMode spec"
  "aUsername (view m (newSession os sid now spec)) = spUsername spec"
  "aCred (view m (newSession os sid now spec)) = cred_view m (spCredential spec)"
  "aCredExpiry (view m (newSession os sid now spec)) = cExpiresAt (spCredential spec)"
  "aRefreshToken (view m (newSession os sid now spec)) = content m (spRefreshToken spec)"
  "aRefresher (view m (newSession os sid now spec)) = spRefresher spec"
  "aCreatedAt (view m (newSession os sid now spec)) = now"
  "aLastSeen (view m (newSession os sid now spec)) = now"
  "aExpiresAt (view m (newSession os sid now spec)) = effectiveExpiry now (MaxLifetime os) (cExpiresAt (spCredential spec))"
  by (simp_all add: view_def newSession_def)

section \<open>Properties\<close>

text \<open>A token that is not blank becomes a bearer credential in fresh memory.\<close>

lemma LoginWithToken_cases:
  fixes token :: string and st :: store
  defines "m \<equiv> mem st @ [token]" and "tok \<equiv> Some (length (mem st))"
  assumes inv: "store_inv st" and env: "env_ok E st" and body: "bind body = Some token" "TrimSpace token \<noteq> []"
    and log: "LoginWithToken bind exp msg check E a req body st w = (st', w')"
  shows "store_inv st' \<and>
    (if respStatus w' = StatusOK
     then \<exists>cred sid user. cred_view m cred = (KindBearer, token, [], [], []) \<and> check m cred = Inr user \<and>
       logged_in a st' w' sid (view m (newSession (opts st) sid (ceNow E) (newSpec ModeSAToken user cred)))
     else dom (abs st') \<subseteq> dom (abs st) \<and> respCookies w' = respCookies w \<and> zeroed (mem st') tok)"
proof -
  let ?cred = "emptyCredential\<lparr>cKind := KindBearer, cToken := tok, cExpiresAt := JWTExpiry exp token\<rparr>"
  have get: "slice_get m tok = token" by (simp add: slice_get_def m_def tok_def)
  then have view: "cred_view m ?cred = (KindBearer, token, [], [], [])" by (simp add: cred_view_def emptyCredential_def)
  obtain err st1 w1 where lw: "login_with check E a req ModeSAToken ?cred (st\<lparr>mem := m\<rparr>) w = (err, st1, w1)"
    by (metis surj_pair)
  have fin: "(st', w') = finish (err, st1, w1)"
    using log body lw get by (simp add: LoginWithToken_def LoginWithToken_body_def alloc_def BearerCredential_def m_def tok_def)
  have refs: "slice_refs (cred_slices ?cred) \<subseteq> {length (mem st)..<length (mem st @ [token])}"
    by (simp add: cred_slices_def emptyCredential_def tok_def)
  note L = login_with_cases [OF inv env refs lw [unfolded m_def], folded m_def]
  show ?thesis
  proof (cases err)
    case None
    then have "st' = st1" "w' = w1\<lparr>respStatus := StatusOK\<rparr>" using fin by (simp_all add: finish_def)
    then show ?thesis using L None view by (auto simp: logged_in_def)
  next
    case (Some e)
    then have "st' = st1" "w' = HandleError e w1" using fin by (simp_all add: finish_def)
    moreover have "abs st1 = abs st \<or> abs st1 = abs (drop_old_session req st)" using L Some by simp
    then have "dom (abs st1) \<subseteq> dom (abs st)" by (rule disjE) (simp_all only: dom_drop_old [OF inv] order_refl)
    moreover have "seCode e \<noteq> StatusOK" using L Some by auto
    ultimately show ?thesis using L Some by (simp add: cred_slices_def emptyCredential_def)
  qed
qed

text \<open>
  C18: a login with a pasted token. It is answered 200 only if Kubernetes accepted the token;
  then the store holds a session with exactly that token and the username Kubernetes resolved,
  and the response carries its ID in an \<open>HttpOnly\<close> cookie. A login that fails after the token was
  read leaves the token's bytes zeroed and no new session, and sets no cookie.
\<close>

theorem LoginWithToken_outcome:
  assumes inv: "store_inv st" and env: "env_ok E st"
    and log: "LoginWithToken bind exp msg check E a req body st w = (st', w')"
  shows "store_inv st' \<and>
    (if respStatus w' = StatusOK
     then \<exists>token user sid s. bind body = Some token \<and> logged_in a st' w' sid s \<and>
       aMode s = ModeSAToken \<and> aUsername s = user \<and> aCred s = (KindBearer, token, [], [], []) \<and>
       (\<exists>m cred. check m cred = Inr user \<and> cred_view m cred = (KindBearer, token, [], [], []))
     else dom (abs st') \<subseteq> dom (abs st) \<and> respCookies w' = respCookies w \<and>
       (\<forall>token. bind body = Some token \<longrightarrow> TrimSpace token \<noteq> [] \<longrightarrow> zeroed (mem st') (Some (length (mem st)))))"
proof (cases "\<exists>token. bind body = Some token \<and> TrimSpace token \<noteq> []")
  case True
  then obtain token where body: "bind body = Some token" "TrimSpace token \<noteq> []" by blast
  note L = LoginWithToken_cases [OF inv env body log]
  show ?thesis
  proof (cases "respStatus w' = StatusOK")
    case True
    then obtain cred sid user where ok: "cred_view (mem st @ [token]) cred = (KindBearer, token, [], [], [])"
        "check (mem st @ [token]) cred = Inr user"
        "logged_in a st' w' sid (view (mem st @ [token]) (newSession (opts st) sid (ceNow E) (newSpec ModeSAToken user cred)))"
      using L by auto
    let ?s = "view (mem st @ [token]) (newSession (opts st) sid (ceNow E) (newSpec ModeSAToken user cred))"
    have "aMode ?s = ModeSAToken \<and> aUsername ?s = user \<and> aCred ?s = (KindBearer, token, [], [], [])"
      using ok(1) by (simp add: newSession_def newSpec_def)
    then show ?thesis using L True body(1) ok by metis
  qed (use L body in auto)
next
  case False
  then show ?thesis
    using log inv store_inv_mem_append [OF inv] abs_mem_append [OF inv]
    by (cases "bind body") (auto simp: LoginWithToken_def LoginWithToken_body_def finish_def bad_request_def alloc_def
        BearerCredential_def slice_get_def)
qed

definition ex_create_env :: create_env where
  "ex_create_env = \<lparr>ceRand = ex_rand, ceNow = 30 * second, ceRange = rev\<rparr>"

lemma ex_HexString: "HexString ex_rand sessionIDBytes = Inr ex_sid"
  by (simp add: HexString_def Bytes_def ex_rand_def ex_sid_def sessionIDBytes_def)

lemma ex_sid_new: "ex_sid \<notin> {''a'', ''b''}"
proof -
  have "length ex_sid = 64" by (simp add: ex_sid_def)
  moreover have "length xs = 1" if "xs \<in> {''a'', ''b''}" for xs :: string using that by auto
  ultimately show ?thesis by fastforce
qed

lemma ex_env_ok: "env_ok ex_create_env ex_store"
  using ex_sid_new by (auto simp: env_ok_def ex_create_env_def range_ok_rev ex_HexString lookup_def ex_store_def)

definition ex_check :: validator where
  "ex_check m cred = (if slice_get m (cToken cred) = ''good'' then Inr ''alice'' else Inl ''unknown token'')"

lemma respCookies_new: "respCookies newResponse = []"
  by (simp add: newResponse_def)

theorem LoginWithToken_outcome_witness:
  "let R = LoginWithToken (\<lambda>b. Some ''bad'') (\<lambda>_. None) (\<lambda>_. []) ex_check ex_create_env (ex_authn False) ex_req
     (''{}'', False) ex_store newResponse
   in respStatus (snd R) = StatusUnauthorized \<and> zeroed (mem (fst R)) (Some 4) \<and> respCookies (snd R) = []"
proof -
  let ?R = "LoginWithToken (\<lambda>b. Some ''bad'') (\<lambda>_. None) (\<lambda>_. []) ex_check ex_create_env (ex_authn False) ex_req
     (''{}'', False) ex_store newResponse"
  have tr: "TrimSpace ''bad'' \<noteq> []" by code_simp
  have m: "length (mem ex_store) = 4" by (simp add: ex_store_def)
  have new: "(mem ex_store @ [''bad'']) ! 4 = ''bad''" by (simp add: m [symmetric])
  have st: "respStatus (snd ?R) = StatusUnauthorized"
    using tr by (simp add: new LoginWithToken_def LoginWithToken_body_def alloc_def BearerCredential_def slice_get_def m
        login_with_def validateCredential_def ex_check_def finish_def unauthorized_def)
  show ?thesis
    using LoginWithToken_outcome [OF ex_store_inv ex_env_ok surjective_pairing,
        of "\<lambda>b. Some ''bad''" "\<lambda>_. None" "\<lambda>_. []" ex_check "ex_authn False" ex_req "(''{}'', False)" newResponse] tr
    by (simp add: st m Let_def respCookies_new)
qed

text \<open>
  replacing a session always fits. A login that arrives with the cookie of a live session
  gives up that session first, so it is never refused for lack of room, whatever the load; and
  the old session's credential is gone.
\<close>

lemma relogin_never_full:
  assumes inv: "store_inv st" and fresh: "spec_fresh spec st" and env: "env_ok E st"
    and old: "GetSessionCookie req = Some oldID" "lookup st oldID \<noteq> None"
    and sid: "HexString (ceRand E) sessionIDBytes = Inr sid"
    and cr: "createSession E a req spec st w = (err, st', w')"
  shows "err = None \<and> logged_in a st' w' sid (view (mem st) (newSession (opts st) sid (ceNow E) spec))"
proof -
  obtain r where r: "lookup st oldID = Some r" using old(2) by blast
  have "drop_old_session req st = Delete oldID st" by (simp add: drop_old_session_def old(1))
  then have "length (sessions (drop_old_session req st)) < length (sessions st)"
    using length_Delete [OF store_invD(2) [OF inv] r] sessions_nonempty [OF r] by simp
  moreover have "int (length (sessions st)) \<le> MaxSessions (opts st)"
    using store_invD(5) [OF inv] by (simp add: within_caps_def)
  ultimately show ?thesis
    using createSession_cases [OF inv fresh env cr] sid by (cases err) auto
qed

lemma ex_spec_new_fresh: "spec_fresh (ex_spec (Some 3) None (600 * second) None) ex_store"
  by (simp add: spec_fresh_def ex_live ex_owned)
     (simp add: ex_simps spec_slices_def cred_slices_def slice_refs_def)

lemma relogin_never_full_example:
  "fst (createSession ex_create_env (ex_authn False) (ex_req\<lparr>reqCookies := [(SessionCookieName, ''a'')]\<rparr>)
     (ex_spec (Some 3) None (600 * second) None) ex_store newResponse) = None"
proof -
  let ?req = "ex_req\<lparr>reqCookies := [(SessionCookieName, ''a'')]\<rparr>"
  obtain err st' w' where cr: "createSession ex_create_env (ex_authn False) ?req
      (ex_spec (Some 3) None (600 * second) None) ex_store newResponse = (err, st', w')"
    by (metis surj_pair)
  have "GetSessionCookie ?req = Some ''a''" "lookup ex_store ''a'' \<noteq> None"
    "HexString (ceRand ex_create_env) sessionIDBytes = Inr ex_sid"
    by (simp_all add: GetSessionCookie_def lookup_def ex_store_def ex_create_env_def ex_HexString)
  from relogin_never_full [OF ex_store_inv ex_spec_new_fresh ex_env_ok this cr] cr show ?thesis by simp
qed

text \<open>
  C19: logging out ends the session. The session named by the cookie is gone and every byte of its
  credential and refresh token zeroed, no other session changes, a request with the old cookie finds
  no session whatever lookups and deletions come in between, the session cookie is
  expired on the browser, and the browser is sent nowhere but to a validated target or, for an
  OIDC session, to the provider's logout page for that session's own ID token.
\<close>

theorem Logout_ends_session:
  assumes inv: "store_inv st" and ck: "GetSessionCookie req = Some sid"
    and out: "Logout ip buildLogoutURL a cfg req st w = (st', w')"
  shows "store_inv st' \<and> abs st' = (abs st)(sid := None) \<and>
    fst (Get (\<lambda>rid. oidc_Refresh token verify) clock sid
      (fold (run_call (Get (\<lambda>rid. oidc_Refresh token verify)) Delete) calls st')) = Inl ErrNotFound \<and>
    (\<forall>r. lookup st sid = Some r \<longrightarrow> (\<forall>t \<in> set (session_slices (sess st r)). zeroed (mem st') t)) \<and>
    expired_cookie SessionCookieName ''/'' \<in> set (respCookies w') \<and>
    (respHeader w' = respHeader w \<or>
     (\<exists>loc. respHeader w' = AList.update ''Location'' loc (respHeader w) \<and> loc \<noteq> [] \<and>
        loc = SafeRedirectURL ip a req (Query req ''redirect_url'')) \<or>
     (\<exists>r loc. lookup st sid = Some r \<and> sMode (sess st r) = ModeOIDC \<and> OIDCAuthEnabled cfg \<and> OIDCNeedsLogout cfg \<and>
        buildLogoutURL (slice_get (mem st) (cToken (sCredential (sess st r)))) = Inr loc \<and>
        respHeader w' = AList.update ''Location'' loc (respHeader w)))"
proof -
  let ?w = "UnsetLegacyCookies req (UnsetSessionCookie w)"
  have st': "st' = Delete sid st"
    using out by (auto simp: Logout_def ck Let_def split: if_splits sum.splits)
  have "zeroed (mem st') t" if "lookup st sid = Some r" "t \<in> set (session_slices (sess st r))" for r t
    using that by (simp add: st' Delete_present zeroBytes_all store_simps)
  moreover have "abs st' = (abs st)(sid := None)" using oidc.store.delete_removes [OF inv] by (simp add: st')
  moreover have "store_inv st'" using oidc.store.delete_ok [OF inv] by (simp add: st')
  moreover have "respCookies w' = respCookies ?w"
    using out by (auto simp: Logout_def ck Let_def Redirect_def Header_def split: if_splits sum.splits)
  moreover have "respHeader ?w = respHeader w"
    by (subst UnsetLegacyCookies_frame) (simp add: UnsetSessionCookie_def SetCookie_def)
  then have "respHeader w' = respHeader w \<or>
     (\<exists>loc. respHeader w' = AList.update ''Location'' loc (respHeader w) \<and> loc \<noteq> [] \<and>
        loc = SafeRedirectURL ip a req (Query req ''redirect_url'')) \<or>
     (\<exists>r loc. lookup st sid = Some r \<and> sMode (sess st r) = ModeOIDC \<and> OIDCAuthEnabled cfg \<and> OIDCNeedsLogout cfg \<and>
        buildLogoutURL (slice_get (mem st) (cToken (sCredential (sess st r)))) = Inr loc \<and>
        respHeader w' = AList.update ''Location'' loc (respHeader w))"
    using out by (auto simp: Logout_def ck Let_def Redirect_def Header_def logout_id_token_def Peek_def
        split: if_splits sum.splits option.splits)
  ultimately show ?thesis
    using oidc.store.gone_stays_gone [of st' sid]
    by (simp add: UnsetLegacyCookies_cookies UnsetSessionCookie_def SetCookie_def sessionCookiePath_def)
qed

definition ex_config :: serverConfig where
  "ex_config = \<lparr>BasicAuthEnabled = True, OIDCAuthEnabled = True, OIDCNeedsLogout = True, KubeconfigAuthEnabled = False,
    SATokenAuthEnabled = False, scCookieSecure = True, MaxLoginsPerSecond = 1, AdminUserName = []\<rparr>"

theorem Logout_ends_session_witness:
  "abs (fst (Logout Some Inl (ex_authn False) ex_config (ex_req\<lparr>reqCookies := [(SessionCookieName, ''a'')]\<rparr>)
     ex_store newResponse)) ''a'' = None"
  using Logout_ends_session [OF ex_store_inv _ surjective_pairing,
      of "ex_req\<lparr>reqCookies := [(SessionCookieName, ''a'')]\<rparr>" "''a''" Some Inl "ex_authn False" ex_config newResponse]
  by (simp add: GetSessionCookie_def)

lemma oidc_spec_refs:
  assumes "oidc_spec raw expiry rt m = (m', spec)"
  shows "\<exists>xs. m' = m @ xs \<and> slice_refs (spec_slices spec) \<subseteq> {length m..<length (m @ xs)} \<and>
    (spRefreshToken spec = None \<or> spRefreshToken spec \<notin> set (cred_slices (spCredential spec))) \<and>
    cred_view m' (spCredential spec) = (KindBearer, raw, [], [], []) \<and> cExpiresAt (spCredential spec) = expiry \<and>
    content m' (spRefreshToken spec) = (if rt = [] then None else Some rt) \<and>
    spMode spec = ModeOIDC \<and> spRefresher spec = Some 0"
  using assms
  by (auto simp: oidc_spec_def Let_def alloc_def spec_slices_def cred_slices_def emptyCredential_def slice_refs_def
      cred_view_def slice_get_def content_def nth_append split: if_splits) (rule exI [of _ "length m"], simp)

text \<open>What the callback has checked when it accepts an ID token.\<close>

definition callback_checked ::
  "state_codec \<Rightarrow> oidc_env \<Rightarrow> OIDCProvider \<Rightarrow> Request \<Rightarrow> oauth2State \<Rightarrow> string \<Rightarrow> Time \<Rightarrow> string \<Rightarrow> bool" where
  "callback_checked C V p req cs raw expiry rt \<longleftrightarrow>
     (\<exists>stateCookie code nc.
        map_of (reqCookies req) ''antrea-ui-oauth2-state'' = Some stateCookie \<and>
        ParseOAuth2State C p stateCookie = Inr cs \<and>
        map_of (reqQuery req) ''state'' = Some (osNonce cs) \<and>
        map_of (reqQuery req) ''code'' = Some code \<and> oeExchange V code = Some (Some raw, rt) \<and>
        map_of (reqCookies req) ''antrea-ui-oidc-nonce'' = Some nc \<and>
        oeVerify V raw = Some (expiry, hashOIDCNonce (oeSha256 V) nc))"

lemma callback_token_iff: "callback_token C V p req = Inr (cs, raw, expiry, rt) \<longleftrightarrow> callback_checked C V p req cs raw expiry rt"
  by (auto simp: callback_token_def callback_checked_def split: option.splits sum.splits if_splits)

lemma callback_token_code:
  "callback_token C V p req = Inl e \<Longrightarrow> seCode e \<noteq> StatusFound"
  by (auto simp: callback_token_def bad_request_def internal_error_def split: option.splits sum.splits if_splits)

text \<open>The two ends of a callback with a checked ID token.\<close>

lemma callback_rejected:
  assumes inv: "store_inv st" and tok: "callback_token C V p req = Inr (cs, raw, expiry, rt)"
    and spec: "oidc_spec raw expiry rt (mem st) = (mem st @ xs, spec)" and new: "new_spec st xs spec"
    and rej: "check (mem st @ xs) (spCredential spec) = Inl e"
    and cb: "OAuth2Callback C V check E a p req st w = (st', w')"
  shows "store_inv st' \<and> respStatus w' = StatusUnauthorized \<and> abs st' = abs st \<and> respCookies w' = respCookies w"
proof -
  have "st' = st\<lparr>mem := fst (Spec_Zero (mem st @ xs) spec)\<rparr>" "respStatus w' = StatusUnauthorized" "respCookies w' = respCookies w"
    using cb rej by (auto simp: OAuth2Callback_def tok spec validateCredential_def unauthorized_def)
  then show ?thesis using new_spec_discarded [OF inv new] by simp
qed

lemma callback_accepted:
  assumes inv: "store_inv st" and env: "env_ok E st" and tok: "callback_token C V p req = Inr (cs, raw, expiry, rt)"
    and spec: "oidc_spec raw expiry rt (mem st) = (mem st @ xs, spec)" and new: "new_spec st xs spec"
    and acc: "check (mem st @ xs) (spCredential spec) = Inr u"
    and cb: "OAuth2Callback C V check E a p req st w = (st', w')"
  shows "store_inv st' \<and>
    (if respStatus w' = StatusFound
     then \<exists>sid. logged_in a st' w' sid (view (mem st @ xs) (newSession (opts st) sid (ceNow E) (spec\<lparr>spUsername := u\<rparr>)))
     else dom (abs st') \<subseteq> dom (abs st) \<and> respCookies w' = respCookies w)"
proof -
  obtain err st1 w1 where cr: "createSession E a req (spec\<lparr>spUsername := u\<rparr>) (st\<lparr>mem := mem st @ xs\<rparr>) w = (err, st1, w1)"
    by (metis surj_pair)
  note K = new_spec_created [OF inv env _ cr, unfolded new_spec_username, OF new]
  show ?thesis
  proof (cases err)
    case (Some e)
    then have "st' = st1" "w' = HandleError e w1"
      using cb acc cr by (simp_all add: OAuth2Callback_def tok spec validateCredential_def)
    then show ?thesis using K Some dom_drop_old [OF inv, of req] by auto
  next
    case None
    then have "st' = st1" "respStatus w' = StatusFound" "set (respCookies w1) \<subseteq> set (respCookies w')"
      using cb acc cr by (auto simp: OAuth2Callback_def tok spec validateCredential_def Redirect_def Header_def SetCookie_def)
    then show ?thesis using K None by (auto simp: logged_in_def)
  qed
qed

text \<open>
  C17: the OAuth2 callback creates a session (its answer is then a redirect) only if the state in
  the query is the nonce of a state cookie this server signed, the provider exchanged the code
  for an ID token that verifies and carries the hash of this browser's nonce cookie, and
  Kubernetes accepted that ID token. The session then holds exactly that ID token, its expiry,
  the refresh token if there was one, and the username Kubernetes resolved. Any other outcome
  leaves no new session and sets no cookie.
\<close>

theorem OAuth2Callback_sound:
  assumes inv: "store_inv st" and env: "env_ok E st"
    and cb: "OAuth2Callback C V check E a p req st w = (st', w')"
  shows "store_inv st' \<and>
    (if respStatus w' = StatusFound
     then \<exists>cs raw expiry rt sid s m cred. callback_checked C V p req cs raw expiry rt \<and> logged_in a st' w' sid s \<and>
       aMode s = ModeOIDC \<and> aCred s = (KindBearer, raw, [], [], []) \<and> aCredExpiry s = expiry \<and>
       aRefreshToken s = (if rt = [] then None else Some rt) \<and>
       cred_view m cred = (KindBearer, raw, [], [], []) \<and> check m cred = Inr (aUsername s)
     else dom (abs st') \<subseteq> dom (abs st) \<and> respCookies w' = respCookies w)"
proof (cases "callback_token C V p req")
  case (Inl e)
  then show ?thesis using cb inv callback_token_code [OF Inl] by (auto simp: OAuth2Callback_def)
next
  case (Inr x)
  obtain cs raw expiry rt where tok: "callback_token C V p req = Inr (cs, raw, expiry, rt)" using Inr by (metis prod_cases4)
  obtain m spec where spec: "oidc_spec raw expiry rt (mem st) = (m, spec)" by fastforce
  obtain xs where m: "m = mem st @ xs" and new: "new_spec st xs spec"
    and v: "cred_view m (spCredential spec) = (KindBearer, raw, [], [], [])" "cExpiresAt (spCredential spec) = expiry"
      "content m (spRefreshToken spec) = (if rt = [] then None else Some rt)" "spMode spec = ModeOIDC"
    using oidc_spec_refs [OF spec] unfolding new_spec_def by blast
  show ?thesis
  proof (cases "check m (spCredential spec)")
    case rej: (Inl e)
    show ?thesis using callback_rejected [OF inv tok spec [unfolded m] new rej [unfolded m] cb] by simp
  next
    case acc: (Inr u)
    note A = callback_accepted [OF inv env tok spec [unfolded m] new acc [unfolded m] cb, folded m]
    show ?thesis
    proof (cases "respStatus w' = StatusFound")
      case True
      then obtain sid where sid: "logged_in a st' w' sid (view m (newSession (opts st) sid (ceNow E) (spec\<lparr>spUsername := u\<rparr>)))"
        using A by auto
      let ?s = "view m (newSession (opts st) sid (ceNow E) (spec\<lparr>spUsername := u\<rparr>))"
      have "callback_checked C V p req cs raw expiry rt" using tok by (simp add: callback_token_iff)
      moreover have "aMode ?s = ModeOIDC \<and> aCred ?s = (KindBearer, raw, [], [], []) \<and> aCredExpiry ?s = expiry \<and>
          aRefreshToken ?s = (if rt = [] then None else Some rt) \<and> aUsername ?s = u"
        using v by (simp add: newSession_def)
      ultimately show ?thesis using sid A acc v(1) True by metis
    qed (use A in simp)
  qed
qed

definition ex_oidc_env :: oidc_env where
  "ex_oidc_env = \<lparr>oeIP = Some, oeExchange = (\<lambda>_. Some (Some ''good'', [])), oeVerify = (\<lambda>_. Some (60 * second, ''n'')),
     oeSha256 = (\<lambda>x. x), oeWithAuthMethod = (\<lambda>u. u)\<rparr>"

theorem OAuth2Callback_sound_witness:
  "let R = OAuth2Callback ex_codec ex_oidc_env ex_check ex_create_env (ex_authn False) ex_oidc
     (ex_req\<lparr>reqQuery := [(''state'', ''s''), (''code'', ''c'')], reqCookies := [(''antrea-ui-oauth2-state'', ''forged'')]\<rparr>)
     ex_store newResponse
   in respStatus (snd R) = StatusBadRequest \<and> dom (abs (fst R)) \<subseteq> dom (abs ex_store)"
proof -
  let ?req = "ex_req\<lparr>reqQuery := [(''state'', ''s''), (''code'', ''c'')], reqCookies := [(''antrea-ui-oauth2-state'', ''forged'')]\<rparr>"
  let ?R = "OAuth2Callback ex_codec ex_oidc_env ex_check ex_create_env (ex_authn False) ex_oidc ?req ex_store newResponse"
  have "respStatus (snd ?R) = StatusBadRequest"
    by (simp add: OAuth2Callback_def callback_token_def ParseOAuth2State_def Split_absent)
  then show ?thesis
    using OAuth2Callback_sound [OF ex_store_inv ex_env_ok surjective_pairing,
        of ex_codec ex_oidc_env ex_check "ex_authn False" ex_oidc ?req newResponse]
    by (simp add: Let_def)
qed

text \<open>
  An OIDC session whose provider returned no refresh token is not swept when its ID token
  expires. The callback gives it a refresher although nothing can renew the credential, so the
  sweep does not treat the expiry as terminal and keeps the session, with the expired token in
  memory, until its idle timeout or lifetime; every refresh of it fails.
\<close>

lemma oidc_without_refresh_token_not_swept:
  assumes inv: "store_inv st" and rng: "range_ok rng" and r: "lookup st sid = Some r"
    and s: "sess st r = newSession (opts st) sid t0 (snd (oidc_spec raw expiry [] m))"
    and expired: "expiry < t" "expiry \<noteq> zeroTime"
    and young: "t \<le> Add t0 (MaxLifetime (opts st))" "Sub t t0 \<le> IdleTimeout (opts st)"
  shows "credentialExpired (sess st r) t \<and> abs (doGC rng t st) sid = Some (view (mem st) (sess st r)) \<and>
    oidc_Refresh token verify m' (sRefreshToken (sess st r)) = (m', Inl ''session has no refresh token'')"
proof -
  have f: "sRefresher (sess st r) = Some 0" "cExpiresAt (sCredential (sess st r)) = expiry"
    "sRefreshToken (sess st r) = None" "sLastSeen (sess st r) = t0" "sCreatedAt (sess st r) = t0"
    by (simp_all add: s newSession_def oidc_spec_def alloc_def Let_def)
  have al: "alive st (sess st r) t" using young by (simp add: alive_def f time_simps)
  then have "aalive (opts st) (view (mem st) (sess st r)) t" using alive_view by blast
  then have "abs (doGC rng t st) sid = Some (view (mem st) (sess st r))"
    using r by (simp add: abs_doGC [OF inv rng] aGC_def abs_def)
  then show ?thesis
    using expired by (simp add: credentialExpired_def oidc_Refresh_def f slice_get_def time_simps)
qed

definition ex_oidc_store :: store where
  "ex_oidc_store =
     \<lparr>opts = ex_opts, sessions = [(''c'', 0)],
      heap = [newSession ex_opts ''c'' (10 * second) (snd (oidc_spec ''tok'' (20 * second) [] []))],
      mem = [''tok''], closed = []\<rparr>"

lemma ex_oidc_store_inv: "store_inv ex_oidc_store"
proof -
  note d = ex_oidc_store_def oidc_spec_def alloc_def ex_simps
  have lv: "live ex_oidc_store = {0}" by (simp add: live_def ex_oidc_store_def)
  have ow: "owned_slices ex_oidc_store 0 = {0}"
    by (auto simp: owned_slices_def session_slices_def cred_slices_def slice_refs_def d)
  have "opts_ok (opts ex_oidc_store)" by (simp add: opts_ok_def ex_oidc_store_def ex_opts_def)
  moreover have "map_ok ex_oidc_store" by (simp add: map_ok_def d)
  moreover have "separated ex_oidc_store"
    by (simp add: separated_def lv ow) (simp add: d unshared_def cred_slices_def)
  moreover have "wiped ex_oidc_store" by (simp add: wiped_def lv) (simp add: ex_oidc_store_def)
  moreover have "within_caps ex_oidc_store" by (simp add: within_caps_def count_for_def d)
  moreover have "expiry_ok ex_oidc_store" by (simp add: expiry_ok_def lv) (simp add: d)
  ultimately show ?thesis by (simp add: store_inv_def)
qed

lemma oidc_without_refresh_token_not_swept_example:
  "abs (doGC rev (30 * second) ex_oidc_store) ''c'' = Some (view [''tok''] (sess ex_oidc_store 0))"
proof -
  have r: "lookup ex_oidc_store ''c'' = Some 0" by (simp add: lookup_def ex_oidc_store_def)
  have s: "sess ex_oidc_store 0 =
      newSession (opts ex_oidc_store) ''c'' (10 * second) (snd (oidc_spec ''tok'' (20 * second) [] []))"
    by (simp add: ex_oidc_store_def)
  have t: "20 * second < 30 * second" "20 * second \<noteq> zeroTime"
    "30 * second \<le> Add (10 * second) (MaxLifetime (opts ex_oidc_store))"
    "Sub (30 * second) (10 * second) \<le> IdleTimeout (opts ex_oidc_store)"
    by (simp_all add: ex_oidc_store_def ex_opts_def time_simps Sub_def minDuration_def maxDuration_def)
  show ?thesis
    using oidc_without_refresh_token_not_swept [OF ex_oidc_store_inv range_ok_rev r s t]
    by (simp add: ex_oidc_store_def)
qed

end
