(* ===== verification/Api_Server.thy ===== *)
theory Api_Server
  imports Authn Password
begin

text \<open>
  The API server's handlers that act as the caller: the mapping of Kubernetes errors to responses
  (\<open>pkg/server/api/k8s_errors.go\<close>), the change of the admin password (\<open>account.go\<close>), the feature
  gates (\<open>featuregates.go\<close>) and the reverse proxy to the Kubernetes API server (\<open>k8s.go\<close> and
  \<open>pkg/handlers/k8sproxy/handler.go\<close>). A handler gets the identity that the authentication
  middleware attached, and returns the store and the response.
\<close>

section \<open>Kubernetes errors\<close>

text \<open>An error of the Kubernetes client: the reason the \<open>apierrors\<close> predicates look at, and its text.\<close>

datatype api_reason = ReasonUnauthorized | ReasonForbidden | ReasonNotFound | ReasonOther

record api_status =
  asReason :: api_reason
  asText :: string

definition session_over :: ServerError where
  "session_over = \<lparr>seCode = StatusUnauthorized, seErr = None, seMessage = ''Session is no longer valid, please log in again''\<rparr>"

definition k8sError ::
  "RequestAuth option \<Rightarrow> api_status \<Rightarrow> string \<Rightarrow> store \<Rightarrow> Response \<Rightarrow> ServerError \<times> store \<times> Response" where
  "k8sError ra err message st w =
     (case asReason err of
        ReasonUnauthorized \<Rightarrow>
          (case ra of
             Some ra \<Rightarrow> (session_over, Invalidate ra st, UnsetSessionCookie w)
           | None \<Rightarrow> (session_over, st, w))
      | ReasonForbidden \<Rightarrow> (\<lparr>seCode = StatusForbidden, seErr = None, seMessage = asText err\<rparr>, st, w)
      | ReasonNotFound \<Rightarrow> (\<lparr>seCode = StatusNotFound, seErr = None, seMessage = asText err\<rparr>, st, w)
      | ReasonOther \<Rightarrow>
          (\<lparr>seCode = StatusInternalServerError, seErr = Some (message @ '': '' @ asText err), seMessage = []\<rparr>, st, w))"

definition upstreamStatusError :: "int \<Rightarrow> string \<Rightarrow> Response \<Rightarrow> ServerError \<times> Response" where
  "upstreamStatusError statusCode body w =
     (if statusCode = StatusUnauthorized then (session_over, UnsetSessionCookie w)
      else if statusCode = StatusForbidden then (\<lparr>seCode = StatusForbidden, seErr = None, seMessage = body\<rparr>, w)
      else
        (\<lparr>seCode = StatusInternalServerError,
          seErr = Some (''unexpected status '' @ dec_int statusCode @ '' from Antrea Service''), seMessage = []\<rparr>, w))"

section \<open>Feature gates\<close>

text \<open>\<open>answer\<close> is the outcome of the request to the Antrea Service, \<open>valid\<close> whether a body decodes as
  a list of feature gates.\<close>

definition GetFeatureGates :: "(string + string \<times> int) \<Rightarrow> (string \<Rightarrow> bool) \<Rightarrow> Response \<Rightarrow> Response" where
  "GetFeatureGates answer valid w =
     (case answer of
        Inl err \<Rightarrow> HandleError \<lparr>seCode = StatusInternalServerError, seErr = Some err, seMessage = []\<rparr> w
      | Inr (b, statusCode) \<Rightarrow>
          if statusCode \<noteq> StatusOK then (case upstreamStatusError statusCode b w of (e, w) \<Rightarrow> HandleError e w)
          else if \<not> valid b then
            HandleError \<lparr>seCode = StatusInternalServerError, seErr = Some ''unexpected response from Antrea service'', seMessage = []\<rparr> w
          else Header ''Content-Type'' ''application/json'' (w\<lparr>respStatus := StatusOK, respBody := BodyBytes b\<rparr>))"

section \<open>The admin password\<close>

text \<open>\<open>body\<close> is the decoded request body: the current and the new password.\<close>

definition UpdatePassword_body ::
  "'rw Write \<Rightarrow> hasher \<Rightarrow> RequestAuth option \<Rightarrow> (string \<times> string) option \<Rightarrow> 'rw pwstore \<Rightarrow> ServerError option \<times> 'rw pwstore" where
  "UpdatePassword_body write hash ra body s =
     (if (case ra of None \<Rightarrow> True | Some ra \<Rightarrow> raMode ra \<noteq> ModeAdmin) then
        (Some \<lparr>seCode = StatusForbidden, seErr = None,
           seMessage = ''Only a session authenticated with the admin password can change it''\<rparr>, s)
      else
        (case body of
           None \<Rightarrow> (Some \<lparr>seCode = StatusBadRequest, seErr = None, seMessage = ''invalid body''\<rparr>, s)
         | Some (current, new) \<Rightarrow>
             (case Compare hash current s of
                Some err \<Rightarrow> (Some \<lparr>seCode = StatusBadRequest, seErr = None, seMessage = ''Invalid current admin password''\<rparr>, s)
              | None \<Rightarrow>
                  (case Update write hash new s of
                     (Some err, s) \<Rightarrow>
                       (Some \<lparr>seCode = StatusInternalServerError, seErr = Some ''error when updating password'', seMessage = []\<rparr>, s)
                   | (None, s) \<Rightarrow> (None, s)))))"

definition UpdatePassword ::
  "'rw Write \<Rightarrow> hasher \<Rightarrow> RequestAuth option \<Rightarrow> (string \<times> string) option \<Rightarrow> 'rw pwstore \<Rightarrow> Response \<Rightarrow> 'rw pwstore \<times> Response" where
  "UpdatePassword write hash ra body s w =
     (case UpdatePassword_body write hash ra body s of
        (Some e, s) \<Rightarrow> (s, HandleError e w)
      | (None, s) \<Rightarrow> (s, w\<lparr>respStatus := StatusOK\<rparr>))"

section \<open>The proxy to the Kubernetes API server\<close>

definition HeaderDel :: "string \<Rightarrow> (string \<times> string) list \<Rightarrow> (string \<times> string) list" where
  "HeaderDel name h = filter (\<lambda>(k, v). k \<noteq> name) h"

definition HeaderSet :: "string \<Rightarrow> string \<Rightarrow> (string \<times> string) list \<Rightarrow> (string \<times> string) list" where
  "HeaderSet name v h = HeaderDel name h @ [(name, v)]"

definition singleJoiningSlash :: "string \<Rightarrow> string \<Rightarrow> string" where
  "singleJoiningSlash a b =
     (if HasSuffix a ''/'' \<and> HasPrefix b ''/'' then a @ drop 1 b
      else if \<not> HasSuffix a ''/'' \<and> \<not> HasPrefix b ''/'' then a @ ''/'' @ b
      else a @ b)"

text \<open>The URL and headers of the request to the API server.\<close>

record target_url =
  tuScheme :: string
  tuHost :: string
  tuPath :: string

record out_request =
  orURL :: target_url
  orHeader :: "(string \<times> string) list"

text \<open>\<open>ProxyRequest.SetURL\<close> and \<open>SetXForwarded\<close> of \<open>net/http/httputil\<close>; \<open>tls\<close> is whether the
  incoming connection is encrypted.\<close>

definition SetURL :: "target_url \<Rightarrow> Request \<Rightarrow> out_request \<Rightarrow> out_request" where
  "SetURL target inr out = out\<lparr>orURL := target\<lparr>tuPath := singleJoiningSlash (tuPath target) (reqPath inr)\<rparr>\<rparr>"

definition SetXForwarded :: "bool \<Rightarrow> Request \<Rightarrow> out_request \<Rightarrow> out_request" where
  "SetXForwarded tls inr out =
     (let prior = map snd (filter (\<lambda>(k, v). k = ''X-Forwarded-For'') (orHeader out));
          h = (case SplitHostPort (reqRemoteAddr inr) of
                 None \<Rightarrow> HeaderDel ''X-Forwarded-For'' (orHeader out)
               | Some (clientIP, _) \<Rightarrow>
                   HeaderSet ''X-Forwarded-For''
                     (if prior \<noteq> [] then Join prior '', '' @ '', '' @ clientIP else clientIP) (orHeader out));
          h = HeaderSet ''X-Forwarded-Host'' (reqHost inr) h
      in out\<lparr>orHeader := HeaderSet ''X-Forwarded-Proto'' (if tls then ''https'' else ''http'') h\<rparr>)"

definition ImpersonateUserHeader :: string where "ImpersonateUserHeader = ''Impersonate-User''"
definition ImpersonateUIDHeader :: string where "ImpersonateUIDHeader = ''Impersonate-Uid''"
definition ImpersonateGroupHeader :: string where "ImpersonateGroupHeader = ''Impersonate-Group''"
definition ImpersonateUserExtraHeaderPrefix :: string where "ImpersonateUserExtraHeaderPrefix = ''Impersonate-Extra-''"

definition Rewrite :: "target_url \<Rightarrow> bool \<Rightarrow> Request \<Rightarrow> out_request \<Rightarrow> out_request" where
  "Rewrite k8sServerURL tls inr out =
     (let out = SetURL k8sServerURL inr out;
          out = out\<lparr>orHeader := HeaderDel ''X-Forwarded-For'' (orHeader out) @
                  filter (\<lambda>(k, v). k = ''X-Forwarded-For'') (reqHeader inr)\<rparr>;
          out = SetXForwarded tls inr out;
          h = HeaderDel ''Cookie'' (orHeader out);
          h = HeaderDel ''Authorization'' h;
          h = HeaderDel ImpersonateUserHeader h;
          h = HeaderDel ImpersonateUIDHeader h;
          h = HeaderDel ImpersonateGroupHeader h;
          h = fold (\<lambda>(name, v) h. if HasPrefix name ImpersonateUserExtraHeaderPrefix then HeaderDel name h else h) h h
      in out\<lparr>orHeader := h\<rparr>)"

text \<open>\<open>perRequestTransport\<close>: the transport of the identity of the request, or an error. \<open>send\<close> is what
  a transport does with a request.\<close>

definition RoundTrip ::
  "(string \<Rightarrow> string \<Rightarrow> string option) \<Rightarrow> ClientFactory \<Rightarrow> (RoundTripper \<Rightarrow> out_request \<Rightarrow> string + int) \<Rightarrow>
   RequestAuth option \<Rightarrow> out_request \<Rightarrow> store \<Rightarrow> (string + int) \<times> store" where
  "RoundTrip tls f send ra out st =
     (case TransportForRequest tls f ra st of
        (Inl err, st) \<Rightarrow> (Inl err, st)
      | (Inr rt, st) \<Rightarrow> (send rt out, st))"

definition ModifyResponse :: "RequestAuth option \<Rightarrow> int \<Rightarrow> store \<Rightarrow> store" where
  "ModifyResponse ra statusCode st =
     (if statusCode = StatusUnauthorized then (case ra of Some ra \<Rightarrow> Invalidate ra st | None \<Rightarrow> st) else st)"

text \<open>
  The reverse proxy of \<open>NewK8sProxyHandler\<close>: a request that cannot be sent is logged through
  \<open>proxyErrorWriter\<close> (one line per error, as package \<open>log\<close> writes it) and answered 502, as \<open>httputil.ReverseProxy\<close> does without an error handler of its
  own; otherwise the status of the answer is passed on. \<open>out\<close> is the outgoing copy of the request that
  \<open>Rewrite\<close> gets.
\<close>

definition proxyErrorWriter_Write :: "string \<Rightarrow> (string \<times> string) \<times> nat" where
  "proxyErrorWriter_Write p = ((p, ''K8s proxy error''), length p)"

definition K8sProxyHandler ::
  "(string \<Rightarrow> string \<Rightarrow> string option) \<Rightarrow> ClientFactory \<Rightarrow> (RoundTripper \<Rightarrow> out_request \<Rightarrow> string + int) \<Rightarrow> target_url \<Rightarrow> bool \<Rightarrow>
   RequestAuth option \<Rightarrow> Request \<Rightarrow> out_request \<Rightarrow> store \<Rightarrow> Response \<Rightarrow> (string \<times> string) option \<times> store \<times> Response" where
  "K8sProxyHandler tls f send k8sServerURL https ra inr out st w =
     (case RoundTrip tls f send ra (Rewrite k8sServerURL https inr out) st of
        (Inl err, st) \<Rightarrow>
          (Some (fst (proxyErrorWriter_Write (''http: proxy error: '' @ err @ [CHR 0x0A]))), st, w\<lparr>respStatus := StatusBadGateway\<rparr>)
      | (Inr statusCode, st) \<Rightarrow> (None, ModifyResponse ra statusCode st, w\<lparr>respStatus := statusCode\<rparr>))"

text \<open>What the route does before the proxy: strip the path prefix and the client's credentials.\<close>

definition GetK8s :: "string \<Rightarrow> Request \<Rightarrow> Request" where
  "GetK8s path req =
     req\<lparr>reqPath := path, reqHeader := HeaderDel ''Cookie'' (HeaderDel ''Authorization'' (reqHeader req))\<rparr>"

end
