(* ===== verification/Access.thy ===== *)
theory Access
  imports Api_Server "HOL-Library.List_Lexorder" "HOL-Library.Char_ord"
begin

text \<open>
  The access summary: \<open>pkg/handlers/access/handler.go\<close>, which answers from a watch on RoleBindings
  in which namespaces a user may have access and whether the namespace used to evaluate
  cluster-scoped rules is still empty, and \<open>pkg/server/api/access.go\<close>, the endpoint built on it.
  The informer is a step relation: its cache changes, and it delivers a notification for each
  change later, one at a time. The self-review APIs of Kubernetes are parameters.
\<close>

section \<open>RoleBindings\<close>

definition ClusterScopeProbeNamespace :: string where
  "ClusterScopeProbeNamespace = ''antrea-ui-cluster-scope-probe''"

definition UserKind :: string where "UserKind = ''User''"
definition GroupKind :: string where "GroupKind = ''Group''"
definition ServiceAccountKind :: string where "ServiceAccountKind = ''ServiceAccount''"

record Subject =
  sbKind :: string
  sbName :: string
  sbNamespace :: string

record RoleBinding =
  rbNamespace :: string
  rbName :: string
  rbSubjects :: "Subject list"
  rbManagedFields :: "string list"
  rbAnnotations :: "(string \<times> string) list"

datatype rb_obj = ObjRoleBinding RoleBinding | RBTombstone rb_obj | RBOther

definition trimRoleBinding :: "rb_obj \<Rightarrow> rb_obj" where
  "trimRoleBinding obj =
     (case obj of
        ObjRoleBinding rb \<Rightarrow> ObjRoleBinding (rb\<lparr>rbManagedFields := [], rbAnnotations := []\<rparr>)
      | _ \<Rightarrow> obj)"

section \<open>The resolver\<close>

text \<open>A lister returns the cached RoleBindings of a namespace, or all of them.\<close>

type_synonym lister = "string option \<Rightarrow> string + RoleBinding list"

text \<open>\<open>rsLister\<close>: whether the lister has been set. \<open>rsLog\<close>: the errors logged about RoleBindings in the
  probe namespace, each with their names.\<close>

record resolver =
  rsLister :: bool
  rsSynced :: bool
  rsProbeUsable :: bool
  rsLog :: "string list list"

definition NewResolver :: resolver where
  "NewResolver = \<lparr>rsLister = False, rsSynced = False, rsProbeUsable = True, rsLog = []\<rparr>"

definition recheckClusterScopeProbe :: "lister \<Rightarrow> resolver \<Rightarrow> resolver" where
  "recheckClusterScopeProbe list r =
     (if \<not> rsLister r then r
      else
        (case list (Some ClusterScopeProbeNamespace) of
           Inl err \<Rightarrow> r
         | Inr rbs \<Rightarrow>
             (let usable = (length rbs = 0);
                  wasUsable = rsProbeUsable r;
                  r = r\<lparr>rsProbeUsable := usable\<rparr>
              in if wasUsable \<and> \<not> usable then r\<lparr>rsLog := rsLog r @ [map rbName rbs]\<rparr> else r)))"

definition as_rolebinding :: "rb_obj \<Rightarrow> RoleBinding option" where
  "as_rolebinding obj =
     (case obj of
        ObjRoleBinding rb \<Rightarrow> Some rb
      | RBTombstone (ObjRoleBinding rb) \<Rightarrow> Some rb
      | _ \<Rightarrow> None)"

definition handleRoleBindingEvent :: "lister \<Rightarrow> rb_obj \<Rightarrow> resolver \<Rightarrow> resolver" where
  "handleRoleBindingEvent list obj r =
     (case as_rolebinding obj of
        None \<Rightarrow> r
      | Some rb \<Rightarrow> if rbNamespace rb = ClusterScopeProbeNamespace then recheckClusterScopeProbe list r else r)"

definition ClusterScopeProbeUsable :: "resolver \<Rightarrow> bool" where
  "ClusterScopeProbeUsable r = (if \<not> rsSynced r then True else rsProbeUsable r)"

fun matchesSubject :: "Subject list \<Rightarrow> string \<Rightarrow> string \<Rightarrow> (string \<Rightarrow> bool) \<Rightarrow> bool" where
  "matchesSubject [] rbNs username groupSet = False"
| "matchesSubject (sub # subjects) rbNs username groupSet =
     (if sbKind sub = UserKind then
        (if sbName sub = username then True else matchesSubject subjects rbNs username groupSet)
      else if sbKind sub = GroupKind then
        (if groupSet (sbName sub) then True else matchesSubject subjects rbNs username groupSet)
      else if sbKind sub = ServiceAccountKind then
        (let saNamespace = (if sbNamespace sub = [] then rbNs else sbNamespace sub)
         in if ''system:serviceaccount:'' @ saNamespace @ '':'' @ sbName sub = username then True
            else matchesSubject subjects rbNs username groupSet)
      else matchesSubject subjects rbNs username groupSet)"

type_synonym ns_iteration = "(string \<times> bool) list \<Rightarrow> (string \<times> bool) list"

definition NamespacesFor :: "lister \<Rightarrow> ns_iteration \<Rightarrow> resolver \<Rightarrow> string \<Rightarrow> string list \<Rightarrow> string + string list" where
  "NamespacesFor list rng r username groups =
     (if \<not> rsSynced r \<or> \<not> rsLister r then Inl ''RoleBinding cache is not synced''
      else
        (case list None of
           Inl err \<Rightarrow> Inl (''failed to list RoleBindings: '' @ err)
         | Inr rbs \<Rightarrow>
             (let groupSet = (\<lambda>g. g \<in> set groups);
                  nsSet = fold (\<lambda>rb ns. if matchesSubject (rbSubjects rb) (rbNamespace rb) username groupSet
                                        then AList.update (rbNamespace rb) True ns else ns) rbs []
              in Inr (sort (map fst (rng nsSet))))))"

section \<open>The watch\<close>

datatype run_phase = Starting | CacheSynced | Watching

record watch =
  wCache :: "RoleBinding list"
  wPending :: "rb_obj list"
  wResolver :: resolver
  wPhase :: run_phase

definition lister_of :: "RoleBinding list \<Rightarrow> lister" where
  "lister_of rbs ns = Inr (case ns of None \<Rightarrow> rbs | Some n \<Rightarrow> filter (\<lambda>rb. rbNamespace rb = n) rbs)"

definition same_key :: "RoleBinding \<Rightarrow> RoleBinding \<Rightarrow> bool" where
  "same_key a b \<longleftrightarrow> rbNamespace a = rbNamespace b \<and> rbName a = rbName b"

text \<open>
  \<open>Run\<close>: RoleBindings are added, updated (trimmed by the transform of the informer) and deleted in
  the cache, each with a notification (a tombstone when the watch missed the deletion); a notification is handled; once the cache has
  synced the lister is set, and then the probe namespace is checked.
\<close>

inductive watch_step :: "watch \<Rightarrow> watch \<Rightarrow> bool" where
  watch_add: "trimRoleBinding (ObjRoleBinding received) = ObjRoleBinding rb \<Longrightarrow>
    watch_step w (w\<lparr>wCache := rb # wCache w, wPending := wPending w @ [ObjRoleBinding rb]\<rparr>)"
| watch_update: "trimRoleBinding (ObjRoleBinding received) = ObjRoleBinding rb \<Longrightarrow>
    watch_step w (w\<lparr>wCache := map (\<lambda>x. if same_key x rb then rb else x) (wCache w),
    wPending := wPending w @ [ObjRoleBinding rb]\<rparr>)"
| watch_delete: "obj \<in> {ObjRoleBinding rb, RBTombstone (ObjRoleBinding rb)} \<Longrightarrow>
    watch_step w (w\<lparr>wCache := filter (\<lambda>x. \<not> same_key x rb) (wCache w), wPending := wPending w @ [obj]\<rparr>)"
| watch_handle: "wPending w = obj # rest \<Longrightarrow>
    watch_step w (w\<lparr>wPending := rest, wResolver := handleRoleBindingEvent (lister_of (wCache w)) obj (wResolver w)\<rparr>)"
| watch_sync: "wPhase w = Starting \<Longrightarrow>
    watch_step w (w\<lparr>wPhase := CacheSynced, wResolver := (wResolver w)\<lparr>rsLister := True, rsSynced := True\<rparr>\<rparr>)"
| watch_recheck: "wPhase w = CacheSynced \<Longrightarrow>
    watch_step w (w\<lparr>wPhase := Watching, wResolver := recheckClusterScopeProbe (lister_of (wCache w)) (wResolver w)\<rparr>)"

inductive watched :: "watch \<Rightarrow> bool" where
  watched_init: "watched \<lparr>wCache = [], wPending = [], wResolver = NewResolver, wPhase = Starting\<rparr>"
| watched_step: "watched w \<Longrightarrow> watch_step w w' \<Longrightarrow> watched w'"

section \<open>The endpoint\<close>

record rules_status =
  rvRules :: string
  rvIncomplete :: bool

record AccessSummary =
  asmUsername :: string
  asmGroups :: "string list"
  asmClusterAdmin :: bool
  asmNamespace :: string
  asmRules :: rules_status
  asmNamespaces :: "string list"

text \<open>The answers of the API server to the caller's self reviews: identity, rules of a namespace, and
  whether a verb on a group and resource is allowed.\<close>

record review_api =
  raIdentity :: "api_status + string \<times> string list"
  raRules :: "string \<Rightarrow> api_status + rules_status"
  raAllowed :: "string \<Rightarrow> string \<Rightarrow> string \<Rightarrow> api_status + bool"

definition namespacesFor :: "(string + string list) \<Rightarrow> ServerError + string list" where
  "namespacesFor answer =
     (case answer of
        Inl err \<Rightarrow> Inl \<lparr>seCode = StatusServiceUnavailable,
          seErr = Some (''failed to resolve accessible namespaces: '' @ err), seMessage = ''namespace discovery is not ready''\<rparr>
      | Inr namespaces \<Rightarrow> Inr namespaces)"

definition review_failed :: "RequestAuth option \<Rightarrow> api_status \<Rightarrow> store \<Rightarrow> Response \<Rightarrow> (ServerError + 'a) \<times> store \<times> Response" where
  "review_failed ra err st w =
     (case k8sError ra err ''error when evaluating access summary'' st w of (e, st, w) \<Rightarrow> (Inl e, st, w))"

text \<open>Step 4: the namespaces.\<close>

definition summary_namespaces ::
  "review_api \<Rightarrow> (string \<Rightarrow> string list \<Rightarrow> string + string list) \<Rightarrow> RequestAuth option \<Rightarrow> string \<Rightarrow> string list \<Rightarrow>
   store \<Rightarrow> Response \<Rightarrow> (ServerError + string list) \<times> store \<times> Response" where
  "summary_namespaces api resolve ra username groups st w =
     (if (case ra of Some ra \<Rightarrow> raMode ra = ModeAdmin | None \<Rightarrow> False) then (Inr [''*''], st, w)
      else
        (case raAllowed api ''list'' [] ''namespaces'' of
           Inl err \<Rightarrow> review_failed ra err st w
         | Inr True \<Rightarrow> (Inr [''*''], st, w)
         | Inr False \<Rightarrow> (namespacesFor (resolve username groups), st, w)))"

text \<open>\<open>quote\<close> is the formatting verb \<open>%q\<close>, \<open>invalid\<close> lists what is wrong with a namespace name, \<open>client\<close> builds
  the client of the request, \<open>reviews\<close> are the API server's answers to a client, \<open>resolve\<close> and \<open>usable\<close> the
  resolver's.\<close>

definition GetAccessSummary_body ::
  "(string \<Rightarrow> string) \<Rightarrow> (string \<Rightarrow> string list) \<Rightarrow> (store \<Rightarrow> (string + RoundTripper) \<times> store) \<Rightarrow> (RoundTripper \<Rightarrow> review_api) \<Rightarrow>
   (string \<Rightarrow> string list \<Rightarrow> string + string list) \<Rightarrow> bool \<Rightarrow> RequestAuth option \<Rightarrow>
   Request \<Rightarrow> store \<Rightarrow> Response \<Rightarrow> (ServerError + AccessSummary) \<times> store \<times> Response" where
  "GetAccessSummary_body quote invalid client reviews resolve usable ra req st w =
     (let ns = Query req ''namespace'';
          rulesNamespace = (if ns = [] then ClusterScopeProbeNamespace else ns)
      in if ns \<noteq> [] \<and> invalid ns \<noteq> [] then
           (Inl \<lparr>seCode = StatusBadRequest, seErr = None,
              seMessage = ''invalid namespace '' @ quote ns @ '': '' @ Join (invalid ns) ''; ''\<rparr>, st, w)
         else
           (case client st of
              (Inl err, st) \<Rightarrow>
                (Inl \<lparr>seCode = StatusInternalServerError, seErr = Some (''failed to build K8s client for request: '' @ err),
                   seMessage = []\<rparr>, st, w)
            | (Inr clientset, st) \<Rightarrow>
                (let api = reviews clientset
                 in case raIdentity api of
                   Inl err \<Rightarrow> review_failed ra err st w
                 | Inr (username, groups) \<Rightarrow>
                     (case raRules api rulesNamespace of
                        Inl err \<Rightarrow> review_failed ra err st w
                      | Inr rules \<Rightarrow>
                          (let rules = (if ns = [] \<and> \<not> usable then rules\<lparr>rvIncomplete := True\<rparr> else rules)
                           in case raAllowed api ''*'' ''*'' ''*'' of
                                Inl err \<Rightarrow> review_failed ra err st w
                              | Inr admin \<Rightarrow>
                                  (case summary_namespaces api resolve ra username groups st w of
                                     (Inl e, st, w) \<Rightarrow> (Inl e, st, w)
                                   | (Inr namespaces, st, w) \<Rightarrow>
                                       (Inr \<lparr>asmUsername = username, asmGroups = groups, asmClusterAdmin = admin,
                                          asmNamespace = ns, asmRules = rules, asmNamespaces = namespaces\<rparr>, st, w)))))))"

definition GetAccessSummary ::
  "(AccessSummary \<Rightarrow> string) \<Rightarrow> (string \<Rightarrow> string) \<Rightarrow> (string \<Rightarrow> string list) \<Rightarrow> (string \<Rightarrow> string \<Rightarrow> string option) \<Rightarrow>
   (RoundTripper \<Rightarrow> string option) \<Rightarrow> ClientFactory \<Rightarrow> (RoundTripper \<Rightarrow> review_api) \<Rightarrow>
   (string \<Rightarrow> string list \<Rightarrow> string + string list) \<Rightarrow> bool \<Rightarrow>
   RequestAuth option \<Rightarrow> Request \<Rightarrow> store \<Rightarrow> Response \<Rightarrow> store \<times> Response" where
  "GetAccessSummary marshal quote invalid tls newErr f reviews resolve usable ra req st w =
     (case GetAccessSummary_body quote invalid (KubernetesClientForRequest tls newErr f ra) reviews resolve usable ra req st w of
        (Inl e, st, w) \<Rightarrow> (st, HandleError e w)
      | (Inr summary, st, w) \<Rightarrow> (st, JSON StatusOK (BodyBytes (marshal summary)) w))"

end
