(* ===== verification/Api_Properties.thy ===== *)
theory Api_Properties
  imports Api_Server Store_Properties Authn_Properties Password_Properties
begin

text \<open>
  Properties of the API handlers: who a proxied request is, that only a rejected credential ends a
  session, and who can change the admin password.
\<close>

section \<open>The proxy\<close>

lemma HeaderDel_mem [simp]: "(k, v) \<in> set (HeaderDel name h) \<longleftrightarrow> (k, v) \<in> set h \<and> k \<noteq> name"
  by (auto simp: HeaderDel_def)

lemma fold_HeaderDel_subset:
  "set (fold (\<lambda>(name, v) h. if P name then HeaderDel name h else h) names h) \<subseteq> set h"
  by (induction names arbitrary: h) (fastforce simp: HeaderDel_def split: if_splits)+

lemma fold_HeaderDel_mem:
  "(k, v) \<in> set (fold (\<lambda>(name, v) h. if P name then HeaderDel name h else h) names h) \<Longrightarrow>
   k \<in> fst ` set names \<Longrightarrow> \<not> P k"
proof (induction names arbitrary: h)
  case (Cons p names)
  obtain name u where p: "p = (name, u)" by fastforce
  let ?h = "if P name then HeaderDel name h else h"
  have mem: "(k, v) \<in> set (fold (\<lambda>(name, v) h. if P name then HeaderDel name h else h) names ?h)"
    using Cons.prems(1) by (simp add: p)
  show ?case
  proof (cases "k \<in> fst ` set names")
    case True
    then show ?thesis using Cons.IH [OF mem] by blast
  next
    case False
    then have k: "k = name" using Cons.prems(2) by (simp add: p)
    have "(k, v) \<in> set ?h" by (rule subsetD [OF fold_HeaderDel_subset mem])
    then show ?thesis using k by (auto split: if_splits)
  qed
qed simp

lemma Rewrite_header:
  assumes "(k, v) \<in> set (orHeader (Rewrite url tls inr out))"
  shows "k \<notin> {''Cookie'', ''Authorization'', ImpersonateUserHeader, ImpersonateUIDHeader, ImpersonateGroupHeader} \<and>
    \<not> HasPrefix k ImpersonateUserExtraHeaderPrefix"
proof -
  define h where "h = HeaderDel ImpersonateGroupHeader (HeaderDel ImpersonateUIDHeader (HeaderDel ImpersonateUserHeader
      (HeaderDel ''Authorization'' (HeaderDel ''Cookie'' (orHeader (SetXForwarded tls inr
        ((SetURL url inr out)\<lparr>orHeader := HeaderDel ''X-Forwarded-For'' (orHeader (SetURL url inr out)) @
            filter (\<lambda>(k, v). k = ''X-Forwarded-For'') (reqHeader inr)\<rparr>)))))))"
  have mem: "(k, v) \<in> set (fold (\<lambda>(name, v) h. if HasPrefix name ImpersonateUserExtraHeaderPrefix then HeaderDel name h else h) h h)"
    using assms by (simp add: Rewrite_def h_def Let_def)
  have inh: "(k, v) \<in> set h" by (rule subsetD [OF fold_HeaderDel_subset mem])
  then have "k \<notin> {''Cookie'', ''Authorization'', ImpersonateUserHeader, ImpersonateUIDHeader, ImpersonateGroupHeader}"
    by (simp add: h_def)
  moreover have "\<not> HasPrefix k ImpersonateUserExtraHeaderPrefix"
    using fold_HeaderDel_mem [OF mem] inh by force
  ultimately show ?thesis by (rule conjI)
qed

text \<open>
  C16: nothing a client sends decides who a proxied request is. Whatever its headers, the request
  that reaches the API server carries no cookie, no \<open>Authorization\<close> and no impersonation header of
  the client's, goes to the configured API server, and is sent through a transport that presents the
  identity of the credential the caller's session holds. The answer's status is the client's, a request
  that cannot be sent is a 502, and only a 401 ends the session.
\<close>

theorem proxied_request_identity:
  assumes "cache_ok (\<lambda>k. TransportFor tls (F k)) (mem st) (sess st r)" and "F (cfTransportKey f) = f"
    and "TransportForRequest tls f (Some (NewSessionAuth st r)) st = (Inr rt, st')"
    and "out' = Rewrite url https (GetK8s path req) out"
  shows "(case send rt out' of
       Inl err \<Rightarrow> snd (K8sProxyHandler tls f send url https (Some (NewSessionAuth st r)) (GetK8s path req) out st w) =
         (st', w\<lparr>respStatus := StatusBadGateway\<rparr>)
     | Inr code \<Rightarrow> K8sProxyHandler tls f send url https (Some (NewSessionAuth st r)) (GetK8s path req) out st w =
         (None, if code = StatusUnauthorized then Delete (sId (sess st' r)) st' else st', w\<lparr>respStatus := code\<rparr>)) \<and>
    presents rt = cred_identity (mem st) (sCredential (sess st r)) \<and>
    tuHost (orURL out') = tuHost url \<and> tuScheme (orURL out') = tuScheme url \<and>
    (\<forall>(k, v) \<in> set (orHeader out').
       k \<notin> {''Cookie'', ''Authorization'', ''Impersonate-User'', ''Impersonate-Uid'', ''Impersonate-Group''} \<and>
       \<not> HasPrefix k ''Impersonate-Extra-'')"
proof -
  obtain s' log' where "transportFor (mem st) (cfTransportKey f) (TransportFor tls f) (sess st r) (closed st) = (Inr rt, s', log')"
    using assms(3)
    by (auto simp: TransportForRequest_def RequestAuth_TransportFor_def NewSessionAuth_def transport_at_def split: prod.splits)
  then have ident: "presents rt = cred_identity (mem st) (sCredential (sess st r))"
    using transportFor_current [OF assms(1), of "cfTransportKey f"] TransportFor_presents assms(2) by metis
  have inval: "Invalidate (NewSessionAuth st r) st' = Delete (sId (sess st' r)) st'"
    by (simp add: Invalidate_def NewSessionAuth_def)
  have trip: "case send rt out' of
       Inl err \<Rightarrow> snd (K8sProxyHandler tls f send url https (Some (NewSessionAuth st r)) (GetK8s path req) out st w) =
         (st', w\<lparr>respStatus := StatusBadGateway\<rparr>)
     | Inr code \<Rightarrow> K8sProxyHandler tls f send url https (Some (NewSessionAuth st r)) (GetK8s path req) out st w =
         (None, if code = StatusUnauthorized then Delete (sId (sess st' r)) st' else st', w\<lparr>respStatus := code\<rparr>)"
    by (simp add: K8sProxyHandler_def RoundTrip_def assms(3,4) ModifyResponse_def inval split: sum.split)
  have url: "tuHost (orURL out') = tuHost url" "tuScheme (orURL out') = tuScheme url"
    by (simp_all add: assms(4) Rewrite_def SetXForwarded_def SetURL_def Let_def)
  have hdr: "case p of (k, v) \<Rightarrow>
       k \<notin> {''Cookie'', ''Authorization'', ''Impersonate-User'', ''Impersonate-Uid'', ''Impersonate-Group''} \<and>
       \<not> HasPrefix k ''Impersonate-Extra-''" if "p \<in> set (orHeader out')" for p
  proof (cases p)
    case (Pair k v)
    then have "(k, v) \<in> set (orHeader (Rewrite url https (GetK8s path req) out))" using that assms(4) by simp
    from Rewrite_header [OF this] show ?thesis
      unfolding Pair prod.case ImpersonateUserHeader_def ImpersonateUIDHeader_def ImpersonateGroupHeader_def
        ImpersonateUserExtraHeaderPrefix_def .
  qed
  show ?thesis by (intro conjI ballI trip ident url hdr)
qed

theorem proxied_request_identity_witness:
  "(''Impersonate-Extra-X'', ''root'') \<notin> set (orHeader (Rewrite \<lparr>tuScheme = ''https'', tuHost = ''api'', tuPath = []\<rparr> True
     (GetK8s ''/pods'' ex_req)
     \<lparr>orURL = \<lparr>tuScheme = [], tuHost = [], tuPath = []\<rparr>, orHeader = [(''Impersonate-Extra-X'', ''root''), (''Accept'', ''a'')]\<rparr>))"
proof -
  let ?f = "\<lparr>cfUpstream = ''api'', cfTransportKey = ''k8s''\<rparr>"
  let ?T = "TransportForRequest (\<lambda>c k. None) ?f (Some (NewSessionAuth ex_store 0)) ex_store"
  have c: "cache_ok (\<lambda>k. TransportFor (\<lambda>c k. None) ?f) (mem ex_store) (sess ex_store 0)"
    by (rule cache_ok_empty) (simp add: ex_simps)
  obtain rt st' where t: "?T = (Inr rt, st')"
    by (simp add: TransportForRequest_def RequestAuth_TransportFor_def NewSessionAuth_def transport_at_def transportFor_def
        dropSupersededTransportsLocked_def transportUpstream_def TransportFor_def ex_simps kind_defs split: prod.split)
  have k: "HasPrefix ''Impersonate-Extra-X'' ''Impersonate-Extra-''" by (simp add: HasPrefix_def)
  note P = proxied_request_identity [OF c refl t refl, where url = "\<lparr>tuScheme = ''https'', tuHost = ''api'', tuPath = []\<rparr>"
        and https = True and path = "''/pods''" and req = ex_req and send = "\<lambda>_ _. Inr 200"
        and out = "\<lparr>orURL = \<lparr>tuScheme = [], tuHost = [], tuPath = []\<rparr>, orHeader = [(''Impersonate-Extra-X'', ''root''), (''Accept'', ''a'')]\<rparr>"]
  show ?thesis
  proof
    assume "(''Impersonate-Extra-X'', ''root'') \<in> set (orHeader (Rewrite \<lparr>tuScheme = ''https'', tuHost = ''api'', tuPath = []\<rparr> True
     (GetK8s ''/pods'' ex_req)
     \<lparr>orURL = \<lparr>tuScheme = [], tuHost = [], tuPath = []\<rparr>, orHeader = [(''Impersonate-Extra-X'', ''root''), (''Accept'', ''a'')]\<rparr>))"
    from bspec [OF P [THEN conjunct2, THEN conjunct2, THEN conjunct2, THEN conjunct2] this] k show False by simp
  qed
qed

section \<open>Errors of the API server\<close>

text \<open>
  C20: only a rejected credential ends a session. When an API call made for a session fails, the
  session is ended, its credential zeroed and the cookie expired exactly if the API server answered
  401; every other error, a 403 in particular, leaves every session and every cookie alone. The proxy
  draws the same line.
\<close>

theorem only_unauthorized_ends_session:
  assumes inv: "store_inv st" and r: "lookup st sid = Some r"
    and e: "k8sError (Some (NewSessionAuth st r)) err message st w = (se, st', w')"
  shows "(if asReason err = ReasonUnauthorized
     then seCode se = StatusUnauthorized \<and> abs st' = (abs st)(sid := None) \<and>
       (\<forall>t \<in> set (session_slices (sess st r)). zeroed (mem st') t) \<and>
       expired_cookie SessionCookieName ''/'' \<in> set (respCookies w')
     else seCode se \<noteq> StatusUnauthorized \<and> st' = st \<and> w' = w) \<and>
    ModifyResponse (Some (NewSessionAuth st r)) code st = (if code = StatusUnauthorized then Delete sid st else st)"
proof -
  have id: "sId (sess st r) = sid" using lookup_id [OF store_invD(2) [OF inv] r] by simp
  note inval = Invalidate_session [OF inv id, of st]
  then have "abs (Delete sid st) = (abs st)(sid := None)" by simp
  moreover have "\<forall>t \<in> set (session_slices (sess st r)). zeroed (mem (Delete sid st)) t"
    using r by (simp add: Delete_present zeroBytes_all store_simps)
  ultimately show ?thesis
    using e inval(1)
    by (auto simp: k8sError_def ModifyResponse_def session_over_def UnsetSessionCookie_def SetCookie_def
        sessionCookiePath_def split: api_reason.splits)
qed

theorem only_unauthorized_ends_session_witness:
  "abs (fst (snd (k8sError (Some (NewSessionAuth ex_store 0)) \<lparr>asReason = ReasonUnauthorized, asText = []\<rparr> ''m'' ex_store newResponse))) ''a'' = None \<and>
   fst (snd (k8sError (Some (NewSessionAuth ex_store 0)) \<lparr>asReason = ReasonForbidden, asText = []\<rparr> ''m'' ex_store newResponse)) = ex_store"
proof -
  have r: "lookup ex_store ''a'' = Some 0" by (simp add: lookup_def ex_store_def)
  have P: "\<exists>se st' w'. k8sError (Some (NewSessionAuth ex_store 0)) e ''m'' ex_store newResponse = (se, st', w')" for e
    by (metis surj_pair)
  show ?thesis
    using only_unauthorized_ends_session [OF ex_store_inv r] P [of "\<lparr>asReason = ReasonUnauthorized, asText = []\<rparr>"]
      P [of "\<lparr>asReason = ReasonForbidden, asText = []\<rparr>"]
    by fastforce
qed

section \<open>The admin password\<close>

text \<open>
  C25: who can change the admin password. The stored password changes only for a session that was
  authenticated with that password and only if the request repeats the current one; then the answer
  is 200, the new password is accepted from then on, and no password with another hash is. In every
  other case but a failing backend the store is unchanged.
\<close>

theorem UpdatePassword_guarded:
  assumes "UpdatePassword write hash ra body s w = (s', w')"
  shows "(s' \<noteq> s \<longrightarrow>
      (\<exists>a current new. ra = Some a \<and> raMode a = ModeAdmin \<and> body = Some (current, new) \<and> Compare hash current s = None)) \<and>
    (respStatus w' = StatusOK \<longrightarrow>
      (\<exists>a current new salt h. ra = Some a \<and> raMode a = ModeAdmin \<and> body = Some (current, new) \<and>
         Compare hash current s = None \<and> cachedSalt s = Some salt \<and> hash new salt = Inr h \<and>
         Compare hash new s' = None \<and> (\<forall>p. Compare hash p s' = None \<longrightarrow> hash p salt = Inr h))) \<and>
    respStatus w' \<in> {StatusOK, StatusForbidden, StatusBadRequest, StatusInternalServerError}"
proof (cases "UpdatePassword_body write hash ra body s")
  case (Pair res s1)
  have eqs: "s' = s1" "respStatus w' = (case res of None \<Rightarrow> StatusOK | Some e \<Rightarrow> seCode e)"
    using assms Pair by (auto simp: UpdatePassword_def split: option.splits)
  consider (unchanged) e where "res = Some e" "s1 = s" "seCode e \<in> {StatusForbidden, StatusBadRequest, StatusInternalServerError}"
    | (changed) a current new salt h err wr where "ra = Some a" "raMode a = ModeAdmin" "body = Some (current, new)"
        "Compare hash current s = None" "cachedSalt s = Some salt" "hash new salt = Inr h" "write h salt (rw s) = (wr, err)"
        "s1 = (case err of None \<Rightarrow> s\<lparr>cachedHash := h, rw := wr\<rparr> | Some _ \<Rightarrow> s\<lparr>rw := wr\<rparr>)"
        "(case err of None \<Rightarrow> res = None | Some _ \<Rightarrow> \<exists>e. res = Some e \<and> seCode e = StatusInternalServerError)"
    using Pair
    by (force simp: UpdatePassword_body_def Update_def split: option.splits prod.splits sum.splits if_splits)
  then show ?thesis
  proof cases
    case unchanged
    then show ?thesis using eqs by auto
  next
    case changed
    show ?thesis
    proof (cases err)
      case None
      then have "Compare hash p s' = None \<longleftrightarrow> hash p salt = Inr h" for p
        using changed eqs by (simp add: Compare_None_iff)
      then show ?thesis using changed None eqs by auto
    next
      case (Some e)
      then show ?thesis using changed eqs by auto
    qed
  qed
qed

theorem UpdatePassword_guarded_witness:
  "let s = \<lparr>cachedSalt = Some ''s'', cachedHash = ''olds'', rw = []\<rparr>;
       R = UpdatePassword (\<lambda>h salt w. (h # w, None)) (\<lambda>p salt. Inr (p @ salt))
         (Some \<lparr>raMode = ModeAdmin, raUsername = ''admin'', raSession = None, raEphemeral = emptyCredential\<rparr>)
         (Some (''old'', ''new'')) s newResponse
   in respStatus (snd R) = StatusOK \<and> Compare (\<lambda>p salt. Inr (p @ salt)) ''new'' (fst R) = None"
proof -
  let ?s = "\<lparr>cachedSalt = Some ''s'', cachedHash = ''olds'', rw = []\<rparr>"
  let ?R = "UpdatePassword (\<lambda>h salt w. (h # w, None)) (\<lambda>p salt. Inr (p @ salt))
     (Some \<lparr>raMode = ModeAdmin, raUsername = ''admin'', raSession = None, raEphemeral = emptyCredential\<rparr>)
     (Some (''old'', ''new'')) ?s newResponse"
  have "respStatus (snd ?R) = StatusOK"
    by (simp add: UpdatePassword_def UpdatePassword_body_def Compare_def Update_def ConstantTimeCompare_def)
  then show ?thesis
    using UpdatePassword_guarded [OF surjective_pairing, of "\<lambda>h salt w. (h # w, None)" "\<lambda>p salt. Inr (p @ salt)"
        "Some \<lparr>raMode = ModeAdmin, raUsername = ''admin'', raSession = None, raEphemeral = emptyCredential\<rparr>"
        "Some (''old'', ''new'')" ?s newResponse]
    by (simp add: Let_def)
qed

end
