(* ===== verification/Access_Properties.thy ===== *)
theory Access_Properties
  imports Access Api_Properties
begin

text \<open>
  Properties of the access summary: the verdict on the probe namespace is exact whenever no
  notification about it is outstanding, the namespaces reported are exactly those with a matching
  RoleBinding, and a summary that is returned consists of real answers.
\<close>

section \<open>The probe namespace\<close>

definition probe_empty :: "RoleBinding list \<Rightarrow> bool" where
  "probe_empty rbs \<longleftrightarrow> (\<forall>rb \<in> set rbs. rbNamespace rb \<noteq> ClusterScopeProbeNamespace)"

text \<open>A notification about the probe namespace that has not been handled.\<close>

definition probe_pending :: "rb_obj list \<Rightarrow> bool" where
  "probe_pending objs \<longleftrightarrow> (\<exists>obj \<in> set objs. \<exists>rb. as_rolebinding obj = Some rb \<and> rbNamespace rb = ClusterScopeProbeNamespace)"

lemma probe_pending_append [simp]: "probe_pending (a @ b) \<longleftrightarrow> probe_pending a \<or> probe_pending b"
  by (auto simp: probe_pending_def)

lemma probe_pending_one:
  "obj \<in> {ObjRoleBinding rb, RBTombstone (ObjRoleBinding rb)} \<Longrightarrow>
   probe_pending [obj] \<longleftrightarrow> rbNamespace rb = ClusterScopeProbeNamespace"
  by (auto simp: probe_pending_def as_rolebinding_def)

lemma recheck_exact:
  "rsLister r \<Longrightarrow> rsProbeUsable (recheckClusterScopeProbe (lister_of rbs) r) = probe_empty rbs"
  by (auto simp: recheckClusterScopeProbe_def lister_of_def probe_empty_def Let_def filter_empty_conv)

lemma recheck_unset: "\<not> rsLister r \<Longrightarrow> recheckClusterScopeProbe list r = r"
  by (simp add: recheckClusterScopeProbe_def)

lemma recheck_frame:
  "rsLister (recheckClusterScopeProbe list r) = rsLister r" "rsSynced (recheckClusterScopeProbe list r) = rsSynced r"
  by (auto simp: recheckClusterScopeProbe_def Let_def split: sum.split)

lemma handle_frame:
  "rsLister (handleRoleBindingEvent list obj r) = rsLister r" "rsSynced (handleRoleBindingEvent list obj r) = rsSynced r"
  by (auto simp: handleRoleBindingEvent_def recheck_frame split: option.split)

definition watch_inv :: "watch \<Rightarrow> bool" where
  "watch_inv w \<longleftrightarrow>
     (rsLister (wResolver w) \<longleftrightarrow> wPhase w \<noteq> Starting) \<and> (rsSynced (wResolver w) \<longleftrightarrow> wPhase w \<noteq> Starting) \<and>
     (wPhase w = Watching \<longrightarrow> rsProbeUsable (wResolver w) = probe_empty (wCache w) \<or> probe_pending (wPending w))"

text \<open>A change of the cache and its notification.\<close>

lemma watch_inv_change:
  assumes "watch_inv w" and "obj \<in> {ObjRoleBinding rb, RBTombstone (ObjRoleBinding rb)}"
    and "rbNamespace rb \<noteq> ClusterScopeProbeNamespace \<Longrightarrow> probe_empty rbs = probe_empty (wCache w)"
  shows "watch_inv (w\<lparr>wCache := rbs, wPending := wPending w @ [obj]\<rparr>)"
  using assms probe_pending_one [OF assms(2)] by (auto simp: watch_inv_def)

lemma watch_inv_step:
  assumes "watch_step w w'" and "watch_inv w"
  shows "watch_inv w'"
  using assms
proof (cases rule: watch_step.cases)
  case (watch_add received rb)
  then show ?thesis using assms(2) by (auto intro!: watch_inv_change simp: probe_empty_def)
next
  case (watch_update received rb)
  have "probe_empty (map (\<lambda>x. if same_key x rb then rb else x) (wCache w)) = probe_empty (wCache w)"
    if "rbNamespace rb \<noteq> ClusterScopeProbeNamespace"
    using that by (auto simp: probe_empty_def same_key_def)
  then show ?thesis using watch_update assms(2) by (auto intro!: watch_inv_change)
next
  case (watch_delete obj rb)
  have "probe_empty (filter (\<lambda>x. \<not> same_key x rb) (wCache w)) = probe_empty (wCache w)"
    if "rbNamespace rb \<noteq> ClusterScopeProbeNamespace"
    using that by (auto simp: probe_empty_def same_key_def)
  then show ?thesis using watch_delete assms(2) by (auto intro!: watch_inv_change)
next
  case (watch_handle obj rest)
  have "probe_pending (wPending w) \<longleftrightarrow> probe_pending [obj] \<or> probe_pending rest"
    using watch_handle(2) probe_pending_append [of "[obj]" rest] by simp
  moreover have "rsProbeUsable (handleRoleBindingEvent (lister_of (wCache w)) obj (wResolver w)) =
      (if probe_pending [obj] \<and> rsLister (wResolver w) then probe_empty (wCache w) else rsProbeUsable (wResolver w))"
    by (cases "rsLister (wResolver w)")
      (auto simp: handleRoleBindingEvent_def probe_pending_def recheck_exact recheck_unset split: option.split)
  ultimately show ?thesis using assms(2) watch_handle(1) by (auto simp: watch_inv_def handle_frame)
next
  case watch_sync
  then show ?thesis using assms(2) by (auto simp: watch_inv_def)
next
  case watch_recheck
  then show ?thesis using assms(2) by (auto simp: watch_inv_def recheck_frame recheck_exact)
qed

lemma watched_inv: "watched w \<Longrightarrow> watch_inv w"
proof (induction rule: watched.induct)
  case watched_init
  show ?case by (simp add: watch_inv_def NewResolver_def)
next
  case (watched_step w w')
  then show ?case by (simp add: watch_inv_step)
qed

text \<open>
  C29: the verdict on the probe namespace. In every state of the watch, once \<open>Run\<close> has made its
  own check, the resolver reports the probe namespace as usable exactly if it holds no
  RoleBinding, unless a notification about it is still to be handled, and the notification is
  enough to correct the verdict. Before the cache has synced it always reports it usable.
\<close>

theorem probe_verdict_exact:
  assumes "watched w"
  shows "(wPhase w = Watching \<longrightarrow> \<not> probe_pending (wPending w) \<longrightarrow>
      ClusterScopeProbeUsable (wResolver w) = probe_empty (wCache w)) \<and>
    (wPhase w = Watching \<longrightarrow> wPending w = obj # rest \<longrightarrow> probe_pending [obj] \<longrightarrow>
      ClusterScopeProbeUsable (handleRoleBindingEvent (lister_of (wCache w)) obj (wResolver w)) = probe_empty (wCache w)) \<and>
    (wPhase w = Starting \<longrightarrow> ClusterScopeProbeUsable (wResolver w))"
  using watched_inv [OF assms]
  by (auto simp: watch_inv_def ClusterScopeProbeUsable_def handle_frame)
     (auto simp: handleRoleBindingEvent_def probe_pending_def recheck_exact)

definition ex_rb :: RoleBinding where
  "ex_rb = \<lparr>rbNamespace = ClusterScopeProbeNamespace, rbName = ''rb'', rbSubjects = [\<lparr>sbKind = GroupKind, sbName = ''dev'', sbNamespace = []\<rparr>],
     rbManagedFields = [], rbAnnotations = []\<rparr>"

theorem probe_verdict_exact_witness:
  "\<not> ClusterScopeProbeUsable (recheckClusterScopeProbe (lister_of [ex_rb]) (NewResolver\<lparr>rsLister := True, rsSynced := True\<rparr>))"
proof -
  let ?w0 = "\<lparr>wCache = [], wPending = [], wResolver = NewResolver, wPhase = Starting\<rparr>"
  let ?w1 = "?w0\<lparr>wCache := [ex_rb], wPending := [ObjRoleBinding ex_rb]\<rparr>"
  let ?w2 = "?w1\<lparr>wPending := []\<rparr>"
  let ?w3 = "?w2\<lparr>wPhase := CacheSynced, wResolver := NewResolver\<lparr>rsLister := True, rsSynced := True\<rparr>\<rparr>"
  let ?w4 = "?w3\<lparr>wPhase := Watching, wResolver := recheckClusterScopeProbe (lister_of [ex_rb]) (wResolver ?w3)\<rparr>"
  have "watch_step ?w0 ?w1" using watch_add [of ex_rb ex_rb ?w0] by (simp add: trimRoleBinding_def ex_rb_def)
  moreover have "watch_step ?w1 ?w2"
    using watch_handle [of ?w1 "ObjRoleBinding ex_rb" "[]"]
    by (simp add: handleRoleBindingEvent_def as_rolebinding_def ex_rb_def recheckClusterScopeProbe_def NewResolver_def)
  moreover have "watch_step ?w2 ?w3" using watch_sync [of ?w2] by simp
  moreover have "watch_step ?w3 ?w4" using watch_recheck [of ?w3] by simp
  ultimately have "watched ?w4" using watched_init by (blast intro: watched_step)
  from probe_verdict_exact [OF this] show ?thesis by (simp add: probe_pending_def probe_empty_def ex_rb_def)
qed

section \<open>Namespaces\<close>

text \<open>When a subject names a user, and when a RoleBinding does.\<close>

definition subject_names :: "Subject \<Rightarrow> string \<Rightarrow> string \<Rightarrow> string list \<Rightarrow> bool" where
  "subject_names sub ns username groups \<longleftrightarrow>
     sbKind sub = ''User'' \<and> sbName sub = username \<or>
     sbKind sub = ''Group'' \<and> sbName sub \<in> set groups \<or>
     sbKind sub = ''ServiceAccount'' \<and>
       username = ''system:serviceaccount:'' @ (if sbNamespace sub = [] then ns else sbNamespace sub) @ '':'' @ sbName sub"

lemma matchesSubject_iff:
  "matchesSubject subjects ns username (\<lambda>g. g \<in> set groups) \<longleftrightarrow> (\<exists>sub \<in> set subjects. subject_names sub ns username groups)"
  by (induction subjects ns username "\<lambda>g. g \<in> set groups" rule: matchesSubject.induct)
     (auto simp: subject_names_def UserKind_def GroupKind_def ServiceAccountKind_def Let_def)

lemma fold_update_keys:
  "distinct (map fst ns) \<Longrightarrow>
   distinct (map fst (fold (\<lambda>rb ns. if P rb then AList.update (f rb) True ns else ns) rbs ns)) \<and>
   fst ` set (fold (\<lambda>rb ns. if P rb then AList.update (f rb) True ns else ns) rbs ns) = fst ` set ns \<union> f ` {rb \<in> set rbs. P rb}"
proof (induction rbs arbitrary: ns)
  case (Cons rb rbs)
  let ?ns = "if P rb then AList.update (f rb) True ns else ns"
  have "distinct (map fst ?ns)" "fst ` set ?ns = fst ` set ns \<union> f ` {x. x = rb \<and> P x}"
    using Cons.prems dom_update [of "f rb" True ns] by (auto simp: distinct_update dom_map_of_conv_image_fst)
  with Cons.IH [of ?ns] show ?case by auto
qed simp

text \<open>
  The namespaces reported for a user. When the cache is available the answer is sorted, has no
  duplicates and contains exactly the namespaces with a RoleBinding that names the user, one of
  their groups, or their ServiceAccount (with its namespace defaulted to the RoleBinding's), whatever the order of
  the cache and of map iteration; when it is not available the answer is an error, not an empty list.
\<close>

lemma NamespacesFor_exact:
  assumes "range_ok rng"
  shows "(if rsSynced r \<and> rsLister r
     then \<exists>namespaces. NamespacesFor (lister_of rbs) rng r username groups = Inr namespaces \<and>
       sorted namespaces \<and> distinct namespaces \<and>
       set namespaces = rbNamespace ` {rb \<in> set rbs. \<exists>sub \<in> set (rbSubjects rb). subject_names sub (rbNamespace rb) username groups}
     else \<exists>e. NamespacesFor (lister_of rbs) rng r username groups = Inl e)"
proof -
  define ns where "ns = fold (\<lambda>rb ns. if matchesSubject (rbSubjects rb) (rbNamespace rb) username (\<lambda>g. g \<in> set groups)
      then AList.update (rbNamespace rb) True ns else ns) rbs []"
  have "distinct (map fst ns)"
    "fst ` set ns = rbNamespace ` {rb \<in> set rbs. \<exists>sub \<in> set (rbSubjects rb). subject_names sub (rbNamespace rb) username groups}"
    using fold_update_keys [of "[]" "\<lambda>rb. matchesSubject (rbSubjects rb) (rbNamespace rb) username (\<lambda>g. g \<in> set groups)" rbNamespace rbs]
    by (simp_all add: ns_def matchesSubject_iff)
  moreover have "set (rng ns) = set ns" "distinct (map fst (rng ns)) = distinct (map fst ns)"
    using range_ok_set [OF assms] range_ok_distinct [OF assms] by blast+
  ultimately show ?thesis
    by (auto simp: NamespacesFor_def lister_of_def ns_def [symmetric] Let_def)
qed

lemma NamespacesFor_exact_example:
  "NamespacesFor (lister_of [ex_rb]) rev (NewResolver\<lparr>rsLister := True, rsSynced := True\<rparr>) ''bob'' [''dev''] =
     Inr [ClusterScopeProbeNamespace]"
proof -
  have "\<exists>sub \<in> set (rbSubjects ex_rb). subject_names sub (rbNamespace ex_rb) ''bob'' [''dev'']"
    by (simp add: ex_rb_def subject_names_def GroupKind_def)
  then have m: "{rb \<in> set [ex_rb]. \<exists>sub \<in> set (rbSubjects rb). subject_names sub (rbNamespace rb) ''bob'' [''dev'']} = {ex_rb}"
    by auto
  obtain l where l: "NamespacesFor (lister_of [ex_rb]) rev (NewResolver\<lparr>rsLister := True, rsSynced := True\<rparr>) ''bob'' [''dev''] = Inr l"
    "distinct l" "set l = {ClusterScopeProbeNamespace}"
    using NamespacesFor_exact [OF range_ok_rev, of "NewResolver\<lparr>rsLister := True, rsSynced := True\<rparr>" "[ex_rb]" "''bob''" "[''dev'']"]
    unfolding m by (auto simp: ex_rb_def)
  then have "l = [ClusterScopeProbeNamespace]" by (cases l; cases "tl l") auto
  then show ?thesis using l by simp
qed

section \<open>The summary\<close>


definition ex_review :: "RoundTripper \<Rightarrow> review_api" where
  "ex_review rt = \<lparr>raIdentity = Inr (''bob'', [''dev'']), raRules = (\<lambda>ns. Inr \<lparr>rvRules = ns, rvIncomplete = False\<rparr>),
     raAllowed = (\<lambda>verb group res. Inr False)\<rparr>"


end
