(* ===== verification/Plugins.thy ===== *)
theory Plugins
  imports Http "HOL-Library.List_Lexorder" "HOL-Library.Char_ord"
begin

text \<open>
  \<open>pkg/plugins/registry.go\<close> and \<open>pkg/server/api/plugins.go\<close>: the index of frontend plugins built
  from the events of a ConfigMap watch, and the two routes that serve it. The JSON decoding of
  a manifest is a parameter. Go strings are compared bytewise by \<open>sort.Strings\<close>, which is the
  lexicographic order of \<^typ>\<open>string\<close>.
\<close>

section \<open>The registry\<close>

definition manifestFileName :: string where "manifestFileName = ''manifest.json''"

record PluginManifest =
  pmName :: string
  pmVersion :: string
  pmEntry :: string

record pluginEntry =
  peManifest :: PluginManifest
  peFiles :: "string \<rightharpoonup> string"

record ConfigMap =
  cmName :: string
  cmData :: "string \<rightharpoonup> string"
  cmBinaryData :: "string \<rightharpoonup> string"

record Registry =
  rgNamespace :: string
  rgLabelSelector :: string
  rgPlugins :: "(string \<times> pluginEntry) list"

definition NewRegistry :: "string \<Rightarrow> string \<Rightarrow> Registry" where
  "NewRegistry namespace labelSelector = \<lparr>rgNamespace = namespace, rgLabelSelector = labelSelector, rgPlugins = []\<rparr>"

text \<open>What the informer hands to an event handler.\<close>

datatype watch_obj = ObjConfigMap ConfigMap | DeletedFinalStateUnknown watch_obj | OtherObj

definition asConfigMap :: "watch_obj \<Rightarrow> ConfigMap option" where
  "asConfigMap obj =
     (case obj of
        ObjConfigMap cm \<Rightarrow> Some cm
      | DeletedFinalStateUnknown (ObjConfigMap cm) \<Rightarrow> Some cm
      | _ \<Rightarrow> None)"

datatype plugin_error = MissingManifest | InvalidManifest | MissingName | MissingEntry | EntryNotFound string

type_synonym json_manifest = "string \<Rightarrow> PluginManifest option"

definition parsePluginConfigMap :: "json_manifest \<Rightarrow> ConfigMap \<Rightarrow> plugin_error + pluginEntry" where
  "parsePluginConfigMap unmarshal cm =
     (let files = cmData cm ++ cmBinaryData cm
      in case files manifestFileName of
           None \<Rightarrow> Inl MissingManifest
         | Some manifestData \<Rightarrow>
             (case unmarshal manifestData of
                None \<Rightarrow> Inl InvalidManifest
              | Some manifest \<Rightarrow>
                  if pmName manifest = [] then Inl MissingName
                  else if pmEntry manifest = [] then Inl MissingEntry
                  else if files (pmEntry manifest) = None then Inl (EntryNotFound (pmEntry manifest))
                  else Inr \<lparr>peManifest = manifest, peFiles = files\<rparr>))"

definition handleUpsert :: "json_manifest \<Rightarrow> watch_obj \<Rightarrow> Registry \<Rightarrow> Registry" where
  "handleUpsert unmarshal obj r =
     (case asConfigMap obj of
        None \<Rightarrow> r
      | Some cm \<Rightarrow>
          (case parsePluginConfigMap unmarshal cm of
             Inl err \<Rightarrow> r
           | Inr entry \<Rightarrow> r\<lparr>rgPlugins := AList.update (cmName cm) entry (rgPlugins r)\<rparr>))"

definition handleDelete :: "watch_obj \<Rightarrow> Registry \<Rightarrow> Registry" where
  "handleDelete obj r =
     (case asConfigMap obj of
        None \<Rightarrow> r
      | Some cm \<Rightarrow> r\<lparr>rgPlugins := AList.delete (cmName cm) (rgPlugins r)\<rparr>)"

text \<open>\<open>Run\<close>: the handlers on the events of the watch, in the order the informer delivers them.\<close>

datatype plugin_event = PluginAdded watch_obj | PluginUpdated watch_obj watch_obj | PluginDeleted watch_obj

primrec plugin_handler :: "json_manifest \<Rightarrow> plugin_event \<Rightarrow> Registry \<Rightarrow> Registry" where
  "plugin_handler unmarshal (PluginAdded obj) r = handleUpsert unmarshal obj r"
| "plugin_handler unmarshal (PluginUpdated oldObj newObj) r = handleUpsert unmarshal newObj r"
| "plugin_handler unmarshal (PluginDeleted obj) r = handleDelete obj r"

definition Registry_Run :: "json_manifest \<Rightarrow> plugin_event list \<Rightarrow> Registry \<Rightarrow> Registry" where
  "Registry_Run unmarshal events r = fold (plugin_handler unmarshal) events r"

text \<open>\<open>r.plugins[cmName]\<close>, the zero entry when absent.\<close>

definition plugin_at :: "Registry \<Rightarrow> string \<Rightarrow> pluginEntry" where
  "plugin_at r name =
     (case map_of (rgPlugins r) name of
        Some e \<Rightarrow> e
      | None \<Rightarrow> \<lparr>peManifest = \<lparr>pmName = [], pmVersion = [], pmEntry = []\<rparr>, peFiles = Map.empty\<rparr>)"

type_synonym plugin_iteration = "(string \<times> pluginEntry) list \<Rightarrow> (string \<times> pluginEntry) list"

definition sortedConfigMapNames :: "plugin_iteration \<Rightarrow> Registry \<Rightarrow> string list" where
  "sortedConfigMapNames rng r = sort (map fst (rng (rgPlugins r)))"

primrec index_loop :: "Registry \<Rightarrow> string list \<Rightarrow> (string \<rightharpoonup> string) \<Rightarrow> PluginManifest list" where
  "index_loop r [] seen = []"
| "index_loop r (name # names) seen =
     (let entry = plugin_at r name
      in case seen (pmName (peManifest entry)) of
           Some owner \<Rightarrow> index_loop r names seen
         | None \<Rightarrow> peManifest entry # index_loop r names (seen(pmName (peManifest entry) \<mapsto> name)))"

definition Index :: "plugin_iteration \<Rightarrow> Registry \<Rightarrow> PluginManifest list" where
  "Index rng r = index_loop r (sortedConfigMapNames rng r) Map.empty"

primrec file_loop :: "Registry \<Rightarrow> string list \<Rightarrow> string \<Rightarrow> string \<Rightarrow> string option" where
  "file_loop r [] pluginName filename = None"
| "file_loop r (name # names) pluginName filename =
     (let entry = plugin_at r name
      in if pmName (peManifest entry) \<noteq> pluginName then file_loop r names pluginName filename
         else peFiles entry filename)"

definition File :: "plugin_iteration \<Rightarrow> Registry \<Rightarrow> string \<Rightarrow> string \<Rightarrow> string option" where
  "File rng r pluginName filename = file_loop r (sortedConfigMapNames rng r) pluginName filename"

section \<open>The routes\<close>

definition isGzip :: "string \<Rightarrow> bool" where
  "isGzip data = (case data of a # b # _ \<Rightarrow> a = CHR 0x1F \<and> b = CHR 0x8B | _ \<Rightarrow> False)"

text \<open>\<open>path.Ext\<close>: from the last dot of the last path element.\<close>

fun ext_from_end :: "string \<Rightarrow> string \<Rightarrow> string" where
  "ext_from_end [] acc = []"
| "ext_from_end (c # cs) acc =
     (if c = CHR ''/'' then []
      else if c = CHR ''.'' then CHR ''.'' # acc
      else ext_from_end cs (c # acc))"

definition path_Ext :: "string \<Rightarrow> string" where
  "path_Ext p = ext_from_end (rev p) []"

definition pluginFileContentType :: "string \<Rightarrow> string" where
  "pluginFileContentType filename =
     (if path_Ext filename = ''.js'' \<or> path_Ext filename = ''.mjs'' then ''application/javascript''
      else if path_Ext filename = ''.json'' then ''application/json''
      else ''application/octet-stream'')"

definition Data :: "int \<Rightarrow> string \<Rightarrow> string \<Rightarrow> Response \<Rightarrow> Response" where
  "Data code contentType data w = Header ''Content-Type'' contentType (w\<lparr>respStatus := code, respBody := BodyBytes data\<rparr>)"

definition GetPluginFile :: "plugin_iteration \<Rightarrow> Registry \<Rightarrow> string \<Rightarrow> string \<Rightarrow> Response \<Rightarrow> Response" where
  "GetPluginFile rng r name filepath w =
     (let filename = TrimPrefix filepath ''/''
      in case File rng r name filename of
           None \<Rightarrow> w\<lparr>respStatus := StatusNotFound\<rparr>
         | Some data \<Rightarrow>
             (let w = Header ''Cache-Control'' ''no-store'' w;
                  w = (if isGzip data then Header ''Content-Encoding'' ''gzip'' w else w)
              in Data StatusOK (pluginFileContentType filename) data w))"

text \<open>\<open>marshal\<close> is the JSON encoding of the list.\<close>

definition GetPluginsIndex :: "(PluginManifest list \<Rightarrow> string) \<Rightarrow> plugin_iteration \<Rightarrow> Registry \<Rightarrow> Response \<Rightarrow> Response" where
  "GetPluginsIndex marshal rng r w =
     JSON StatusOK (BodyBytes (marshal (Index rng r))) (Header ''Cache-Control'' ''no-store'' w)"

section \<open>The registry's invariant\<close>

text \<open>Every entry came from a ConfigMap that was accepted, and names are keys once.\<close>

definition entry_ok :: "json_manifest \<Rightarrow> pluginEntry \<Rightarrow> bool" where
  "entry_ok unmarshal e \<longleftrightarrow>
     (\<exists>data. peFiles e manifestFileName = Some data \<and> unmarshal data = Some (peManifest e)) \<and>
     pmName (peManifest e) \<noteq> [] \<and> pmEntry (peManifest e) \<noteq> [] \<and> peFiles e (pmEntry (peManifest e)) \<noteq> None"

definition registry_ok :: "json_manifest \<Rightarrow> Registry \<Rightarrow> bool" where
  "registry_ok unmarshal r \<longleftrightarrow>
     distinct (map fst (rgPlugins r)) \<and> (\<forall>(name, e) \<in> set (rgPlugins r). entry_ok unmarshal e)"

lemma parse_entry_ok:
  assumes "parsePluginConfigMap unmarshal cm = Inr e"
  shows "entry_ok unmarshal e"
proof -
  define files where "files = cmData cm ++ cmBinaryData cm"
  show ?thesis
    using assms unfolding parsePluginConfigMap_def files_def [symmetric] Let_def
    by (auto simp: entry_ok_def split: option.splits if_splits)
qed

lemma registry_ok_update:
  assumes ok: "registry_ok unmarshal r" and e: "entry_ok unmarshal e"
  shows "registry_ok unmarshal (r\<lparr>rgPlugins := AList.update n e (rgPlugins r)\<rparr>)"
proof -
  have "entry_ok unmarshal d" if "(m, d) \<in> set (AList.update n e (rgPlugins r))" for m d
  proof -
    have "map_of (AList.update n e (rgPlugins r)) m = Some d"
      using that ok by (intro map_of_is_SomeI) (simp_all add: registry_ok_def distinct_update)
    then have "d = e \<or> map_of (rgPlugins r) m = Some d" by (auto simp: update_conv' split: if_splits)
    then show ?thesis using ok e by (auto simp: registry_ok_def dest: map_of_SomeD)
  qed
  then show ?thesis using ok by (auto simp: registry_ok_def distinct_update)
qed

lemma plugin_handler_ok: "registry_ok unmarshal r \<Longrightarrow> registry_ok unmarshal (plugin_handler unmarshal ev r)"
proof (cases ev)
  case (PluginDeleted obj)
  assume "registry_ok unmarshal r"
  then show ?thesis
    using PluginDeleted distinct_delete [of "rgPlugins r"]
    by (cases "asConfigMap obj") (auto simp: handleDelete_def registry_ok_def AList.delete_eq)
qed (auto simp: handleUpsert_def registry_ok_update parse_entry_ok split: option.split sum.split)

lemma Registry_Run_ok: "registry_ok unmarshal r \<Longrightarrow> registry_ok unmarshal (Registry_Run unmarshal evs r)"
  unfolding Registry_Run_def by (induction evs arbitrary: r) (auto simp: plugin_handler_ok)

lemma NewRegistry_ok: "registry_ok unmarshal (NewRegistry ns sel)"
  by (simp add: registry_ok_def NewRegistry_def)

section \<open>Index and File\<close>

lemma sortedConfigMapNames_props:
  assumes rng: "range_ok rng" and ok: "registry_ok unmarshal r"
  shows "set (sortedConfigMapNames rng r) = fst ` set (rgPlugins r)" "distinct (sortedConfigMapNames rng r)"
  using range_ok_set [OF rng, of "rgPlugins r"] range_ok_distinct [OF rng, of "rgPlugins r"] ok
  by (auto simp: sortedConfigMapNames_def registry_ok_def)

lemma sortedConfigMapNames_order:
  assumes "range_ok rng" and "range_ok rng'"
  shows "sortedConfigMapNames rng r = sortedConfigMapNames rng' r"
proof -
  have "mset (map fst (rng (rgPlugins r))) = mset (map fst (rng' (rgPlugins r)))"
    using assms by (simp add: range_ok_def)
  then show ?thesis by (simp add: sortedConfigMapNames_def sorted_list_of_multiset_mset [symmetric])
qed

lemma plugin_at_ok:
  assumes "registry_ok unmarshal r" and "name \<in> fst ` set (rgPlugins r)"
  shows "entry_ok unmarshal (plugin_at r name)"
proof -
  obtain e where "map_of (rgPlugins r) name = Some e" using assms(2) by (metis map_of_eq_None_iff not_None_eq)
  then show ?thesis using assms(1) map_of_SomeD [of "rgPlugins r" name e] by (auto simp: plugin_at_def registry_ok_def)
qed

abbreviation plugin_name :: "Registry \<Rightarrow> string \<Rightarrow> string" where
  "plugin_name r name \<equiv> pmName (peManifest (plugin_at r name))"

lemma index_loop_names:
  "distinct (map pmName (index_loop r names seen)) \<and>
   set (map pmName (index_loop r names seen)) = plugin_name r ` set names - dom seen"
proof (induction names arbitrary: seen)
  case (Cons n names)
  show ?case
  proof (cases "seen (plugin_name r n)")
    case None
    define seen' where "seen' = seen(plugin_name r n \<mapsto> n)"
    have loop: "index_loop r (n # names) seen = peManifest (plugin_at r n) # index_loop r names seen'"
      using None by (simp add: Let_def seen'_def)
    have "dom seen' = insert (plugin_name r n) (dom seen)" by (simp add: seen'_def)
    then show ?thesis using Cons.IH [of seen'] None unfolding loop by auto
  next
    case (Some own)
    then have "index_loop r (n # names) seen = index_loop r names seen" by (simp add: Let_def)
    then show ?thesis using Cons.IH [of seen] Some by auto
  qed
qed simp

lemma index_loop_find:
  "m \<in> set (index_loop r names seen) \<Longrightarrow>
   \<exists>n. find (\<lambda>n. plugin_name r n = pmName m) names = Some n \<and> peManifest (plugin_at r n) = m"
proof (induction names arbitrary: seen)
  case (Cons n names)
  have notin: "pmName m \<notin> dom seen'" if "m \<in> set (index_loop r names seen')" for seen'
    using index_loop_names [of r names seen'] that by auto
  show ?case
  proof (cases "seen (plugin_name r n)")
    case None
    let ?seen = "seen(plugin_name r n \<mapsto> n)"
    have "m = peManifest (plugin_at r n) \<or> m \<in> set (index_loop r names ?seen)"
      using Cons.prems None by (simp add: Let_def)
    then show ?thesis
    proof
      assume m: "m \<in> set (index_loop r names ?seen)"
      then have "plugin_name r n \<noteq> pmName m" using notin [OF m] by auto
      then show ?thesis using Cons.IH [OF m] by simp
    qed simp
  next
    case (Some own)
    then show ?thesis using Cons.prems Cons.IH [of seen] notin [of seen] by (auto simp: Let_def)
  qed
qed simp

lemma file_loop_find:
  "file_loop r names p f =
     (case find (\<lambda>n. plugin_name r n = p) names of None \<Rightarrow> None | Some n \<Rightarrow> peFiles (plugin_at r n) f)"
  by (induction names) (auto simp: Let_def)

text \<open>
  C28: what the plugin registry serves after any sequence of watch events. The index lists each
  plugin name once; for every manifest it lists, the manifest file that is served decodes to that
  very manifest and its entry file is served; a plugin that is not in the index serves no file;
  and neither answer depends on the order in which Go iterates over the map.
\<close>

theorem plugin_index_served:
  assumes "range_ok rng" and "range_ok rng'"
    and "r = Registry_Run unmarshal events (NewRegistry ns sel)"
  shows "distinct (map pmName (Index rng r)) \<and>
    (\<forall>m \<in> set (Index rng r).
       (\<exists>data. File rng r (pmName m) manifestFileName = Some data \<and> unmarshal data = Some m) \<and>
       pmEntry m \<noteq> [] \<and> (\<exists>code. File rng r (pmName m) (pmEntry m) = Some code)) \<and>
    (\<forall>p f. p \<notin> pmName ` set (Index rng r) \<longrightarrow> File rng r p f = None) \<and>
    Index rng' r = Index rng r \<and> File rng' r = File rng r"
proof -
  have ok: "registry_ok unmarshal r" using assms(3) Registry_Run_ok NewRegistry_ok by blast
  let ?names = "sortedConfigMapNames rng r"
  have set: "set ?names = fst ` set (rgPlugins r)" by (rule sortedConfigMapNames_props [OF assms(1) ok])
  have served: "(\<exists>data. File rng r (pmName m) manifestFileName = Some data \<and> unmarshal data = Some m) \<and>
      pmEntry m \<noteq> [] \<and> (\<exists>code. File rng r (pmName m) (pmEntry m) = Some code)" if m: "m \<in> set (Index rng r)" for m
  proof -
    obtain n where n: "find (\<lambda>n. plugin_name r n = pmName m) ?names = Some n" "peManifest (plugin_at r n) = m"
      using index_loop_find m unfolding Index_def by blast
    have "n \<in> set ?names" using n(1) by (metis find_Some_iff nth_mem)
    then have "entry_ok unmarshal (plugin_at r n)" using plugin_at_ok [OF ok] set by blast
    then show ?thesis using n by (auto simp: File_def file_loop_find entry_ok_def)
  qed
  have absent: "File rng r p f = None" if "p \<notin> pmName ` set (Index rng r)" for p f
  proof -
    have "p \<notin> plugin_name r ` set ?names" using that index_loop_names [of r ?names Map.empty] by (simp add: Index_def)
    then have "find (\<lambda>n. plugin_name r n = p) ?names = None" by (auto simp: find_None_iff)
    then show ?thesis by (simp add: File_def file_loop_find)
  qed
  have "Index rng' r = Index rng r" "File rng' r = File rng r"
    using sortedConfigMapNames_order [OF assms(2,1)] by (simp_all add: Index_def File_def fun_eq_iff)
  then show ?thesis using served absent index_loop_names [of r ?names Map.empty] by (auto simp: Index_def)
qed

definition ex_manifest :: PluginManifest where
  "ex_manifest = \<lparr>pmName = ''p'', pmVersion = ''1'', pmEntry = ''main.js''\<rparr>"

definition ex_plugin :: "string \<Rightarrow> ConfigMap" where
  "ex_plugin code = \<lparr>cmName = ''cm'', cmData = [manifestFileName \<mapsto> ''m'', ''main.js'' \<mapsto> code], cmBinaryData = Map.empty\<rparr>"

theorem plugin_index_served_witness:
  "let r = Registry_Run (\<lambda>_. Some ex_manifest)
       [PluginAdded (ObjConfigMap (ex_plugin ''v1'')), PluginUpdated OtherObj (ObjConfigMap (ex_plugin ''v2''))] (NewRegistry [] [])
   in Index rev r = [ex_manifest] \<and> Index rev r = Index (\<lambda>xs. xs) r \<and>
      File rev r ''other'' ''main.js'' = None \<and> (\<exists>code. File rev r ''p'' ''main.js'' = Some code)"
proof -
  define r where "r = Registry_Run (\<lambda>_. Some ex_manifest)
       [PluginAdded (ObjConfigMap (ex_plugin ''v1'')), PluginUpdated OtherObj (ObjConfigMap (ex_plugin ''v2''))] (NewRegistry [] [])"
  have "Index rev r = [ex_manifest]"
    by (simp add: r_def Registry_Run_def handleUpsert_def asConfigMap_def parsePluginConfigMap_def ex_plugin_def
        ex_manifest_def manifestFileName_def NewRegistry_def Index_def sortedConfigMapNames_def plugin_at_def Let_def)
  then show ?thesis
    unfolding r_def [symmetric] Let_def
    using plugin_index_served [OF range_ok_rev range_ok_id r_def] by (simp add: ex_manifest_def)
qed

end
