(* ===== verification/Flow_Types.thy ===== *)
theory Flow_Types
  imports Http "HOL-Library.Word"
begin

text \<open>
  The flow records of \<open>apis/v1/flow.go\<close>, the protobuf messages they are converted from and the
  conversion of \<open>pkg/handlers/flowstream/grpc.go\<close>. A protobuf submessage may be absent; its getters
  then return zero values. Counters and ports keep their width; enumerations are their numbers.
  The formatting of a timestamp (\<open>fmt\<close>) and of an IPv6 address (\<open>v6\<close>) are parameters.
\<close>

section \<open>API types\<close>

type_synonym labels = "(string \<times> string) list"

definition FlowTypeUnspecified :: int where "FlowTypeUnspecified = 0"
definition FlowTypeIntraNode :: int where "FlowTypeIntraNode = 1"
definition FlowTypeInterNode :: int where "FlowTypeInterNode = 2"
definition FlowTypeToExternal :: int where "FlowTypeToExternal = 3"
definition FlowTypeFromExternal :: int where "FlowTypeFromExternal = 4"

record FlowStats =
  PacketTotalCount :: "64 word"
  PacketDeltaCount :: "64 word"
  OctetTotalCount :: "64 word"
  OctetDeltaCount :: "64 word"
  Throughput :: "64 word"

record FlowTCP =
  StateName :: string

record FlowTransport =
  ProtocolNumber :: "32 word"
  SourcePort :: "32 word"
  DestinationPort :: "32 word"
  ftTCP :: "FlowTCP option"

record FlowIP =
  ipVersion :: int
  ipSource :: string
  ipDestination :: string

record FlowKubernetes =
  fkFlowType :: int
  fkSourcePodNamespace :: string
  fkSourcePodName :: string
  fkSourcePodUid :: string
  fkSourcePodLabels :: labels
  fkSourceNodeName :: string
  fkSourceNodeUid :: string
  fkDestinationPodNamespace :: string
  fkDestinationPodName :: string
  fkDestinationPodUid :: string
  fkDestinationPodLabels :: labels
  fkDestinationNodeName :: string
  fkDestinationNodeUid :: string
  fkDestinationClusterIp :: string
  fkDestinationServicePort :: "32 word"
  fkDestinationServicePortName :: string
  fkDestinationServiceUid :: string
  fkIngressNetworkPolicyType :: int
  fkIngressNetworkPolicyNamespace :: string
  fkIngressNetworkPolicyName :: string
  fkIngressNetworkPolicyUid :: string
  fkIngressNetworkPolicyRuleName :: string
  fkIngressNetworkPolicyRuleAction :: int
  fkEgressNetworkPolicyType :: int
  fkEgressNetworkPolicyNamespace :: string
  fkEgressNetworkPolicyName :: string
  fkEgressNetworkPolicyUid :: string
  fkEgressNetworkPolicyRuleName :: string
  fkEgressNetworkPolicyRuleAction :: int
  fkEgressName :: string
  fkEgressIp :: string
  fkEgressNodeName :: string
  fkEgressNodeUid :: string
  fkEgressUid :: string

record Flow =
  flowID :: string
  flowStartTs :: string
  flowEndTs :: string
  flowEndReason :: int
  flowIP :: FlowIP
  flowTransport :: FlowTransport
  flowK8s :: FlowKubernetes
  flowStats :: FlowStats
  flowReverseStats :: FlowStats

text \<open>Go's zero values.\<close>

definition zeroStats :: FlowStats where
  "zeroStats = \<lparr>PacketTotalCount = 0, PacketDeltaCount = 0, OctetTotalCount = 0, OctetDeltaCount = 0, Throughput = 0\<rparr>"

definition zeroKubernetes :: FlowKubernetes where
  "zeroKubernetes =
     \<lparr>fkFlowType = 0, fkSourcePodNamespace = [], fkSourcePodName = [], fkSourcePodUid = [], fkSourcePodLabels =
      [], fkSourceNodeName = [], fkSourceNodeUid = [], fkDestinationPodNamespace = [], fkDestinationPodName =
      [], fkDestinationPodUid = [], fkDestinationPodLabels = [], fkDestinationNodeName = [],
      fkDestinationNodeUid = [], fkDestinationClusterIp = [], fkDestinationServicePort = 0,
      fkDestinationServicePortName = [], fkDestinationServiceUid = [], fkIngressNetworkPolicyType = 0,
      fkIngressNetworkPolicyNamespace = [], fkIngressNetworkPolicyName = [], fkIngressNetworkPolicyUid = [],
      fkIngressNetworkPolicyRuleName = [], fkIngressNetworkPolicyRuleAction = 0, fkEgressNetworkPolicyType = 0,
      fkEgressNetworkPolicyNamespace = [], fkEgressNetworkPolicyName = [], fkEgressNetworkPolicyUid = [],
      fkEgressNetworkPolicyRuleName = [], fkEgressNetworkPolicyRuleAction = 0, fkEgressName = [], fkEgressIp =
      [], fkEgressNodeName = [], fkEgressNodeUid = [], fkEgressUid = []\<rparr>"

definition zeroFlow :: Flow where
  "zeroFlow =
     \<lparr>flowID = [], flowStartTs = [], flowEndTs = [], flowEndReason = 0,
      flowIP = \<lparr>ipVersion = 0, ipSource = [], ipDestination = []\<rparr>,
      flowTransport = \<lparr>ProtocolNumber = 0, SourcePort = 0, DestinationPort = 0, ftTCP = None\<rparr>,
      flowK8s = zeroKubernetes, flowStats = zeroStats, flowReverseStats = zeroStats\<rparr>"

section \<open>Protobuf messages\<close>

record pb_ip =
  piVersion :: int
  piSource :: string
  piDestination :: string

record pb_transport =
  ptProtocolNumber :: "32 word"
  ptSourcePort :: "32 word"
  ptDestinationPort :: "32 word"
  ptTCP :: "string option"

record pb_kubernetes =
  pkFlowType :: int
  pkSourcePodNamespace :: string
  pkSourcePodName :: string
  pkSourcePodUid :: string
  pkSourcePodLabels :: "labels option"
  pkSourceNodeName :: string
  pkSourceNodeUid :: string
  pkDestinationPodNamespace :: string
  pkDestinationPodName :: string
  pkDestinationPodUid :: string
  pkDestinationPodLabels :: "labels option"
  pkDestinationNodeName :: string
  pkDestinationNodeUid :: string
  pkDestinationClusterIp :: string
  pkDestinationServicePort :: "32 word"
  pkDestinationServicePortName :: string
  pkDestinationServiceUid :: string
  pkIngressNetworkPolicyType :: int
  pkIngressNetworkPolicyNamespace :: string
  pkIngressNetworkPolicyName :: string
  pkIngressNetworkPolicyUid :: string
  pkIngressNetworkPolicyRuleName :: string
  pkIngressNetworkPolicyRuleAction :: int
  pkEgressNetworkPolicyType :: int
  pkEgressNetworkPolicyNamespace :: string
  pkEgressNetworkPolicyName :: string
  pkEgressNetworkPolicyUid :: string
  pkEgressNetworkPolicyRuleName :: string
  pkEgressNetworkPolicyRuleAction :: int
  pkEgressName :: string
  pkEgressIp :: string
  pkEgressNodeName :: string
  pkEgressNodeUid :: string
  pkEgressUid :: string

record pb_stats =
  psPacketTotalCount :: "64 word"
  psPacketDeltaCount :: "64 word"
  psOctetTotalCount :: "64 word"
  psOctetDeltaCount :: "64 word"

record pb_aggregation =
  paThroughput :: "64 word"
  paReverseThroughput :: "64 word"

record pb_flow =
  pbId :: string
  pbStartTs :: "Time option"
  pbEndTs :: "Time option"
  pbEndReason :: int
  pbIp :: "pb_ip option"
  pbTransport :: "pb_transport option"
  pbK8S :: "pb_kubernetes option"
  pbStats :: "pb_stats option"
  pbReverseStats :: "pb_stats option"
  pbAggregation :: "pb_aggregation option"

section \<open>Conversion\<close>

text \<open>\<open>netip.AddrFromSlice\<close> accepts 4 and 16 bytes; the string of an IPv4 address is its dotted form.\<close>

definition ipBytesToString :: "(string \<Rightarrow> string) \<Rightarrow> string \<Rightarrow> string" where
  "ipBytesToString v6 b =
     (if length b = 0 then []
      else if length b = 4 then Join (map (\<lambda>c. dec_nat (of_char c)) b) ''.''
      else if length b = 16 then v6 b
      else ''<invalid-ip:'' @ hex_EncodeToString b @ ''>'')"

definition get_labels :: "labels option \<Rightarrow> labels" where
  "get_labels ls = (case ls of None \<Rightarrow> [] | Some l \<Rightarrow> l)"

definition flow_kubernetes :: "(string \<Rightarrow> string) \<Rightarrow> pb_kubernetes \<Rightarrow> FlowKubernetes" where
  "flow_kubernetes v6 k =
     \<lparr>fkFlowType = pkFlowType k,
      fkSourcePodNamespace = pkSourcePodNamespace k,
      fkSourcePodName = pkSourcePodName k,
      fkSourcePodUid = pkSourcePodUid k,
      fkSourcePodLabels = get_labels (pkSourcePodLabels k),
      fkSourceNodeName = pkSourceNodeName k,
      fkSourceNodeUid = pkSourceNodeUid k,
      fkDestinationPodNamespace = pkDestinationPodNamespace k,
      fkDestinationPodName = pkDestinationPodName k,
      fkDestinationPodUid = pkDestinationPodUid k,
      fkDestinationPodLabels = get_labels (pkDestinationPodLabels k),
      fkDestinationNodeName = pkDestinationNodeName k,
      fkDestinationNodeUid = pkDestinationNodeUid k,
      fkDestinationClusterIp = ipBytesToString v6 (pkDestinationClusterIp k),
      fkDestinationServicePort = pkDestinationServicePort k,
      fkDestinationServicePortName = pkDestinationServicePortName k,
      fkDestinationServiceUid = pkDestinationServiceUid k,
      fkIngressNetworkPolicyType = pkIngressNetworkPolicyType k,
      fkIngressNetworkPolicyNamespace = pkIngressNetworkPolicyNamespace k,
      fkIngressNetworkPolicyName = pkIngressNetworkPolicyName k,
      fkIngressNetworkPolicyUid = pkIngressNetworkPolicyUid k,
      fkIngressNetworkPolicyRuleName = pkIngressNetworkPolicyRuleName k,
      fkIngressNetworkPolicyRuleAction = pkIngressNetworkPolicyRuleAction k,
      fkEgressNetworkPolicyType = pkEgressNetworkPolicyType k,
      fkEgressNetworkPolicyNamespace = pkEgressNetworkPolicyNamespace k,
      fkEgressNetworkPolicyName = pkEgressNetworkPolicyName k,
      fkEgressNetworkPolicyUid = pkEgressNetworkPolicyUid k,
      fkEgressNetworkPolicyRuleName = pkEgressNetworkPolicyRuleName k,
      fkEgressNetworkPolicyRuleAction = pkEgressNetworkPolicyRuleAction k,
      fkEgressName = pkEgressName k,
      fkEgressIp = ipBytesToString v6 (pkEgressIp k),
      fkEgressNodeName = pkEgressNodeName k,
      fkEgressNodeUid = pkEgressNodeUid k,
      fkEgressUid = pkEgressUid k\<rparr>"

definition flow_stats :: "pb_stats \<Rightarrow> FlowStats" where
  "flow_stats s =
     \<lparr>PacketTotalCount = psPacketTotalCount s, PacketDeltaCount = psPacketDeltaCount s,
      OctetTotalCount = psOctetTotalCount s, OctetDeltaCount = psOctetDeltaCount s, Throughput = 0\<rparr>"

definition protoFlowToAPI :: "(Time \<Rightarrow> string) \<Rightarrow> (string \<Rightarrow> string) \<Rightarrow> pb_flow \<Rightarrow> Flow" where
  "protoFlowToAPI fmt v6 pb =
     (let f = zeroFlow\<lparr>flowID := pbId pb, flowEndReason := pbEndReason pb\<rparr>;
          f = (case pbStartTs pb of Some ts \<Rightarrow> f\<lparr>flowStartTs := fmt ts\<rparr> | None \<Rightarrow> f);
          f = (case pbEndTs pb of Some ts \<Rightarrow> f\<lparr>flowEndTs := fmt ts\<rparr> | None \<Rightarrow> f);
          f = (case pbIp pb of
                 Some ip \<Rightarrow> f\<lparr>flowIP := \<lparr>ipVersion = piVersion ip, ipSource = ipBytesToString v6 (piSource ip),
                   ipDestination = ipBytesToString v6 (piDestination ip)\<rparr>\<rparr>
               | None \<Rightarrow> f);
          f = (case pbTransport pb of
                 Some t \<Rightarrow> f\<lparr>flowTransport := \<lparr>ProtocolNumber = ptProtocolNumber t, SourcePort = ptSourcePort t,
                   DestinationPort = ptDestinationPort t,
                   ftTCP = (case ptTCP t of Some name \<Rightarrow> Some \<lparr>StateName = name\<rparr> | None \<Rightarrow> None)\<rparr>\<rparr>
               | None \<Rightarrow> f);
          f = (case pbK8S pb of Some k \<Rightarrow> f\<lparr>flowK8s := flow_kubernetes v6 k\<rparr> | None \<Rightarrow> f);
          f = (case pbStats pb of
                 Some s \<Rightarrow> f\<lparr>flowStats := (flow_stats s)
                   \<lparr>Throughput := (case pbAggregation pb of Some agg \<Rightarrow> paThroughput agg | None \<Rightarrow> 0)\<rparr>\<rparr>
               | None \<Rightarrow> f)
      in (case pbReverseStats pb of
            Some rs \<Rightarrow> f\<lparr>flowReverseStats := (flow_stats rs)
              \<lparr>Throughput := (case pbAggregation pb of Some agg \<Rightarrow> paReverseThroughput agg | None \<Rightarrow> 0)\<rparr>\<rparr>
          | None \<Rightarrow> f))"

end
