(* ===== verification/Flow_Stream.thy ===== *)
theory Flow_Stream
  imports Flow_Types Request_Auth
begin

text \<open>
  The flow stream: \<open>pkg/handlers/flowstream/handler.go\<close>, the endpoint that turns flows into
  server-sent events, and \<open>pkg/handlers/flowstream/grpc.go\<close>, the goroutine that receives them from
  the Flow Aggregator. The two run concurrently and share the channels \<open>flowsCh\<close> (16 events) and
  \<open>errCh\<close> (one error); a \<open>select\<close> with several ready cases takes any of them, so the handler is a
  step relation. The gRPC client is the environment: what \<open>Recv\<close> returns is part of the step.
  The values sent as JSON are kept as values: \<open>json.Marshal\<close> has no error on their types.
\<close>

section \<open>Filters\<close>

definition FlowFilterDirectionBoth :: int where "FlowFilterDirectionBoth = 0"
definition FlowFilterDirectionFrom :: int where "FlowFilterDirectionFrom = 1"
definition FlowFilterDirectionTo :: int where "FlowFilterDirectionTo = 2"

record FlowStreamFilter =
  ffNamespaces :: "string list"
  ffPodNames :: "string list"
  ffPodLabelSelector :: string
  ffServiceNames :: "string list"
  ffFlowTypes :: "int list"
  ffIPs :: "string list"
  ffDirection :: int

definition zeroFilter :: FlowStreamFilter where
  "zeroFilter = \<lparr>ffNamespaces = [], ffPodNames = [], ffPodLabelSelector = [], ffServiceNames = [],
     ffFlowTypes = [], ffIPs = [], ffDirection = 0\<rparr>"

definition splitTrimmed :: "string \<Rightarrow> string list" where
  "splitTrimmed s = filter (\<lambda>t. t \<noteq> []) (map TrimSpace (Split s (CHR '','')))"

definition flowTypeByName :: "string \<rightharpoonup> int" where
  "flowTypeByName = map_of
     [(''intra-node'', FlowTypeIntraNode), (''inter-node'', FlowTypeInterNode),
      (''to-external'', FlowTypeToExternal), (''from-external'', FlowTypeFromExternal)]"

text \<open>\<open>quote\<close> is the formatting verb \<open>%q\<close>.\<close>

definition parseFlowType :: "(string \<Rightarrow> string) \<Rightarrow> string \<Rightarrow> string + int" where
  "parseFlowType quote s =
     (case flowTypeByName (ToLower s) of
        Some v \<Rightarrow> Inr v
      | None \<Rightarrow> Inl (''invalid flowType value '' @ quote s @
          '': expected one of intra-node, inter-node, to-external, from-external''))"

fun parseFlowTypes :: "(string \<Rightarrow> string) \<Rightarrow> string list \<Rightarrow> int list \<Rightarrow> string + int list" where
  "parseFlowTypes quote [] fts = Inr fts"
| "parseFlowTypes quote (p # ps) fts =
     (case parseFlowType quote p of
        Inl err \<Rightarrow> Inl err
      | Inr v \<Rightarrow> parseFlowTypes quote ps (fts @ [v]))"

definition parseDirection :: "string \<Rightarrow> int" where
  "parseDirection dir =
     (if ToLower dir = ''from'' then FlowFilterDirectionFrom
      else if ToLower dir = ''to'' then FlowFilterDirectionTo
      else FlowFilterDirectionBoth)"

definition parseFlowStreamFilter :: "(string \<Rightarrow> string) \<Rightarrow> Request \<Rightarrow> string + FlowStreamFilter" where
  "parseFlowStreamFilter quote c =
     (let f = zeroFilter;
          ns = Query c ''namespaces'';
          f = (if ns \<noteq> [] then f\<lparr>ffNamespaces := splitTrimmed ns\<rparr> else f);
          pods = Query c ''pods'';
          f = (if pods \<noteq> [] then f\<lparr>ffPodNames := splitTrimmed pods\<rparr> else f);
          svcs = Query c ''services'';
          f = (if svcs \<noteq> [] then f\<lparr>ffServiceNames := splitTrimmed svcs\<rparr> else f);
          sel = Query c ''podLabelSelector'';
          f = (if sel \<noteq> [] then f\<lparr>ffPodLabelSelector := sel\<rparr> else f);
          ft = Query c ''flowTypes''
      in case (if ft \<noteq> [] then parseFlowTypes quote (splitTrimmed ft) [] else Inr []) of
           Inl err \<Rightarrow> Inl err
         | Inr fts \<Rightarrow>
             (let f = f\<lparr>ffFlowTypes := fts\<rparr>;
                  ips = Query c ''ips'';
                  f = (if ips \<noteq> [] then f\<lparr>ffIPs := splitTrimmed ips\<rparr> else f);
                  dir = Query c ''direction''
              in Inr (if dir \<noteq> [] then f\<lparr>ffDirection := parseDirection dir\<rparr> else f)))"

record FlowFilter =
  pfNamespaces :: "string list"
  pfPodNames :: "string list"
  pfPodLabelSelector :: string
  pfServiceNames :: "string list"
  pfFlowTypes :: "int list"
  pfIps :: "string list"
  pfDirection :: int

record GetFlowsRequest =
  gfFilters :: "FlowFilter list"
  gfFollow :: bool

text \<open>The directions of the protobuf enumeration; a direction the map does not have gives the zero value.\<close>

definition filterDirectionToProto :: "int \<Rightarrow> int" where
  "filterDirectionToProto d =
     (case map_of [(FlowFilterDirectionBoth, 0), (FlowFilterDirectionFrom, 1), (FlowFilterDirectionTo, 2)] d of
        Some p \<Rightarrow> p
      | None \<Rightarrow> 0)"

definition filterToGetFlowsRequest :: "FlowStreamFilter \<Rightarrow> GetFlowsRequest" where
  "filterToGetFlowsRequest f =
     \<lparr>gfFilters =
        [\<lparr>pfNamespaces = ffNamespaces f, pfPodNames = ffPodNames f, pfPodLabelSelector = ffPodLabelSelector f,
          pfServiceNames = ffServiceNames f, pfFlowTypes = ffFlowTypes f, pfIps = ffIPs f,
          pfDirection = filterDirectionToProto (ffDirection f)\<rparr>],
      gfFollow = True\<rparr>"

section \<open>The subscriber\<close>

record FlowStreamEvent =
  evFlows :: "Flow list"
  evDroppedCount :: "64 word"

record GetFlowsResponse =
  grFlows :: "pb_flow list"
  grDroppedCount :: "64 word"

datatype recv = RecvResponse GetFlowsResponse | RecvEOF | RecvError string

text \<open>The event made from a response, and the dropped count remembered afterwards.\<close>

definition response_event ::
  "(pb_flow \<Rightarrow> Flow) \<Rightarrow> 64 word \<Rightarrow> GetFlowsResponse \<Rightarrow> 64 word \<times> FlowStreamEvent" where
  "response_event convert lastDroppedCount resp =
     (let evt = \<lparr>evFlows = [], evDroppedCount = 0\<rparr>;
          (lastDroppedCount, evt) =
            (if grDroppedCount resp > lastDroppedCount
             then (grDroppedCount resp, evt\<lparr>evDroppedCount := grDroppedCount resp\<rparr>)
             else (lastDroppedCount, evt))
      in (lastDroppedCount,
          if length (grFlows resp) > 0 then evt\<lparr>evFlows := map convert (grFlows resp)\<rparr> else evt))"

datatype producer =
    PStart
  | PReceive
  | PSend FlowStreamEvent
  | PFail string
  | PCloseFlows
  | PCloseErr
  | PFinished

datatype sse = Comment string | DroppedEvent "64 word" | FlowEvent "Flow list" | ErrorEvent string

text \<open>
  The state of one stream. \<open>spReceived\<close> are the responses received so far; \<open>spOut\<close> is what the
  handler has written; \<open>spOpen\<close> says that \<open>Stream\<close> has not returned; \<open>spErrNil\<close> that the handler
  has set \<open>errCh\<close> to nil; \<open>spStore\<close> is the session store, shared with every other request.
\<close>

record stream =
  spPc :: producer
  spLastDropped :: "64 word"
  spReceived :: "GetFlowsResponse list"
  spFlowsCh :: "FlowStreamEvent list"
  spFlowsClosed :: bool
  spErrCh :: "string list"
  spErrClosed :: bool
  spCtxDone :: bool
  spPreamble :: bool
  spErrNil :: bool
  spOut :: "sse list"
  spOpen :: bool
  spStore :: store

definition flows_capacity :: nat where "flows_capacity = 16"
definition err_capacity :: nat where "err_capacity = 1"

definition new_stream :: "store \<Rightarrow> stream" where
  "new_stream st =
     \<lparr>spPc = PStart, spLastDropped = 0, spReceived = [], spFlowsCh = [], spFlowsClosed = False,
      spErrCh = [], spErrClosed = False, spCtxDone = False, spPreamble = False, spErrNil = False,
      spOut = [], spOpen = True, spStore = st\<rparr>"

text \<open>One step of the goroutine, \<open>None\<close> when it is blocked. \<open>start\<close> is the error of \<open>GetFlows\<close>, \<open>r\<close> what
  \<open>Recv\<close> returns; \<open>cancel\<close> is the choice of the \<open>select\<close> when both of its cases are ready.\<close>

definition producer_step ::
  "(pb_flow \<Rightarrow> Flow) \<Rightarrow> string option \<Rightarrow> recv \<Rightarrow> bool \<Rightarrow> stream \<Rightarrow> stream option" where
  "producer_step convert start r cancel s =
     (case spPc s of
        PStart \<Rightarrow>
          (case start of
             Some err \<Rightarrow> Some (s\<lparr>spPc := PFail (''failed to start flow stream: '' @ err)\<rparr>)
           | None \<Rightarrow> Some (s\<lparr>spPc := PReceive\<rparr>))
      | PReceive \<Rightarrow>
          (case r of
             RecvEOF \<Rightarrow> Some (s\<lparr>spPc := PCloseFlows\<rparr>)
           | RecvError err \<Rightarrow>
               Some (s\<lparr>spPc := if spCtxDone s then PCloseFlows else PFail (''flow stream error: '' @ err)\<rparr>)
           | RecvResponse resp \<Rightarrow>
               (case response_event convert (spLastDropped s) resp of
                  (lastDroppedCount, evt) \<Rightarrow>
                    Some (s\<lparr>spLastDropped := lastDroppedCount, spReceived := spReceived s @ [resp],
                      spPc := if evDroppedCount evt > 0 \<or> length (evFlows evt) > 0 then PSend evt else PReceive\<rparr>)))
      | PSend evt \<Rightarrow>
          (if cancel then (if spCtxDone s then Some (s\<lparr>spPc := PCloseFlows\<rparr>) else None)
           else if length (spFlowsCh s) < flows_capacity
             then Some (s\<lparr>spFlowsCh := spFlowsCh s @ [evt], spPc := PReceive\<rparr>)
           else None)
      | PFail err \<Rightarrow>
          (if length (spErrCh s) < err_capacity
           then Some (s\<lparr>spErrCh := spErrCh s @ [err], spPc := PCloseFlows\<rparr>)
           else None)
      | PCloseFlows \<Rightarrow> Some (s\<lparr>spFlowsClosed := True, spPc := PCloseErr\<rparr>)
      | PCloseErr \<Rightarrow> Some (s\<lparr>spErrClosed := True, spPc := PFinished\<rparr>)
      | PFinished \<Rightarrow> None)"

section \<open>The handler\<close>

text \<open>The handler of the route; a tick of its keep-alive timer is an event of the environment below.\<close>

definition defaultKeepAliveInterval :: Duration where "defaultKeepAliveInterval = 5 * second"

record SSEHandler =
  shKeepAliveInterval :: Duration

definition NewSSEHandler :: SSEHandler where
  "NewSSEHandler = \<lparr>shKeepAliveInterval = defaultKeepAliveInterval\<rparr>"

text \<open>The case a \<open>select\<close> takes. \<open>CaseKeepAlive\<close> carries the clock readings and whether the write succeeds.\<close>

datatype select_case =
    CaseDone
  | CaseKeepAlive Time "Time \<times> Time \<times> Time \<times> Time" bool
  | CaseFlows
  | CaseErr

definition sessionAlive ::
  "(refresher_id \<Rightarrow> Refresh) \<Rightarrow> RequestAuth option \<Rightarrow> Time \<Rightarrow> Time \<times> Time \<times> Time \<times> Time \<Rightarrow> store \<Rightarrow> bool \<times> store" where
  "sessionAlive refresh ra now clock st =
     (case ra of None \<Rightarrow> (False, st) | Some ra \<Rightarrow> KeepAlive refresh now clock ra st)"

definition event_out :: "FlowStreamEvent \<Rightarrow> sse list" where
  "event_out evt =
     (if evDroppedCount evt > 0 then [DroppedEvent (evDroppedCount evt)] else []) @
     (if length (evFlows evt) > 0 then [FlowEvent (evFlows evt)] else [])"

definition writePreamble :: "bool \<Rightarrow> stream \<Rightarrow> stream" where
  "writePreamble ok s =
     (if spPreamble s then s
      else if ok then s\<lparr>spPreamble := True, spOut := spOut s @ [Comment '': stream-open'']\<rparr>
      else s\<lparr>spPreamble := True\<rparr>)"

text \<open>The \<open>select\<close> of one iteration, \<open>None\<close> when the case is not ready.\<close>

definition stream_select ::
  "(refresher_id \<Rightarrow> Refresh) \<Rightarrow> RequestAuth option \<Rightarrow> select_case \<Rightarrow> stream \<Rightarrow> stream option" where
  "stream_select refresh ra sc s =
     (case sc of
        CaseDone \<Rightarrow> if spCtxDone s then Some (s\<lparr>spOpen := False\<rparr>) else None
      | CaseKeepAlive now clock written \<Rightarrow>
          (case sessionAlive refresh ra now clock (spStore s) of
             (False, st) \<Rightarrow> Some (s\<lparr>spStore := st, spOpen := False\<rparr>)
           | (True, st) \<Rightarrow>
               (if written then Some (s\<lparr>spStore := st, spOut := spOut s @ [Comment '': keepalive'']\<rparr>)
                else Some (s\<lparr>spStore := st, spOpen := False\<rparr>)))
      | CaseFlows \<Rightarrow>
          (case spFlowsCh s of
             evt # rest \<Rightarrow> Some (s\<lparr>spFlowsCh := rest, spOut := spOut s @ event_out evt\<rparr>)
           | [] \<Rightarrow> if spFlowsClosed s then Some (s\<lparr>spOpen := False\<rparr>) else None)
      | CaseErr \<Rightarrow>
          (if spErrNil s then None
           else
             (case spErrCh s of
                err # rest \<Rightarrow> Some (s\<lparr>spErrCh := rest, spOut := spOut s @ [ErrorEvent err], spOpen := False\<rparr>)
              | [] \<Rightarrow> if spErrClosed s then Some (s\<lparr>spErrNil := True\<rparr>) else None)))"

text \<open>
  A step of the whole: the goroutine moves; the handler writes the preamble; the handler takes a
  ready case; the loop of \<open>Stream\<close> ends because the client is gone; the context of the request is
  cancelled; another request changes the session store.
\<close>

inductive stream_step ::
  "(pb_flow \<Rightarrow> Flow) \<Rightarrow> (refresher_id \<Rightarrow> Refresh) \<Rightarrow> RequestAuth option \<Rightarrow> stream \<Rightarrow> stream \<Rightarrow> bool"
  for convert refresh ra where
  step_producer: "producer_step convert start r cancel s = Some s' \<Longrightarrow> stream_step convert refresh ra s s'"
| step_preamble: "spOpen s \<Longrightarrow> \<not> spPreamble s \<Longrightarrow> stream_step convert refresh ra s (writePreamble ok s)"
| step_select: "spOpen s \<Longrightarrow> spPreamble s \<Longrightarrow> stream_select refresh ra sc s = Some s' \<Longrightarrow> stream_step convert refresh ra s s'"
| step_gone: "spOpen s \<Longrightarrow> stream_step convert refresh ra s (s\<lparr>spOpen := False\<rparr>)"
| step_cancel: "stream_step convert refresh ra s (s\<lparr>spCtxDone := True\<rparr>)"
| step_store: "stream_step convert refresh ra s (s\<lparr>spStore := st\<rparr>)"

inductive streaming ::
  "(pb_flow \<Rightarrow> Flow) \<Rightarrow> (refresher_id \<Rightarrow> Refresh) \<Rightarrow> RequestAuth option \<Rightarrow> stream \<Rightarrow> bool"
  for convert refresh ra where
  streaming_init: "streaming convert refresh ra (new_stream st)"
| streaming_step: "streaming convert refresh ra s \<Longrightarrow> stream_step convert refresh ra s s' \<Longrightarrow> streaming convert refresh ra s'"

text \<open>\<open>StreamFlows\<close>: a bad filter is a 400 with a JSON object (\<open>marshal\<close>), otherwise the headers are set and the stream starts.\<close>

definition StreamFlows ::
  "((string \<times> string) list \<Rightarrow> string) \<Rightarrow> (string \<Rightarrow> string) \<Rightarrow> Request \<Rightarrow> store \<Rightarrow> Response \<Rightarrow> Response \<times> (GetFlowsRequest \<times> stream) option" where
  "StreamFlows marshal quote c st w =
     (case parseFlowStreamFilter quote c of
        Inl err \<Rightarrow> (JSON StatusBadRequest (BodyBytes (marshal [(''error'', err)])) w, None)
      | Inr f \<Rightarrow>
          (Header ''X-Accel-Buffering'' ''no''
             (Header ''Connection'' ''keep-alive''
               (Header ''Cache-Control'' ''no-cache''
                 (Header ''Content-Type'' ''text/event-stream'' w))),
           Some (filterToGetFlowsRequest f, new_stream st)))"

end
