(* ===== verification/Flow_Properties.thy ===== *)
theory Flow_Properties
  imports Flow_Stream Store_Properties "HOL-Library.Sublist"
begin

text \<open>
  Properties of the flow stream: what is written is what was received, in order and without
  repetition, whatever the interleaving of the goroutine, the handler and other requests; a
  stream ends with its session; what an upstream error may cost; and the filters.
\<close>

section \<open>What the client is sent\<close>

text \<open>The events a sequence of responses gives rise to, and the count remembered after it.\<close>

definition live_event :: "FlowStreamEvent \<Rightarrow> bool" where
  "live_event evt \<longleftrightarrow> evDroppedCount evt > 0 \<or> length (evFlows evt) > 0"

fun events_of :: "(pb_flow \<Rightarrow> Flow) \<Rightarrow> 64 word \<Rightarrow> GetFlowsResponse list \<Rightarrow> FlowStreamEvent list" where
  "events_of convert l [] = []"
| "events_of convert l (r # rs) =
     (case response_event convert l r of
        (l', evt) \<Rightarrow> (if live_event evt then [evt] else []) @ events_of convert l' rs)"

definition last_dropped :: "64 word \<Rightarrow> GetFlowsResponse list \<Rightarrow> 64 word" where
  "last_dropped l rs = foldl (\<lambda>l r. max l (grDroppedCount r)) l rs"

lemma response_event_eq:
  "response_event convert l r =
     (max l (grDroppedCount r),
      \<lparr>evFlows = map convert (grFlows r), evDroppedCount = if l < grDroppedCount r then grDroppedCount r else 0\<rparr>)"
  by (auto simp: response_event_def max_def Let_def dest: less_imp_le)

lemma events_of_snoc:
  "events_of convert l (rs @ [r]) =
     events_of convert l rs @ (let evt = snd (response_event convert (last_dropped l rs) r) in if live_event evt then [evt] else [])"
proof (induction rs arbitrary: l)
  case Nil
  show ?case by (simp add: last_dropped_def response_event_eq)
next
  case (Cons a rs)
  then show ?case by (simp add: last_dropped_def response_event_eq)
qed

text \<open>The flows, dropped counts and errors among what was written.\<close>

definition flows_of :: "sse list \<Rightarrow> Flow list" where
  "flows_of out = concat (map (\<lambda>e. case e of FlowEvent fs \<Rightarrow> fs | _ \<Rightarrow> []) out)"

definition dropped_of :: "sse list \<Rightarrow> 64 word list" where
  "dropped_of out = concat (map (\<lambda>e. case e of DroppedEvent n \<Rightarrow> [n] | _ \<Rightarrow> []) out)"

definition errors_of :: "sse list \<Rightarrow> string list" where
  "errors_of out = concat (map (\<lambda>e. case e of ErrorEvent m \<Rightarrow> [m] | _ \<Rightarrow> []) out)"

definition payload :: "sse list \<Rightarrow> sse list" where
  "payload out = filter (\<lambda>e. case e of FlowEvent fs \<Rightarrow> True | DroppedEvent n \<Rightarrow> True | _ \<Rightarrow> False) out"

lemma out_append [simp]:
  "flows_of (a @ b) = flows_of a @ flows_of b" "dropped_of (a @ b) = dropped_of a @ dropped_of b"
  "errors_of (a @ b) = errors_of a @ errors_of b" "payload (a @ b) = payload a @ payload b"
  by (simp_all add: flows_of_def dropped_of_def errors_of_def payload_def)

lemma out_Nil [simp]: "flows_of [] = []" "dropped_of [] = []" "errors_of [] = []" "payload [] = []"
  by (simp_all add: flows_of_def dropped_of_def errors_of_def payload_def)

lemma out_single [simp]:
  "flows_of [Comment c] = []" "dropped_of [Comment c] = []" "errors_of [Comment c] = []" "payload [Comment c] = []"
  "flows_of [ErrorEvent m] = []" "dropped_of [ErrorEvent m] = []" "errors_of [ErrorEvent m] = [m]" "payload [ErrorEvent m] = []"
  by (simp_all add: flows_of_def dropped_of_def errors_of_def payload_def)

lemma event_out_parts [simp]:
  "flows_of (event_out evt) = evFlows evt"
  "dropped_of (event_out evt) = (if evDroppedCount evt > 0 then [evDroppedCount evt] else [])"
  "errors_of (event_out evt) = []" "payload (event_out evt) = event_out evt"
  by (simp_all add: flows_of_def dropped_of_def errors_of_def payload_def event_out_def)

lemma payload_parts: "flows_of (payload out) = flows_of out" "dropped_of (payload out) = dropped_of out"
  by (induction out) (auto simp: flows_of_def dropped_of_def payload_def split: sse.splits)

lemma events_out_parts:
  "flows_of (concat (map event_out evts)) = concat (map evFlows evts)"
  "dropped_of (concat (map event_out evts)) = filter (\<lambda>n. n > 0) (map evDroppedCount evts)"
  by (induction evts) auto

text \<open>The flows received, and the counts that exceed every earlier one.\<close>

definition received_flows :: "(pb_flow \<Rightarrow> Flow) \<Rightarrow> GetFlowsResponse list \<Rightarrow> Flow list" where
  "received_flows convert rs = concat (map (\<lambda>r. map convert (grFlows r)) rs)"

fun new_maxima :: "64 word \<Rightarrow> 64 word list \<Rightarrow> 64 word list" where
  "new_maxima l [] = []"
| "new_maxima l (n # ns) = (if n > l then n # new_maxima n ns else new_maxima l ns)"

lemma new_maxima_gt: "n \<in> set (new_maxima l ns) \<Longrightarrow> l < n"
  by (induction ns arbitrary: l) (auto split: if_splits dest: less_trans)

lemma new_maxima_sorted: "sorted_wrt (<) (new_maxima l ns)"
  by (induction ns arbitrary: l) (auto dest: new_maxima_gt)

lemma events_of_flows: "concat (map evFlows (events_of convert l rs)) = received_flows convert rs"
  by (induction rs arbitrary: l) (auto simp: received_flows_def response_event_eq live_event_def)

lemma events_of_dropped:
  "filter (\<lambda>n. n > 0) (map evDroppedCount (events_of convert l rs)) = new_maxima l (map grDroppedCount rs)"
proof (induction rs arbitrary: l)
  case Nil
  show ?case by simp
next
  case (Cons r rs)
  have "0 < grDroppedCount r" if "l < grDroppedCount r" using that word_coorder.not_eq_extremum by fastforce
  then show ?case using Cons by (auto simp: response_event_eq live_event_def max_def not_less)
qed

section \<open>The invariant of a stream\<close>

definition in_flight :: "stream \<Rightarrow> FlowStreamEvent list" where
  "in_flight s = spFlowsCh s @ (case spPc s of PSend evt \<Rightarrow> [evt] | _ \<Rightarrow> [])"

text \<open>The goroutine has stopped sending: its deferred calls are running or done.\<close>

definition stopped :: "stream \<Rightarrow> bool" where
  "stopped s \<longleftrightarrow> spPc s \<in> {PCloseFlows, PCloseErr, PFinished}"

definition delivery :: "(pb_flow \<Rightarrow> Flow) \<Rightarrow> stream \<Rightarrow> bool" where
  "delivery convert s \<longleftrightarrow>
     (\<exists>consumed lost.
        payload (spOut s) = concat (map event_out consumed) \<and>
        consumed @ in_flight s @ lost = events_of convert 0 (spReceived s) \<and>
        (lost \<noteq> [] \<longrightarrow> spCtxDone s \<and> stopped s))"

definition channels :: "stream \<Rightarrow> bool" where
  "channels s \<longleftrightarrow>
     length (spFlowsCh s) \<le> flows_capacity \<and>
     spFlowsClosed s = (spPc s \<in> {PCloseErr, PFinished}) \<and> spErrClosed s = (spPc s = PFinished) \<and>
     length (spErrCh s) + length (errors_of (spOut s)) \<le> (if stopped s then 1 else 0) \<and>
     (errors_of (spOut s) \<noteq> [] \<longrightarrow> \<not> spOpen s) \<and>
     spLastDropped s = last_dropped 0 (spReceived s)"

lemma producer_frame:
  assumes "producer_step convert start r cancel s = Some s'"
  shows "spOut s' = spOut s" "spOpen s' = spOpen s" "spCtxDone s' = spCtxDone s" "spStore s' = spStore s"
    "spPreamble s' = spPreamble s" "spErrNil s' = spErrNil s"
  using assms
  by (auto simp: producer_step_def split: producer.splits option.splits recv.splits prod.splits if_splits)

lemma channels_producer:
  assumes "producer_step convert start r cancel s = Some s'" and "channels s"
  shows "channels s'"
proof (cases "spPc s")
  case PReceive
  have *: "last_dropped 0 (rs @ [resp]) = max (last_dropped 0 rs) (grDroppedCount resp)" for rs resp
    by (simp add: last_dropped_def)
  show ?thesis
    using assms PReceive
    by (auto simp: producer_step_def channels_def stopped_def response_event_eq * split: recv.splits if_splits)
qed (use assms in \<open>auto simp: producer_step_def channels_def stopped_def err_capacity_def split: option.splits if_splits\<close>)

lemma delivery_unchanged:
  assumes "delivery convert s" and "payload (spOut s') = payload (spOut s)" "in_flight s' = in_flight s" "spReceived s' = spReceived s"
    and "spCtxDone s \<Longrightarrow> spCtxDone s'" "stopped s \<Longrightarrow> stopped s'"
  shows "delivery convert s'"
  using assms unfolding delivery_def by metis

lemma delivery_received:
  assumes "delivery convert s" "spPc s = PReceive" "spLastDropped s = last_dropped 0 (spReceived s)"
    and "response_event convert (spLastDropped s) resp = (l, evt)"
  shows "delivery convert (s\<lparr>spLastDropped := l, spReceived := spReceived s @ [resp],
    spPc := if evDroppedCount evt > 0 \<or> length (evFlows evt) > 0 then PSend evt else PReceive\<rparr>)"
  using assms by (auto simp: delivery_def in_flight_def stopped_def events_of_snoc live_event_def Let_def)

lemma delivery_cancelled:
  assumes "delivery convert s" "spPc s = PSend evt" "spCtxDone s"
  shows "delivery convert (s\<lparr>spPc := PCloseFlows\<rparr>)"
  using assms by (auto simp: delivery_def in_flight_def stopped_def)

lemma delivery_producer:
  assumes "producer_step convert start r cancel s = Some s'" and "delivery convert s" "channels s"
  shows "delivery convert s'"
proof (cases "spPc s")
  case PReceive
  show ?thesis
  proof (cases r)
    case (RecvResponse resp)
    then show ?thesis
      using assms PReceive
      by (auto simp: producer_step_def channels_def simp del: length_greater_0_conv split: prod.splits intro!: delivery_received)
  qed (use assms PReceive in \<open>auto simp: producer_step_def in_flight_def stopped_def intro!: delivery_unchanged [OF assms(2)]\<close>)
next
  case (PSend evt)
  show ?thesis
  proof (cases cancel)
    case True
    then show ?thesis using assms PSend delivery_cancelled [OF assms(2) PSend]
      by (auto simp: producer_step_def split: if_splits)
  next
    case False
    then show ?thesis using assms PSend
      by (auto simp: producer_step_def in_flight_def stopped_def split: if_splits intro!: delivery_unchanged [OF assms(2)])
  qed
qed (use assms in \<open>auto simp: producer_step_def in_flight_def stopped_def split: option.splits if_splits
  intro!: delivery_unchanged [OF assms(2)]\<close>)

lemma inv_unchanged:
  assumes "delivery convert s" "channels s" and "payload (spOut s') = payload (spOut s)" "errors_of (spOut s') = errors_of (spOut s)"
    and "spPc s' = spPc s" "spFlowsCh s' = spFlowsCh s" "spErrCh s' = spErrCh s" "spReceived s' = spReceived s"
    "spLastDropped s' = spLastDropped s" "spFlowsClosed s' = spFlowsClosed s" "spErrClosed s' = spErrClosed s"
    and "spCtxDone s \<longrightarrow> spCtxDone s'" "spOpen s' \<longrightarrow> spOpen s"
  shows "delivery convert s' \<and> channels s'"
proof
  show "delivery convert s'"
    by (rule delivery_unchanged [OF assms(1)]) (use assms in \<open>simp_all add: in_flight_def stopped_def\<close>)
  show "channels s'" using assms unfolding channels_def stopped_def by (simp, blast)
qed

lemma select_inv:
  assumes "stream_select refresh ra sc s = Some s'" and "delivery convert s" "channels s" "spOpen s"
  shows "delivery convert s' \<and> channels s'"
proof (cases sc)
  case CaseFlows
  show ?thesis
  proof (cases "spFlowsCh s")
    case Nil
    then show ?thesis using assms CaseFlows
      by (auto simp: stream_select_def channels_def in_flight_def stopped_def split: if_splits intro!: delivery_unchanged [OF assms(2)])
  next
    case (Cons evt rest)
    then have s': "s' = s\<lparr>spFlowsCh := rest, spOut := spOut s @ event_out evt\<rparr>"
      using assms CaseFlows by (simp add: stream_select_def)
    obtain consumed lost where "payload (spOut s) = concat (map event_out consumed)"
      "consumed @ in_flight s @ lost = events_of convert 0 (spReceived s)" "lost \<noteq> [] \<longrightarrow> spCtxDone s \<and> stopped s"
      using assms(2) unfolding delivery_def by blast
    then have "delivery convert s'" unfolding delivery_def
      by (intro exI [of _ "consumed @ [evt]"] exI [of _ lost]) (simp add: s' Cons in_flight_def stopped_def)
    then show ?thesis using assms Cons by (auto simp: s' channels_def stopped_def)
  qed
next
  case CaseErr
  then show ?thesis using assms
    by (auto simp: stream_select_def channels_def in_flight_def stopped_def split: if_splits list.splits intro!: delivery_unchanged [OF assms(2)])
next
  case (CaseKeepAlive now clock written)
  obtain b st where b: "sessionAlive refresh ra now clock (spStore s) = (b, st)" by fastforce
  have "s' = s\<lparr>spStore := st, spOut := spOut s @ [Comment '': keepalive'']\<rparr> \<or> s' = s\<lparr>spStore := st, spOpen := False\<rparr>"
    using assms(1) CaseKeepAlive b by (cases b; cases written) (simp_all add: stream_select_def)
  then show ?thesis by (rule disjE) (rule inv_unchanged [OF assms(2,3)]; simp)+
next
  case CaseDone
  then have "s' = s\<lparr>spOpen := False\<rparr>" using assms(1) by (simp add: stream_select_def split: if_splits)
  then show ?thesis by (intro inv_unchanged [OF assms(2,3)]) simp_all
qed

lemma stream_step_inv:
  assumes "stream_step convert refresh ra s s'" and "delivery convert s" "channels s"
  shows "delivery convert s' \<and> channels s'"
  using assms(1)
proof cases
  case (step_producer start r cancel)
  then show ?thesis using assms delivery_producer channels_producer by blast
next
  case (step_select sc)
  then show ?thesis using assms select_inv by blast
qed (rule inv_unchanged [OF assms(2,3)]; simp add: writePreamble_def)+

lemma streaming_inv: "streaming convert refresh ra s \<Longrightarrow> delivery convert s \<and> channels s"
proof (induction rule: streaming.induct)
  case (streaming_init st)
  show ?case by (simp add: delivery_def channels_def new_stream_def in_flight_def stopped_def last_dropped_def)
next
  case (streaming_step s s')
  then show ?case by (blast dest: stream_step_inv)
qed


section \<open>Runs\<close>

text \<open>A run as a list of moves, to build states of the step relation by evaluation.\<close>

datatype move = Producer "string option" recv bool | Preamble bool | Select select_case

fun do_move :: "(pb_flow \<Rightarrow> Flow) \<Rightarrow> (refresher_id \<Rightarrow> Refresh) \<Rightarrow> RequestAuth option \<Rightarrow> move \<Rightarrow> stream \<Rightarrow> stream option" where
  "do_move convert refresh ra (Producer start r cancel) s = producer_step convert start r cancel s"
| "do_move convert refresh ra (Preamble ok) s = (if spOpen s \<and> \<not> spPreamble s then Some (writePreamble ok s) else None)"
| "do_move convert refresh ra (Select sc) s = (if spOpen s \<and> spPreamble s then stream_select refresh ra sc s else None)"

fun do_moves :: "(pb_flow \<Rightarrow> Flow) \<Rightarrow> (refresher_id \<Rightarrow> Refresh) \<Rightarrow> RequestAuth option \<Rightarrow> move list \<Rightarrow> stream \<Rightarrow> stream option" where
  "do_moves convert refresh ra [] s = Some s"
| "do_moves convert refresh ra (m # ms) s =
     (case do_move convert refresh ra m s of None \<Rightarrow> None | Some s' \<Rightarrow> do_moves convert refresh ra ms s')"

lemma do_move_step: "do_move convert refresh ra m s = Some s' \<Longrightarrow> stream_step convert refresh ra s s'"
  by (cases m) (auto split: if_splits intro: stream_step.intros)

lemma do_moves_streaming:
  "do_moves convert refresh ra ms s = Some s' \<Longrightarrow> streaming convert refresh ra s \<Longrightarrow> streaming convert refresh ra s'"
proof (induction ms arbitrary: s)
  case (Cons m ms)
  then show ?case by (auto split: option.splits dest: do_move_step streaming_step)
qed simp

definition ex_response :: "pb_flow list \<Rightarrow> 64 word \<Rightarrow> GetFlowsResponse" where
  "ex_response fs n = \<lparr>grFlows = fs, grDroppedCount = n\<rparr>"

text \<open>One response with a flow and a dropped count, then what ends the upstream.\<close>

definition ex_upstream :: "pb_flow \<Rightarrow> recv \<Rightarrow> move list" where
  "ex_upstream pb r =
     [Preamble True, Producer None RecvEOF False, Producer None (RecvResponse (ex_response [pb] 3)) False,
      Producer None RecvEOF False, Producer None r False]"

definition ex_pb :: pb_flow where
  "ex_pb = \<lparr>pbId = ''f'', pbStartTs = None, pbEndTs = None, pbEndReason = 1, pbIp = None, pbTransport = None, pbK8S = None,
     pbStats = None, pbReverseStats = None, pbAggregation = None\<rparr>"

definition ex_convert :: "pb_flow \<Rightarrow> Flow" where "ex_convert = protoFlowToAPI (\<lambda>t. []) (\<lambda>b. b)"

lemmas stream_eval = ex_upstream_def ex_response_def new_stream_def writePreamble_def producer_step_def response_event_def
  flows_capacity_def err_capacity_def stream_select_def event_out_def flows_of_def dropped_of_def errors_of_def


section \<open>The end of a stream\<close>

lemma closed_step:
  assumes "stream_step convert refresh ra s s'" and "\<not> spOpen s"
  shows "\<not> spOpen s' \<and> spOut s' = spOut s"
  using assms by cases (auto dest: producer_frame)

lemma closed_forever:
  "(stream_step convert refresh ra)\<^sup>*\<^sup>* s s' \<Longrightarrow> \<not> spOpen s \<Longrightarrow> \<not> spOpen s' \<and> spOut s' = spOut s"
  by (induction rule: rtranclp_induct) (auto dest: closed_step)

lemma tick_ended:
  assumes "raSession ra = Some r" and "sid = sId (sess (spStore s) r)"
    and "\<And>q. lookup (spStore s) sid = Some q \<Longrightarrow> \<not> alive (spStore s) (sess (spStore s) q) t0"
    and "stream_select refresh (Some ra) (CaseKeepAlive now (t0, t1, t2, t3) written) s = Some s'"
  shows "\<not> spOpen s' \<and> spOut s' = spOut s"
  using assms
  by (cases "lookup (spStore s) sid") (auto simp: stream_select_def sessionAlive_def KeepAlive_def Get_def)


definition ex_stream :: stream where "ex_stream = (new_stream (Delete ''b'' ex_store))\<lparr>spPreamble := True\<rparr>"


text \<open>
  what an upstream error may cost. The goroutine closes the channel of flows before the channel
  of errors so that the handler can write all buffered flows before the error ends the stream.
  The error itself is buffered before both, and the handler's \<open>select\<close> takes any ready case: there
  is a run in which the error is written and ends the stream while a received flow is still
  buffered and never written, and a run in which the closed channel ends the stream and the error
  is never written.
\<close>

lemma upstream_error_race:
  "(\<exists>s. streaming convert refresh ra s \<and> \<not> spOpen s \<and> \<not> spCtxDone s \<and>
      received_flows convert (spReceived s) = [convert pb] \<and> flows_of (spOut s) = [] \<and>
      errors_of (spOut s) = [''flow stream error: '' @ err]) \<and>
   (\<exists>s. streaming convert refresh ra s \<and> \<not> spOpen s \<and> \<not> spCtxDone s \<and>
      spErrCh s = [''flow stream error: '' @ err] \<and> errors_of (spOut s) = [])"
proof -
  let ?up = "ex_upstream pb (RecvError err) @ [Producer None RecvEOF False]"
  obtain s where s: "do_moves convert refresh ra (?up @ [Select CaseErr]) (new_stream ex_store) = Some s"
    and P: "\<not> spOpen s \<and> \<not> spCtxDone s \<and> spReceived s = [ex_response [pb] 3] \<and> flows_of (spOut s) = [] \<and>
      errors_of (spOut s) = [''flow stream error: '' @ err]"
    by (simp add: stream_eval)
  obtain s2 where
    s2: "do_moves convert refresh ra (?up @ [Producer None RecvEOF False, Select CaseFlows, Select CaseFlows]) (new_stream ex_store) = Some s2"
    and P2: "\<not> spOpen s2 \<and> \<not> spCtxDone s2 \<and> spErrCh s2 = [''flow stream error: '' @ err] \<and> errors_of (spOut s2) = []"
    by (simp add: stream_eval)
  have "received_flows convert (spReceived s) = [convert pb]" using P by (simp add: received_flows_def ex_response_def)
  then show ?thesis
    using do_moves_streaming [OF s streaming_init] do_moves_streaming [OF s2 streaming_init] P P2 by blast
qed

section \<open>Filters\<close>

lemma splitTrimmed_Join:
  assumes "\<forall>x\<in>set xs. CHR '','' \<notin> set x \<and> TrimSpace x = x \<and> x \<noteq> []"
  shows "splitTrimmed (Join xs '','') = xs"
proof (cases xs)
  case (Cons y ys)
  then have "Split (Join xs '','') (CHR '','') = xs" using assms by (intro Split_Join) auto
  then show ?thesis using assms by (simp add: splitTrimmed_def map_idI)
qed (simp add: splitTrimmed_def)

lemma Join_Nil_iff: "\<forall>x\<in>set xs. x \<noteq> [] \<Longrightarrow> Join xs sep = [] \<longleftrightarrow> xs = []"
  by (induction xs sep rule: Join.induct) auto

definition flow_type_name :: "int \<Rightarrow> string" where
  "flow_type_name t =
     (if t = FlowTypeIntraNode then ''intra-node'' else if t = FlowTypeInterNode then ''inter-node''
      else if t = FlowTypeToExternal then ''to-external'' else ''from-external'')"

definition direction_name :: "int \<Rightarrow> string" where
  "direction_name d = (if d = FlowFilterDirectionFrom then ''from'' else if d = FlowFilterDirectionTo then ''to'' else [])"

definition filter_query :: "FlowStreamFilter \<Rightarrow> (string \<times> string) list" where
  "filter_query f =
     [(''namespaces'', Join (ffNamespaces f) '',''), (''pods'', Join (ffPodNames f) '',''),
      (''services'', Join (ffServiceNames f) '',''), (''podLabelSelector'', ffPodLabelSelector f),
      (''flowTypes'', Join (map flow_type_name (ffFlowTypes f)) '',''), (''ips'', Join (ffIPs f) '',''),
      (''direction'', direction_name (ffDirection f))]"

definition plain_items :: "string list \<Rightarrow> bool" where
  "plain_items xs \<longleftrightarrow> (\<forall>x\<in>set xs. CHR '','' \<notin> set x \<and> TrimSpace x = x \<and> x \<noteq> [])"

definition valid_filter :: "FlowStreamFilter \<Rightarrow> bool" where
  "valid_filter f \<longleftrightarrow>
     plain_items (ffNamespaces f) \<and> plain_items (ffPodNames f) \<and> plain_items (ffServiceNames f) \<and> plain_items (ffIPs f) \<and>
     set (ffFlowTypes f) \<subseteq> {FlowTypeIntraNode, FlowTypeInterNode, FlowTypeToExternal, FlowTypeFromExternal} \<and>
     ffDirection f \<in> {FlowFilterDirectionBoth, FlowFilterDirectionFrom, FlowFilterDirectionTo}"

lemmas flow_type_defs = FlowTypeIntraNode_def FlowTypeInterNode_def FlowTypeToExternal_def FlowTypeFromExternal_def
lemmas direction_defs = FlowFilterDirectionBoth_def FlowFilterDirectionFrom_def FlowFilterDirectionTo_def

lemma items_parsed:
  assumes "plain_items xs"
  shows "(if Join xs '','' \<noteq> [] then splitTrimmed (Join xs '','') else []) = xs"
  using assms splitTrimmed_Join [of xs] Join_Nil_iff [of xs "'',''"] by (auto simp: plain_items_def)

lemma flow_type_name_props:
  assumes "t \<in> {FlowTypeIntraNode, FlowTypeInterNode, FlowTypeToExternal, FlowTypeFromExternal}"
  shows "flowTypeByName (ToLower (flow_type_name t)) = Some t" "plain_items [flow_type_name t]"
proof -
  show "flowTypeByName (ToLower (flow_type_name t)) = Some t"
    using assms by (auto simp: flow_type_name_def flowTypeByName_def flow_type_defs ascii_lower_def)
  show "plain_items [flow_type_name t]"
    using assms by (auto simp: plain_items_def flow_type_name_def flow_type_defs) code_simp+
qed

lemma flow_type_names:
  "set ts \<subseteq> {FlowTypeIntraNode, FlowTypeInterNode, FlowTypeToExternal, FlowTypeFromExternal} \<Longrightarrow> plain_items (map flow_type_name ts)"
proof (induction ts)
  case (Cons t ts)
  then show ?case using flow_type_name_props(2) [of t] by (simp add: plain_items_def)
qed (simp add: plain_items_def)

lemma parseFlowTypes_names:
  "set ts \<subseteq> {FlowTypeIntraNode, FlowTypeInterNode, FlowTypeToExternal, FlowTypeFromExternal} \<Longrightarrow>
     parseFlowTypes quote (map flow_type_name ts) acc = Inr (acc @ ts)"
  by (induction ts arbitrary: acc) (auto simp: parseFlowType_def flow_type_name_props(1))

lemma parseFlowTypes_error:
  "isl (parseFlowTypes quote ps acc) \<longleftrightarrow> (\<exists>p\<in>set ps. flowTypeByName (ToLower p) = None)"
  by (induction ps arbitrary: acc) (auto simp: parseFlowType_def split: option.splits)

definition query_items :: "string \<Rightarrow> string list" where
  "query_items s = (if s \<noteq> [] then splitTrimmed s else [])"

lemma parse_filter_eq:
  "parseFlowStreamFilter quote c =
     map_sum id (\<lambda>fts. \<lparr>ffNamespaces = query_items (Query c ''namespaces''), ffPodNames = query_items (Query c ''pods''),
         ffPodLabelSelector = Query c ''podLabelSelector'', ffServiceNames = query_items (Query c ''services''),
         ffFlowTypes = fts, ffIPs = query_items (Query c ''ips''),
         ffDirection = (if Query c ''direction'' \<noteq> [] then parseDirection (Query c ''direction'') else 0)\<rparr>)
       (parseFlowTypes quote (query_items (Query c ''flowTypes'')) [])"
proof -
  have "(if ft \<noteq> [] then parseFlowTypes quote (splitTrimmed ft) [] else Inr []) = parseFlowTypes quote (query_items ft) []" for ft
    by (simp add: query_items_def)
  then show ?thesis
    unfolding parseFlowStreamFilter_def Let_def zeroFilter_def
    by (cases "parseFlowTypes quote (query_items (Query c ''flowTypes'')) []";
        cases "Query c ''namespaces'' = []"; cases "Query c ''pods'' = []"; cases "Query c ''services'' = []";
        cases "Query c ''podLabelSelector'' = []"; cases "Query c ''ips'' = []"; cases "Query c ''direction'' = []")
      (simp_all add: query_items_def)
qed

lemma direction_parsed:
  assumes "d \<in> {FlowFilterDirectionBoth, FlowFilterDirectionFrom, FlowFilterDirectionTo}"
  shows "(if direction_name d \<noteq> [] then parseDirection (direction_name d) else 0) = d"
  using assms by (auto simp: direction_name_def parseDirection_def direction_defs ascii_lower_def)

text \<open>
  Filters. A filter written as a query is parsed back to itself and reaches the Flow Aggregator
  unchanged in a request that follows the stream. A request is refused, with a 400 and no stream,
  exactly if some flow type in it is not one of the four names, in any case.
\<close>

lemma filter_roundtrip:
  assumes "valid_filter f" and "reqQuery c = filter_query f"
  shows "parseFlowStreamFilter quote c = Inr f \<and>
    snd (StreamFlows marshal quote c st w) =
      Some (\<lparr>gfFilters = [\<lparr>pfNamespaces = ffNamespaces f, pfPodNames = ffPodNames f, pfPodLabelSelector = ffPodLabelSelector f,
        pfServiceNames = ffServiceNames f, pfFlowTypes = ffFlowTypes f, pfIps = ffIPs f, pfDirection = ffDirection f\<rparr>],
        gfFollow = True\<rparr>, new_stream st) \<and>
    (snd (StreamFlows marshal quote d st w) = None \<longleftrightarrow>
      (\<exists>p\<in>set (query_items (Query d ''flowTypes'')). flowTypeByName (ToLower p) = None)) \<and>
    (snd (StreamFlows marshal quote d st w) = None \<longrightarrow> respStatus (fst (StreamFlows marshal quote d st w)) = 400)"
proof -
  have names: "plain_items (map flow_type_name (ffFlowTypes f))"
    using assms(1) unfolding valid_filter_def by (intro flow_type_names) blast
  have items: "query_items (Join xs '','') = xs" if "plain_items xs" for xs
    using items_parsed [OF that] by (simp add: query_items_def)
  have Q: "Query c ''namespaces'' = Join (ffNamespaces f) '',''" "Query c ''pods'' = Join (ffPodNames f) '',''"
    "Query c ''services'' = Join (ffServiceNames f) '',''" "Query c ''podLabelSelector'' = ffPodLabelSelector f"
    "Query c ''flowTypes'' = Join (map flow_type_name (ffFlowTypes f)) '',''" "Query c ''ips'' = Join (ffIPs f) '',''"
    "Query c ''direction'' = direction_name (ffDirection f)"
    using assms(2) by (simp_all add: Query_def filter_query_def)
  have parse: "parseFlowStreamFilter quote c = Inr f"
    using assms(1) items names parseFlowTypes_names [of "ffFlowTypes f" quote "[]"] direction_parsed [of "ffDirection f"]
    unfolding parse_filter_eq Q valid_filter_def by simp
  have "filterDirectionToProto (ffDirection f) = ffDirection f"
    using assms(1) by (auto simp: valid_filter_def filterDirectionToProto_def direction_defs)
  then have req: "snd (StreamFlows marshal quote c st w) = Some (filterToGetFlowsRequest f, new_stream st)"
    by (simp add: StreamFlows_def parse)
  have bad: "snd (StreamFlows marshal quote d st w) = None \<longleftrightarrow> isl (parseFlowTypes quote (query_items (Query d ''flowTypes'')) [])"
    and "isl (parseFlowTypes quote (query_items (Query d ''flowTypes'')) []) \<longrightarrow> respStatus (fst (StreamFlows marshal quote d st w)) = 400"
    by (cases "parseFlowTypes quote (query_items (Query d ''flowTypes'')) []"; simp add: StreamFlows_def parse_filter_eq JSON_def)+
  then show ?thesis
    using parse req \<open>filterDirectionToProto (ffDirection f) = ffDirection f\<close>
    by (simp add: filterToGetFlowsRequest_def parseFlowTypes_error)
qed

definition ex_filter :: FlowStreamFilter where
  "ex_filter = zeroFilter\<lparr>ffNamespaces := [''a'', ''b''], ffFlowTypes := [1], ffDirection := 2\<rparr>"

definition ex_filter_request :: Request where
  "ex_filter_request = \<lparr>reqMethod = ''GET'', reqPath = ''/api/v1/flows/stream'', reqQuery = filter_query ex_filter, reqHost = [],
     reqRemoteAddr = [], reqHeader = [], reqCookies = [], reqBody = []\<rparr>"

lemma filter_roundtrip_example: "parseFlowStreamFilter (\<lambda>s. s) ex_filter_request = Inr ex_filter"
proof -
  have "valid_filter ex_filter"
    by (simp add: valid_filter_def ex_filter_def zeroFilter_def plain_items_def flow_type_defs direction_defs) code_simp
  then show ?thesis using filter_roundtrip [of ex_filter ex_filter_request] by (simp add: ex_filter_request_def)
qed

end
