(* ===== verification/Traceflow.thy ===== *)
theory Traceflow
  imports Api_Server Rate_Limit
begin

text \<open>
  Traceflow requests: \<open>pkg/handlers/traceflow/handler.go\<close>, which keeps Traceflow objects in
  Kubernetes and deletes old ones, and \<open>pkg/server/api/traceflow.go\<close>, its endpoints. The dynamic
  client of client-go is a parameter: the operations of \<open>dyn\<close> on the state \<open>'k\<close> of the cluster, for
  the transport the client sends through. Objects are untyped JSON, as in the code.
\<close>

section \<open>Objects\<close>

datatype json = JNull | JBool bool | JNumber int | JString string | JArray "json list" | JObject "(string \<times> json) list"

text \<open>\<open>unstructured.NestedFieldNoCopy\<close>: a missing or null parent is not found, any other parent that is not
  an object is an error.\<close>

fun nested_field :: "json \<Rightarrow> string list \<Rightarrow> string + json option" where
  "nested_field j [] = Inr (Some j)"
| "nested_field JNull (f # fs) = Inr None"
| "nested_field (JObject kvs) (f # fs) = (case map_of kvs f of None \<Rightarrow> Inr None | Some j \<Rightarrow> nested_field j fs)"
| "nested_field _ (f # fs) = Inl (f @ '' accessor error: not a map'')"

definition NestedString :: "json \<Rightarrow> string list \<Rightarrow> string + string option" where
  "NestedString j fs =
     (case nested_field j fs of
        Inl err \<Rightarrow> Inl err
      | Inr None \<Rightarrow> Inr None
      | Inr (Some (JString s)) \<Rightarrow> Inr (Some s)
      | Inr (Some _) \<Rightarrow> Inl (Join fs ''.'' @ '' accessor error: not a string''))"

definition GetName :: "json \<Rightarrow> string" where
  "GetName j = (case NestedString j [''metadata'', ''name''] of Inr (Some s) \<Rightarrow> s | _ \<Rightarrow> [])"

text \<open>Indexing a decoded object: the value of a key, or nil.\<close>

definition json_get :: "(string \<times> json) list \<Rightarrow> string \<Rightarrow> json" where
  "json_get kvs k = (case map_of kvs k of None \<Rightarrow> JNull | Some j \<Rightarrow> j)"

section \<open>The requests handler\<close>

definition traceflowExpiryTimeout :: Duration where "traceflowExpiryTimeout = 60 * minute"
definition traceflowGroup :: string where "traceflowGroup = ''crd.antrea.io''"
definition traceflowVersion :: string where "traceflowVersion = ''v1beta1''"
definition traceflowLabels :: "(string \<times> string) list" where "traceflowLabels = [(''ui.antrea.io'', [])]"

record 'k dyn =
  dynGet :: "string \<Rightarrow> 'k \<Rightarrow> api_status + json"
  dynCreate :: "json \<Rightarrow> 'k \<Rightarrow> api_status option \<times> 'k"
  dynDelete :: "string \<Rightarrow> 'k \<Rightarrow> api_status option \<times> 'k"
  dynList :: "string \<Rightarrow> 'k \<Rightarrow> api_status + json list"

definition traceflow_object :: "string \<Rightarrow> (string \<times> json) list \<Rightarrow> json" where
  "traceflow_object tfName object =
     JObject
       [(''apiVersion'', JString (traceflowGroup @ ''/'' @ traceflowVersion)),
        (''kind'', JString ''Traceflow''),
        (''metadata'', JObject
          [(''name'', JString tfName), (''labels'', JObject (map (\<lambda>(k, v). (k, JString v)) traceflowLabels))]),
        (''spec'', json_get object ''spec'')]"

definition createTraceflow :: "'k dyn \<Rightarrow> string \<Rightarrow> (string \<times> json) list \<Rightarrow> 'k \<Rightarrow> api_status option \<times> 'k" where
  "createTraceflow client tfName object k = dynCreate client (traceflow_object tfName object) k"

definition CreateRequest :: "string \<Rightarrow> 'k dyn \<Rightarrow> (string \<times> json) list \<Rightarrow> 'k \<Rightarrow> (api_status + string) \<times> 'k" where
  "CreateRequest uuid client object k =
     (case createTraceflow client uuid object k of
        (Some err, k) \<Rightarrow> (Inl err, k)
      | (None, k) \<Rightarrow> (Inr uuid, k))"

definition getTraceflow :: "'k dyn \<Rightarrow> string \<Rightarrow> 'k \<Rightarrow> api_status + json \<times> bool" where
  "getTraceflow client tfName k =
     (case dynGet client tfName k of
        Inl err \<Rightarrow> Inl err
      | Inr traceflow \<Rightarrow>
          (case NestedString traceflow [''status'', ''phase''] of
             Inl err \<Rightarrow> Inl \<lparr>asReason = ReasonOther, asText = err\<rparr>
           | Inr None \<Rightarrow> Inr (traceflow, False)
           | Inr (Some phase) \<Rightarrow> Inr (traceflow, phase = ''Succeeded'' \<or> phase = ''Failed'')))"

definition GetRequestResult :: "'k dyn \<Rightarrow> string \<Rightarrow> 'k \<Rightarrow> api_status + json \<times> bool" where
  "GetRequestResult client requestID k = getTraceflow client requestID k"

definition DeleteRequest :: "'k dyn \<Rightarrow> string \<Rightarrow> 'k \<Rightarrow> (api_status + bool) \<times> 'k" where
  "DeleteRequest client requestID k =
     (case dynDelete client requestID k of
        (None, k) \<Rightarrow> (Inr True, k)
      | (Some err, k) \<Rightarrow> if asReason err = ReasonNotFound then (Inr False, k) else (Inl err, k))"

text \<open>The sweep; it returns the errors logged. \<open>created\<close> reads the creation timestamp of an object.\<close>

fun gc_delete :: "'k dyn \<Rightarrow> string list \<Rightarrow> 'k \<Rightarrow> api_status list \<Rightarrow> api_status list \<times> 'k" where
  "gc_delete client [] k log = (log, k)"
| "gc_delete client (tfName # names) k log =
     (case dynDelete client tfName k of
        (None, k) \<Rightarrow> gc_delete client names k log
      | (Some err, k) \<Rightarrow> gc_delete client names k (log @ [err]))"

definition traceflow_doGC :: "(json \<Rightarrow> Time) \<Rightarrow> 'k dyn \<Rightarrow> Time \<Rightarrow> 'k \<Rightarrow> api_status list \<times> 'k" where
  "traceflow_doGC created gcClient now k =
     (case dynList gcClient (Join (map (\<lambda>(k, v). k @ ''='' @ v) traceflowLabels) '','') k of
        Inl err \<Rightarrow> ([err], k)
      | Inr items \<Rightarrow>
          (let expiredTraceflows = map GetName (filter (\<lambda>tf. Sub now (created tf) > traceflowExpiryTimeout) items)
           in gc_delete gcClient expiredTraceflows k []))"

text \<open>\<open>runGC\<close>: a sweep at once and then one a minute until stopped, each with its own clock reading; the
  log of all of them.\<close>

definition gcPeriod :: Duration where "gcPeriod = 1 * minute"

fun runGC :: "(json \<Rightarrow> Time) \<Rightarrow> 'k dyn \<Rightarrow> Time list \<Rightarrow> 'k \<Rightarrow> api_status list \<times> 'k" where
  "runGC created gcClient [] k = ([], k)"
| "runGC created gcClient (now # ticks) k =
     (case traceflow_doGC created gcClient now k of
        (log, k) \<Rightarrow> (case runGC created gcClient ticks k of (log', k) \<Rightarrow> (log @ log', k)))"

section \<open>The endpoints\<close>

definition dynamicClientFor ::
  "(string \<Rightarrow> string \<Rightarrow> string option) \<Rightarrow> (RoundTripper \<Rightarrow> string option) \<Rightarrow> ClientFactory \<Rightarrow> RequestAuth option \<Rightarrow> store \<Rightarrow>
   (ServerError + RoundTripper) \<times> store" where
  "dynamicClientFor tls dynErr f ra st =
     (case DynamicClientForRequest tls dynErr f ra st of
        (Inl err, st) \<Rightarrow>
          (Inl \<lparr>seCode = StatusInternalServerError, seErr = Some (''failed to build K8s client for request: '' @ err), seMessage = []\<rparr>, st)
      | (Inr client, st) \<Rightarrow> (Inr client, st))"

definition api_failed ::
  "RequestAuth option \<Rightarrow> api_status \<Rightarrow> string \<Rightarrow> store \<Rightarrow> Response \<Rightarrow> (ServerError + 'a) \<times> store \<times> Response" where
  "api_failed ra err message st w = (case k8sError ra err message st w of (e, st, w) \<Rightarrow> (Inl e, st, w))"

text \<open>\<open>body\<close> is the decoded request body or the error of decoding it; \<open>api rt\<close> the dynamic client that
  sends through \<open>rt\<close>.\<close>

definition CreateTraceflowRequest ::
  "(string \<Rightarrow> string \<Rightarrow> string option) \<Rightarrow> (RoundTripper \<Rightarrow> string option) \<Rightarrow> ClientFactory \<Rightarrow> (RoundTripper \<Rightarrow> 'k dyn) \<Rightarrow> string \<Rightarrow>
   RequestAuth option \<Rightarrow> (string + (string \<times> json) list) \<Rightarrow> 'k \<Rightarrow> store \<Rightarrow> Response \<Rightarrow> 'k \<times> store \<times> Response" where
  "CreateTraceflowRequest tls dynErr f api uuid ra body k st w =
     (case body of
        Inl err \<Rightarrow> (k, st, HandleError \<lparr>seCode = StatusBadRequest, seErr = None, seMessage = err\<rparr> w)
      | Inr tfRequest \<Rightarrow>
          (case dynamicClientFor tls dynErr f ra st of
             (Inl e, st) \<Rightarrow> (k, st, HandleError e w)
           | (Inr rt, st) \<Rightarrow>
               (case CreateRequest uuid (api rt) tfRequest k of
                  (Inl err, k) \<Rightarrow>
                    (case k8sError ra err ''error when creating Traceflow request'' st w of
                       (e, st, w) \<Rightarrow> (k, st, HandleError e w))
                | (Inr requestID, k) \<Rightarrow>
                    (k, st,
                     (Header ''Retry-After'' ''2''
                       (Header ''Location'' (''/api/v1/traceflow/'' @ requestID)
                         (Header ''Access-Control-Expose-Headers'' ''Location, Retry-After'' w)))\<lparr>respStatus := StatusAccepted\<rparr>))))"

definition traceflow_get ::
  "(string \<Rightarrow> string \<Rightarrow> string option) \<Rightarrow> (RoundTripper \<Rightarrow> string option) \<Rightarrow> ClientFactory \<Rightarrow> (RoundTripper \<Rightarrow> 'k dyn) \<Rightarrow> string \<Rightarrow>
   RequestAuth option \<Rightarrow> string \<Rightarrow> 'k \<Rightarrow> store \<Rightarrow> Response \<Rightarrow> (ServerError + json \<times> bool) \<times> store \<times> Response" where
  "traceflow_get tls dynErr f api message ra requestID k st w =
     (case dynamicClientFor tls dynErr f ra st of
        (Inl e, st) \<Rightarrow> (Inl e, st, w)
      | (Inr rt, st) \<Rightarrow>
          (case GetRequestResult (api rt) requestID k of
             Inl err \<Rightarrow> api_failed ra err message st w
           | Inr res \<Rightarrow> (Inr res, st, w)))"

definition GetTraceflowRequestStatus ::
  "(string \<Rightarrow> string \<Rightarrow> string option) \<Rightarrow> (RoundTripper \<Rightarrow> string option) \<Rightarrow> ClientFactory \<Rightarrow> (RoundTripper \<Rightarrow> 'k dyn) \<Rightarrow>
   RequestAuth option \<Rightarrow> string \<Rightarrow> 'k \<Rightarrow> store \<Rightarrow> Response \<Rightarrow> store \<times> Response" where
  "GetTraceflowRequestStatus tls dynErr f api ra requestID k st w =
     (case traceflow_get tls dynErr f api ''error when getting Traceflow request status'' ra requestID k st w of
        (Inl e, st, w) \<Rightarrow> (st, HandleError e w)
      | (Inr (_, finished), st, w) \<Rightarrow>
          (if \<not> finished then
             (st, (Header ''Retry-After'' ''1''
               (Header ''Location'' (''/api/v1/traceflow/'' @ requestID @ ''/status'')
                 (Header ''Access-Control-Expose-Headers'' ''Location, Retry-After'' w)))\<lparr>respStatus := StatusOK\<rparr>)
           else
             (st, (Header ''Location'' (''/api/v1/traceflow/'' @ requestID @ ''/result'')
               (Header ''Access-Control-Expose-Headers'' ''Location'' w))\<lparr>respStatus := StatusFound\<rparr>)))"

text \<open>\<open>marshal\<close> is \<open>json.Marshal\<close>.\<close>

definition GetTraceflowRequestResult ::
  "(json \<Rightarrow> string + string) \<Rightarrow> (string \<Rightarrow> string \<Rightarrow> string option) \<Rightarrow> (RoundTripper \<Rightarrow> string option) \<Rightarrow> ClientFactory \<Rightarrow> (RoundTripper \<Rightarrow> 'k dyn) \<Rightarrow>
   RequestAuth option \<Rightarrow> string \<Rightarrow> 'k \<Rightarrow> store \<Rightarrow> Response \<Rightarrow> store \<times> Response" where
  "GetTraceflowRequestResult marshal tls dynErr f api ra requestID k st w =
     (case traceflow_get tls dynErr f api ''error when getting Traceflow request result'' ra requestID k st w of
        (Inl e, st, w) \<Rightarrow> (st, HandleError e w)
      | (Inr (tfResult, finished), st, w) \<Rightarrow>
          (if \<not> finished then
             (st, HandleError \<lparr>seCode = StatusNotFound, seErr = None,
                seMessage = ''Traceflow result not available, call the /status endpoint to check progress''\<rparr> w)
           else
             (case marshal tfResult of
                Inl err \<Rightarrow>
                  (st, HandleError \<lparr>seCode = StatusInternalServerError,
                     seErr = Some (''error when converting Traceflow request result to JSON: '' @ err), seMessage = []\<rparr> w)
              | Inr data \<Rightarrow>
                  (st, (Header ''Content-Type'' ''application/json; charset=utf-8''
                    (Header ''Access-Control-Expose-Headers'' ''Content-Disposition'' w))
                      \<lparr>respStatus := StatusOK, respBody := BodyBytes data\<rparr>))))"

definition DeleteTraceflowRequest ::
  "(string \<Rightarrow> string \<Rightarrow> string option) \<Rightarrow> (RoundTripper \<Rightarrow> string option) \<Rightarrow> ClientFactory \<Rightarrow> (RoundTripper \<Rightarrow> 'k dyn) \<Rightarrow>
   RequestAuth option \<Rightarrow> string \<Rightarrow> 'k \<Rightarrow> store \<Rightarrow> Response \<Rightarrow> 'k \<times> store \<times> Response" where
  "DeleteTraceflowRequest tls dynErr f api ra requestID k st w =
     (case dynamicClientFor tls dynErr f ra st of
        (Inl e, st) \<Rightarrow> (k, st, HandleError e w)
      | (Inr rt, st) \<Rightarrow>
          (case DeleteRequest (api rt) requestID k of
             (Inl err, k) \<Rightarrow>
               (case k8sError ra err ''error when deleting Traceflow request'' st w of
                  (e, st, w) \<Rightarrow> (k, st, HandleError e w))
           | (Inr False, k) \<Rightarrow>
               (k, st, HandleError \<lparr>seCode = StatusNotFound, seErr = None, seMessage = ''Traceflow request not found''\<rparr> w)
           | (Inr True, k) \<Rightarrow> (k, st, w\<lparr>respStatus := StatusOK\<rparr>)))"

text \<open>The limiter on creation: none for a negative limit, and nothing is admitted for the limit 0. \<close>

definition traceflow_limiter :: "'l bucket \<Rightarrow> int \<Rightarrow> 'l GlobalRateLimiter option or_die" where
  "traceflow_limiter b maxTraceflowsPerHour =
     (if maxTraceflowsPerHour \<ge> 0 then
        (let burst = (if maxTraceflowsPerHour > 0 then 10 else 0)
         in map_or_die Some (NewGlobalRateLimiterOrDie b (dec_int maxTraceflowsPerHour @ ''/h'') burst))
      else Returns None)"

lemma traceflow_limiter_returns:
  assumes "n < 2 ^ 63"
  shows "traceflow_limiter b n =
    Returns (if n < 0 then None else Some \<lparr>grl = NewLimiter b (nat n, 3600) (if n > 0 then 10 else 0)\<rparr>)"
  using assms newConfig_printed [of n "''h''" 3600]
  by (simp add: traceflow_limiter_def NewGlobalRateLimiterOrDie_def OrDie_def NewGlobalRateLimiter_def rate_unit_def)

definition CreateTraceflow_handlers ::
  "'l bucket \<Rightarrow> Time \<Rightarrow> Request \<Rightarrow> (Response \<Rightarrow> 'k \<times> store \<times> Response) \<Rightarrow> 'l GlobalRateLimiter option \<Rightarrow> 'k \<Rightarrow> store \<Rightarrow> Response \<Rightarrow>
   'l GlobalRateLimiter option \<times> 'k \<times> store \<times> Response" where
  "CreateTraceflow_handlers b now req create l k st w =
     (case l of
        None \<Rightarrow> (None, create w)
      | Some l \<Rightarrow>
          (case MiddlewareWithClock (GlobalRateLimiter_Allow b) now req l w of
             (w, l) \<Rightarrow> if respAborted w then (Some l, k, st, w) else (Some l, create w)))"

definition traceflow_redirect :: "Request \<Rightarrow> Response \<Rightarrow> Response" where
  "traceflow_redirect req w = Header ''Location'' (reqPath req @ ''/status'') (w\<lparr>respStatus := StatusSeeOther\<rparr>)"

end
