(* ===== verification/Traceflow_Properties.thy ===== *)
theory Traceflow_Properties
  imports Traceflow Api_Properties
begin

text \<open>
  Properties of Traceflow requests: the protocol of creating, polling and fetching, whose identity
  the objects are created with, and what the sweep deletes.
\<close>

section \<open>The cluster\<close>

text \<open>
  What the code relies on of the dynamic client: \<open>tfs\<close> are the Traceflow objects of the cluster by
  name. A call that fails changes nothing; a created object is new and is stored with its name, its
  labels and its spec; a deletion removes one object; a list with the label selector returns exactly
  the objects that have the label.
\<close>

definition has_label :: "json \<Rightarrow> bool" where
  "has_label j \<longleftrightarrow> NestedString j [''metadata'', ''labels'', ''ui.antrea.io''] = Inr (Some [])"

definition spec_of :: "json \<Rightarrow> string + json option" where
  "spec_of j = nested_field j [''spec'']"

definition stored_as :: "json \<Rightarrow> json \<Rightarrow> bool" where
  "stored_as j j' \<longleftrightarrow> GetName j' = GetName j \<and> (has_label j' \<longleftrightarrow> has_label j) \<and> spec_of j' = spec_of j"

definition dyn_laws :: "'k dyn \<Rightarrow> ('k \<Rightarrow> string \<rightharpoonup> json) \<Rightarrow> bool" where
  "dyn_laws d tfs \<longleftrightarrow>
     (\<forall>n k j. dynGet d n k = Inr j \<longrightarrow> tfs k n = Some j) \<and>
     (\<forall>j k k'. dynCreate d j k = (None, k') \<longrightarrow>
        tfs k (GetName j) = None \<and> (\<exists>j'. stored_as j j' \<and> tfs k' = (tfs k)(GetName j \<mapsto> j'))) \<and>
     (\<forall>j k k' e. dynCreate d j k = (Some e, k') \<longrightarrow> tfs k' = tfs k) \<and>
     (\<forall>n k k'. dynDelete d n k = (None, k') \<longrightarrow> tfs k' = (tfs k)(n := None)) \<and>
     (\<forall>n k k' e. dynDelete d n k = (Some e, k') \<longrightarrow> tfs k' = tfs k) \<and>
     (\<forall>k js. dynList d ''ui.antrea.io='' k = Inr js \<longrightarrow>
        set js = {j. has_label j \<and> tfs k (GetName j) = Some j})"

lemma dyn_lawsD:
  assumes "dyn_laws d tfs"
  shows "dynGet d n k = Inr j \<Longrightarrow> tfs k n = Some j"
    "dynCreate d j k = (None, k') \<Longrightarrow> tfs k (GetName j) = None \<and> (\<exists>j'. stored_as j j' \<and> tfs k' = (tfs k)(GetName j \<mapsto> j'))"
    "dynCreate d j k = (Some e, k') \<Longrightarrow> tfs k' = tfs k"
    "dynDelete d n k = (res, k') \<Longrightarrow> tfs k' = (if res = None then (tfs k)(n := None) else tfs k)"
    "dynList d ''ui.antrea.io='' k = Inr js \<Longrightarrow> set js = {j. has_label j \<and> tfs k (GetName j) = Some j}"
proof -
  show "dynDelete d n k = (res, k') \<Longrightarrow> tfs k' = (if res = None then (tfs k)(n := None) else tfs k)"
    using assms unfolding dyn_laws_def by (cases res) (simp, metis option.distinct(1))
qed (use assms in \<open>unfold dyn_laws_def, blast+\<close>)

section \<open>The sweep\<close>

lemma gc_delete_view:
  assumes "dyn_laws d tfs" and "gc_delete d names k log = (log', k')"
  shows "(\<forall>n. tfs k' n = tfs k n \<or> n \<in> set names \<and> tfs k' n = None) \<and>
    (log' = log \<longrightarrow> (\<forall>n \<in> set names. tfs k' n = None)) \<and> (\<exists>es. log' = log @ es \<and> length es \<le> length names)"
  using assms(2)
proof (induction names arbitrary: k log)
  case (Cons n names)
  obtain res k1 where d: "dynDelete d n k = (res, k1)" by fastforce
  have v: "tfs k1 = (if res = None then (tfs k)(n := None) else tfs k)"
    using dyn_lawsD(4) [OF assms(1) d] .
  show ?case
  proof (cases res)
    case None
    then have "gc_delete d names k1 log = (log', k')" using Cons.prems d by simp
    from Cons.IH [OF this] show ?thesis using None v by (fastforce split: if_splits)
  next
    case (Some e)
    then have "gc_delete d names k1 (log @ [e]) = (log', k')" using Cons.prems d by simp
    from Cons.IH [OF this] show ?thesis using Some v by fastforce
  qed
qed simp

lemma selector: "Join (map (\<lambda>(k, v). k @ ''='' @ v) traceflowLabels) '','' = ''ui.antrea.io=''"
  by (simp add: traceflowLabels_def)

text \<open>
  C34: what the sweep deletes. Only Traceflow objects with the label of the UI that are older than
  an hour can be gone afterwards, and every other object is as it was; when the sweep logs no error
  all of them are gone. A deletion that fails does not keep the sweep from the others, and each
  failure is logged.
\<close>

theorem traceflow_sweep:
  assumes "dyn_laws d tfs" and "traceflow_doGC created d now k = (log, k')"
  shows "(\<forall>n. tfs k' n = tfs k n \<or>
      (\<exists>j. tfs k n = Some j \<and> has_label j \<and> Sub now (created j) > 60 * minute \<and> tfs k' n = None)) \<and>
    (log = [] \<longrightarrow> (\<forall>n j. tfs k n = Some j \<and> GetName j = n \<and> has_label j \<and> Sub now (created j) > 60 * minute \<longrightarrow> tfs k' n = None))"
proof (cases "dynList d ''ui.antrea.io='' k")
  case (Inl err)
  then have "log = [err] \<and> k' = k" using assms(2) unfolding traceflow_doGC_def selector by simp
  then show ?thesis by simp
next
  case (Inr items)
  let ?names = "map GetName (filter (\<lambda>tf. Sub now (created tf) > traceflowExpiryTimeout) items)"
  have gc: "gc_delete d ?names k [] = (log, k')"
    using assms(2) Inr unfolding traceflow_doGC_def selector by (simp add: Let_def)
  have items: "set items = {j. has_label j \<and> tfs k (GetName j) = Some j}"
    using dyn_lawsD(5) [OF assms(1) Inr] .
  have names: "n \<in> set ?names \<longleftrightarrow> (\<exists>j. tfs k n = Some j \<and> GetName j = n \<and> has_label j \<and> Sub now (created j) > 60 * minute)" for n
    using items by (auto simp: traceflowExpiryTimeout_def)
  note V = gc_delete_view [OF assms(1) gc]
  show ?thesis
  proof (intro conjI impI allI)
    fix n
    show "tfs k' n = tfs k n \<or> (\<exists>j. tfs k n = Some j \<and> has_label j \<and> Sub now (created j) > 60 * minute \<and> tfs k' n = None)"
      using V [THEN conjunct1] names [of n] by blast
  next
    fix n j
    assume "log = []" and "tfs k n = Some j \<and> GetName j = n \<and> has_label j \<and> Sub now (created j) > 60 * minute"
    then have "n \<in> set ?names" unfolding names by (intro exI [of _ j])
    then show "tfs k' n = None" using V [THEN conjunct2, THEN conjunct1] \<open>log = []\<close> by blast
  qed
qed

text \<open>A cluster whose Traceflow objects are a list.\<close>

definition ex_tfs :: "json list \<Rightarrow> string \<rightharpoonup> json" where
  "ex_tfs k n = find (\<lambda>j. GetName j = n) k"

definition ex_dyn :: "json list dyn" where
  "ex_dyn =
     \<lparr>dynGet = (\<lambda>n k. case ex_tfs k n of None \<Rightarrow> Inl \<lparr>asReason = ReasonNotFound, asText = n\<rparr> | Some j \<Rightarrow> Inr j),
      dynCreate = (\<lambda>j k. if ex_tfs k (GetName j) \<noteq> None then (Some \<lparr>asReason = ReasonOther, asText = []\<rparr>, k) else (None, j # k)),
      dynDelete = (\<lambda>n k. if ex_tfs k n = None then (Some \<lparr>asReason = ReasonNotFound, asText = n\<rparr>, k) else (None, filter (\<lambda>j. GetName j \<noteq> n) k)),
      dynList = (\<lambda>sel k. Inr (filter (\<lambda>j. has_label j \<and> ex_tfs k (GetName j) = Some j) k))\<rparr>"

lemma ex_tfs_simps:
  "ex_tfs [] n = None" "ex_tfs (j # k) n = (if GetName j = n then Some j else ex_tfs k n)"
  by (simp_all add: ex_tfs_def)

lemma ex_tfs_filter: "ex_tfs (filter (\<lambda>j. GetName j \<noteq> n) k) = (ex_tfs k)(n := None)"
  by (induction k) (auto simp: ex_tfs_simps fun_eq_iff)

lemma ex_tfs_in: "ex_tfs k n = Some j \<Longrightarrow> j \<in> set k"
  by (auto simp: ex_tfs_def find_Some_iff)

lemma ex_dyn_laws: "dyn_laws ex_dyn ex_tfs"
proof -
  have "stored_as j j" for j by (simp add: stored_as_def)
  moreover have "ex_tfs (j # k) = (ex_tfs k)(GetName j \<mapsto> j)" for j k by (auto simp: ex_tfs_simps fun_eq_iff)
  ultimately show ?thesis
    unfolding dyn_laws_def
    by (intro conjI allI impI)
      (auto simp: ex_dyn_def ex_tfs_filter fun_eq_iff split: option.splits if_splits intro: ex_tfs_in)
qed

definition ex_traceflow :: json where
  "ex_traceflow = traceflow_object ''tf'' [(''spec'', JObject [])]"

lemmas json_eval = traceflow_object_def traceflowLabels_def has_label_def NestedString_def GetName_def json_get_def spec_of_def

theorem traceflow_sweep_witness:
  "ex_tfs (snd (traceflow_doGC (\<lambda>j. 0) ex_dyn (61 * minute) [ex_traceflow])) ''tf'' = None"
proof -
  have name: "GetName ex_traceflow = ''tf''" "has_label ex_traceflow" by (simp_all add: ex_traceflow_def json_eval)
  have log: "fst (traceflow_doGC (\<lambda>j. 0) ex_dyn (61 * minute) [ex_traceflow]) = []"
    by (simp add: traceflow_doGC_def ex_dyn_def name ex_tfs_simps Let_def)
  have "Sub (61 * minute) 0 > 60 * minute" by (simp add: Sub_def minDuration_def maxDuration_def time_simps)
  then show ?thesis
    using traceflow_sweep [OF ex_dyn_laws, of "\<lambda>j. 0" "61 * minute" "[ex_traceflow]", OF surjective_pairing] log name
    by (simp add: ex_tfs_simps)
qed

section \<open>Creating, polling and fetching\<close>

lemma traceflow_object_facts:
  "GetName (traceflow_object n obj) = n" "has_label (traceflow_object n obj)"
  "spec_of (traceflow_object n obj) = Inr (Some (json_get obj ''spec''))"
  by (simp_all add: traceflow_object_def traceflowLabels_def has_label_def NestedString_def GetName_def spec_of_def)

lemma Header_lookup [simp]: "map_of (respHeader (Header k v w)) k' = (if k' = k then Some v else map_of (respHeader w) k')"
  by (simp add: Header_def update_conv')

lemma dynamicClientFor_outcome:
  assumes "dynamicClientFor tls dynErr f ra st = (res, st1)"
  shows "res = Inl e \<Longrightarrow> seCode e = StatusInternalServerError" "res = Inr rt \<Longrightarrow> fst (TransportForRequest tls f ra st) = Inr rt"
  using assms by (auto simp: dynamicClientFor_def DynamicClientForRequest_def DynamicClient_def split: prod.splits sum.splits option.splits)

lemma k8sError_code: "seCode (fst (k8sError ra err m st w)) \<in> {401, 403, 404, 500}"
  by (auto simp: k8sError_def session_over_def split: api_reason.split option.split)

text \<open>
  Creating a Traceflow. A request is accepted exactly if an object was created, with the identity
  of the caller: then the cluster has one object more, under the fresh name that the \<open>Location\<close> header
  gives, with the label of the UI and with the spec of the request and nothing else of it. In every
  other case the cluster is unchanged.
\<close>

lemma traceflow_created:
  assumes laws: "\<And>rt. dyn_laws (api rt) tfs"
    and C: "CreateTraceflowRequest tls dynErr f api uuid ra body k st w = (k', st', w')"
  shows "(respStatus w' = StatusAccepted \<longrightarrow>
      (\<exists>obj rt j. body = Inr obj \<and> fst (TransportForRequest tls f ra st) = Inr rt \<and>
         dynCreate (api rt) (traceflow_object uuid obj) k = (None, k') \<and>
         tfs k uuid = None \<and> tfs k' = (tfs k)(uuid \<mapsto> j) \<and> has_label j \<and> spec_of j = Inr (Some (json_get obj ''spec'')) \<and>
         map_of (respHeader w') ''Location'' = Some (''/api/v1/traceflow/'' @ uuid))) \<and>
    (respStatus w' \<noteq> StatusAccepted \<longrightarrow> tfs k' = tfs k)"
proof -
  have k8s: "seCode (fst (k8sError ra err m st w)) \<noteq> StatusAccepted" for err m st w
    using k8sError_code [of ra err m st w] by auto
  obtain res st1 where D: "dynamicClientFor tls dynErr f ra st = (res, st1)" by fastforce
  show ?thesis
  proof (cases body)
    case (Inl err)
    then show ?thesis using C by (auto simp: CreateTraceflowRequest_def)
  next
    case (Inr obj)
    show ?thesis
    proof (cases res)
      case (Inl e)
      then show ?thesis using dynamicClientFor_outcome(1) [OF D] C Inl \<open>body = Inr obj\<close> D by (auto simp: CreateTraceflowRequest_def)
    next
      case (Inr rt)
      note rt = dynamicClientFor_outcome(2) [OF D Inr]
      obtain r k1 where cr: "dynCreate (api rt) (traceflow_object uuid obj) k = (r, k1)" by fastforce
      show ?thesis
      proof (cases r)
        case None
        then show ?thesis
          using C D Inr \<open>body = Inr obj\<close> cr rt dyn_lawsD(2) [OF laws cr [unfolded None]] traceflow_object_facts [of uuid obj]
          by (auto simp: CreateTraceflowRequest_def CreateRequest_def createTraceflow_def stored_as_def)
      next
        case (Some err)
        obtain e st2 w2 where ke: "k8sError ra err ''error when creating Traceflow request'' st1 w = (e, st2, w2)"
          by (metis surj_pair)
        have "k' = k1 \<and> w' = HandleError e w2"
          using C D Inr \<open>body = Inr obj\<close> cr Some ke by (simp add: CreateTraceflowRequest_def CreateRequest_def createTraceflow_def)
        then show ?thesis using k8s [of err _ st1 w] ke dyn_lawsD(3) [OF laws cr [unfolded Some]] by (metis HandleError_status fst_conv)
      qed
    qed
  qed
qed

text \<open>The final phases.\<close>

definition finished_phase :: "json \<Rightarrow> bool" where
  "finished_phase j \<longleftrightarrow> NestedString j [''status'', ''phase''] \<in> {Inr (Some ''Succeeded''), Inr (Some ''Failed'')}"

lemma getTraceflow_Inr:
  "getTraceflow d n k = Inr (j, b) \<Longrightarrow> dynGet d n k = Inr j \<and> (b \<longleftrightarrow> finished_phase j)"
  by (auto simp: getTraceflow_def finished_phase_def split: sum.splits option.splits)

text \<open>
  Polling and fetching agree. In one state of the cluster, the status endpoint redirects to the
  result exactly if the result endpoint answers with the object, and that is exactly if the
  object's phase is final; while it is not, polling says to come back and the result is not found;
  and an error is reported with the same code by both. The object returned is the one stored under
  the name in the request.
\<close>

lemma traceflow_polling:
  assumes S: "GetTraceflowRequestStatus tls dynErr f api ra n k st w = (st1, w1)"
    and R: "GetTraceflowRequestResult (\<lambda>j. Inr (marshal j)) tls dynErr f api ra n k st w = (st2, w2)"
    and G: "traceflow_get tls dynErr f api m ra n k st w = (res, st3, w3)"
  shows "(case res of
      Inl e \<Rightarrow> respStatus w1 = seCode e \<and> respStatus w2 = seCode e \<and> seCode e \<in> {401, 403, 404, 500}
    | Inr (j, finished) \<Rightarrow>
        (\<exists>rt. fst (TransportForRequest tls f ra st) = Inr rt \<and> dynGet (api rt) n k = Inr j) \<and> (finished \<longleftrightarrow> finished_phase j) \<and>
        (if finished_phase j
         then respStatus w1 = StatusFound \<and> map_of (respHeader w1) ''Location'' = Some (''/api/v1/traceflow/'' @ n @ ''/result'') \<and>
           respStatus w2 = StatusOK \<and> respBody w2 = BodyBytes (marshal j)
         else respStatus w1 = StatusOK \<and> map_of (respHeader w1) ''Retry-After'' = Some ''1'' \<and>
           map_of (respHeader w1) ''Location'' = Some (''/api/v1/traceflow/'' @ n @ ''/status'') \<and>
           respStatus w2 = StatusNotFound)) \<and> st1 = st3 \<and> st2 = st3"
proof -
  obtain c st0 where D: "dynamicClientFor tls dynErr f ra st = (c, st0)" by fastforce
  show ?thesis
  proof (cases c)
    case (Inl e)
    then show ?thesis using S R G D dynamicClientFor_outcome(1) [OF D Inl]
      by (auto simp: GetTraceflowRequestStatus_def GetTraceflowRequestResult_def traceflow_get_def)
  next
    case (Inr rt)
    show ?thesis
    proof (cases "getTraceflow (api rt) n k")
      case (Inl err)
      have same: "k8sError ra err m1 st w = (e, st', w') \<Longrightarrow> k8sError ra err m2 st w = (e2, st2', w2') \<Longrightarrow> seCode e = seCode e2 \<and> st' = st2'"
        for m1 m2 st w e st' w' e2 st2' w2'
        by (auto simp: k8sError_def split: api_reason.splits option.splits)
      obtain e1 s1 v1 where 1: "k8sError ra err ''error when getting Traceflow request status'' st0 w = (e1, s1, v1)" by (metis surj_pair)
      obtain e2 s2 v2 where 2: "k8sError ra err ''error when getting Traceflow request result'' st0 w = (e2, s2, v2)" by (metis surj_pair)
      obtain e s v where 3: "k8sError ra err m st0 w = (e, s, v)" by (metis surj_pair)
      have "seCode e \<in> {401, 403, 404, 500}" using k8sError_code [of ra err m st0 w] 3 by simp
      then show ?thesis using S R G D \<open>c = Inr rt\<close> Inl 1 2 3 same [OF 1 3] same [OF 2 3]
        by (auto simp: GetTraceflowRequestStatus_def GetTraceflowRequestResult_def traceflow_get_def GetRequestResult_def api_failed_def)
    next
      case (Inr jb)
      obtain j b where jb: "jb = (j, b)" by fastforce
      show ?thesis using S R G D \<open>c = Inr rt\<close> Inr getTraceflow_Inr [OF Inr [unfolded jb]] dynamicClientFor_outcome(2) [OF D \<open>c = Inr rt\<close>] jb
        by (auto simp: GetTraceflowRequestStatus_def GetTraceflowRequestResult_def traceflow_get_def GetRequestResult_def)
    qed
  qed
qed

text \<open>
  C33: the protocol of a Traceflow request. Creating one is accepted exactly if an object was created
  with the identity of the caller: then the cluster has one object more, under the fresh name that
  the \<open>Location\<close> header gives, with the label of the UI and the spec of the request; otherwise the
  cluster is unchanged. In any later state, the status endpoint redirects to the result exactly if
  the result endpoint answers with the object, which is exactly if its phase is final; before that,
  polling says to come back and the result is not found; and both report an error with the same code.
\<close>

theorem traceflow_protocol:
  assumes laws: "\<And>rt. dyn_laws (api rt) tfs"
    and C: "CreateTraceflowRequest tls dynErr f api n ra body k st w = (k', st', w')"
    and S: "GetTraceflowRequestStatus tls dynErr f api ra n k2 st2 v = (sa, w1)"
    and R: "GetTraceflowRequestResult (\<lambda>j. Inr (marshal j)) tls dynErr f api ra n k2 st2 v = (sb, w2)"
    and G: "traceflow_get tls dynErr f api m ra n k2 st2 v = (res, sc, w3)"
  shows "(if respStatus w' = StatusAccepted
     then \<exists>obj rt j. body = Inr obj \<and> fst (TransportForRequest tls f ra st) = Inr rt \<and>
         dynCreate (api rt) (traceflow_object n obj) k = (None, k') \<and>
         tfs k n = None \<and> tfs k' = (tfs k)(n \<mapsto> j) \<and> has_label j \<and> spec_of j = Inr (Some (json_get obj ''spec'')) \<and>
         map_of (respHeader w') ''Location'' = Some (''/api/v1/traceflow/'' @ n)
     else tfs k' = tfs k) \<and>
    (case res of
      Inl e \<Rightarrow> respStatus w1 = seCode e \<and> respStatus w2 = seCode e \<and> seCode e \<in> {401, 403, 404, 500}
    | Inr (j, finished) \<Rightarrow>
        (\<exists>rt. fst (TransportForRequest tls f ra st2) = Inr rt \<and> dynGet (api rt) n k2 = Inr j) \<and> (finished \<longleftrightarrow> finished_phase j) \<and>
        (if finished_phase j
         then respStatus w1 = StatusFound \<and> map_of (respHeader w1) ''Location'' = Some (''/api/v1/traceflow/'' @ n @ ''/result'') \<and>
           respStatus w2 = StatusOK \<and> respBody w2 = BodyBytes (marshal j)
         else respStatus w1 = StatusOK \<and> map_of (respHeader w1) ''Retry-After'' = Some ''1'' \<and>
           map_of (respHeader w1) ''Location'' = Some (''/api/v1/traceflow/'' @ n @ ''/status'') \<and>
           respStatus w2 = StatusNotFound))"
proof
  show "if respStatus w' = StatusAccepted
     then \<exists>obj rt j. body = Inr obj \<and> fst (TransportForRequest tls f ra st) = Inr rt \<and>
         dynCreate (api rt) (traceflow_object n obj) k = (None, k') \<and>
         tfs k n = None \<and> tfs k' = (tfs k)(n \<mapsto> j) \<and> has_label j \<and> spec_of j = Inr (Some (json_get obj ''spec'')) \<and>
         map_of (respHeader w') ''Location'' = Some (''/api/v1/traceflow/'' @ n)
     else tfs k' = tfs k"
    using traceflow_created [OF laws C] by (simp only: split: if_split)
qed (rule traceflow_polling [OF S R G, THEN conjunct1])

definition ex_finished :: json where
  "ex_finished = JObject [(''metadata'', JObject [(''name'', JString ''id'')]), (''status'', JObject [(''phase'', JString ''Failed'')])]"

theorem traceflow_protocol_witness:
  "ex_tfs (fst (CreateTraceflowRequest (\<lambda>c k. None) (\<lambda>rt. None) \<lparr>cfUpstream = ''api'', cfTransportKey = ''k8s''\<rparr> (\<lambda>rt. ex_dyn) ''id''
     (Some (NewSessionAuth ex_store 0)) (Inr [(''spec'', JNumber 1)]) [] ex_store newResponse)) ''id'' \<noteq> None \<and>
   respStatus (snd (GetTraceflowRequestStatus (\<lambda>c k. None) (\<lambda>rt. None) \<lparr>cfUpstream = ''api'', cfTransportKey = ''k8s''\<rparr> (\<lambda>rt. ex_dyn)
     (Some (NewSessionAuth ex_store 0)) ''id'' [ex_finished] ex_store newResponse)) = StatusFound"
proof -
  let ?f = "\<lparr>cfUpstream = ''api'', cfTransportKey = ''k8s''\<rparr>"
  let ?ra = "Some (NewSessionAuth ex_store 0)"
  let ?C = "CreateTraceflowRequest (\<lambda>c k. None) (\<lambda>rt. None) ?f (\<lambda>rt. ex_dyn) ''id'' ?ra (Inr [(''spec'', JNumber 1)]) [] ex_store newResponse"
  let ?G = "traceflow_get (\<lambda>c k. None) (\<lambda>rt. None) ?f (\<lambda>rt. ex_dyn) [] ?ra ''id'' [ex_finished] ex_store newResponse"
  note client = dynamicClientFor_def DynamicClientForRequest_def DynamicClient_def TransportForRequest_def RequestAuth_TransportFor_def NewSessionAuth_def transport_at_def
    transportFor_def dropSupersededTransportsLocked_def transportUpstream_def TransportFor_def ex_simps kind_defs
  have ok: "respStatus (snd (snd ?C)) = StatusAccepted"
    by (simp add: CreateTraceflowRequest_def client CreateRequest_def createTraceflow_def ex_dyn_def ex_tfs_simps)
  have name: "GetName ex_finished = ''id''" and fin: "finished_phase ex_finished"
    by (simp_all add: ex_finished_def GetName_def NestedString_def finished_phase_def)
  have "getTraceflow ex_dyn ''id'' [ex_finished] = Inr (ex_finished, True)"
    by (simp add: getTraceflow_def ex_dyn_def ex_tfs_simps name) (simp add: ex_finished_def NestedString_def)
  then have G: "fst ?G = Inr (ex_finished, True)" by (simp add: traceflow_get_def client GetRequestResult_def)
  obtain k' st' w' where C: "?C = (k', st', w')" by (metis surj_pair)
  obtain res st3 w3 where G': "?G = (res, st3, w3)" by (metis surj_pair)
  obtain st1 w1 where S: "GetTraceflowRequestStatus (\<lambda>c k. None) (\<lambda>rt. None) ?f (\<lambda>rt. ex_dyn) ?ra ''id'' [ex_finished] ex_store newResponse = (st1, w1)"
    by fastforce
  obtain st2 w2 where R: "GetTraceflowRequestResult (\<lambda>j. Inr ((\<lambda>j. []) j)) (\<lambda>c k. None) (\<lambda>rt. None) ?f (\<lambda>rt. ex_dyn) ?ra ''id'' [ex_finished] ex_store newResponse = (st2, w2)"
    by fastforce
  note P = traceflow_protocol [OF ex_dyn_laws C S R G']
  have "ex_tfs k' ''id'' \<noteq> None" using P [THEN conjunct1] ok C by auto
  moreover have "respStatus w1 = StatusFound" using P [THEN conjunct2] G G' fin by simp
  ultimately show ?thesis using C S by simp
qed

end
