(* ===== verification/Antrea_Service.thy ===== *)
theory Antrea_Service
  imports Api_Server Rate_Limit
begin

text \<open>
  The client of the Antrea Service: \<open>pkg/handlers/antreasvc/client.go\<close>, which rebuilds the client
  factory whenever the CA bundle changes and numbers the versions, and
  \<open>pkg/handlers/antreasvc/handler.go\<close>, which forwards a request with the credential of the caller.
  The token file, the CA bundle, client-go's transports, the port forwarder and the service itself
  are parameters.
\<close>

section \<open>The client factory\<close>

record rest_config =
  rcBearerToken :: string
  rcBearerTokenFile :: string
  rcCAData :: string
  rcServerName :: string
  rcHost :: string

record antreaClientFactoryProvider =
  pvConfig :: "rest_config option"
  pvServerName :: string
  pvFactory :: "ClientFactory option"
  pvGeneration :: int

definition newAntreaClientProvider :: "rest_config option \<Rightarrow> string \<Rightarrow> antreaClientFactoryProvider" where
  "newAntreaClientProvider config serverName =
     \<lparr>pvConfig = config, pvServerName = serverName, pvFactory = None, pvGeneration = 0\<rparr>"

definition GetClientFactory :: "antreaClientFactoryProvider \<Rightarrow> string + ClientFactory \<times> int" where
  "GetClientFactory p =
     (case pvFactory p of
        None \<Rightarrow> Inl ''Antrea client is not ready''
      | Some f \<Rightarrow> Inr (f, pvGeneration p))"

definition transportKey :: "int \<Rightarrow> string" where
  "transportKey generation = ''antreasvc/'' @ dec_int generation"

definition tokenFile :: string where
  "tokenFile = ''/var/run/secrets/kubernetes.io/serviceaccount/token''"

definition inClusterConfig :: "(string + string) \<Rightarrow> string + rest_config" where
  "inClusterConfig readFile =
     (case readFile of
        Inl err \<Rightarrow> Inl err
      | Inr token \<Rightarrow>
          Inr \<lparr>rcBearerToken = token, rcBearerTokenFile = tokenFile, rcCAData = [], rcServerName = [], rcHost = []\<rparr>)"

text \<open>
  \<open>readFile\<close> is the content of the token file, \<open>saErr\<close> and \<open>anonErr\<close> the errors of building the
  transports of a configuration, \<open>conn\<close> the name under which a factory knows a configuration.
\<close>

definition updateClientFactory ::
  "(string + string) \<Rightarrow> (rest_config \<Rightarrow> string option) \<Rightarrow> (rest_config \<Rightarrow> string option) \<Rightarrow> (rest_config \<Rightarrow> string) \<Rightarrow>
   string option \<Rightarrow> antreaClientFactoryProvider \<Rightarrow> string option \<times> antreaClientFactoryProvider" where
  "updateClientFactory readFile saErr anonErr conn caBundle p =
     (case caBundle of
        None \<Rightarrow> (None, p)
      | Some ca \<Rightarrow>
          (case (case pvConfig p of Some config \<Rightarrow> Inr config | None \<Rightarrow> inClusterConfig readFile) of
             Inl err \<Rightarrow> (Some err, p)
           | Inr kubeConfig \<Rightarrow>
               (let kubeConfig = kubeConfig\<lparr>rcCAData := ca, rcServerName := pvServerName p\<rparr>
                in case saErr kubeConfig of
                     Some err \<Rightarrow> (Some err, p)
                   | None \<Rightarrow>
                       (let generation = pvGeneration p + 1
                        in case NewClientFactory (anonErr kubeConfig) (conn kubeConfig) (transportKey generation) of
                             Inl err \<Rightarrow> (Some err, p)
                           | Inr f \<Rightarrow> (None, p\<lparr>pvFactory := Some f, pvGeneration := generation\<rparr>)))))"

text \<open>\<open>RunOnce\<close> reports the error of an update, \<open>Enqueue\<close>, which the CA watch calls, logs it.\<close>

definition RunOnce ::
  "(string + string) \<Rightarrow> (rest_config \<Rightarrow> string option) \<Rightarrow> (rest_config \<Rightarrow> string option) \<Rightarrow> (rest_config \<Rightarrow> string) \<Rightarrow>
   string option \<Rightarrow> antreaClientFactoryProvider \<Rightarrow> string option \<times> antreaClientFactoryProvider" where
  "RunOnce readFile saErr anonErr conn caBundle p = updateClientFactory readFile saErr anonErr conn caBundle p"

definition Enqueue ::
  "(string + string) \<Rightarrow> (rest_config \<Rightarrow> string option) \<Rightarrow> (rest_config \<Rightarrow> string option) \<Rightarrow> (rest_config \<Rightarrow> string) \<Rightarrow>
   string option \<Rightarrow> antreaClientFactoryProvider \<Rightarrow> (string \<times> string) list \<times> antreaClientFactoryProvider" where
  "Enqueue readFile saErr anonErr conn caBundle p =
     (case updateClientFactory readFile saErr anonErr conn caBundle p of
        (Some err, p) \<Rightarrow> ([(err, ''Failed to update Antrea client factory'')], p)
      | (None, p) \<Rightarrow> ([], p))"

section \<open>The handler\<close>

definition antreaSvcName :: string where "antreaSvcName = ''antrea''"

record antreasvc_handler =
  ahNamespace :: string
  ahHost :: string
  ahProvider :: antreaClientFactoryProvider
  ahPortForwardingNeeded :: bool

definition NewAntreaHandler ::
  "bool \<Rightarrow> string option \<Rightarrow> rest_config \<Rightarrow> string \<Rightarrow> string + antreasvc_handler" where
  "NewAntreaHandler inPod kubeErr config antreaNamespace =
     (let antreaSvcAddr = antreaSvcName @ ''.'' @ antreaNamespace @ ''.svc'';
          host = (if inPod then antreaSvcAddr else []);
          antreaSvcConfig = (if inPod then None else Some config)
      in case kubeErr of
           Some err \<Rightarrow> Inl err
         | None \<Rightarrow>
             Inr \<lparr>ahNamespace = antreaNamespace, ahHost = host,
               ahProvider = newAntreaClientProvider antreaSvcConfig antreaSvcAddr, ahPortForwardingNeeded = \<not> inPod\<rparr>)"

definition setHost :: "string \<Rightarrow> antreasvc_handler \<Rightarrow> antreasvc_handler" where
  "setHost host h = h\<lparr>ahHost := host\<rparr>"

definition getHost :: "antreasvc_handler \<Rightarrow> string + string" where
  "getHost h = (if ahHost h = [] then Inl ''not ready'' else Inr (ahHost h))"

text \<open>
  One round of port forwarding, as the hosts it sets in order: the ports the forwarder reports, then
  none. \<open>pods\<close> are the Pods of the Service, each with the ports of its containers; indexing beyond
  them panics (\<open>None\<close>).
\<close>

definition forward_round ::
  "string option \<Rightarrow> (string + int list list list) \<Rightarrow> (int \<Rightarrow> string + int list) \<Rightarrow> string list option" where
  "forward_round svcErr pods forward =
     (case svcErr of
        Some err \<Rightarrow> Some []
      | None \<Rightarrow>
          (case pods of
             Inl err \<Rightarrow> Some []
           | Inr [] \<Rightarrow> Some []
           | Inr (pod # _) \<Rightarrow>
               (case pod of
                  (apiPort # _) # _ \<Rightarrow>
                    (case forward apiPort of
                       Inl err \<Rightarrow> Some []
                     | Inr ports \<Rightarrow> Some (map (\<lambda>port. ''localhost:'' @ dec_int port) ports @ [[]]))
                | _ \<Rightarrow> None)))"

record antrea_request =
  arMethod :: string
  arURL :: target_url
  arBody :: string

text \<open>\<open>newErr\<close> is the error of building a request, \<open>send\<close> what comes back through a transport: a status,
  a body and the error of reading it.\<close>

definition Antrea_Request ::
  "(string \<Rightarrow> string \<Rightarrow> string option) \<Rightarrow> (antrea_request \<Rightarrow> string option) \<Rightarrow>
   (RoundTripper \<Rightarrow> antrea_request \<Rightarrow> string + int \<times> string \<times> string option) \<Rightarrow> antreasvc_handler \<Rightarrow> RequestAuth option \<Rightarrow>
   string \<Rightarrow> string \<Rightarrow> string \<Rightarrow> store \<Rightarrow> (string \<times> int \<times> string option) \<times> store" where
  "Antrea_Request tls newErr send h ra method path body st =
     (case getHost h of
        Inl err \<Rightarrow> (([], 0, Some err), st)
      | Inr host \<Rightarrow>
          (case GetClientFactory (ahProvider h) of
             Inl err \<Rightarrow> (([], 0, Some err), st)
           | Inr (factory, generation) \<Rightarrow>
               (case ra of
                  None \<Rightarrow> (([], 0, Some ''request is not authenticated''), st)
                | Some ra \<Rightarrow>
                    (case RequestAuth_TransportFor (transportKey generation) (Some (TransportFor tls factory)) ra st of
                       (Inl err, st) \<Rightarrow> (([], 0, Some err), st)
                     | (Inr rt, st) \<Rightarrow>
                         (let req = \<lparr>arMethod = method, arURL = \<lparr>tuScheme = ''https'', tuHost = host, tuPath = path\<rparr>, arBody = body\<rparr>
                          in case newErr req of
                               Some err \<Rightarrow> (([], 0, Some err), st)
                             | None \<Rightarrow>
                                 (case send rt req of
                                    Inl err \<Rightarrow> (([], 0, Some err), st)
                                  | Inr (statusCode, respData, err) \<Rightarrow>
                                      (let st = (if statusCode = StatusUnauthorized then Invalidate ra st else st)
                                       in ((respData, statusCode, err), st))))))))"

text \<open>The feature gates of the Antrea Service, asked for as the caller.\<close>

definition feature_gates ::
  "(string \<Rightarrow> string \<Rightarrow> string option) \<Rightarrow> (antrea_request \<Rightarrow> string option) \<Rightarrow>
   (RoundTripper \<Rightarrow> antrea_request \<Rightarrow> string + int \<times> string \<times> string option) \<Rightarrow> (string \<Rightarrow> bool) \<Rightarrow> antreasvc_handler \<Rightarrow>
   RequestAuth option \<Rightarrow> store \<Rightarrow> Response \<Rightarrow> Response \<times> store" where
  "feature_gates tls newErr send valid h ra st w =
     (case Antrea_Request tls newErr send h ra ''GET'' ''/featuregates'' [] st of
        ((b, statusCode, err), st) \<Rightarrow>
          (GetFeatureGates (case err of Some e \<Rightarrow> Inl e | None \<Rightarrow> Inr (b, statusCode)) valid w, st))"

end
