(* ===== verification/Antrea_Properties.thy ===== *)
theory Antrea_Properties
  imports Antrea_Service Store_Properties
begin

text \<open>
  Properties of the client of the Antrea Service: a request is sent as the caller, a rotated CA
  bundle takes effect at the next request of every session, and only a 401 ends a session.
\<close>

section \<open>Generations\<close>

lemma dec_nat_inject [simp]: "dec_nat m = dec_nat n \<longleftrightarrow> m = n"
  by (metis decimal_dec_nat)

lemma dec_nat_no_sign: "dec_nat n \<noteq> CHR ''-'' # s"
  using dec_nat_digits [of n] by (auto simp: is_digit_def)

lemma dec_int_inject [simp]: "dec_int i = dec_int j \<longleftrightarrow> i = j"
  using dec_nat_no_sign dec_nat_no_sign [symmetric] by (auto simp: dec_int_def)

lemma transportKey_inject [simp]: "transportKey i = transportKey j \<longleftrightarrow> i = j"
  by (simp add: transportKey_def)

lemma transportKey_upstream [simp]: "transportUpstream (transportKey i) = (''antreasvc'', True)"
  using transportUpstream_versioned [of "''antreasvc''" "dec_int i"] by (simp add: transportKey_def)

text \<open>The generations of the Antrea Service transports a session has cached are at most \<open>n\<close>.\<close>

definition gens_le :: "int \<Rightarrow> Session \<Rightarrow> bool" where
  "gens_le n s \<longleftrightarrow>
     (\<forall>(k, c) \<in> set (sTransports s). fst (transportUpstream k) = ''antreasvc'' \<longrightarrow> (\<exists>g \<le> n. k = transportKey g))"

text \<open>The connection a transport uses.\<close>

fun rt_upstream :: "RoundTripper \<Rightarrow> string" where
  "rt_upstream (AnonymousTransport u) = u"
| "rt_upstream (ServiceAccountTransport u) = u"
| "rt_upstream (BearerAuthRoundTripper t rt) = rt_upstream rt"
| "rt_upstream (ClientCertTransport u c k) = u"
| "rt_upstream (ImpersonatingRoundTripper u rt) = rt_upstream rt"

lemma TransportFor_upstream: "TransportFor tls f m c = Inr (rt, cl) \<Longrightarrow> rt_upstream rt = cfUpstream f"
  by (auto simp: TransportFor_def Let_def split: if_splits option.splits)

lemma transportFor_fresh:
  assumes "map_of (sTransports s) key = None" and "transportFor m key build s log = (Inr rt, s', log')"
    and "snd (transportUpstream key)"
  shows "\<exists>cl. build m (sCredential s) = Inr (rt, cl) \<and>
    sTransports s' = AList.update key \<lparr>ctRt = rt, ctCleanup = cl\<rparr> (filter (\<lambda>(k, c). \<not> superseded key k) (sTransports s)) \<and>
    log' = log @ cleanups_of (filter (\<lambda>(k, c). superseded key k) (sTransports s))"
  using assms by (auto simp: transportFor_def dropSupersededTransportsLocked_def split: sum.splits)

lemma update_mem: "(k, c) \<in> set (AList.update key v xs) \<Longrightarrow> (k, c) = (key, v) \<or> (k, c) \<in> set xs"
  by (induction xs) (auto split: if_splits)

lemma fresh_generation:
  assumes g: "gens_le n s" and t: "transportFor m (transportKey (n + 1)) build s log = (Inr rt, s', log')"
  shows "\<exists>cl. build m (sCredential s) = Inr (rt, cl) \<and>
    (\<forall>(k, c) \<in> set (sTransports s'). fst (transportUpstream k) = ''antreasvc'' \<longrightarrow> k = transportKey (n + 1)) \<and>
    log' = log @ cleanups_of (filter (\<lambda>(k, c). fst (transportUpstream k) = ''antreasvc'') (sTransports s))"
proof -
  have old: "k \<noteq> transportKey (n + 1) \<and> snd (transportUpstream k)"
    if "(k, c) \<in> set (sTransports s)" "fst (transportUpstream k) = ''antreasvc''" for k c
    using g that unfolding gens_le_def by fastforce
  have none: "map_of (sTransports s) (transportKey (n + 1)) = None"
  proof (rule ccontr)
    assume "map_of (sTransports s) (transportKey (n + 1)) \<noteq> None"
    then obtain c where "(transportKey (n + 1), c) \<in> set (sTransports s)" by (auto dest: map_of_SomeD)
    from old [OF this] show False by simp
  qed
  have sup: "superseded (transportKey (n + 1)) k \<longleftrightarrow> fst (transportUpstream k) = ''antreasvc''"
    if "(k, c) \<in> set (sTransports s)" for k c
    using old [OF that] by (auto simp: superseded_def)
  have "filter (\<lambda>(k, c). superseded (transportKey (n + 1)) k) (sTransports s) =
      filter (\<lambda>(k, c). fst (transportUpstream k) = ''antreasvc'') (sTransports s)"
    by (rule filter_cong [OF refl]) (auto simp: sup)
  moreover obtain cl where "build m (sCredential s) = Inr (rt, cl)"
    "sTransports s' = AList.update (transportKey (n + 1)) \<lparr>ctRt = rt, ctCleanup = cl\<rparr>
      (filter (\<lambda>(k, c). \<not> superseded (transportKey (n + 1)) k) (sTransports s))"
    "log' = log @ cleanups_of (filter (\<lambda>(k, c). superseded (transportKey (n + 1)) k) (sTransports s))"
    using transportFor_fresh [OF none t] by auto
  ultimately show ?thesis by (auto dest!: update_mem simp: sup)
qed

text \<open>
  C35: a rotated CA bundle takes effect at once. After a successful update with a new bundle, the
  first request of any session goes through a transport that is built on the connection of the
  new bundle, even though the session has transports of older bundles cached; these are dropped and
  their connections closed, and the session has only transports of the new bundle to the Antrea
  Service.
\<close>

theorem ca_rotation_effective:
  assumes "updateClientFactory readFile saErr anonErr conn (Some ca) p = (None, p')"
    and "gens_le (pvGeneration p) (sess st r)" and "r < length (heap st)"
    and "pvFactory p' = Some f"
    and "RequestAuth_TransportFor (transportKey (pvGeneration p')) (Some (TransportFor tls f)) (NewSessionAuth st r) st = (Inr rt, st')"
  shows "(\<exists>cfg. rcCAData cfg = ca \<and> rcServerName cfg = pvServerName p \<and> rt_upstream rt = conn cfg) \<and>
    presents rt = cred_identity (mem st) (sCredential (sess st r)) \<and>
    gens_le (pvGeneration p') (sess st' r) \<and>
    (\<forall>(k, c) \<in> set (sTransports (sess st' r)). fst (transportUpstream k) = ''antreasvc'' \<longrightarrow> k = transportKey (pvGeneration p')) \<and>
    closed st' = closed st @ cleanups_of (filter (\<lambda>(k, c). fst (transportUpstream k) = ''antreasvc'') (sTransports (sess st r)))"
proof -
  obtain cfg where p': "pvGeneration p' = pvGeneration p + 1" "cfUpstream f = conn cfg" "rcCAData cfg = ca" "rcServerName cfg = pvServerName p"
    using assms(1,4)
    by (auto simp: updateClientFactory_def Let_def NewClientFactory_def split: sum.splits option.splits)
  obtain s' log' where t: "transportFor (mem st) (transportKey (pvGeneration p + 1)) (TransportFor tls f) (sess st r) (closed st) = (Inr rt, s', log')"
    and st': "st' = st\<lparr>heap := (heap st)[r := s'], closed := log'\<rparr>"
    using assms(5) by (auto simp: RequestAuth_TransportFor_def NewSessionAuth_def transport_at_def p'(1) split: prod.splits)
  obtain cl where b: "TransportFor tls f (mem st) (sCredential (sess st r)) = Inr (rt, cl)"
    and only: "\<forall>(k, c) \<in> set (sTransports s'). fst (transportUpstream k) = ''antreasvc'' \<longrightarrow> k = transportKey (pvGeneration p + 1)"
    and log': "log' = closed st @ cleanups_of (filter (\<lambda>(k, c). fst (transportUpstream k) = ''antreasvc'') (sTransports (sess st r)))"
    using fresh_generation [OF assms(2) t] by blast
  have s': "sess st' r = s'" using assms(3) by (simp add: st')
  have "gens_le (pvGeneration p') s'" unfolding gens_le_def p'(1) using only by fastforce
  then show ?thesis
    using TransportFor_upstream [OF b] TransportFor_presents [OF b] p' only log' s' by (auto simp: st')
qed

text \<open>Every session starts without transports, and a request at the current generation keeps the bound.\<close>

lemma gens_le_new: "gens_le n (newSession o' sid now spec)"
  by (simp add: gens_le_def newSession_def)

lemma gens_le_transportFor:
  assumes "gens_le n s" and "transportFor m key build s log = (res, s', log')"
    and "fst (transportUpstream key) = ''antreasvc'' \<longrightarrow> (\<exists>g \<le> n. key = transportKey g)"
  shows "gens_le n s'"
proof -
  have "(k, c) \<in> set (sTransports s') \<Longrightarrow> k = key \<or> (k, c) \<in> set (sTransports s)" for k c
    using assms(2)
    by (auto simp: transportFor_def dropSupersededTransportsLocked_def split: option.splits sum.splits if_splits dest!: update_mem)
  then show ?thesis using assms(1,3) unfolding gens_le_def by fastforce
qed

definition ex_provider :: antreaClientFactoryProvider where
  "ex_provider = newAntreaClientProvider None ''antrea.kube-system.svc''"

definition ex_provider' :: antreaClientFactoryProvider where
  "ex_provider' = ex_provider\<lparr>pvFactory := Some \<lparr>cfUpstream = ''ca1'', cfTransportKey = transportKey 1\<rparr>, pvGeneration := 1\<rparr>"

lemma ex_provider_update: "updateClientFactory (Inr ''tok'') (\<lambda>_. None) (\<lambda>_. None) rcCAData (Some ''ca1'') ex_provider = (None, ex_provider')"
  by (simp add: updateClientFactory_def ex_provider_def ex_provider'_def newAntreaClientProvider_def inClusterConfig_def Let_def
      NewClientFactory_def)

theorem ca_rotation_effective_witness:
  "rt_upstream (BearerAuthRoundTripper ''t0'' (AnonymousTransport ''ca1'')) = ''ca1'' \<and>
   gens_le 1 (sess (snd (RequestAuth_TransportFor (transportKey 1) (Some (TransportFor (\<lambda>c k. None) \<lparr>cfUpstream = ''ca1'', cfTransportKey = transportKey 1\<rparr>))
     (NewSessionAuth ex_store 0) ex_store)) 0)"
proof -
  let ?R = "RequestAuth_TransportFor (transportKey 1) (Some (TransportFor (\<lambda>c k. None) \<lparr>cfUpstream = ''ca1'', cfTransportKey = transportKey 1\<rparr>))
     (NewSessionAuth ex_store 0) ex_store"
  have "fst ?R = Inr (BearerAuthRoundTripper ''t0'' (AnonymousTransport ''ca1''))"
    by (simp add: RequestAuth_TransportFor_def NewSessionAuth_def transport_at_def transportFor_def dropSupersededTransportsLocked_def
        TransportFor_def slice_get_def ex_simps kind_defs)
  moreover have "gens_le 0 (sess ex_store 0)" by (simp add: gens_le_def ex_simps)
  ultimately show ?thesis
    using ca_rotation_effective [OF ex_provider_update, of ex_store 0, where rt = "BearerAuthRoundTripper ''t0'' (AnonymousTransport ''ca1'')"
        and st' = "snd ?R" and tls = "\<lambda>c k. None"]
    by (simp add: ex_provider'_def ex_provider_def newAntreaClientProvider_def prod_eq_iff ex_store_def)
qed

section \<open>Requests\<close>

lemma Antrea_Request_not_ready:
  assumes "ahHost h = [] \<or> pvFactory (ahProvider h) = None"
  shows "\<exists>e. Antrea_Request tls newErr send h ra method path body st = (([], 0, Some e), st)"
  using assms
  by (cases "ahHost h = []") (simp_all add: Antrea_Request_def getHost_def GetClientFactory_def)

lemma Antrea_Request_ready:
  assumes "ahHost h \<noteq> []" and "pvFactory (ahProvider h) = Some f"
    and "RequestAuth_TransportFor (transportKey (pvGeneration (ahProvider h))) (Some (TransportFor tls f)) ra st = (res, st1)"
    and "req = \<lparr>arMethod = method, arURL = \<lparr>tuScheme = ''https'', tuHost = ahHost h, tuPath = path\<rparr>, arBody = body\<rparr>"
  shows "Antrea_Request tls newErr send h (Some ra) method path body st =
    (case res of
       Inl e \<Rightarrow> (([], 0, Some e), st1)
     | Inr rt \<Rightarrow>
         (case newErr req of
            Some e \<Rightarrow> (([], 0, Some e), st1)
          | None \<Rightarrow>
              (case send rt req of
                 Inl e \<Rightarrow> (([], 0, Some e), st1)
               | Inr (code, b, err) \<Rightarrow> ((b, code, err), if code = StatusUnauthorized then Invalidate ra st1 else st1))))"
  using assms
  by (cases res; simp add: Antrea_Request_def getHost_def GetClientFactory_def Let_def split: option.split sum.split)

text \<open>
  C36: a request to the Antrea Service is sent as the caller or not at all. Either it fails with an
  error, nothing was sent and no session changes; or it was sent to the configured host over https,
  through a transport with the current connection that presents the identity of the session, and the
  session is ended exactly if the answer was a 401.
\<close>

theorem antrea_request_as_user:
  assumes inv: "store_inv st" and r: "lookup st sid = Some r"
    and cache: "cache_ok (\<lambda>k. TransportFor tls (F k)) (mem st) (sess st r)"
    and F: "\<And>f. pvFactory (ahProvider h) = Some f \<Longrightarrow> F (transportKey (pvGeneration (ahProvider h))) = f"
    and R: "Antrea_Request tls newErr send h (Some (NewSessionAuth st r)) method path body st = ((b, code, err), st')"
  shows "(err \<noteq> None \<and> code = 0 \<and> abs st' = abs st) \<or>
    (\<exists>f rt req. pvFactory (ahProvider h) = Some f \<and> rt_upstream rt = cfUpstream f \<and>
       presents rt = cred_identity (mem st) (sCredential (sess st r)) \<and>
       arURL req = \<lparr>tuScheme = ''https'', tuHost = ahHost h, tuPath = path\<rparr> \<and> ahHost h \<noteq> [] \<and>
       send rt req = Inr (code, b, err) \<and>
       abs st' = (if code = StatusUnauthorized then (abs st)(sid := None) else abs st))"
proof (cases "ahHost h = [] \<or> pvFactory (ahProvider h) = None")
  case True
  then obtain e where "Antrea_Request tls newErr send h (Some (NewSessionAuth st r)) method path body st = (([], 0, Some e), st)"
    using Antrea_Request_not_ready by blast
  with R show ?thesis by auto
next
  case False
  then obtain f where f: "pvFactory (ahProvider h) = Some f" and host: "ahHost h \<noteq> []" by blast
  let ?key = "transportKey (pvGeneration (ahProvider h))"
  let ?req = "\<lparr>arMethod = method, arURL = \<lparr>tuScheme = ''https'', tuHost = ahHost h, tuPath = path\<rparr>, arBody = body\<rparr>"
  define st1 where "st1 = snd (transport_at r ?key (TransportFor tls f) st)"
  define res where "res = fst (transport_at r ?key (TransportFor tls f) st)"
  have T: "RequestAuth_TransportFor ?key (Some (TransportFor tls f)) (NewSessionAuth st r) st = (res, st1)"
    by (simp add: RequestAuth_TransportFor_def NewSessionAuth_def st1_def res_def)
  note R' = R [unfolded Antrea_Request_ready [OF host f T refl]]
  have live: "r \<in> live st" using r by (auto simp: live_def lookup_def dest: map_of_SomeD intro!: image_eqI)
  have abs1: "abs st1 = abs st" by (simp add: st1_def abs_transport_at)
  have inv1: "store_inv st1" unfolding st1_def by (rule transport_at_inv [OF inv live])
  have "sId (sess st1 r) = sid"
    using lookup_id [OF store_invD(2) [OF inv] r] by (simp add: st1_def transport_at_fields)
  then have del: "abs (Invalidate (NewSessionAuth st r) st1) = (abs st)(sid := None)"
    using Invalidate_session(2) [OF inv1] abs1 by simp
  show ?thesis
  proof (cases "\<exists>rt. res = Inr rt \<and> newErr ?req = None \<and> (\<exists>x. send rt ?req = Inr x)")
    case True
    then obtain rt x where rt: "res = Inr rt" "newErr ?req = None" "send rt ?req = Inr x" by blast
    obtain s' log' where "transportFor (mem st) ?key (TransportFor tls (F ?key)) (sess st r) (closed st) = (Inr rt, s', log')"
      using rt(1) F [OF f] by (auto simp: res_def transport_at_def split: prod.splits)
    then obtain cl where "TransportFor tls f (mem st) (sCredential (sess st r)) = Inr (rt, cl)"
      using transportFor_current [OF cache] F [OF f] by metis
    moreover have "x = (code, b, err)" "st' = (if code = StatusUnauthorized then Invalidate (NewSessionAuth st r) st1 else st1)"
      using R' rt by (auto split: prod.splits)
    ultimately show ?thesis
      using TransportFor_upstream TransportFor_presents rt(3) f host del abs1 by (intro disjI2 exI [of _ f] exI [of _ rt] exI [of _ ?req]) auto
  next
    case False
    then have "err \<noteq> None \<and> code = 0 \<and> st' = st1"
      using R' by (cases "newErr ?req") (auto split: sum.splits dest: sym)
    then show ?thesis using abs1 by simp
  qed
qed

definition ex_handler :: antreasvc_handler where
  "ex_handler = \<lparr>ahNamespace = ''kube-system'', ahHost = ''antrea.kube-system.svc'', ahProvider = ex_provider', ahPortForwardingNeeded = False\<rparr>"

theorem antrea_request_as_user_witness:
  "abs (snd (Antrea_Request (\<lambda>c k. None) (\<lambda>_. None) (\<lambda>_ _. Inr (401, [], None)) ex_handler (Some (NewSessionAuth ex_store 0)) ''GET'' ''/x'' [] ex_store)) ''a'' = None"
proof -
  let ?F = "\<lambda>k. \<lparr>cfUpstream = ''ca1'', cfTransportKey = transportKey 1\<rparr>"
  have R: "fst (Antrea_Request (\<lambda>c k. None) (\<lambda>_. None) (\<lambda>_ _. Inr (401, [], None)) ex_handler (Some (NewSessionAuth ex_store 0)) ''GET'' ''/x'' [] ex_store) =
      ([], 401, None)"
    by (simp add: Antrea_Request_def getHost_def GetClientFactory_def ex_handler_def ex_provider'_def Let_def
        RequestAuth_TransportFor_def NewSessionAuth_def transport_at_def transportFor_def dropSupersededTransportsLocked_def
        TransportFor_def slice_get_def ex_simps kind_defs)
  have "cache_ok (\<lambda>k. TransportFor (\<lambda>c k. None) (?F k)) (mem ex_store) (sess ex_store 0)"
    by (rule cache_ok_empty) (simp add: ex_simps)
  moreover have "lookup ex_store ''a'' = Some 0" by (simp add: lookup_def ex_store_def)
  moreover have "pvFactory (ahProvider ex_handler) = Some f \<Longrightarrow> ?F (transportKey (pvGeneration (ahProvider ex_handler))) = f" for f
    by (simp add: ex_handler_def ex_provider'_def)
  ultimately show ?thesis
    using antrea_request_as_user [OF ex_store_inv, of "''a''" 0 "\<lambda>c k. None" ?F ex_handler] R by (fastforce simp: prod_eq_iff)
qed

end
