(* ===== verification/Port_Forwarder.thy ===== *)
theory Port_Forwarder
  imports Antrea_Service
begin

text \<open>
  The port forwarder of \<open>pkg/utils/portforwarder/portforwarder.go\<close> and its two callers: \<open>Start\<close>, and
  the loop of \<open>requestsHandler.Run\<close> in \<open>pkg/handlers/antreasvc/handler.go\<close>. Three goroutines run
  together: the one in client-go's \<open>ForwardPorts\<close>, the one in \<open>Run\<close>, and the caller. They meet on
  unbuffered channels, so a send and its receive are one step. client-go is the environment: when it
  is ready, which ports it then reports, and what \<open>ForwardPorts\<close> returns are part of the steps.
\<close>

section \<open>The forwarder\<close>

datatype chan = NilChan | OpenChan | ClosedChan

record PortForwarder =
  pfNamespace :: string
  pfName :: string
  pfTargetPort :: int
  pfListenAddress :: string
  pfListenPort :: int
  pfStopCh :: chan

text \<open>\<open>kubeErr\<close> is the error of \<open>kubernetes.NewForConfig\<close>.\<close>

definition NewPortForwarder ::
  "string option \<Rightarrow> string \<Rightarrow> string \<Rightarrow> int \<Rightarrow> string \<Rightarrow> int \<Rightarrow> PortForwarder \<times> string option" where
  "NewPortForwarder kubeErr namespace name targetPort listenAddress listenPort =
     (\<lparr>pfNamespace = namespace, pfName = name, pfTargetPort = targetPort, pfListenAddress = listenAddress,
        pfListenPort = listenPort, pfStopCh = NilChan\<rparr>,
      map_option (\<lambda>err. ''failed to create Kubernetes client: '' @ err) kubeErr)"

definition forward_ports :: "PortForwarder \<Rightarrow> string list" where
  "forward_ports p =
     (if pfListenPort p > 0 then [dec_int (pfListenPort p) @ '':'' @ dec_int (pfTargetPort p)]
      else ['':'' @ dec_int (pfTargetPort p)])"

text \<open>\<open>Stop\<close> closes the channel; Go panics on a nil and on a closed one.\<close>

fun Stop :: "chan \<Rightarrow> string + chan" where
  "Stop NilChan = Inl ''close of nil channel''"
| "Stop ClosedChan = Inl ''close of closed channel''"
| "Stop OpenChan = Inr ClosedChan"

text \<open>The text \<open>%w\<close> gives for an error.\<close>

definition wrap :: "string option \<Rightarrow> string" where
  "wrap e = (case e of None \<Rightarrow> ''%!w(<nil>)'' | Some err \<Rightarrow> err)"

section \<open>The goroutines\<close>

datatype run_pc = Select1 | SendPort int | Select2 | Returned "string option" | Panicked

datatype forward_pc = NotStarted | Forwarding | SendErr "string option" | FwdDone

datatype caller_pc =
    Ranging | SetHost int | LoopDone
  | Selecting | StartPort int | StartErr "string option"

fun in_loop :: "caller_pc \<Rightarrow> bool" where
  "in_loop Ranging = True"
| "in_loop (SetHost p) = True"
| "in_loop LoopDone = True"
| "in_loop _ = False"

text \<open>
  \<open>fgStop\<close> is the argument of \<open>Run\<close> and \<open>fgFwdStop\<close> the field \<open>stopCh\<close>, which \<open>Run\<close> hands to client-go;
  \<open>fgReady\<close> is the result of \<open>GetPorts\<close> once \<open>readyCh\<close> is closed; \<open>fgWrapDone\<close> says that the goroutine
  around \<open>Run\<close> has closed \<open>portCh\<close> (loop) or sent the result (\<open>Start\<close>); \<open>fgSent\<close> are the ports sent
  on \<open>portCh\<close>, \<open>fgHosts\<close> the arguments of the calls of \<open>setHost\<close>, oldest first.
\<close>

record forwarding =
  fgStop :: chan
  fgFwdStop :: chan
  fgReady :: "(string + int list) option"
  fgRun :: run_pc
  fgFwd :: forward_pc
  fgWrapDone :: bool
  fgCaller :: caller_pc
  fgSent :: "int list"
  fgHosts :: "string list"

text \<open>
  The part of \<open>Run\<close> before the goroutine: \<open>dialErr\<close> is the error of \<open>spdy.RoundTripperFor\<close>, \<open>newErr\<close>
  that of \<open>portforward.NewOnAddresses\<close> for the addresses and ports.
\<close>

definition Run_setup ::
  "string option \<Rightarrow> (string list \<Rightarrow> string list \<Rightarrow> string option) \<Rightarrow> PortForwarder \<Rightarrow> string option" where
  "Run_setup dialErr newErr p =
     (case dialErr of
        Some err \<Rightarrow> Some (''failed to create dialer: '' @ err)
      | None \<Rightarrow>
          (case newErr [pfListenAddress p] (forward_ports p) of
             Some err \<Rightarrow> Some (''port forward request failed: '' @ err)
           | None \<Rightarrow> None))"

definition begin_run ::
  "string option \<Rightarrow> (string list \<Rightarrow> string list \<Rightarrow> string option) \<Rightarrow> PortForwarder \<Rightarrow> caller_pc \<Rightarrow> forwarding" where
  "begin_run dialErr newErr p caller =
     (let e = Run_setup dialErr newErr p
      in \<lparr>fgStop = OpenChan, fgFwdStop = pfStopCh p, fgReady = None,
          fgRun = (if e = None then Select1 else Returned e), fgFwd = (if e = None then Forwarding else NotStarted),
          fgWrapDone = False, fgCaller = caller, fgSent = [], fgHosts = []\<rparr>)"

text \<open>A round of \<open>requestsHandler.Run\<close>, and \<open>Start\<close>, which makes the channel first.\<close>

definition begin_round ::
  "string option \<Rightarrow> (string list \<Rightarrow> string list \<Rightarrow> string option) \<Rightarrow> PortForwarder \<Rightarrow> forwarding" where
  "begin_round dialErr newErr p = begin_run dialErr newErr p Ranging"

definition Start ::
  "string option \<Rightarrow> (string list \<Rightarrow> string list \<Rightarrow> string option) \<Rightarrow> PortForwarder \<Rightarrow> forwarding" where
  "Start dialErr newErr p = begin_run dialErr newErr (p\<lparr>pfStopCh := OpenChan\<rparr>) Selecting"

text \<open>The first \<open>select\<close> of \<open>Run\<close> when \<open>readyCh\<close> is closed.\<close>

fun on_ready :: "string + int list \<Rightarrow> run_pc" where
  "on_ready (Inl err) = Returned (Some (''error when getting forwarded ports: '' @ err))"
| "on_ready (Inr []) = Panicked"
| "on_ready (Inr (port # _)) = SendPort port"

text \<open>The caller receives a port: the loop sets the host next, \<open>Start\<close> returns it.\<close>

fun receive_port :: "int \<Rightarrow> caller_pc \<Rightarrow> caller_pc option" where
  "receive_port p Ranging = Some (SetHost p)"
| "receive_port p Selecting = Some (StartPort p)"
| "receive_port p _ = None"

abbreviation localhost :: "int \<Rightarrow> string" where
  "localhost p \<equiv> ''localhost:'' @ dec_int p"

text \<open>\<open>returns\<close> are the results \<open>ForwardPorts\<close> may have while its stop channel is or is not closed.\<close>

inductive forward_step :: "(bool \<Rightarrow> string option \<Rightarrow> bool) \<Rightarrow> forwarding \<Rightarrow> forwarding \<Rightarrow> bool"
  for returns where
  fw_ready: "fgFwd s = Forwarding \<Longrightarrow> fgReady s = None \<Longrightarrow> forward_step returns s (s\<lparr>fgReady := Some ports\<rparr>)"
| fw_return: "fgFwd s = Forwarding \<Longrightarrow> returns (fgFwdStop s = ClosedChan) e \<Longrightarrow>
    forward_step returns s (s\<lparr>fgFwd := SendErr e\<rparr>)"
| run_err1: "fgRun s = Select1 \<Longrightarrow> fgFwd s = SendErr e \<Longrightarrow>
    forward_step returns s (s\<lparr>fgRun := Returned (Some (''port forward request failed: '' @ wrap e)), fgFwd := FwdDone\<rparr>)"
| run_ready: "fgRun s = Select1 \<Longrightarrow> fgReady s = Some ports \<Longrightarrow> forward_step returns s (s\<lparr>fgRun := on_ready ports\<rparr>)"
| run_stop1: "fgRun s = Select1 \<Longrightarrow> fgStop s = ClosedChan \<Longrightarrow> forward_step returns s (s\<lparr>fgRun := Returned None\<rparr>)"
| run_send: "fgRun s = SendPort p \<Longrightarrow> receive_port p (fgCaller s) = Some c \<Longrightarrow>
    forward_step returns s (s\<lparr>fgRun := Select2, fgCaller := c, fgSent := fgSent s @ [p]\<rparr>)"
| run_err2: "fgRun s = Select2 \<Longrightarrow> fgFwd s = SendErr e \<Longrightarrow>
    forward_step returns s (s\<lparr>fgRun := Returned e, fgFwd := FwdDone\<rparr>)"
| run_stop2: "fgRun s = Select2 \<Longrightarrow> fgStop s = ClosedChan \<Longrightarrow> forward_step returns s (s\<lparr>fgRun := Returned None\<rparr>)"
| loop_set: "fgCaller s = SetHost p \<Longrightarrow>
    forward_step returns s (s\<lparr>fgCaller := Ranging, fgHosts := fgHosts s @ [localhost p]\<rparr>)"
| loop_close: "in_loop (fgCaller s) \<Longrightarrow> fgRun s = Returned e \<Longrightarrow> \<not> fgWrapDone s \<Longrightarrow>
    forward_step returns s (s\<lparr>fgWrapDone := True\<rparr>)"
| loop_end: "fgCaller s = Ranging \<Longrightarrow> fgWrapDone s \<Longrightarrow>
    forward_step returns s (s\<lparr>fgCaller := LoopDone, fgHosts := fgHosts s @ [[]]\<rparr>)"
| loop_stop: "in_loop (fgCaller s) \<Longrightarrow> forward_step returns s (s\<lparr>fgStop := ClosedChan\<rparr>)"
| start_err: "fgCaller s = Selecting \<Longrightarrow> fgRun s = Returned e \<Longrightarrow> \<not> fgWrapDone s \<Longrightarrow>
    forward_step returns s (s\<lparr>fgCaller := StartErr e, fgWrapDone := True\<rparr>)"
| call_stop: "\<not> in_loop (fgCaller s) \<Longrightarrow> Stop (fgFwdStop s) = Inr c \<Longrightarrow> forward_step returns s (s\<lparr>fgFwdStop := c\<rparr>)"

abbreviation forward_steps :: "(bool \<Rightarrow> string option \<Rightarrow> bool) \<Rightarrow> forwarding \<Rightarrow> forwarding \<Rightarrow> bool" where
  "forward_steps returns \<equiv> (forward_step returns)\<^sup>*\<^sup>*"

inductive_cases forward_stepE: "forward_step returns s s'"

section \<open>Invariant\<close>

text \<open>The local port is known when client-go is ready.\<close>

definition listening :: "forwarding \<Rightarrow> int \<Rightarrow> bool" where
  "listening s p \<longleftrightarrow> (\<exists>ports. fgReady s = Some (Inr (p # ports)))"

definition run_inv :: "forwarding \<Rightarrow> bool" where
  "run_inv s \<longleftrightarrow>
     (\<forall>p. fgRun s = SendPort p \<longrightarrow> listening s p \<and> fgSent s = []) \<and>
     (fgRun s = Select1 \<longrightarrow> fgSent s = []) \<and> (fgRun s = Select2 \<longrightarrow> fgSent s \<noteq> []) \<and>
     (\<forall>p \<in> set (fgSent s). listening s p) \<and> length (fgSent s) \<le> 1 \<and>
     (fgWrapDone s \<longrightarrow> (\<exists>e. fgRun s = Returned e))"

definition caller_inv :: "forwarding \<Rightarrow> bool" where
  "caller_inv s \<longleftrightarrow>
     (case fgCaller s of
        Ranging \<Rightarrow> fgHosts s = map localhost (fgSent s)
      | SetHost p \<Rightarrow> fgSent s = [p] \<and> fgHosts s = []
      | LoopDone \<Rightarrow> fgHosts s = map localhost (fgSent s) @ [[]] \<and> fgWrapDone s
      | Selecting \<Rightarrow> fgSent s = [] \<and> fgHosts s = [] \<and> \<not> fgWrapDone s \<and> fgStop s = OpenChan \<and> fgRun s \<noteq> Returned None
      | StartPort p \<Rightarrow> fgSent s = [p] \<and> fgHosts s = [] \<and> \<not> fgWrapDone s
      | StartErr e \<Rightarrow> fgRun s = Returned e \<and> fgHosts s = [] \<and> e \<noteq> None)"

lemmas forward_inv_defs = run_inv_def caller_inv_def listening_def

lemma on_ready_cases:
  "on_ready ports = SendPort p \<longleftrightarrow> (\<exists>ps. ports = Inr (p # ps))" "on_ready ports \<noteq> Select1" "on_ready ports \<noteq> Select2"
  "on_ready ports \<noteq> Returned None"
  by (cases "ports" rule: on_ready.cases; auto)+

lemma receive_port_cases: "receive_port p c = Some c' \<longleftrightarrow> c = Ranging \<and> c' = SetHost p \<or> c = Selecting \<and> c' = StartPort p"
  by (cases c) auto

lemma begin_run_inv:
  "c = Ranging \<or> c = Selecting \<Longrightarrow> run_inv (begin_run dialErr newErr p c) \<and> caller_inv (begin_run dialErr newErr p c)"
  by (auto simp: begin_run_def Let_def forward_inv_defs)

lemma run_inv_step: "forward_step returns s s' \<Longrightarrow> run_inv s \<Longrightarrow> caller_inv s \<Longrightarrow> run_inv s'"
  by (erule forward_stepE)
    (auto simp: forward_inv_defs on_ready_cases receive_port_cases split: caller_pc.splits)

lemma caller_inv_step: "forward_step returns s s' \<Longrightarrow> run_inv s \<Longrightarrow> caller_inv s \<Longrightarrow> caller_inv s'"
  by (erule forward_stepE)
    (auto simp: forward_inv_defs on_ready_cases receive_port_cases split: caller_pc.splits)

text \<open>A run starts in a round or in \<open>Start\<close>.\<close>

definition forward_init :: "forwarding \<Rightarrow> bool" where
  "forward_init s \<longleftrightarrow> (\<exists>dialErr newErr p. s = begin_round dialErr newErr p \<or> s = Start dialErr newErr p)"

interpretation forward: invariant_system forward_init "forward_step returns" "\<lambda>s. run_inv s \<and> caller_inv s" for returns
proof
  fix s s'
  show "forward_init s \<Longrightarrow> run_inv s \<and> caller_inv s"
    by (auto simp: forward_init_def begin_round_def Start_def begin_run_inv)
  show "run_inv s \<and> caller_inv s \<Longrightarrow> forward_step returns s s' \<Longrightarrow> run_inv s' \<and> caller_inv s'"
    by (auto intro: run_inv_step caller_inv_step)
qed

section \<open>A round of the Antrea Service handler\<close>

lemma begin_round_invs:
  assumes "forward_steps returns (begin_round dialErr newErr pf) s"
  shows "run_inv s \<and> caller_inv s"
  by (rule forward.inv_reachable [OF _ assms]) (auto simp: forward_init_def)

lemma in_loop_steps: "forward_steps returns s s' \<Longrightarrow> in_loop (fgCaller s') \<longleftrightarrow> in_loop (fgCaller s)"
  by (induction rule: rtranclp_induct) (auto elim!: forward_stepE simp: receive_port_cases)

text \<open>A round that has run to its end has set the hosts \<^const>\<open>forward_round\<close> describes.\<close>

lemma round_refines:
  assumes "forward_steps returns (begin_round dialErr newErr pf) s" and "fgCaller s = LoopDone"
  shows "forward_round None (Inr (((apiPort # ps) # cs) # pods)) (\<lambda>_. Inr (fgSent s)) = Some (fgHosts s)"
  using begin_round_invs [OF assms(1)] assms(2) by (simp add: forward_round_def caller_inv_def)

text \<open>The host is one client-go listens on, or none.\<close>

lemma round_host:
  assumes "forward_steps returns (begin_round dialErr newErr pf) s" and "h \<in> set (fgHosts s)"
  shows "h = [] \<and> fgCaller s = LoopDone \<or> (\<exists>p. listening s p \<and> h = localhost p)"
  using begin_round_invs [OF assms(1)] assms(2) in_loop_steps [OF assms(1)]
  by (auto simp: run_inv_def caller_inv_def begin_round_def begin_run_def Let_def split: caller_pc.splits)

lemmas reach_here = reaches_here [where R = "forward_step returns" for returns]
lemmas reach_step = reaches_step [where R = "forward_step returns" for returns]

lemma closed_round_ends:
  assumes "fgWrapDone s" and "in_loop (fgCaller s)"
  shows "\<exists>s'. forward_steps returns s s' \<and> fgCaller s' = LoopDone"
proof (cases "fgCaller s")
  case Ranging
  show ?thesis by (rule reach_step [OF loop_end [OF Ranging assms(1)] reach_here]) simp
next
  case (SetHost p)
  show ?thesis
    by (rule reach_step [OF loop_set [OF SetHost] reach_step [OF loop_end reach_here]]) (use assms in simp_all)
qed (use assms in auto)

lemma returned_round_ends:
  assumes "fgRun s = Returned e" and "in_loop (fgCaller s)"
  shows "\<exists>s'. forward_steps returns s s' \<and> fgCaller s' = LoopDone"
proof (cases "fgWrapDone s")
  case False
  show ?thesis
    by (rule reach_step [OF loop_close [OF assms(2,1) False] closed_round_ends]) (use assms(2) in simp_all)
qed (rule closed_round_ends [OF _ assms(2)])

lemma stopped_run_returns:
  assumes stop: "fgStop s = ClosedChan" and "fgRun s \<noteq> Panicked" and inv: "run_inv s" "caller_inv s"
    and loop: "in_loop (fgCaller s)"
  shows "\<exists>s'. forward_steps returns s s' \<and> (\<exists>e. fgRun s' = Returned e)"
proof (cases "fgRun s")
  case Select1
  show ?thesis by (rule reach_step [OF run_stop1 [OF Select1 stop] reach_here]) simp
next
  case (SendPort p)
  then have "receive_port p (fgCaller s) = Some (SetHost p)"
    using inv loop by (auto simp: run_inv_def caller_inv_def split: caller_pc.splits)
  then show ?thesis
    by (rule reach_step [OF run_send [OF SendPort] reach_step [OF run_stop2 reach_here]]) (use stop in simp_all)
next
  case Select2
  show ?thesis by (rule reach_step [OF run_stop2 [OF Select2 stop] reach_here]) simp
next
  case (Returned e)
  show ?thesis by (rule reach_here) (simp add: Returned)
qed (use assms in simp)

lemma stopped_round_ends:
  assumes "forward_steps returns (begin_round dialErr newErr pf) s" and "fgStop s = ClosedChan" and "fgRun s \<noteq> Panicked"
  shows "\<exists>s'. forward_steps returns s s' \<and> fgCaller s' = LoopDone"
proof -
  have loop: "in_loop (fgCaller s)"
    using in_loop_steps [OF assms(1)] by (simp add: begin_round_def begin_run_def Let_def)
  then obtain s1 e where s1: "forward_steps returns s s1" "fgRun s1 = Returned e"
    using stopped_run_returns [OF assms(2,3)] begin_round_invs [OF assms(1)] by blast
  with loop have "in_loop (fgCaller s1)" by (simp add: in_loop_steps)
  with s1 show ?thesis using returned_round_ends by (blast intro: rtranclp_trans)
qed

section \<open>What stopping does not stop\<close>

text \<open>client-go forwards until its stop channel is closed, and a round never closes it.\<close>

lemma nil_channel_steps:
  "forward_steps returns s s' \<Longrightarrow> in_loop (fgCaller s) \<Longrightarrow> fgFwdStop s = NilChan \<Longrightarrow> fgFwdStop s' = NilChan"
  by (induction rule: rtranclp_induct) (auto elim!: forward_stepE)

lemma forwarding_kept:
  assumes "forward_steps returns s s'" and "in_loop (fgCaller s)" and "fgFwdStop s = NilChan" and "\<And>e. \<not> returns False e"
    and "fgFwd s = Forwarding"
  shows "fgFwd s' = Forwarding"
  using assms
proof (induction rule: rtranclp_induct)
  case (step y z)
  then have "fgFwdStop y = NilChan" by (simp add: nil_channel_steps)
  with step show ?case by (auto elim!: forward_stepE)
qed simp

text \<open>After \<open>Start\<close> has returned a port, the goroutine around \<open>Run\<close> never gets rid of its result.\<close>

lemma Start_goroutine_stuck:
  assumes "forward_steps returns s s'" and "fgCaller s = StartPort p" and "\<not> fgWrapDone s"
  shows "fgCaller s' = StartPort p \<and> \<not> fgWrapDone s'"
  using assms by (induction rule: rtranclp_induct) (auto elim!: forward_stepE)

text \<open>\<open>Start\<close> returns a port client-go listens on or a genuine error, never port 0 without one.\<close>

lemma Start_result:
  assumes "forward_steps returns (Start dialErr newErr pf) s"
  shows "(fgCaller s = StartPort p \<longrightarrow> listening s p) \<and> (fgCaller s = StartErr e \<longrightarrow> e \<noteq> None)"
proof -
  have "run_inv s \<and> caller_inv s"
    by (rule forward.inv_reachable [OF _ assms]) (auto simp: forward_init_def)
  then show ?thesis by (auto simp: run_inv_def caller_inv_def)
qed

text \<open>
  C37: Closing the stop channel of a round of port forwarding always lets the round end, with no
  host left; but the client-go forwarder is given the forwarder's own channel, which is nil, and not
  the one \<open>Run\<close> was called with: as long as client-go keeps forwarding until it is told to stop, it
  goes on forwarding for ever, whatever happens afterwards.
\<close>

theorem stopped_round_keeps_forwarding:
  assumes until_stopped: "\<And>e. \<not> returns False e" and "pfStopCh pf = NilChan" and "Run_setup dialErr newErr pf = None"
    and reach: "forward_steps returns (begin_round dialErr newErr pf) s"
  shows "fgFwd s = Forwarding \<and>
    (fgStop s = ClosedChan \<and> fgRun s \<noteq> Panicked \<longrightarrow>
      (\<exists>s'. forward_steps returns s s' \<and> fgCaller s' = LoopDone \<and> last (fgHosts s') = [] \<and> fgFwd s' = Forwarding))"
proof (intro conjI impI)
  have start: "fgFwd (begin_round dialErr newErr pf) = Forwarding" "in_loop (fgCaller (begin_round dialErr newErr pf))"
      "fgFwdStop (begin_round dialErr newErr pf) = NilChan"
    using assms(2,3) by (simp_all add: begin_round_def begin_run_def Let_def)
  have kept: "fgFwd t = Forwarding" if "forward_steps returns (begin_round dialErr newErr pf) t" for t
    by (rule forwarding_kept [OF that start(2,3) until_stopped start(1)])
  show "fgFwd s = Forwarding" using reach by (rule kept)
  assume "fgStop s = ClosedChan \<and> fgRun s \<noteq> Panicked"
  then obtain s' where s': "forward_steps returns s s'" "fgCaller s' = LoopDone"
    using stopped_round_ends [OF reach] by blast
  have all: "forward_steps returns (begin_round dialErr newErr pf) s'" using reach s'(1) by (rule rtranclp_trans)
  have "last (fgHosts s') = []"
    using begin_round_invs [OF all] s'(2) by (simp add: caller_inv_def)
  with s' kept [OF all]
  show "\<exists>s'. forward_steps returns s s' \<and> fgCaller s' = LoopDone \<and> last (fgHosts s') = [] \<and> fgFwd s' = Forwarding"
    by blast
qed

definition until_closed :: "bool \<Rightarrow> string option \<Rightarrow> bool" where
  "until_closed stopped e \<longleftrightarrow> stopped \<and> e = None"

definition sample_forwarder :: PortForwarder where
  "sample_forwarder = fst (NewPortForwarder None ''kube-system'' ''antrea-controller'' 10349 ''localhost'' 0)"

theorem stopped_round_keeps_forwarding_witness:
  "\<exists>s'. forward_steps until_closed ((begin_round None (\<lambda>_ _. None) sample_forwarder)\<lparr>fgStop := ClosedChan\<rparr>) s' \<and>
     fgCaller s' = LoopDone \<and> last (fgHosts s') = [] \<and> fgFwd s' = Forwarding"
proof -
  define s where "s = (begin_round None (\<lambda>_ _. None) sample_forwarder)\<lparr>fgStop := ClosedChan\<rparr>"
  have "forward_steps until_closed (begin_round None (\<lambda>_ _. None) sample_forwarder) s"
    unfolding s_def by (rule r_into_rtranclp, rule loop_stop) code_simp
  moreover have "fgStop s = ClosedChan \<and> fgRun s \<noteq> Panicked" unfolding s_def by code_simp
  moreover have "pfStopCh sample_forwarder = NilChan" "Run_setup None (\<lambda>_ _. None) sample_forwarder = None" by code_simp+
  moreover have "\<not> until_closed False e" for e by (simp add: until_closed_def)
  ultimately show ?thesis
    using stopped_round_keeps_forwarding [of until_closed sample_forwarder None "\<lambda>_ _. None" s] unfolding s_def by blast
qed

end
