(* ===== verification/Config.thy ===== *)
theory Config
  imports Session_Store "HOL-Library.Word"
begin

text \<open>
  The configuration of the server: \<open>pkg/config/server/config.go\<close>, with the log level that
  \<open>cmd/server/main.go\<close> derives from it, the environment (\<open>pkg/env/env.go\<close>) and the version strings
  (\<open>pkg/version/version.go\<close>). Viper is a parameter, up to its documented order of precedence.
\<close>

section \<open>The configuration\<close>

record FlowAggregatorConfig =
  faEnabled :: bool
  faAddress :: string
  faCAConfigMap :: string
  faNamespace :: string
  faServerName :: string
  faInsecureSkipVerify :: bool

record PluginsConfig =
  pcLabelSelector :: string
  pcNamespace :: string

record SessionConfig =
  scIdleTimeout :: Duration
  scMaxLifetime :: Duration
  scMaxSessions :: int
  scMaxSessionsPerUser :: int

record OIDCConfig =
  ocEnabled :: bool
  ocProviderName :: string
  ocClientID :: string
  ocClientSecret :: string
  ocIssuerURL :: string
  ocDiscoveryURL :: string
  ocLogoutURL :: string
  ocScopes :: "string list"

record AuthConfig =
  aucBasicEnabled :: bool
  aucOIDC :: OIDCConfig
  aucKubeconfigEnabled :: bool
  aucServiceAccountTokenEnabled :: bool
  aucBearerTokenEnabled :: bool
  aucCookieSecure :: bool

record Config =
  cfgAddr :: string
  cfgURL :: string
  cfgAuth :: AuthConfig
  cfgSession :: SessionConfig
  cfgFlowAggregator :: FlowAggregatorConfig
  cfgMaxLoginsPerSecond :: int
  cfgMaxTraceflowsPerHour :: int
  cfgLogVerbosity :: int
  cfgAntreaNamespace :: string
  cfgPlugins :: PluginsConfig

definition anyModeEnabled :: "AuthConfig \<Rightarrow> bool" where
  "anyModeEnabled a \<longleftrightarrow>
     aucBasicEnabled a \<or> ocEnabled (aucOIDC a) \<or> aucKubeconfigEnabled a \<or> aucServiceAccountTokenEnabled a"

definition validateConfig :: "Config \<Rightarrow> string option" where
  "validateConfig config =
     (let s = cfgSession config
      in if cfgLogVerbosity config < 0 \<or> cfgLogVerbosity config \<ge> 128 then
           Some (''invalid verbosity level '' @ dec_int (cfgLogVerbosity config) @ '': it should be >= 0 and < 128'')
         else if ocEnabled (aucOIDC (cfgAuth config)) \<and> cfgURL config = [] then
           Some ''URL is required when enabling OIDC authentication''
         else if \<not> anyModeEnabled (cfgAuth config) then
           Some ''at least one authentication mode must be enabled (auth.basic, auth.oidc, auth.kubeconfig, auth.serviceAccountToken)''
         else if scIdleTimeout s \<le> 0 then Some ''session.idleTimeout must be positive''
         else if scMaxLifetime s \<le> 0 then Some ''session.maxLifetime must be positive''
         else if scMaxLifetime s < scIdleTimeout s then Some ''session.maxLifetime must be >= session.idleTimeout''
         else if scMaxSessions s \<le> 0 then Some ''session.maxSessions must be positive''
         else if scMaxSessionsPerUser s \<le> 0 then Some ''session.maxSessionsPerUser must be positive''
         else if scMaxSessionsPerUser s > scMaxSessions s then Some ''session.maxSessionsPerUser must be <= session.maxSessions''
         else None)"

section \<open>Loading\<close>

datatype cfg_value = VString string | VInt int | VBool bool | VDuration Duration | VStrings "string list"

definition config_defaults :: "(string \<times> cfg_value) list" where
  "config_defaults =
     [(''limits.maxLoginsPerSecond'', VInt 1), (''limits.maxTraceflowsPerHour'', VInt 100),
      (''auth.cookieSecure'', VBool True), (''auth.basic.enabled'', VBool True), (''auth.oidc.enabled'', VBool False),
      (''auth.oidc.scopes'', VStrings [''openid'', ''email'', ''groups'', ''offline_access'']),
      (''auth.kubeconfig.enabled'', VBool False), (''auth.serviceAccountToken.enabled'', VBool True),
      (''auth.bearerToken.enabled'', VBool True),
      (''session.idleTimeout'', VDuration (30 * minute)), (''session.maxLifetime'', VDuration (12 * hour)),
      (''session.maxSessions'', VInt 1000), (''session.maxSessionsPerUser'', VInt 10),
      (''antreaNamespace'', VString ''kube-system''), (''plugins.labelSelector'', VString ''ui.antrea.io/plugin=true''),
      (''flowAggregator.enabled'', VBool False),
      (''flowAggregator.address'', VString ''flow-aggregator.flow-aggregator.svc:14740''),
      (''flowAggregator.caConfigMap'', VString ''flow-aggregator-ca''), (''flowAggregator.namespace'', VString ''flow-aggregator''),
      (''flowAggregator.serverName'', VString []), (''flowAggregator.insecureSkipVerify'', VBool False)]"

text \<open>Environment variables and flags bound to keys, with the defaults of the flags.\<close>

definition bound_env :: "(string \<times> string) list" where
  "bound_env = [(''auth.oidc.clientId'', ''ANTREA_UI_AUTH_OIDC_CLIENT_ID''), (''auth.oidc.clientSecret'', ''ANTREA_UI_AUTH_OIDC_CLIENT_SECRET'')]"

definition flag_defaults :: "(string \<times> cfg_value) list" where
  "flag_defaults = [(''logVerbosity'', VInt 0), (''addr'', VString '':8080'')]"

text \<open>
  Viper's order: a flag that was given, the environment, the file, a default, and the default of a
  flag. \<open>getenv\<close> does not see empty variables, as viper does not.
\<close>

definition config_value ::
  "(string \<times> cfg_value) list \<Rightarrow> (string \<Rightarrow> string) \<Rightarrow> (string \<times> cfg_value) list \<Rightarrow> string \<Rightarrow> cfg_value option" where
  "config_value flags getenv file key =
     (case map_of flags key of
        Some v \<Rightarrow> Some v
      | None \<Rightarrow>
          (case (case map_of bound_env key of Some var \<Rightarrow> if getenv var \<noteq> [] then Some (VString (getenv var)) else None | None \<Rightarrow> None) of
             Some v \<Rightarrow> Some v
           | None \<Rightarrow>
               (case map_of file key of
                  Some v \<Rightarrow> Some v
                | None \<Rightarrow>
                    (case map_of config_defaults key of
                       Some v \<Rightarrow> Some v
                     | None \<Rightarrow> map_of flag_defaults key))))"

datatype config_file = FileNotFound | FileError string | FileValues "(string \<times> cfg_value) list"

text \<open>\<open>args\<close> are the parsed flags, which set configuration keys and the path of the file; \<open>read\<close> reads the file
  at that path, or the one in the working directory; \<open>unmarshal\<close> is viper's.\<close>

definition LoadConfig ::
  "(string + (string \<times> cfg_value) list \<times> string) \<Rightarrow> (string \<Rightarrow> string) \<Rightarrow> (string option \<Rightarrow> config_file) \<Rightarrow>
   ((string \<Rightarrow> cfg_value option) \<Rightarrow> string + Config) \<Rightarrow> string + Config" where
  "LoadConfig args getenv read unmarshal =
     (case args of
        Inl err \<Rightarrow> Inl err
      | Inr (flags, configPath) \<Rightarrow>
          (case read (if configPath \<noteq> [] then Some configPath else None) of
             FileError err \<Rightarrow> Inl (''error when reading config: '' @ err)
           | file \<Rightarrow>
               (let values = (case file of FileValues vs \<Rightarrow> vs | _ \<Rightarrow> [])
                in case unmarshal (config_value flags getenv values) of
                     Inl err \<Rightarrow> Inl (''error when unmarshalling config: '' @ err)
                   | Inr config \<Rightarrow> (case validateConfig config of Some err \<Rightarrow> Inl err | None \<Rightarrow> Inr config))))"

text \<open>The level of the logger: \<open>zapcore.Level(-1 * int8(config.LogVerbosity))\<close>.\<close>

definition log_level :: "Config \<Rightarrow> 8 word" where
  "log_level config = - word_of_int (cfgLogVerbosity config)"

text \<open>The options of the session store.\<close>

definition session_options :: "Config \<Rightarrow> Options" where
  "session_options config =
     \<lparr>IdleTimeout = scIdleTimeout (cfgSession config), MaxLifetime = scMaxLifetime (cfgSession config),
      MaxSessions = scMaxSessions (cfgSession config), MaxSessionsPerUser = scMaxSessionsPerUser (cfgSession config)\<rparr>"

section \<open>Environment and version\<close>

definition IsDevelopmentEnv :: "(string \<Rightarrow> string) \<Rightarrow> bool" where
  "IsDevelopmentEnv getenv \<longleftrightarrow> getenv ''APP_ENV'' = ''dev'' \<or> getenv ''APP_ENV'' = ''development''"

definition IsRunningInPod :: "(string \<Rightarrow> string) \<Rightarrow> bool" where
  "IsRunningInPod getenv \<longleftrightarrow> getenv ''POD_NAMESPACE'' \<noteq> [] \<and> getenv ''KUBERNETES_SERVICE_HOST'' \<noteq> []"

definition GetNamespace :: "(string \<Rightarrow> string) \<Rightarrow> string" where
  "GetNamespace getenv = (let ns = getenv ''POD_NAMESPACE'' in if ns = [] then ''kube-system'' else ns)"

record build_info =
  biVersion :: string
  biGitSHA :: string
  biGitTreeState :: string
  biReleaseStatus :: string

definition GetFullVersion :: "build_info \<Rightarrow> string" where
  "GetFullVersion b =
     (if biVersion b = [] then ''UNKNOWN''
      else if biReleaseStatus b = ''released'' then biVersion b
      else if biGitSHA b = [] then biVersion b @ ''-unknown''
      else if biGitTreeState b = ''dirty'' then biVersion b @ ''-'' @ biGitSHA b @ ''.dirty''
      else biVersion b @ ''-'' @ biGitSHA b)"

definition GetFullVersionWithRuntimeInfo :: "string \<Rightarrow> string \<Rightarrow> string \<Rightarrow> build_info \<Rightarrow> string" where
  "GetFullVersionWithRuntimeInfo goos goarch gover b = GetFullVersion b @ '' '' @ goos @ ''/'' @ goarch @ '' '' @ gover"

end
