(* ===== verification/Server_Setup.thy ===== *)
theory Server_Setup
  imports Config Auth_Server Access Antrea_Service Plugins Traceflow Flow_Stream
begin

text \<open>
  How the server is put together: the API server's routes (\<open>pkg/server/api/server.go\<close> and the
  \<open>Add...Routes\<close> of its files), the frontend settings, the top-level server
  (\<open>pkg/server/server.go\<close>) and the start of the program (\<open>cmd/server/main.go\<close>) up to the point
  where it listens. What start-up asks of the environment is the record \<open>startup\<close>.
\<close>

section \<open>Frontend settings\<close>

record FrontendAuthSettings =
  fsBasicEnabled :: bool
  fsOIDCEnabled :: bool
  fsOIDCProviderName :: string
  fsKubeconfigEnabled :: bool
  fsServiceAccountTokenEnabled :: bool

record FrontendSettings =
  fsVersion :: string
  fsAuth :: FrontendAuthSettings
  fsFlowVisibilityEnabled :: bool

definition buildFrontendSettingsFromConfig :: "build_info \<Rightarrow> Config \<Rightarrow> FrontendSettings" where
  "buildFrontendSettingsFromConfig b config =
     \<lparr>fsVersion = GetFullVersion b,
      fsAuth =
        \<lparr>fsBasicEnabled = aucBasicEnabled (cfgAuth config), fsOIDCEnabled = ocEnabled (aucOIDC (cfgAuth config)),
         fsOIDCProviderName = ocProviderName (aucOIDC (cfgAuth config)),
         fsKubeconfigEnabled = aucKubeconfigEnabled (cfgAuth config),
         fsServiceAccountTokenEnabled = aucServiceAccountTokenEnabled (cfgAuth config)\<rparr>,
      fsFlowVisibilityEnabled = faEnabled (cfgFlowAggregator config)\<rparr>"

definition FrontendSettings_handler :: "(FrontendSettings \<Rightarrow> string) \<Rightarrow> FrontendSettings \<Rightarrow> Response \<Rightarrow> Response" where
  "FrontendSettings_handler marshal fs w = JSON StatusOK (BodyBytes (marshal fs)) w"

definition flowStreamDisabled :: "((string \<times> string) list \<Rightarrow> string) \<Rightarrow> Response \<Rightarrow> Response" where
  "flowStreamDisabled marshal w =
     JSON StatusNotImplemented (BodyBytes (marshal
       [(''error'', ''Flow Aggregator integration is not enabled for this Antrea UI instance (set flowAggregator.enabled in the Helm chart).'')])) w"

section \<open>Routes\<close>

datatype api_handler =
    HVersion | HSettings | HPluginsIndex | HPluginFile | HCreateTraceflow | HTraceflowStatus | HTraceflowRedirect
  | HTraceflowResult | HTraceflowDelete | HUpdatePassword | HGetK8s | HFeatureGates | HFlowStream | HFlowStreamDisabled
  | HAccessSummary

text \<open>A route: method, path, whether \<open>authenticate()\<close> runs before the handler, and the handler.\<close>

record route =
  rtMethod :: string
  rtPath :: string
  rtAuth :: bool
  rtHandler :: api_handler

text \<open>The parts of the API server that decide its routes.\<close>

record api_server =
  apPasswordStore :: bool
  apFlowStream :: bool
  apMaxTraceflowsPerHour :: int
  apFrontendSettings :: FrontendSettings

definition group :: "string \<Rightarrow> bool \<Rightarrow> (string \<times> string \<times> api_handler) list \<Rightarrow> route list" where
  "group prefix auth rs = map (\<lambda>(m, p, h). \<lparr>rtMethod = m, rtPath = prefix @ p, rtAuth = auth, rtHandler = h\<rparr>) rs"

definition AddPluginsRoutes :: "string \<Rightarrow> route list" where
  "AddPluginsRoutes r = group (r @ ''/plugins'') False [(''GET'', ''/index.json'', HPluginsIndex), (''GET'', ''/:name/*filepath'', HPluginFile)]"

definition AddTraceflowRoutes :: "string \<Rightarrow> route list" where
  "AddTraceflowRoutes r =
     group (r @ ''/traceflow'') True
       [(''POST'', [], HCreateTraceflow), (''GET'', ''/:requestId/status'', HTraceflowStatus), (''GET'', ''/:requestId'', HTraceflowRedirect),
        (''GET'', ''/:requestId/result'', HTraceflowResult), (''DELETE'', ''/:requestId'', HTraceflowDelete)]"

definition AddAccountRoutes :: "api_server \<Rightarrow> string \<Rightarrow> route list" where
  "AddAccountRoutes s r = (if \<not> apPasswordStore s then [] else group (r @ ''/account'') True [(''PUT'', ''/password'', HUpdatePassword)])"

definition AddK8sRoutes :: "string \<Rightarrow> route list" where
  "AddK8sRoutes r = group (r @ ''/k8s'') True [(''GET'', ''/*path'', HGetK8s)]"

definition AddFlowStreamRoutes :: "api_server \<Rightarrow> string \<Rightarrow> route list" where
  "AddFlowStreamRoutes s r =
     group (r @ ''/flows'') True [(''GET'', ''/stream'', if apFlowStream s then HFlowStream else HFlowStreamDisabled)]"

definition AddAccessRoutes :: "string \<Rightarrow> route list" where
  "AddAccessRoutes r = group r True [(''GET'', ''/access-summary'', HAccessSummary)]"

definition AddRoutes :: "api_server \<Rightarrow> route list" where
  "AddRoutes s =
     (let apiv1 = ''/api/v1''
      in group apiv1 False [(''GET'', ''/version'', HVersion), (''GET'', ''/settings'', HSettings)] @
         AddPluginsRoutes apiv1 @ AddTraceflowRoutes apiv1 @ AddAccountRoutes s apiv1 @ AddK8sRoutes apiv1 @
         group apiv1 True [(''GET'', ''/featuregates'', HFeatureGates)] @
         AddFlowStreamRoutes s apiv1 @ AddAccessRoutes apiv1)"

text \<open>What runs for a request on a route: the middleware with the outcome of \<open>Resolve\<close>, then the handler,
  which gets the identity attached to the request.\<close>

definition serve_route ::
  "(Request \<Rightarrow> 's \<Rightarrow> Response \<Rightarrow> (ServerError + RequestAuth) \<times> 's \<times> Response) \<Rightarrow>
   (api_handler \<Rightarrow> RequestAuth option \<Rightarrow> Request \<Rightarrow> 's \<Rightarrow> Response \<Rightarrow> 's \<times> Response) \<Rightarrow> route \<Rightarrow> Request \<Rightarrow> 's \<Rightarrow> Response \<Rightarrow> 's \<times> Response" where
  "serve_route resolve handlers r req s w =
     (if rtAuth r then Middleware (resolve req s w) (\<lambda>ra s w. handlers (rtHandler r) (Some ra) req s w)
      else handlers (rtHandler r) None req s w)"

text \<open>All routes of the program: method and path.\<close>

definition server_routes :: "api_server \<Rightarrow> serverConfig \<Rightarrow> (string \<times> string) list" where
  "server_routes s cfg =
     (''GET'', ''/healthz'') # map (\<lambda>r. (rtMethod r, rtPath r)) (AddRoutes s) @ map (\<lambda>r. (atMethod r, atPath r)) (AddAuthRoutes cfg)"

section \<open>The top-level server\<close>

definition NewFromServerConfig ::
  "(string \<Rightarrow> string option) \<Rightarrow> (bearerCacheEntry, 'b) lru \<Rightarrow> (nat, 'k) lru \<Rightarrow> (string \<Rightarrow> string) \<Rightarrow> Config \<Rightarrow>
   string + Authenticator \<times> ('b, ('l, 'k) ClientRateLimiter) bearerValidator option" where
  "NewFromServerConfig ip L limits getenv config =
     New ip L limits
       \<lparr>acServerURL = cfgURL config, acCookieSecure = aucCookieSecure (cfgAuth config),
        acBearerFallbackEnabled = aucBearerTokenEnabled (cfgAuth config), acHasValidator = True,
        acDevMode = IsDevelopmentEnv getenv\<rparr>"

definition NewApiServer :: "build_info \<Rightarrow> Config \<Rightarrow> bool \<Rightarrow> bool \<Rightarrow> api_server" where
  "NewApiServer b config passwordStore flowStreamSubscriber =
     \<lparr>apPasswordStore = passwordStore, apFlowStream = flowStreamSubscriber,
      apMaxTraceflowsPerHour = cfgMaxTraceflowsPerHour config,
      apFrontendSettings = buildFrontendSettingsFromConfig b config\<rparr>"

definition newServerConfig :: "Config \<Rightarrow> string \<Rightarrow> serverConfig" where
  "newServerConfig config adminUserName =
     \<lparr>BasicAuthEnabled = aucBasicEnabled (cfgAuth config), OIDCAuthEnabled = ocEnabled (aucOIDC (cfgAuth config)),
      OIDCNeedsLogout = (ocLogoutURL (aucOIDC (cfgAuth config)) \<noteq> []),
      KubeconfigAuthEnabled = aucKubeconfigEnabled (cfgAuth config),
      SATokenAuthEnabled = aucServiceAccountTokenEnabled (cfgAuth config),
      scCookieSecure = aucCookieSecure (cfgAuth config), MaxLoginsPerSecond = cfgMaxLoginsPerSecond config,
      AdminUserName = adminUserName\<rparr>"

definition NewServer ::
  "(string \<Rightarrow> string option) \<Rightarrow> (bearerCacheEntry, 'b) lru \<Rightarrow> (nat, 'k) lru \<Rightarrow> (string \<Rightarrow> string) \<Rightarrow> build_info \<Rightarrow> Config \<Rightarrow> bool \<Rightarrow> bool \<Rightarrow> string \<Rightarrow>
   string + serverConfig \<times> api_server \<times> Authenticator \<times> ('b, ('l, 'k) ClientRateLimiter) bearerValidator option" where
  "NewServer ip L limits getenv b config passwordStore flowStreamSubscriber adminUserName =
     (case NewFromServerConfig ip L limits getenv config of
        Inl err \<Rightarrow> Inl err
      | Inr (authenticator, bearer) \<Rightarrow>
          Inr (newServerConfig config adminUserName, NewApiServer b config passwordStore flowStreamSubscriber, authenticator, bearer))"

section \<open>Start-up\<close>

definition antreaUIAdminSAName :: string where "antreaUIAdminSAName = ''antrea-ui-admin''"

definition ServiceAccountUserName :: "string \<Rightarrow> string \<Rightarrow> string" where
  "ServiceAccountUserName namespace serviceAccountName = ''system:serviceaccount:'' @ namespace @ '':'' @ serviceAccountName"

text \<open>
  The clients of \<open>pkg/k8s/client.go\<close>. \<open>lookupEnv\<close> is \<open>os.LookupEnv\<close>, \<open>inClusterConfig\<close> and \<open>kubeConfig\<close>
  are what client-go loads in a Pod and from a kubeconfig file, \<open>httpErr\<close> and \<open>dynErr\<close> the errors of its
  client constructors.
\<close>

definition inCluster :: "(string \<Rightarrow> string option) \<Rightarrow> bool" where
  "inCluster lookupEnv \<longleftrightarrow> lookupEnv ''KUBERNETES_SERVICE_HOST'' \<noteq> None"

definition restConfig ::
  "(string \<Rightarrow> string option) \<Rightarrow> (string + rest_config) \<Rightarrow> (string \<Rightarrow> string + rest_config) \<Rightarrow> string \<Rightarrow> string + rest_config" where
  "restConfig lookupEnv podConfig kubeConfig kubeconfigPath =
     (if inCluster lookupEnv then podConfig else kubeConfig kubeconfigPath)"

definition Client ::
  "(rest_config \<Rightarrow> string option) \<Rightarrow> (rest_config \<Rightarrow> string option) \<Rightarrow> string + rest_config \<Rightarrow> string + rest_config \<times> RoundTripper" where
  "Client httpErr dynErr config =
     (case config of
        Inl err \<Rightarrow> Inl err
      | Inr config \<Rightarrow>
          (case httpErr config of
             Some err \<Rightarrow> Inl err
           | None \<Rightarrow>
               (case dynErr config of
                  Some err \<Rightarrow> Inl err
                | None \<Rightarrow> Inr (config, ServiceAccountTransport (rcHost config)))))"

definition ImpersonatedClient ::
  "(rest_config \<Rightarrow> string option) \<Rightarrow> rest_config \<Rightarrow> RoundTripper \<Rightarrow> string \<Rightarrow> string + RoundTripper" where
  "ImpersonatedClient dynErr config baseTransport userName =
     (case dynErr config of
        Some err \<Rightarrow> Inl err
      | None \<Rightarrow> Inr (ImpersonatingRoundTripper userName baseTransport))"

text \<open>A TLS configuration; \<open>tcRootCAs = None\<close> stands for the roots of the system.\<close>

record tls_config =
  tcMinVersion :: string
  tcInsecureSkipVerify :: bool
  tcRootCAs :: "string option"
  tcServerName :: string

definition buildFlowAggregatorTLSConfig :: "(string \<Rightarrow> bool) \<Rightarrow> FlowAggregatorConfig \<Rightarrow> string \<Rightarrow> string + tls_config" where
  "buildFlowAggregatorTLSConfig parsePEM cfg caData =
     (let tlsCfg = \<lparr>tcMinVersion = ''TLS 1.2'', tcInsecureSkipVerify = False, tcRootCAs = None, tcServerName = []\<rparr>
      in case (if faInsecureSkipVerify cfg then Inr (tlsCfg\<lparr>tcInsecureSkipVerify := True\<rparr>)
               else if length caData > 0 then
                 (if \<not> parsePEM caData then Inl ''failed to parse FlowAggregator CA cert'' else Inr (tlsCfg\<lparr>tcRootCAs := Some caData\<rparr>))
               else Inr tlsCfg) of
           Inl err \<Rightarrow> Inl err
         | Inr tlsCfg \<Rightarrow> Inr (if faServerName cfg \<noteq> [] then tlsCfg\<lparr>tcServerName := faServerName cfg\<rparr> else tlsCfg))"

text \<open>The connection to the Flow Aggregator; \<open>newClient\<close> is the error of \<open>grpc.NewClient\<close>, which does not connect yet.\<close>

record GRPCConfig =
  grAddress :: string
  grTLSConfig :: tls_config

record GRPCFlowStreamSubscriber =
  gsConn :: "GRPCConfig option"

definition NewGRPCFlowStreamSubscriber ::
  "(string \<Rightarrow> tls_config \<Rightarrow> string option) \<Rightarrow> GRPCConfig \<Rightarrow> string + GRPCFlowStreamSubscriber" where
  "NewGRPCFlowStreamSubscriber newClient cfg =
     (case newClient (grAddress cfg) (grTLSConfig cfg) of
        Some err \<Rightarrow> Inl (''failed to create gRPC connection to '' @ grAddress cfg @ '': '' @ err)
      | None \<Rightarrow> Inr \<lparr>gsConn = Some cfg\<rparr>)"

text \<open>\<open>Close\<close>: the error of closing the connection, if there is one to close.\<close>

definition GRPC_Close :: "(GRPCConfig \<Rightarrow> string option) \<Rightarrow> GRPCFlowStreamSubscriber \<Rightarrow> string option" where
  "GRPC_Close close h = (case gsConn h of Some conn \<Rightarrow> close conn | None \<Rightarrow> None)"

text \<open>
  What start-up asks of its environment: environment variables, the Kubernetes configuration and the
  errors of the client constructors, the Secret with the admin password, the OIDC provider's
  discovery, ConfigMaps, and the gRPC client.
\<close>

record ('c, 'b, 'k) startup =
  suGetenv :: "string \<Rightarrow> string"
  suIP :: "string \<Rightarrow> string option"
  suBuild :: build_info
  suLookupEnv :: "string \<Rightarrow> string option"
  suPodConfig :: "string + rest_config"
  suKubeConfig :: "string \<Rightarrow> string + rest_config"
  suKubeconfigPath :: string
  suHTTPClient :: "rest_config \<Rightarrow> string option"
  suDynamicClient :: "rest_config \<Rightarrow> string option"
  suAnonymous :: "string option"
  suClientset :: "string option"
  suSecrets :: "'c SecretClient"
  suHash :: hasher
  suRand :: rand_source
  suCallbackURL :: "string \<Rightarrow> string"
  suReturnURL :: "string \<Rightarrow> string"
  suDiscovery :: "string \<Rightarrow> bool list"
  suConfigMap :: "string \<Rightarrow> string \<Rightarrow> string + (string \<times> string) list"
  suParsePEM :: "string \<Rightarrow> bool"
  suGRPC :: "string \<Rightarrow> tls_config \<Rightarrow> string option"
  suTokenLru :: "(bearerCacheEntry, 'b) lru"
  suLimiterLru :: "(nat, 'k) lru"

datatype run_error = RunError string | RunPassword pw_error

definition start_password ::
  "('c, 'b, 'k) startup \<Rightarrow> Config \<Rightarrow> 'c \<Rightarrow> run_error + 'c pwstore option" where
  "start_password e config cluster =
     (if aucBasicEnabled (cfgAuth config) then
        (let rw = \<lparr>secretNamespace = GetNamespace (suGetenv e), secretName = ''antrea-ui-passwd''\<rparr>
         in case Init (K8sSecret_Read (suSecrets e) rw) (K8sSecret_Write (suSecrets e) rw) (suHash e) (suRand e) (NewPasswordStore cluster) of
              (Some err, s) \<Rightarrow> Inl (RunPassword err)
            | (None, s) \<Rightarrow> Inr (Some s))
      else Inr None)"

definition start_oidc :: "('c, 'b, 'k) startup \<Rightarrow> Config \<Rightarrow> run_error + OIDCProvider option" where
  "start_oidc e config =
     (let oc = aucOIDC (cfgAuth config)
      in if ocEnabled oc then
           (case NewOIDCProvider (suIP e) (suRand e) (suCallbackURL e) (suReturnURL e) (cfgURL config) (ocIssuerURL oc) (ocDiscoveryURL oc)
                   (ocClientID oc) (ocClientSecret oc) (ocLogoutURL oc) (ocScopes oc) of
              Inl err \<Rightarrow> Inl (RunError err)
            | Inr provider \<Rightarrow>
                (case OIDC_Init (suDiscovery e) provider of
                   (_, False) \<Rightarrow> Inl (RunError ''failed to initialize OIDC provider with OIDC discovery'')
                 | (_, True) \<Rightarrow> Inr (Some provider)))
         else Inr None)"

definition start_flow :: "('c, 'b, 'k) startup \<Rightarrow> Config \<Rightarrow> run_error + tls_config option" where
  "start_flow e config =
     (let fa = cfgFlowAggregator config
      in if faEnabled fa then
           (case (if faCAConfigMap fa \<noteq> [] then
                    (let ns = (if faNamespace fa = [] then ''flow-aggregator'' else faNamespace fa)
                     in case suConfigMap e ns (faCAConfigMap fa) of
                          Inl err \<Rightarrow> Inl (''failed to get FlowAggregator CA configmap '' @ ns @ ''/'' @ faCAConfigMap fa @ '': '' @ err)
                        | Inr cm \<Rightarrow>
                            (case map_of cm ''ca.crt'' of
                               Some (c # cs) \<Rightarrow> Inr (c # cs)
                             | _ \<Rightarrow> Inl (''FlowAggregator CA configmap '' @ ns @ ''/'' @ faCAConfigMap fa @ '' is missing or has empty '' @ squoted ''ca.crt'' @ '' key'')))
                  else Inr []) of
              Inl err \<Rightarrow> Inl (RunError err)
            | Inr caData \<Rightarrow>
                (case buildFlowAggregatorTLSConfig (suParsePEM e) fa caData of
                   Inl err \<Rightarrow> Inl (RunError (''failed to build TLS config for FlowAggregator: '' @ err))
                 | Inr tlsCfg \<Rightarrow>
                     (case NewGRPCFlowStreamSubscriber (suGRPC e) \<lparr>grAddress = faAddress fa, grTLSConfig = tlsCfg\<rparr> of
                        Inl err \<Rightarrow> Inl (RunError (''failed to create gRPC flow stream handler: '' @ err))
                      | Inr grpcSubscriber \<Rightarrow> Inr (Some tlsCfg))))
         else Inr None)"

record ('c, 'b, 'l) running =
  rnStore :: store
  rnPassword :: "'c pwstore option"
  rnOIDC :: "OIDCProvider option"
  rnFlow :: "tls_config option"
  rnAntrea :: antreasvc_handler
  rnResolver :: resolver
  rnRegistry :: Registry
  rnFactory :: ClientFactory
  rnProxyTarget :: string
  rnAdminUser :: string
  rnGCClient :: RoundTripper
  rnServerConfig :: serverConfig
  rnApi :: api_server
  rnAuthenticator :: Authenticator
  rnBearer :: "('b, 'l) bearerValidator option"

definition run_fail :: "string \<Rightarrow> string \<Rightarrow> run_error + 'a" where
  "run_fail message err = Inl (RunError (message @ '': '' @ err))"

text \<open>\<open>run\<close>, up to the call of \<open>ListenAndServe\<close>.\<close>

definition run :: "('c, 'b, 'k) startup \<Rightarrow> Config \<Rightarrow> 'c \<Rightarrow> run_error + ('c, 'b, ('l, 'k) ClientRateLimiter) running" where
  "run e config cluster =
     (case Client (suHTTPClient e) (suDynamicClient e) (restConfig (suLookupEnv e) (suPodConfig e) (suKubeConfig e) (suKubeconfigPath e)) of
        Inl err \<Rightarrow> run_fail ''failed to create K8s clients'' err
      | Inr (k8sRESTConfig, k8sTransport) \<Rightarrow>
     (case Parse (suIP e) (rcHost k8sRESTConfig) of
        None \<Rightarrow> Inl (RunError (''failed to parse K8s server URL '' @ squoted (rcHost k8sRESTConfig)))
      | Some u \<Rightarrow>
     (let antreaUIAdminUser = ServiceAccountUserName (GetNamespace (suGetenv e)) antreaUIAdminSAName
      in case ImpersonatedClient (suDynamicClient e) k8sRESTConfig k8sTransport antreaUIAdminUser of
        Inl err \<Rightarrow> run_fail ''failed to create impersonated K8s clients for antrea-ui-admin'' err
      | Inr k8sAdminClient \<Rightarrow>
     (case NewClientFactory (suAnonymous e) (rcHost k8sRESTConfig) TransportKeyK8s of
        Inl err \<Rightarrow> run_fail ''failed to create K8s client factory'' err
      | Inr clientFactory \<Rightarrow>
     (case suClientset e of
        Some err \<Rightarrow> run_fail ''failed to create K8s clientset'' err
      | None \<Rightarrow>
     (let pluginsNamespace = (if pcNamespace (cfgPlugins config) = [] then GetNamespace (suGetenv e) else pcNamespace (cfgPlugins config))
      in case NewAntreaHandler (IsRunningInPod (suGetenv e)) (suClientset e) k8sRESTConfig (cfgAntreaNamespace config) of
        Inl err \<Rightarrow> run_fail ''failed to create handler for Antrea Service requests'' err
      | Inr antreaSvcHandler \<Rightarrow>
     (case start_password e config cluster of
        Inl err \<Rightarrow> Inl err
      | Inr passwordStore \<Rightarrow>
     (case start_oidc e config of
        Inl err \<Rightarrow> Inl err
      | Inr oidcProvider \<Rightarrow>
     (case start_flow e config of
        Inl err \<Rightarrow> Inl err
      | Inr flow \<Rightarrow>
     (case NewServer (suIP e) (suTokenLru e) (suLimiterLru e) (suGetenv e) (suBuild e) config (passwordStore \<noteq> None) (flow \<noteq> None) antreaUIAdminUser of
        Inl err \<Rightarrow> run_fail ''failed to create server'' err
      | Inr (serverCfg, apiServer, authenticator, bearer) \<Rightarrow>
          Inr \<lparr>rnStore = NewStore (session_options config), rnPassword = passwordStore, rnOIDC = oidcProvider, rnFlow = flow,
            rnAntrea = antreaSvcHandler, rnResolver = NewResolver,
            rnRegistry = NewRegistry pluginsNamespace (pcLabelSelector (cfgPlugins config)), rnFactory = clientFactory,
            rnProxyTarget = rcHost k8sRESTConfig, rnAdminUser = antreaUIAdminUser, rnGCClient = k8sAdminClient, rnServerConfig = serverCfg, rnApi = apiServer,
            rnAuthenticator = authenticator, rnBearer = bearer\<rparr>))))))))))"

end
