(* ===== verification/Setup_Properties.thy ===== *)
theory Setup_Properties
  imports Server_Setup Store_Machine
begin

text \<open>
  Properties of the configuration and of start-up: a validated configuration reaches the session
  store and the logger unchanged, every route that acts for a user is authenticated, and a server
  that starts has what its routes need.
\<close>

section \<open>The configuration\<close>

lemma validated:
  assumes "validateConfig config = None"
  shows "0 \<le> cfgLogVerbosity config \<and> cfgLogVerbosity config < 128"
    "ocEnabled (aucOIDC (cfgAuth config)) \<Longrightarrow> cfgURL config \<noteq> []" "anyModeEnabled (cfgAuth config)"
    "0 < scIdleTimeout (cfgSession config)" "scIdleTimeout (cfgSession config) \<le> scMaxLifetime (cfgSession config)"
    "0 < scMaxSessions (cfgSession config)" "0 < scMaxSessionsPerUser (cfgSession config)"
    "scMaxSessionsPerUser (cfgSession config) \<le> scMaxSessions (cfgSession config)"
  using assms by (auto simp: validateConfig_def Let_def split: if_splits)

lemma LoadConfig_validated: "LoadConfig args getenv read unmarshal = Inr config \<Longrightarrow> validateConfig config = None"
  by (auto simp: LoadConfig_def Let_def split: sum.splits prod.splits config_file.splits option.splits)

lemma session_options_kept:
  assumes "validateConfig config = None"
  shows "opts (NewStore (session_options config)) = session_options config"
proof -
  note v = validated [OF assms]
  have "\<not> scMaxLifetime (cfgSession config) \<le> 0" using v(4,5) by linarith
  then show ?thesis
    using v by (simp add: NewStore_def setDefaults_def session_options_def Let_def not_le [symmetric])
qed

lemma log_level_exact:
  assumes "validateConfig config = None"
  shows "sint (log_level config) = - cfgLogVerbosity config"
proof -
  have "0 \<le> cfgLogVerbosity config" "cfgLogVerbosity config < 128" using validated(1) [OF assms] by auto
  then have "sint (word_of_int (- cfgLogVerbosity config) :: 8 word) = - cfgLogVerbosity config"
    unfolding sint_sbintrunc' by (intro signed_take_bit_int_eq_self) simp_all
  then show ?thesis by (simp add: log_level_def)
qed

text \<open>
  C40: a configuration that loads is in range, and takes effect as written. The verbosity survives its
  conversion to an 8-bit signed log level; the session limits are positive and ordered, and the
  session store uses exactly these, without falling back to its defaults; and some login mode is
  enabled, with a server URL when it is OIDC.
\<close>

theorem loaded_config_in_range:
  assumes "LoadConfig args getenv read unmarshal = Inr config"
  shows "sint (log_level config) = - cfgLogVerbosity config \<and>
    opts (NewStore (session_options config)) = session_options config \<and>
    0 < scIdleTimeout (cfgSession config) \<and> scIdleTimeout (cfgSession config) \<le> scMaxLifetime (cfgSession config) \<and>
    0 < scMaxSessionsPerUser (cfgSession config) \<and> scMaxSessionsPerUser (cfgSession config) \<le> scMaxSessions (cfgSession config) \<and>
    anyModeEnabled (cfgAuth config) \<and> (ocEnabled (aucOIDC (cfgAuth config)) \<longrightarrow> cfgURL config \<noteq> [])"
proof -
  note v = LoadConfig_validated [OF assms]
  show ?thesis
    using log_level_exact [OF v] session_options_kept [OF v] validated [OF v] by blast
qed

definition ex_config :: Config where
  "ex_config =
     \<lparr>cfgAddr = '':8080'', cfgURL = [],
      cfgAuth = \<lparr>aucBasicEnabled = True,
        aucOIDC = \<lparr>ocEnabled = False, ocProviderName = [], ocClientID = [], ocClientSecret = [], ocIssuerURL = [], ocDiscoveryURL = [],
          ocLogoutURL = [], ocScopes = []\<rparr>,
        aucKubeconfigEnabled = False, aucServiceAccountTokenEnabled = True, aucBearerTokenEnabled = False, aucCookieSecure = True\<rparr>,
      cfgSession = \<lparr>scIdleTimeout = 30 * minute, scMaxLifetime = 12 * hour, scMaxSessions = 1000, scMaxSessionsPerUser = 10\<rparr>,
      cfgFlowAggregator = \<lparr>faEnabled = True, faAddress = ''fa:14740'', faCAConfigMap = [], faNamespace = [], faServerName = [],
        faInsecureSkipVerify = False\<rparr>,
      cfgMaxLoginsPerSecond = 1, cfgMaxTraceflowsPerHour = 100, cfgLogVerbosity = 127, cfgAntreaNamespace = ''kube-system'',
      cfgPlugins = \<lparr>pcLabelSelector = ''ui.antrea.io/plugin=true'', pcNamespace = []\<rparr>\<rparr>"

lemma ex_config_valid: "validateConfig ex_config = None"
  by (simp add: validateConfig_def ex_config_def anyModeEnabled_def Let_def)

theorem loaded_config_in_range_witness: "sint (log_level ex_config) = - 127"
proof -
  have "LoadConfig (Inr ([], [])) (\<lambda>v. []) (\<lambda>p. FileNotFound) (\<lambda>values. Inr ex_config) = Inr ex_config"
    by (simp add: LoadConfig_def ex_config_valid)
  from loaded_config_in_range [OF this] show ?thesis by (simp add: ex_config_def)
qed

section \<open>Routes\<close>

lemmas route_defs = AddRoutes_def group_def AddPluginsRoutes_def AddTraceflowRoutes_def AddAccountRoutes_def AddK8sRoutes_def
  AddFlowStreamRoutes_def AddAccessRoutes_def

lemma api_routes_distinct:
  "distinct (map (\<lambda>r. (rtMethod r, rtPath r)) (AddRoutes s))"
  "\<forall>x \<in> set (map (\<lambda>r. (rtMethod r, rtPath r)) (AddRoutes s)). take 5 (snd x) = ''/api/''"
  by (cases "apPasswordStore s"; simp add: route_defs Let_def)+

text \<open>The login and logout routes are among these, whatever is enabled.\<close>

definition auth_paths :: "(string \<times> string) list" where
  "auth_paths =
     [(''POST'', ''/auth/login''), (''POST'', ''/auth/login/token''), (''POST'', ''/auth/login/kubeconfig''),
      (''GET'', ''/auth/session''), (''GET'', ''/auth/logout''), (''POST'', ''/auth/logout''),
      (''GET'', ''/auth/oauth2/login''), (''GET'', ''/auth/oauth2/callback'')]"

lemmas auth_route_defs = AddAuthRoutes_def AddOAuth2Routes_def auth_route_at_def Let_def

lemma auth_handlers_registered:
  "atHandler ` set (AddAuthRoutes cfg) =
     set ((if BasicAuthEnabled cfg then [HLogin] else []) @ (if SATokenAuthEnabled cfg then [HLoginWithToken] else []) @
       (if KubeconfigAuthEnabled cfg then [HLoginWithKubeconfig] else []) @ [HSession, HLogout, HLogout] @
       (if OIDCAuthEnabled cfg then [HOAuth2Login, HOAuth2Callback] else []))"
  unfolding set_map [symmetric] by (intro arg_cong [of _ _ set]) (simp add: auth_route_defs del: set_map)

lemma auth_routes_filter:
  "map (\<lambda>r. (atMethod r, atPath r)) (AddAuthRoutes cfg) =
     map fst (filter snd (zip auth_paths
       [BasicAuthEnabled cfg, SATokenAuthEnabled cfg, KubeconfigAuthEnabled cfg, True, True, True, OIDCAuthEnabled cfg, OIDCAuthEnabled cfg]))"
  by (simp add: auth_route_defs auth_paths_def)

lemma auth_routes_distinct:
  "distinct (map (\<lambda>r. (atMethod r, atPath r)) (AddAuthRoutes cfg))"
  "set (map (\<lambda>r. (atMethod r, atPath r)) (AddAuthRoutes cfg)) \<subseteq> set auth_paths"
proof -
  have "distinct auth_paths" by code_simp
  then show "distinct (map (\<lambda>r. (atMethod r, atPath r)) (AddAuthRoutes cfg))"
    unfolding auth_routes_filter
    by (intro distinct_map_filter) (subst map_fst_zip, simp add: auth_paths_def, assumption)
  show "set (map (\<lambda>r. (atMethod r, atPath r)) (AddAuthRoutes cfg)) \<subseteq> set auth_paths"
    unfolding auth_routes_filter by (auto dest: set_zip_leftD)
qed

lemma auth_paths_prefix: "\<forall>x \<in> set auth_paths. take 5 (snd x) = ''/auth''"
  by code_simp

lemma server_routes_distinct: "distinct (server_routes s cfg)"
proof -
  let ?a = "map (\<lambda>r. (rtMethod r, rtPath r)) (AddRoutes s)" and ?b = "map (\<lambda>r. (atMethod r, atPath r)) (AddAuthRoutes cfg)"
  have p: "take 5 (snd x) = ''/api/''" if "x \<in> set ?a" for x using api_routes_distinct(2) that by blast
  have q: "take 5 (snd x) = ''/auth''" if "x \<in> set ?b" for x using auth_routes_distinct(2) auth_paths_prefix that by blast
  have ne: "''/api/'' \<noteq> ''/auth''" "take 5 ''/healthz'' \<noteq> ''/api/''" "take 5 ''/healthz'' \<noteq> ''/auth''" by simp_all
  have "x \<notin> set ?b" if "x \<in> set ?a" for x using p [OF that] q [of x] ne(1) by metis
  then have "set ?a \<inter> set ?b = {}" by blast
  moreover have h: "x \<notin> set ?a \<union> set ?b" if "take 5 (snd x) \<noteq> ''/api/''" "take 5 (snd x) \<noteq> ''/auth''" for x
    using p q that by blast
  have "(''GET'', ''/healthz'') \<notin> set ?a \<union> set ?b" by (rule h) (unfold snd_conv, rule ne(2), rule ne(3))
  ultimately have "distinct ((''GET'', ''/healthz'') # ?a @ ?b)"
    using api_routes_distinct(1) auth_routes_distinct(1) by (simp only: distinct.simps distinct_append set_append simp_thms)
  then show ?thesis unfolding server_routes_def .
qed

text \<open>
  Who reaches a handler. Every route of the API but the version, the settings and the plugin
  files authenticates; on such a route a request that does not resolve to an identity gets the
  error and its handler does not run, and one that does runs the handler with exactly that
  identity. The API server is proxied for reading only, and no method and path is registered twice.
\<close>

lemma routes_authenticated:
  assumes "r \<in> set (AddRoutes s)"
  shows "(rtAuth r \<longleftrightarrow> rtHandler r \<notin> {HVersion, HSettings, HPluginsIndex, HPluginFile}) \<and>
    (rtHandler r = HGetK8s \<longrightarrow> rtMethod r = ''GET'') \<and>
    (rtAuth r \<longrightarrow> serve_route resolve handlers r req st w =
      (case resolve req st w of
         (Inl e, st', w') \<Rightarrow> (st', Abort (HandleError e w'))
       | (Inr ra, st', w') \<Rightarrow> handlers (rtHandler r) (Some ra) req st' w')) \<and>
    distinct (server_routes s cfg)"
proof (intro conjI)
  show "rtAuth r \<longleftrightarrow> rtHandler r \<notin> {HVersion, HSettings, HPluginsIndex, HPluginFile}"
    using assms by (auto simp: route_defs Let_def split: if_splits)
  show "rtHandler r = HGetK8s \<longrightarrow> rtMethod r = ''GET''"
    using assms by (auto simp: route_defs Let_def split: if_splits)
  show "rtAuth r \<longrightarrow> serve_route resolve handlers r req st w =
      (case resolve req st w of
         (Inl e, st', w') \<Rightarrow> (st', Abort (HandleError e w'))
       | (Inr ra, st', w') \<Rightarrow> handlers (rtHandler r) (Some ra) req st' w')"
    by (simp add: serve_route_def Middleware_def)
  show "distinct (server_routes s cfg)"
    by (rule server_routes_distinct)
qed

lemma routes_authenticated_example:
  "rtAuth \<lparr>rtMethod = ''GET'', rtPath = ''/api/v1/k8s/*path'', rtAuth = True, rtHandler = HGetK8s\<rparr>"
  using routes_authenticated [of "\<lparr>rtMethod = ''GET'', rtPath = ''/api/v1/k8s/*path'', rtAuth = True, rtHandler = HGetK8s\<rparr>"
      "\<lparr>apPasswordStore = True, apFlowStream = True, apMaxTraceflowsPerHour = 0, apFrontendSettings = undefined\<rparr>"]
  by (simp add: route_defs Let_def)



section \<open>Start-up\<close>

text \<open>The connection to the Flow Aggregator is verified unless the configuration says otherwise.\<close>

lemma flow_tls_verifies:
  assumes "buildFlowAggregatorTLSConfig parsePEM cfg caData = Inr tls"
  shows "tcInsecureSkipVerify tls = faInsecureSkipVerify cfg"
    "tcRootCAs tls = (if faInsecureSkipVerify cfg \<or> caData = [] then None else Some caData)"
  using assms by (auto simp: buildFlowAggregatorTLSConfig_def Let_def split: if_splits)

lemma Init_ready: "Init read write hash rand s = (None, s') \<Longrightarrow> cachedSalt s' \<noteq> None"
  by (auto simp: Init_def split: prod.splits sum.splits option.splits)

lemma start_password_ok:
  assumes "start_password e config c = Inr p"
  shows "(p \<noteq> None) = aucBasicEnabled (cfgAuth config)" "p = Some s \<Longrightarrow> cachedSalt s \<noteq> None"
proof -
  show "(p \<noteq> None) = aucBasicEnabled (cfgAuth config)"
    using assms by (auto simp: start_password_def Let_def split: if_splits prod.splits option.splits)
  show "p = Some s \<Longrightarrow> cachedSalt s \<noteq> None"
    using assms Init_ready by (auto simp: start_password_def Let_def split: if_splits prod.splits option.splits)
qed

lemma start_oidc_ok: "start_oidc e config = Inr p \<Longrightarrow> (p \<noteq> None) = ocEnabled (aucOIDC (cfgAuth config))"
  by (auto simp: start_oidc_def Let_def split: if_splits prod.splits sum.splits bool.splits)

lemma start_flow_ok:
  assumes "start_flow e config = Inr p"
  shows "(p \<noteq> None) = faEnabled (cfgFlowAggregator config)"
    "p = Some tls \<Longrightarrow> tcInsecureSkipVerify tls = faInsecureSkipVerify (cfgFlowAggregator config) \<and>
       (faCAConfigMap (cfgFlowAggregator config) \<noteq> [] \<and> \<not> faInsecureSkipVerify (cfgFlowAggregator config) \<longrightarrow> tcRootCAs tls \<noteq> None)"
proof -
  show "(p \<noteq> None) = faEnabled (cfgFlowAggregator config)"
    using assms by (auto simp: start_flow_def NewGRPCFlowStreamSubscriber_def Let_def split: if_splits sum.splits option.splits)
  show "tcInsecureSkipVerify tls = faInsecureSkipVerify (cfgFlowAggregator config) \<and>
       (faCAConfigMap (cfgFlowAggregator config) \<noteq> [] \<and> \<not> faInsecureSkipVerify (cfgFlowAggregator config) \<longrightarrow> tcRootCAs tls \<noteq> None)"
    if "p = Some tls"
  proof -
    have "\<exists>caData. buildFlowAggregatorTLSConfig (suParsePEM e) (cfgFlowAggregator config) caData = Inr tls \<and>
        (faCAConfigMap (cfgFlowAggregator config) \<noteq> [] \<longrightarrow> caData \<noteq> [])"
      using assms that by (auto simp: start_flow_def NewGRPCFlowStreamSubscriber_def Let_def split: if_splits sum.splits option.splits list.splits)
    then obtain caData where b: "buildFlowAggregatorTLSConfig (suParsePEM e) (cfgFlowAggregator config) caData = Inr tls"
      and "faCAConfigMap (cfgFlowAggregator config) \<noteq> [] \<longrightarrow> caData \<noteq> []" by blast
    then show ?thesis using flow_tls_verifies [OF b] by simp
  qed
qed

lemma run_parts:
  assumes "run e config c = Inr rn"
  shows "start_password e config c = Inr (rnPassword rn)" "start_oidc e config = Inr (rnOIDC rn)" "start_flow e config = Inr (rnFlow rn)"
    "rnStore rn = NewStore (session_options config)"
    "rnServerConfig rn = newServerConfig config (rnAdminUser rn)"
    "rnApi rn = NewApiServer (suBuild e) config (rnPassword rn \<noteq> None) (rnFlow rn \<noteq> None)"
    "NewFromServerConfig (suIP e) (suTokenLru e) (suLimiterLru e) (suGetenv e) config = Inr (rnAuthenticator rn, rnBearer rn)"
    "rnAdminUser rn = ServiceAccountUserName (GetNamespace (suGetenv e)) antreaUIAdminSAName"
    "cfTransportKey (rnFactory rn) = TransportKeyK8s"
    "rnGCClient rn = ImpersonatingRoundTripper (rnAdminUser rn) (ServiceAccountTransport (rnProxyTarget rn))"
  using assms
  by (auto simp: run_def run_fail_def Let_def NewServer_def NewClientFactory_def Client_def ImpersonatedClient_def
      split: sum.splits option.splits prod.splits)

text \<open>
  C39: a server that starts is complete. With a valid configuration, a started server has a session
  store in its invariant with the configured limits; an initialised password store exactly if the
  admin password is enabled, and then the route to log in with it and the route to change it, and
  none otherwise; an OIDC provider exactly if its routes are registered; a stream of flows exactly if
  it is enabled, over a verified connection unless the configuration turns verification off; a Traceflow
  sweep that acts as the antrea-ui-admin ServiceAccount; and at least one route to log in.
\<close>

theorem started_server_complete:
  assumes "validateConfig config = None" and "run e config c = Inr rn"
  shows "store_inv (rnStore rn) \<and> opts (rnStore rn) = session_options config \<and>
    (\<forall>s. rnPassword rn = Some s \<longrightarrow> cachedSalt s \<noteq> None) \<and>
    (HLogin \<in> atHandler ` set (AddAuthRoutes (rnServerConfig rn)) \<longleftrightarrow> rnPassword rn \<noteq> None) \<and>
    (HUpdatePassword \<in> rtHandler ` set (AddRoutes (rnApi rn)) \<longleftrightarrow> rnPassword rn \<noteq> None) \<and>
    (HOAuth2Callback \<in> atHandler ` set (AddAuthRoutes (rnServerConfig rn)) \<longleftrightarrow> rnOIDC rn \<noteq> None) \<and>
    (HFlowStream \<in> rtHandler ` set (AddRoutes (rnApi rn)) \<longleftrightarrow> rnFlow rn \<noteq> None) \<and>
    (\<forall>tls. rnFlow rn = Some tls \<longrightarrow> tcInsecureSkipVerify tls = faInsecureSkipVerify (cfgFlowAggregator config)) \<and>
    rnGCClient rn = ImpersonatingRoundTripper (ServiceAccountUserName (GetNamespace (suGetenv e)) ''antrea-ui-admin'')
      (ServiceAccountTransport (rnProxyTarget rn)) \<and>
    (\<exists>h \<in> {HLogin, HLoginWithToken, HLoginWithKubeconfig, HOAuth2Login}. h \<in> atHandler ` set (AddAuthRoutes (rnServerConfig rn)))"
proof -
  note p = run_parts [OF assms(2)]
  have pw: "rnPassword rn \<noteq> None \<longleftrightarrow> BasicAuthEnabled (rnServerConfig rn)"
    using start_password_ok(1) [OF p(1)] p(5) by (simp add: newServerConfig_def)
  have oi: "rnOIDC rn \<noteq> None \<longleftrightarrow> OIDCAuthEnabled (rnServerConfig rn)"
    using start_oidc_ok [OF p(2)] p(5) by (simp add: newServerConfig_def)
  have modes: "BasicAuthEnabled (rnServerConfig rn) \<or> OIDCAuthEnabled (rnServerConfig rn) \<or>
      KubeconfigAuthEnabled (rnServerConfig rn) \<or> SATokenAuthEnabled (rnServerConfig rn)"
    using validated(3) [OF assms(1)] by (simp add: p(5) newServerConfig_def anyModeEnabled_def)
  show ?thesis
  proof (intro conjI allI impI)
    show "store_inv (rnStore rn)" "opts (rnStore rn) = session_options config"
      using NewStore_inv session_options_kept [OF assms(1)] p(4) by simp_all
    show "cachedSalt s \<noteq> None" if "rnPassword rn = Some s" for s using start_password_ok(2) [OF p(1) that] .
    show "HLogin \<in> atHandler ` set (AddAuthRoutes (rnServerConfig rn)) \<longleftrightarrow> rnPassword rn \<noteq> None"
      unfolding pw by (simp add: auth_handlers_registered)
    show "HOAuth2Callback \<in> atHandler ` set (AddAuthRoutes (rnServerConfig rn)) \<longleftrightarrow> rnOIDC rn \<noteq> None"
      unfolding oi by (simp add: auth_handlers_registered)
    show "HUpdatePassword \<in> rtHandler ` set (AddRoutes (rnApi rn)) \<longleftrightarrow> rnPassword rn \<noteq> None"
      by (simp add: p(6) NewApiServer_def route_defs Let_def)
    show "HFlowStream \<in> rtHandler ` set (AddRoutes (rnApi rn)) \<longleftrightarrow> rnFlow rn \<noteq> None"
      by (simp add: p(6) NewApiServer_def route_defs Let_def)
    show "tcInsecureSkipVerify tls = faInsecureSkipVerify (cfgFlowAggregator config)" if "rnFlow rn = Some tls" for tls
      using start_flow_ok(2) [OF p(3) that] by simp
    show "rnGCClient rn = ImpersonatingRoundTripper (ServiceAccountUserName (GetNamespace (suGetenv e)) ''antrea-ui-admin'')
      (ServiceAccountTransport (rnProxyTarget rn))"
      by (simp add: p(8,10) antreaUIAdminSAName_def)
    show "\<exists>h \<in> {HLogin, HLoginWithToken, HLoginWithKubeconfig, HOAuth2Login}. h \<in> atHandler ` set (AddAuthRoutes (rnServerConfig rn))"
      using modes by (auto simp: auth_handlers_registered)
  qed
qed

text \<open>A cluster with a Secret for the admin password.\<close>

definition ex_startup :: "(unit, (string \<times> bearerCacheEntry) list, (string \<times> nat) list) startup" where
  "ex_startup =
     \<lparr>suGetenv = (\<lambda>v. []), suIP = (\<lambda>s. None), suBuild = \<lparr>biVersion = [], biGitSHA = [], biGitTreeState = [], biReleaseStatus = []\<rparr>,
      suLookupEnv = (\<lambda>v. None), suPodConfig = Inl [],
      suKubeConfig = (\<lambda>p. Inr \<lparr>rcBearerToken = [], rcBearerTokenFile = [], rcCAData = [], rcServerName = [], rcHost = ''https://api''\<rparr>),
      suKubeconfigPath = [], suHTTPClient = (\<lambda>c. None), suDynamicClient = (\<lambda>c. None), suAnonymous = None, suClientset = None,
      suSecrets = \<lparr>sc_get = (\<lambda>ns n c. (c, Inl NotFound)), sc_create = (\<lambda>ns s c. (c, None)), sc_update = (\<lambda>ns s c. (c, None))\<rparr>,
      suHash = (\<lambda>p s. Inr p), suRand = (\<lambda>n. Some (replicate n (CHR ''x''))), suCallbackURL = (\<lambda>u. u), suReturnURL = (\<lambda>u. u),
      suDiscovery = (\<lambda>u. [True]), suConfigMap = (\<lambda>ns n. Inl []), suParsePEM = (\<lambda>p. True), suGRPC = (\<lambda>a t. None),
      suTokenLru = ex_lru, suLimiterLru = ex_lru\<rparr>"

type_synonym ex_running =
  "(unit, (string \<times> bearerCacheEntry) list, (unit, (string \<times> nat) list) ClientRateLimiter) running"

theorem started_server_complete_witness:
  "\<exists>rn :: ex_running. run ex_startup ex_config () = Inr rn \<and> rnPassword rn \<noteq> None \<and> store_inv (rnStore rn)"
proof -
  have "Parse (\<lambda>s. None) ''https://api'' \<noteq> None" by code_simp
  then have url: "\<exists>u. Parse (\<lambda>s. None) ''https://api'' = Some u" by blast
  obtain s where pw: "start_password ex_startup ex_config () = Inr (Some s)"
    by (simp add: start_password_def ex_config_def ex_startup_def Init_def K8sSecret_Read_def readSecret_def K8sSecret_Write_def Bytes_def
        NewPasswordStore_def Let_def)
  have oi: "start_oidc ex_startup ex_config = Inr None" by (simp add: start_oidc_def ex_config_def)
  obtain t where fl: "start_flow ex_startup ex_config = Inr (Some t)"
    by (simp add: start_flow_def NewGRPCFlowStreamSubscriber_def ex_config_def ex_startup_def buildFlowAggregatorTLSConfig_def)
  have "\<exists>x :: serverConfig \<times> api_server \<times> Authenticator \<times>
        ((string \<times> bearerCacheEntry) list, (unit, (string \<times> nat) list) ClientRateLimiter) bearerValidator option. NewServer (suIP ex_startup) (suTokenLru ex_startup) (suLimiterLru ex_startup) (suGetenv ex_startup) (suBuild ex_startup) ex_config a b u = Inr x" for a b u
    by (simp add: NewServer_def NewFromServerConfig_def New_def ex_config_def split: sum.split)
  then obtain x1 x2 x3 and x4 :: "((string \<times> bearerCacheEntry) list, (unit, (string \<times> nat) list) ClientRateLimiter) bearerValidator option"
    where sv: "NewServer (suIP ex_startup) (suTokenLru ex_startup) (suLimiterLru ex_startup) (suGetenv ex_startup) (suBuild ex_startup) ex_config
      True True (ServiceAccountUserName (GetNamespace (suGetenv ex_startup)) antreaUIAdminSAName) = Inr (x1, x2, x3, x4)"
    by (metis surj_pair)
  have fields: "Client (suHTTPClient ex_startup) (suDynamicClient ex_startup) (restConfig (suLookupEnv ex_startup) (suPodConfig ex_startup)
      (suKubeConfig ex_startup) (suKubeconfigPath ex_startup)) = Inr (\<lparr>rcBearerToken = [], rcBearerTokenFile = [], rcCAData = [], rcServerName = [], rcHost = ''https://api''\<rparr>,
      ServiceAccountTransport ''https://api'')"
    "suIP ex_startup = (\<lambda>s. None)" "\<And>c t u. ImpersonatedClient (suDynamicClient ex_startup) c t u = Inr (ImpersonatingRoundTripper u t)" "suAnonymous ex_startup = None" "suClientset ex_startup = None"
    by (simp_all add: ex_startup_def Client_def ImpersonatedClient_def restConfig_def inCluster_def)
  obtain rn :: ex_running where rn: "run ex_startup ex_config () = Inr rn" "rnPassword rn = Some s"
    using url pw oi fl sv by (auto simp: run_def fields NewClientFactory_def NewAntreaHandler_def Let_def)
  then show ?thesis using started_server_complete [OF ex_config_valid rn(1)] by blast
qed

end
