(* ===== verification/Auth_Routes.thy ===== *)
theory Auth_Routes
  imports Auth_Properties
begin

text \<open>
  The group \<open>/auth\<close> as a whole: its handlers bound to one environment, what a request on any of its
  routes does to the session store, and where the sessions of a running server come from. The step
  relation \<open>auth_run\<close> interleaves requests on these routes with what the rest of the server does to
  sessions: resolving the identity of an API request, ending a session on a 401, and the sweep.
\<close>

section \<open>The handlers in their environment\<close>

text \<open>
  What a request on the group consults: the configuration, clock readings, the password, JSON
  binding, kubeconfig and certificate parsing, the API server's answer about a credential, the OIDC
  provider, and the formatting of \<open>%q\<close> and of times.
\<close>

record ('b, 'l) auth_env =
  aeIP :: "string \<Rightarrow> string option"
  aeAuthn :: Authenticator
  aeConfig :: serverConfig
  aeBearer :: "('b, 'l) bearer_env"
  aeToken :: token_source
  aeClock :: "Time \<times> Time \<times> Time \<times> Time"
  aeBearerClock :: "Time \<times> Time"
  aeNow :: Time
  aeCompare :: "string \<Rightarrow> bool"
  aeBindToken :: "body_reader \<Rightarrow> string option"
  aeBindKubeconfig :: "body_reader \<Rightarrow> string option"
  aeLoad :: "string \<Rightarrow> Kubeconfig option"
  aePem :: "string \<Rightarrow> string option"
  aeX509 :: "string \<Rightarrow> Time option"
  aeQuote :: "string \<Rightarrow> string"
  aeRFC3339 :: "Time \<Rightarrow> string"
  aeCheck :: validator
  aeCreate :: create_env
  aeCodec :: state_codec
  aeOIDC :: oidc_env
  aeProvider :: OIDCProvider
  aeAuthCodeURL :: "oauth2_config \<Rightarrow> string \<Rightarrow> string \<Rightarrow> string"
  aeEndpoint :: string
  aeRandState :: rand_source
  aeRandNonce :: rand_source
  aeMarshal :: "SessionInfo \<Rightarrow> string"

text \<open>The refresher of OIDC sessions verifies an ID token as the callback does.\<close>

definition aeRefresh :: "('b, 'l) auth_env \<Rightarrow> refresher_id \<Rightarrow> Refresh" where
  "aeRefresh E = (\<lambda>rid. oidc_Refresh (aeToken E) (\<lambda>raw. map_option fst (oeVerify (aeOIDC E) raw)))"

definition aeResolve ::
  "('b, 'l) auth_env \<Rightarrow> Request \<Rightarrow> ('b, 'l) auth_state \<Rightarrow> Response \<Rightarrow> (ServerError + RequestAuth) \<times> ('b, 'l) auth_state \<times> Response" where
  "aeResolve E = Resolve (aeIP E) (aeBearer E) (aeRefresh E) (aeClock E) (aeBearerClock E) (aeAuthn E)"

definition on_store :: "('b, 'l) auth_state \<Rightarrow> store \<times> Response \<Rightarrow> ('b, 'l) auth_state \<times> Response" where
  "on_store s r = (case r of (st, w) \<Rightarrow> (s\<lparr>asStore := st\<rparr>, w))"

definition auth_dispatch ::
  "('b, 'l) auth_env \<Rightarrow> auth_handler \<Rightarrow> Request \<Rightarrow> body_reader \<Rightarrow> ('b, 'l) auth_state \<Rightarrow> Response \<Rightarrow> ('b, 'l) auth_state \<times> Response" where
  "auth_dispatch E h req body s w =
     (let exp = beExp (aeBearer E);
          msg = cred_error_text (aeQuote E) (aeRFC3339 E)
      in case h of
           HLogin \<Rightarrow> on_store s (Login (aeCompare E) (aeCreate E) (aeAuthn E) (aeConfig E) req (asStore s) w)
         | HLoginWithToken \<Rightarrow>
             on_store s (LoginWithToken (aeBindToken E) exp msg (aeCheck E) (aeCreate E) (aeAuthn E) req body (asStore s) w)
         | HLoginWithKubeconfig \<Rightarrow>
             on_store s (LoginWithKubeconfig (aeBindKubeconfig E)
               (CredentialFromKubeconfig (aeLoad E) exp (aePem E) (aeX509 E) (aeNow E)) msg
               (aeCheck E) (aeCreate E) (aeAuthn E) req body (asStore s) w)
         | HSession \<Rightarrow> Session_handler (aeMarshal E) (aeResolve E req s w)
         | HLogout \<Rightarrow>
             on_store s (Logout (aeIP E) (BuildLogoutURL (aeIP E) (aeProvider E)) (aeAuthn E) (aeConfig E) req (asStore s) w)
         | HOAuth2Login \<Rightarrow>
             (s, OAuth2Login (aeIP E) (aeCodec E) (oeSha256 (aeOIDC E)) (aeAuthCodeURL E) (aeEndpoint E) (aeRandState E) (aeRandNonce E)
                   (aeAuthn E) (aeConfig E) (aeProvider E) req w)
         | HOAuth2Callback \<Rightarrow>
             on_store s (OAuth2Callback (aeCodec E) (aeOIDC E) (aeCheck E) (aeCreate E) (aeAuthn E) (aeProvider E) req (asStore s) w))"

text \<open>A request on a route of the group; \<open>limiter\<close> is the limiter of the login routes, if there is one.\<close>

definition serve_auth ::
  "('b, 'l) auth_env \<Rightarrow> (Time \<Rightarrow> Request \<Rightarrow> 'm \<Rightarrow> bool \<times> 'm) option \<Rightarrow> auth_route \<Rightarrow> Request \<Rightarrow> ('b, 'l) auth_state \<times> 'm \<Rightarrow> Response \<Rightarrow>
   (('b, 'l) auth_state \<times> 'm) \<times> Response" where
  "serve_auth E limiter r req = serve_auth_route (aeIP E) (aeAuthn E) limiter (aeNow E) (auth_dispatch E) r req"

section \<open>Where sessions come from\<close>

text \<open>
  A login that was confirmed: the mode, the username and the credential. The admin password
  confirms the user \<open>admin\<close> with the configured impersonated identity; the API server confirms a
  credential with the username it resolves it to.
\<close>

type_synonym login = "Mode \<times> string \<times> acred"

definition api_confirmed :: "('b, 'l) auth_env \<Rightarrow> Mode \<Rightarrow> login set" where
  "api_confirmed E mode = {(mode, u, cred_view m cred) |u m cred. aeCheck E m cred = Inr u}"

definition password_confirmed :: "('b, 'l) auth_env \<Rightarrow> Request \<Rightarrow> login set" where
  "password_confirmed E req =
     {(ModeAdmin, ''admin'', (KindImpersonate, [], [], [], AdminUserName (aeConfig E))) |pw.
        BasicAuth req = Some (''admin'', pw) \<and> aeCompare E pw}"

definition confirmed :: "('b, 'l) auth_env \<Rightarrow> Request \<Rightarrow> auth_handler \<Rightarrow> login set" where
  "confirmed E req h =
     (case h of
        HLogin \<Rightarrow> password_confirmed E req
      | HLoginWithToken \<Rightarrow> api_confirmed E ModeSAToken
      | HLoginWithKubeconfig \<Rightarrow> api_confirmed E ModeKubeconfig
      | HOAuth2Callback \<Rightarrow> api_confirmed E ModeOIDC
      | _ \<Rightarrow> {})"

text \<open>A session that goes back to a confirmed login: its mode and username are those of the login, and
  so is its credential unless it is an OIDC session, whose credential may have been renewed.\<close>

definition backed :: "login set \<Rightarrow> asession \<Rightarrow> bool" where
  "backed H s \<longleftrightarrow> (aRefresher s \<noteq> None \<longrightarrow> aMode s = ModeOIDC) \<and>
     (\<exists>v. (aMode s, aUsername s, v) \<in> H \<and> (aCred s = v \<or> aMode s = ModeOIDC))"

text \<open>The same session later: only a session with a refresher changes its credential.\<close>

definition descends :: "asession \<Rightarrow> asession \<Rightarrow> bool" where
  "descends s s' \<longleftrightarrow> aMode s' = aMode s \<and> aUsername s' = aUsername s \<and> aRefresher s' = aRefresher s \<and>
     (aCred s' = aCred s \<or> aRefresher s \<noteq> None)"

text \<open>Every session afterwards was there before or is backed by \<open>H\<close>.\<close>

definition grows :: "login set \<Rightarrow> store \<Rightarrow> store \<Rightarrow> bool" where
  "grows H st st' \<longleftrightarrow> store_inv st' \<and>
     (\<forall>x s'. abs st' x = Some s' \<longrightarrow> backed H s' \<or> (\<exists>s. abs st x = Some s \<and> descends s s'))"

lemma descends_refl [simp]: "descends s s"
  by (simp add: descends_def)

lemma backedI:
  assumes "(aMode s, aUsername s, v) \<in> H" and "aCred s = v \<or> aMode s = ModeOIDC"
    and "aRefresher s \<noteq> None \<Longrightarrow> aMode s = ModeOIDC"
  shows "backed H s"
  unfolding backed_def using assms by blast

lemma backed_mono: "backed H s \<Longrightarrow> H \<subseteq> H' \<Longrightarrow> backed H' s"
  unfolding backed_def by blast

lemma backed_descends: "backed H s \<Longrightarrow> descends s s' \<Longrightarrow> backed H s'"
  unfolding backed_def descends_def by metis

lemma growsI:
  assumes "store_inv st'" and "\<And>x s. abs st' x = Some s \<Longrightarrow> backed H s \<or> abs st x = Some s"
  shows "grows H st st'"
  using assms descends_refl unfolding grows_def by blast

lemma grows_refl: "store_inv st \<Longrightarrow> grows H st st"
  by (rule growsI) auto

lemma grows_mem: "store_inv st \<Longrightarrow> grows H st (st\<lparr>mem := mem st @ xs\<rparr>)"
  by (rule growsI) (simp_all add: store_inv_mem_append abs_mem_append)

lemma grows_subset: "store_inv st' \<Longrightarrow> abs st' \<subseteq>\<^sub>m abs st \<Longrightarrow> grows H st st'"
  by (rule growsI) (auto simp: map_le_def dom_def)

subsection \<open>Requests\<close>

lemma createSession_grows:
  assumes inv: "store_inv st" and fresh: "spec_fresh spec st" and env: "env_ok C st"
    and new: "\<And>sid. backed H (view (mem st) (newSession (opts st) sid (ceNow C) spec))"
    and cr: "createSession C a req spec st w = (err, st', w')"
  shows "grows H st st'"
proof -
  obtain res st1 where c: "Create (ceRand C) (ceNow C) (ceRange C) spec (drop_old_session req st) = (res, st1)" by fastforce
  show ?thesis
  proof (cases res)
    case (Inl e)
    have "store_inv st' \<and> abs st' = abs (drop_old_session req st)"
      using createSession_refused [OF inv fresh _ c [unfolded Inl] cr] env by (auto simp: env_ok_def)
    then show ?thesis by (intro growsI) (auto simp: abs_drop_old [OF inv] split: if_splits)
  next
    case (Inr r)
    obtain sid where sid: "store_inv st'" "abs st' sid = Some (view (mem st) (newSession (opts st) sid (ceNow C) spec))"
      "\<And>x. x \<noteq> sid \<Longrightarrow> abs st' x = None \<or> abs st' x = abs st x"
      using createSession_created [OF inv fresh env c [unfolded Inr] cr] by (auto simp: logged_in_def)
    show ?thesis
    proof (rule growsI)
      show "backed H s \<or> abs st x = Some s" if "abs st' x = Some s" for x s
        using that sid(2,3) new [of sid] by (cases "x = sid") force+
    qed (rule sid(1))
  qed
qed

lemma new_spec_grows:
  assumes inv: "store_inv st" and env: "env_ok C st" and spec: "new_spec st xs spec"
    and new: "\<And>sid. backed H (view (mem st @ xs) (newSession (opts st) sid (ceNow C) spec))"
    and cr: "createSession C a req spec (st\<lparr>mem := mem st @ xs\<rparr>) w = (err, st', w')"
  shows "grows H st st'"
proof -
  let ?st = "st\<lparr>mem := mem st @ xs\<rparr>"
  have "spec_fresh spec ?st" using spec by (intro spec_fresh_new [OF inv]) (simp_all add: new_spec_def)
  then have "grows H ?st st'"
    using createSession_grows [OF store_inv_mem_append [OF inv] _ _ _ cr] env new by (simp add: env_ok_mem)
  then show ?thesis by (simp add: grows_def abs_mem_append [OF inv])
qed

lemma backed_newSpec:
  assumes "aeCheck E m cred = Inr u"
  shows "backed (api_confirmed E mode) (view m (newSession os sid now (newSpec mode u cred)))"
proof -
  have "(mode, u, cred_view m cred) \<in> api_confirmed E mode" using assms unfolding api_confirmed_def by blast
  then show ?thesis by (intro backedI [of _ "cred_view m cred"]) (simp_all add: newSession_def newSpec_def)
qed

lemma login_with_grows:
  assumes inv: "store_inv st" and env: "env_ok C st"
    and refs: "slice_refs (cred_slices cred) \<subseteq> {length (mem st)..<length (mem st @ xs)}"
    and log: "login_with (aeCheck E) C a req mode cred (st\<lparr>mem := mem st @ xs\<rparr>) w = (err, st', w')"
  shows "grows (api_confirmed E mode) st st'"
proof -
  have new: "new_spec st xs (newSpec mode u cred)" for u
    using refs by (simp add: new_spec_def spec_slices_def newSpec_def slice_refs_def)
  show ?thesis
  proof (cases "aeCheck E (mem st @ xs) cred")
    case (Inl e)
    then have "st' = st\<lparr>mem := fst (Spec_Zero (mem st @ xs) (newSpec mode [] cred))\<rparr>"
      using log by (auto simp: login_with_def validateCredential_def Credential_Zero_mem Spec_Zero_mem
          spec_slices_def newSpec_def)
    then show ?thesis using new_spec_discarded [OF inv new] by (intro growsI) auto
  next
    case (Inr u)
    then have "createSession C a req (newSpec mode u cred) (st\<lparr>mem := mem st @ xs\<rparr>) w = (err, st', w')"
      using log by (simp add: login_with_def validateCredential_def)
    then show ?thesis using backed_newSpec [OF Inr] by (intro new_spec_grows [OF inv env new])
  qed
qed

lemma finish_store: "finish (err, st, w) = (st', w') \<Longrightarrow> st' = st"
  by (cases err) (simp_all add: finish_def)

lemma Login_grows:
  assumes inv: "store_inv st" and env: "env_ok C st"
    and log: "Login (aeCompare E) C a (aeConfig E) req st w = (st', w')"
  shows "grows (password_confirmed E req) st st'"
proof -
  obtain err st1 w1 where b: "Login_body (aeCompare E) C a (aeConfig E) req st w = (err, st1, w1)" by (metis surj_pair)
  have st': "st' = st1" using log b finish_store by (auto simp: Login_def)
  let ?cred = "emptyCredential\<lparr>cKind := KindImpersonate, cUserName := AdminUserName (aeConfig E)\<rparr>"
  let ?spec = "newSpec ModeAdmin ''admin'' ?cred"
  show ?thesis
  proof (cases "\<exists>pw. BasicAuth req = Some (''admin'', pw) \<and> aeCompare E pw")
    case False
    then have "st1 = st" using b by (auto simp: Login_body_def split: option.splits prod.splits if_splits)
    then show ?thesis using grows_refl [OF inv] st' by simp
  next
    case True
    then have cr: "createSession C a req ?spec st w = (err, st1, w1)" using b by (auto simp: Login_body_def)
    have "(ModeAdmin, ''admin'', (KindImpersonate, [], [], [], AdminUserName (aeConfig E))) \<in> password_confirmed E req"
      using True unfolding password_confirmed_def by blast
    then have new: "backed (password_confirmed E req) (view (mem st) (newSession (opts st) sid (ceNow C) ?spec))" for sid
      by (intro backedI [of _ "(KindImpersonate, [], [], [], AdminUserName (aeConfig E))"])
         (simp_all add: newSession_def newSpec_def cred_view_def emptyCredential_def slice_get_def)
    have "spec_fresh ?spec st"
      by (simp add: spec_fresh_def spec_slices_def newSpec_def cred_slices_def emptyCredential_def slice_refs_def)
    from createSession_grows [OF inv this env new cr] show ?thesis by (simp add: st')
  qed
qed

lemma LoginWithToken_grows:
  assumes inv: "store_inv st" and env: "env_ok C st"
    and log: "LoginWithToken bind exp msg (aeCheck E) C a req body st w = (st', w')"
  shows "grows (api_confirmed E ModeSAToken) st st'"
proof (cases "bind body")
  case None
  then show ?thesis using log grows_refl [OF inv] by (auto simp: LoginWithToken_def LoginWithToken_body_def finish_def)
next
  case (Some token)
  let ?st = "st\<lparr>mem := mem st @ [token]\<rparr>"
  show ?thesis
  proof (cases "BearerCredential exp (mem st @ [token]) (Some (length (mem st)))")
    case (Inl e)
    then show ?thesis
      using log Some grows_mem [OF inv, of _ "[token]"]
      by (auto simp: LoginWithToken_def LoginWithToken_body_def finish_def alloc_def)
  next
    case (Inr cred)
    obtain err st1 w1 where lw: "login_with (aeCheck E) C a req ModeSAToken cred ?st w = (err, st1, w1)" by (metis surj_pair)
    have "st' = st1"
      using log Some Inr lw finish_store by (auto simp: LoginWithToken_def LoginWithToken_body_def alloc_def)
    moreover have "slice_refs (cred_slices cred) \<subseteq> {length (mem st)..<length (mem st @ [token])}"
      using BearerCredential_Inr [OF Inr] by (simp add: cred_slices_def slice_refs_def)
    ultimately show ?thesis using login_with_grows [OF inv env _ lw] by simp
  qed
qed

lemma kubeconfig_fresh:
  assumes "CredentialFromKubeconfig Load exp pem x509 now m data = (m', Inr cred)"
  shows "slice_refs (cred_slices cred) \<subseteq> {length m..<length m'}"
  using assms
  by (auto simp: CredentialFromKubeconfig_def alloc_def Let_def cred_slices_def slice_refs_def
      split: option.splits if_splits dest!: BearerCredential_Inr certCredential_Inr)

lemma LoginWithKubeconfig_grows:
  assumes inv: "store_inv st" and env: "env_ok C st"
    and log: "LoginWithKubeconfig bind (CredentialFromKubeconfig Load exp pem x509 now) msg (aeCheck E) C a req body st w = (st', w')"
  shows "grows (api_confirmed E ModeKubeconfig) st st'"
proof (cases "bind body")
  case None
  then show ?thesis
    using log grows_refl [OF inv] by (auto simp: LoginWithKubeconfig_def LoginWithKubeconfig_body_def finish_def)
next
  case (Some data)
  obtain m' res where kc: "CredentialFromKubeconfig Load exp pem x509 now (mem st) data = (m', res)" by fastforce
  obtain xs where m': "m' = mem st @ xs" using kubeconfig_allocates [OF kc] by blast
  show ?thesis
  proof (cases res)
    case (Inl e)
    then show ?thesis
      using log Some kc grows_mem [OF inv] by (auto simp: LoginWithKubeconfig_def LoginWithKubeconfig_body_def finish_def m')
  next
    case (Inr cred)
    obtain err st1 w1 where lw: "login_with (aeCheck E) C a req ModeKubeconfig cred (st\<lparr>mem := m'\<rparr>) w = (err, st1, w1)"
      by (metis surj_pair)
    have "st' = st1"
      using log Some kc Inr lw finish_store by (auto simp: LoginWithKubeconfig_def LoginWithKubeconfig_body_def)
    then show ?thesis
      using login_with_grows [OF inv env _ lw [unfolded m']] kubeconfig_fresh [OF kc [unfolded Inr]] m' by simp
  qed
qed

lemma OAuth2Callback_grows:
  assumes inv: "store_inv st" and env: "env_ok C st"
    and cb: "OAuth2Callback K V (aeCheck E) C a p req st w = (st', w')"
  shows "grows (api_confirmed E ModeOIDC) st st'"
proof (cases "callback_token K V p req")
  case (Inl e)
  then show ?thesis using cb grows_refl [OF inv] by (auto simp: OAuth2Callback_def)
next
  case (Inr x)
  obtain cs raw expiry rt where tok: "callback_token K V p req = Inr (cs, raw, expiry, rt)" using Inr by (metis prod_cases4)
  obtain m spec where spec: "oidc_spec raw expiry rt (mem st) = (m, spec)" by fastforce
  obtain xs where m: "m = mem st @ xs" and new: "new_spec st xs spec" and mode: "spMode spec = ModeOIDC"
    using oidc_spec_refs [OF spec] unfolding new_spec_def by blast
  show ?thesis
  proof (cases "aeCheck E m (spCredential spec)")
    case rej: (Inl e)
    show ?thesis using callback_rejected [OF inv tok spec [unfolded m] new rej [unfolded m] cb] by (intro growsI) auto
  next
    case acc: (Inr u)
    obtain err st1 w1 where cr: "createSession C a req (spec\<lparr>spUsername := u\<rparr>) (st\<lparr>mem := mem st @ xs\<rparr>) w = (err, st1, w1)"
      by (metis surj_pair)
    have "st' = st1" using cb acc cr by (cases err) (simp_all add: OAuth2Callback_def tok spec validateCredential_def m)
    moreover have "(ModeOIDC, u, cred_view m (spCredential spec)) \<in> api_confirmed E ModeOIDC"
      using acc unfolding api_confirmed_def by blast
    then have "backed (api_confirmed E ModeOIDC) (view m (newSession (opts st) sid (ceNow C) (spec\<lparr>spUsername := u\<rparr>)))" for sid
      by (intro backedI [of _ "cred_view m (spCredential spec)"]) (simp_all add: newSession_def mode)
    ultimately show ?thesis
      using new_spec_grows [OF inv env _ _ cr, unfolded new_spec_username, OF new] by (simp add: m)
  qed
qed

lemma Logout_grows:
  assumes inv: "store_inv st" and out: "Logout ip build a cfg req st w = (st', w')"
  shows "grows H st st'"
proof (cases "GetSessionCookie req")
  case None
  then have "st' = st" using out by (auto simp: Logout_def Let_def split: if_splits sum.splits)
  then show ?thesis using grows_refl [OF inv] by simp
next
  case (Some sid)
  then have "st' = Delete sid st" using out by (auto simp: Logout_def Let_def split: if_splits sum.splits)
  then show ?thesis using Delete_inv [OF inv] by (intro growsI) (auto simp: abs_Delete [OF inv] aDelete_def split: if_splits)
qed

lemma aGet_descends:
  assumes "snd (aGet os ar clock sid A) x = Some s'"
  shows "\<exists>s. A x = Some s \<and> descends s s'"
proof (cases "snd (aGet os ar clock sid A) x = A x")
  case True
  then show ?thesis using assms by (intro exI [of _ s']) simp
next
  case False
  obtain t0 t1 t2 t3 where clock: "clock = (t0, t1, t2, t3)" by (metis surj_pair)
  obtain s where s: "A sid = Some s" "x = sid" "s' = (arenew os ar t0 t1 s)\<lparr>aLastSeen := t3\<rparr>"
    using assms False by (auto simp: aGet_def clock aDelete_def Let_def split: option.splits if_splits)
  have "descends s s'"
    by (simp add: s(3) descends_def arenew_def split: option.split sum.split)
  with s show ?thesis by blast
qed

lemma Resolve_grows:
  assumes inv: "store_inv (asStore s)" and res: "aeResolve E req s w = (res, s', w')"
  shows "grows H (asStore s) (asStore s')"
proof (cases "GetSessionCookie req")
  case (Some sid)
  show ?thesis
  proof (cases "checkCSRF (aeIP E) (aeAuthn E) req")
    case None
    obtain g st' where G: "Get (aeRefresh E) (aeClock E) sid (asStore s) = (g, st')" by fastforce
    have "asStore s' = st'"
      using res Some None G by (auto simp: aeResolve_def Resolve_def split: sum.splits)
    moreover have "abs st' = snd (aGet (opts (asStore s)) (\<lambda>rid. oidc_arefresh (aeToken E)
        (\<lambda>raw. map_option fst (oeVerify (aeOIDC E) raw))) (aeClock E) sid (abs (asStore s)))"
      using oidc.Get_refines [OF inv G [unfolded aeRefresh_def]] by simp
    moreover have "store_inv st'" using oidc.Get_inv [OF inv] G unfolding aeRefresh_def by (metis snd_conv)
    ultimately show ?thesis using aGet_descends by (auto simp: grows_def)
  qed (use res Some grows_refl [OF inv] in \<open>auto simp: aeResolve_def Resolve_def\<close>)
next
  case None
  have "\<exists>xs. asStore s' = (asStore s)\<lparr>mem := mem (asStore s) @ xs\<rparr>"
    using res None by (auto simp: aeResolve_def Resolve_def alloc_def Let_def split: option.splits prod.splits sum.splits if_splits)
       (rule exI [of _ "[]"], simp)+
  then show ?thesis using grows_mem [OF inv] by auto
qed

lemma auth_dispatch_grows:
  assumes inv: "store_inv (asStore s)" and env: "env_ok (aeCreate E) (asStore s)"
    and d: "auth_dispatch E h req body s w = (s', w')"
  shows "grows (confirmed E req h) (asStore s) (asStore s')"
proof -
  have store: "on_store s r = (s', w') \<Longrightarrow> r = (asStore s', w')" for r
    by (auto simp: on_store_def split: prod.splits)
  show ?thesis
  proof (cases h)
    case HSession
    obtain res s1 w1 where R: "aeResolve E req s w = (res, s1, w1)" by (metis surj_pair)
    have "s' = s1" using d HSession R by (cases res) (auto simp: auth_dispatch_def Session_handler_def Let_def)
    then show ?thesis using Resolve_grows [OF inv R] by simp
  next
    case HOAuth2Login
    then show ?thesis using d grows_refl [OF inv] by (simp add: auth_dispatch_def)
  qed (use d in \<open>auto simp: auth_dispatch_def confirmed_def dest!: store
      intro: Login_grows [OF inv env] LoginWithToken_grows [OF inv env] LoginWithKubeconfig_grows [OF inv env]
        Logout_grows [OF inv] OAuth2Callback_grows [OF inv env]\<close>)
qed

text \<open>A gate either stops a request or hands the state to the handler as it is.\<close>

lemma serve_auth_route_cases:
  assumes "serve_auth_route ip a limiter now handlers r req (s, l) w = ((s', l'), w')"
  shows "s' = s \<or> (\<exists>body w0 w1. handlers (atHandler r) req body s w0 = (s', w1))"
proof (cases "atGate r")
  case LoginChain
  with assms show ?thesis
    by (auto simp: serve_auth_route_def loginHandlers_def limitBodySize_def CSRFMiddleware_def csrfMiddleware_def Let_def
        split: option.splits prod.splits if_splits)
qed (use assms in \<open>auto simp: serve_auth_route_def CSRFMiddleware_def NavigationCSRFMiddleware_def csrfMiddleware_def Let_def
      split: option.splits prod.splits\<close>)

lemma serve_auth_grows:
  assumes inv: "store_inv (asStore s)" and env: "env_ok (aeCreate E) (asStore s)"
    and srv: "serve_auth E limiter r req (s, l) w = ((s', l'), w')"
  shows "grows (confirmed E req (atHandler r)) (asStore s) (asStore s')"
  using serve_auth_route_cases [OF srv [unfolded serve_auth_def]] auth_dispatch_grows [OF inv env] grows_refl [OF inv]
  by blast

subsection \<open>Runs\<close>

text \<open>
  The sessions of a server with configuration \<open>cfg\<close>, with the logins that were confirmed so far: a
  request on a route of the group, the identity of an API request, the end of a session, the sweep.
\<close>

inductive auth_run :: "serverConfig \<Rightarrow> login set \<Rightarrow> ('b, 'l) auth_state \<Rightarrow> 'm \<Rightarrow> bool"
  for cfg :: serverConfig where
  run_start: "asStore s = NewStore os \<Longrightarrow> auth_run cfg {} s l"
| run_request: "auth_run cfg H s l \<Longrightarrow> aeConfig E = cfg \<Longrightarrow> r \<in> set (AddAuthRoutes cfg) \<Longrightarrow>
    env_ok (aeCreate E) (asStore s) \<Longrightarrow> serve_auth E limiter r req (s, l) w = ((s', l'), w') \<Longrightarrow>
    auth_run cfg (H \<union> confirmed E req (atHandler r)) s' l'"
| run_resolve: "auth_run cfg H s l \<Longrightarrow> aeResolve E req s w = (res, s', w') \<Longrightarrow> auth_run cfg H s' l"
| run_end: "auth_run cfg H s l \<Longrightarrow> auth_run cfg H (s\<lparr>asStore := Delete sid (asStore s)\<rparr>) l"
| run_sweep: "auth_run cfg H s l \<Longrightarrow> range_ok rng \<Longrightarrow> auth_run cfg H (s\<lparr>asStore := doGC rng now (asStore s)\<rparr>) l"

definition mode_enabled :: "serverConfig \<Rightarrow> Mode \<Rightarrow> bool" where
  "mode_enabled cfg mode \<longleftrightarrow>
     BasicAuthEnabled cfg \<and> mode = ModeAdmin \<or> SATokenAuthEnabled cfg \<and> mode = ModeSAToken \<or>
     KubeconfigAuthEnabled cfg \<and> mode = ModeKubeconfig \<or> OIDCAuthEnabled cfg \<and> mode = ModeOIDC"

lemma confirmed_enabled:
  assumes "r \<in> set (AddAuthRoutes cfg)" and "x \<in> confirmed E req (atHandler r)"
  shows "mode_enabled cfg (fst x)"
  using assms
  by (auto simp: AddAuthRoutes_def AddOAuth2Routes_def auth_route_at_def Let_def confirmed_def password_confirmed_def
      api_confirmed_def mode_enabled_def split: if_splits)

lemma grows_backed:
  assumes "grows H' st st'" and "\<forall>x s. abs st x = Some s \<longrightarrow> backed H s"
  shows "store_inv st' \<and> (\<forall>x s. abs st' x = Some s \<longrightarrow> backed (H \<union> H') s)"
proof -
  have "backed (H \<union> H') s'" if "abs st' x = Some s'" for x s'
    using assms that backed_mono [of H' s' "H \<union> H'"] backed_mono [of H s' "H \<union> H'"] backed_descends
    unfolding grows_def by blast
  then show ?thesis using assms(1) by (simp add: grows_def)
qed

lemma auth_run_backed:
  assumes "auth_run cfg H s l"
  shows "store_inv (asStore s) \<and> (\<forall>x a. abs (asStore s) x = Some a \<longrightarrow> backed H a) \<and>
    (\<forall>x \<in> H. mode_enabled cfg (fst x))"
  using assms
proof (induction rule: auth_run.induct)
  case (run_start s os l)
  then show ?case using NewStore_inv [of os] by (simp add: abs_def lookup_def NewStore_def)
next
  case (run_request H s l E r limiter req w s' l' w')
  then show ?case
    using grows_backed [OF serve_auth_grows [OF _ _ run_request.hyps(5)], of H] confirmed_enabled [OF run_request.hyps(3)] by auto
next
  case (run_resolve H s l E req w res s' w')
  then show ?case using grows_backed [OF Resolve_grows [OF _ run_resolve.hyps(2), of "{}"], of H] by simp
next
  case (run_end H s l sid)
  then show ?case by (auto simp: Delete_inv abs_Delete aDelete_def)
next
  case (run_sweep H s l rng now)
  then show ?case by (auto simp: doGC_inv abs_doGC aGC_def split: option.splits if_splits)
qed

text \<open>
  C15: every session goes back to a confirmed login. Whatever requests the routes of the group serve, whatever
  identities are resolved, sessions ended and swept in between, a session in the store has a mode that is
  enabled, and a login with its mode and username was confirmed before: by the admin password for the
  antrea-ui-admin identity, by the API server for every other mode. Its credential is the one of that login,
  or, in an OIDC session only, one it was renewed with.
\<close>

theorem sessions_confirmed:
  assumes run: "auth_run cfg H s l" and r: "lookup (asStore s) sid = Some r"
  shows "store_inv (asStore s) \<and> mode_enabled cfg (sMode (sess (asStore s) r)) \<and>
    (\<exists>v. (sMode (sess (asStore s) r), sUsername (sess (asStore s) r), v) \<in> H \<and>
       (cred_view (mem (asStore s)) (sCredential (sess (asStore s) r)) = v \<or> sMode (sess (asStore s) r) = ModeOIDC))"
proof -
  note R = auth_run_backed [OF run]
  have "abs (asStore s) sid = Some (view (mem (asStore s)) (sess (asStore s) r))" using r by (simp add: abs_def)
  then have b: "backed H (view (mem (asStore s)) (sess (asStore s) r))" using R by blast
  then obtain v where "(sMode (sess (asStore s) r), sUsername (sess (asStore s) r), v) \<in> H"
    "cred_view (mem (asStore s)) (sCredential (sess (asStore s) r)) = v \<or> sMode (sess (asStore s) r) = ModeOIDC"
    unfolding backed_def view_fields by blast
  with R show ?thesis by fastforce
qed

text \<open>A server that accepts pasted tokens, and a login with one.\<close>

definition ex_token_config :: serverConfig where
  "ex_token_config = ex_config\<lparr>SATokenAuthEnabled := True\<rparr>"

definition ex_auth_env :: "((string \<times> bearerCacheEntry) list, (unit, (string \<times> nat) list) ClientRateLimiter) auth_env" where
  "ex_auth_env =
     \<lparr>aeIP = Some, aeAuthn = ex_authn False, aeConfig = ex_token_config, aeBearer = ex_env, aeToken = (\<lambda>_. None),
      aeClock = (0, 0, 0, 0), aeBearerClock = (0, 0), aeNow = 0, aeCompare = (\<lambda>_. False),
      aeBindToken = (\<lambda>_. Some ''good''), aeBindKubeconfig = (\<lambda>_. None), aeLoad = (\<lambda>_. None), aePem = (\<lambda>_. None),
      aeX509 = (\<lambda>_. None), aeQuote = (\<lambda>s. s), aeRFC3339 = (\<lambda>_. []), aeCheck = ex_check, aeCreate = ex_create_env,
      aeCodec = ex_codec, aeOIDC = ex_oidc_env, aeProvider = ex_oidc, aeAuthCodeURL = (\<lambda>c s n. s), aeEndpoint = [],
      aeRandState = ex_rand, aeRandNonce = ex_rand, aeMarshal = (\<lambda>_. [])\<rparr>"

definition ex_token_route :: auth_route where
  "ex_token_route = auth_route_at ''POST'' ''/auth/login/token'' LoginChain HLoginWithToken"

lemma ex_auth_state_empty: "sessions (asStore ex_auth_state) = []" "lookup (asStore ex_auth_state) sid = None"
  "MaxSessions (opts (asStore ex_auth_state)) \<noteq> 0"
  by (simp_all add: ex_auth_state_def NewStore_def lookup_def setDefaults_def DefaultMaxSessions_def Let_def)

lemma ex_token_login:
  obtains w' st' where
    "LoginWithToken (aeBindToken ex_auth_env) (beExp (aeBearer ex_auth_env)) msg (aeCheck ex_auth_env) ex_create_env (ex_authn False)
       ex_req body (asStore ex_auth_state) newResponse = (st', w')" and "abs st' ex_sid \<noteq> None"
proof -
  let ?st = "asStore ex_auth_state"
  let ?m = "mem ?st @ [''good'']"
  obtain cred where cred: "BearerCredential (beExp (aeBearer ex_auth_env)) ?m (Some (length (mem ?st))) = Inr cred"
  proof -
    have "TrimSpace ''good'' \<noteq> []" by code_simp
    then show ?thesis using that by (simp add: BearerCredential_def slice_get_def)
  qed
  have inv: "store_inv ?st" by (simp add: ex_auth_state_def NewStore_inv)
  have env: "env_ok ex_create_env (?st\<lparr>mem := ?m\<rparr>)"
    by (simp add: env_ok_mem) (simp add: env_ok_def ex_create_env_def range_ok_rev ex_auth_state_empty)
  have chk: "ex_check ?m cred = Inr ''alice''"
    using BearerCredential_Inr [OF cred] by (simp add: ex_check_def slice_get_def)
  obtain err st1 w1 where cr: "createSession ex_create_env (ex_authn False) ex_req (newSpec ModeSAToken ''alice'' cred)
      (?st\<lparr>mem := ?m\<rparr>) newResponse = (err, st1, w1)" by (metis surj_pair)
  have refs: "slice_refs (cred_slices cred) \<subseteq> {length (mem ?st)..<length ?m}"
    using BearerCredential_Inr [OF cred] by (simp add: cred_slices_def slice_refs_def)
  have "spec_fresh (newSpec ModeSAToken ''alice'' cred) (?st\<lparr>mem := ?m\<rparr>)"
    using refs by (intro spec_fresh_new [OF inv]) (simp_all add: newSpec_def spec_slices_def slice_refs_def)
  from createSession_cases [OF store_inv_mem_append [OF inv] this env cr]
  have "err = None \<and> abs st1 ex_sid \<noteq> None"
    using ex_HexString ex_auth_state_empty
    by (cases err) (auto simp: logged_in_def ex_create_env_def drop_old_session_def GetSessionCookie_def ex_req_def)
  then show ?thesis
    using that [of st1 "w1\<lparr>respStatus := StatusOK\<rparr>"] cred chk cr
    by (simp add: LoginWithToken_def LoginWithToken_body_def alloc_def ex_auth_env_def login_with_def validateCredential_def finish_def)
qed

theorem sessions_confirmed_witness:
  "\<exists>H s r. auth_run ex_token_config H (s :: ((string \<times> bearerCacheEntry) list, (unit, (string \<times> nat) list) ClientRateLimiter) auth_state) () \<and>
     lookup (asStore s) ex_sid = Some r \<and> mode_enabled ex_token_config (sMode (sess (asStore s) r))"
proof -
  let ?msg = "cred_error_text (aeQuote ex_auth_env) (aeRFC3339 ex_auth_env)"
  obtain st' w' where log: "LoginWithToken (aeBindToken ex_auth_env) (beExp (aeBearer ex_auth_env)) ?msg (aeCheck ex_auth_env)
      ex_create_env (ex_authn False) ex_req (limitBodySize maxLoginBodySize (reqBody ex_req)) (asStore ex_auth_state) newResponse = (st', w')"
    and sid: "abs st' ex_sid \<noteq> None" by (rule ex_token_login)
  let ?s = "ex_auth_state\<lparr>asStore := st'\<rparr>"
  have "checkCrossOrigin Some (ex_authn False) ex_req False = None"
    by (simp add: checkCrossOrigin_def GetHeader_def ex_req_def)
  then have srv: "serve_auth ex_auth_env None ex_token_route ex_req (ex_auth_state, ()) newResponse = ((?s, ()), w')"
    using log by (simp add: serve_auth_def serve_auth_route_def ex_token_route_def auth_route_at_def loginHandlers_def
        CSRFMiddleware_def csrfMiddleware_def auth_dispatch_def on_store_def ex_auth_env_def Let_def)
  have start: "auth_run ex_token_config {} ex_auth_state ()" by (rule run_start) (simp add: ex_auth_state_def)
  have route: "ex_token_route \<in> set (AddAuthRoutes ex_token_config)"
    by (simp add: AddAuthRoutes_def ex_token_config_def ex_token_route_def Let_def)
  have env: "env_ok (aeCreate ex_auth_env) (asStore ex_auth_state)"
    by (simp add: env_ok_def ex_auth_env_def ex_create_env_def range_ok_rev ex_auth_state_empty)
  have cfg: "aeConfig ex_auth_env = ex_token_config" by (simp add: ex_auth_env_def)
  note run = run_request [OF start cfg route env srv]
  obtain r where r: "lookup (asStore ?s) ex_sid = Some r" using sid by (auto simp: abs_def)
  show ?thesis using sessions_confirmed [OF run r] run r by blast
qed

end
