(* ===== verification/Router.thy ===== *)
theory Router
  imports Setup_Properties Auth_Routes
begin

text \<open>
  The HTTP router of \<open>cmd/server/main.go\<close> and \<open>pkg/server/server.go\<close>: the request log, the middlewares of the
  two environments, the HTTP server, and the table of all routes with what runs for a request on each.

  Parameters: gin's choice of a route for a request and its client address, its own logger and recovery
  handler, and the defaults of the CORS middleware.
\<close>

section \<open>Durations as text\<close>

text \<open>\<open>fmtFrac\<close> of package \<open>time\<close>: the fraction of \<open>v / 10 ^ prec\<close> without trailing zeros, and the quotient.\<close>

fun fmtFrac :: "nat \<Rightarrow> nat \<Rightarrow> bool \<Rightarrow> string \<Rightarrow> string \<times> nat" where
  "fmtFrac 0 v print acc = (if print then CHR ''.'' # acc else acc, v)"
| "fmtFrac (Suc prec) v print acc =
     (let digit = v mod 10; print = (print \<or> digit \<noteq> 0)
      in fmtFrac prec (v div 10) print (if print then char_of (48 + digit) # acc else acc))"

definition fraction :: "nat \<Rightarrow> nat \<Rightarrow> string" where
  "fraction prec v = (case fmtFrac prec v False [] of (frac, whole) \<Rightarrow> dec_nat whole @ frac)"

text \<open>\<open>Duration.String\<close>; the two bytes are the UTF-8 encoding of the micro sign.\<close>

definition Duration_String :: "Duration \<Rightarrow> string" where
  "Duration_String d =
     (let u = nat \<bar>d\<bar>;
          text =
            (if u < 10 ^ 9 then
               (if u < 10 ^ 3 then dec_nat u @ ''ns''
                else if u < 10 ^ 6 then fraction 3 u @ [char_of (0xC2 :: nat), char_of (0xB5 :: nat)] @ ''s''
                else fraction 6 u @ ''ms'')
             else
               (let (frac, secs) = fmtFrac 9 u False [];
                    mins = secs div 60;
                    hours = mins div 60
                in (if hours > 0 then dec_nat hours @ ''h'' else []) @ (if mins > 0 then dec_nat (mins mod 60) @ ''m'' else []) @
                   dec_nat (secs mod 60) @ frac @ ''s''))
      in if d = 0 then ''0s'' else if d < 0 then CHR ''-'' # text else text)"

lemma fmtFrac_quotient: "snd (fmtFrac prec v print acc) = v div 10 ^ prec"
  by (induction prec v print acc rule: fmtFrac.induct) (simp_all add: Let_def div_mult2_eq)

lemma fmtFrac_whole: "fst (fmtFrac prec (k * 10 ^ prec) False acc) = acc"
proof (induction prec arbitrary: k)
  case (Suc prec)
  have "k * 10 ^ Suc prec mod 10 = 0" "k * 10 ^ Suc prec div 10 = k * 10 ^ prec" by simp_all
  then show ?case using Suc by (simp only: fmtFrac.simps Let_def) simp
qed simp

text \<open>A duration of whole seconds is printed without a fraction.\<close>

lemma Duration_String_seconds:
  assumes "0 < k"
  shows "Duration_String (int k * second) =
    (if k div 3600 > 0 then dec_nat (k div 3600) @ ''h'' else []) @ (if k div 60 > 0 then dec_nat (k div 60 mod 60) @ ''m'' else []) @
    dec_nat (k mod 60) @ ''s''"
proof -
  have n: "nat \<bar>int k * second\<bar> = k * 10 ^ 9" by (simp add: nat_mult_distrib abs_mult)
  have f: "fmtFrac 9 (k * 10 ^ 9) False [] = ([], k)"
    using fmtFrac_whole [of 9 k "[]"] fmtFrac_quotient [of 9 "k * 10 ^ 9" False "[]"] by (metis nonzero_mult_div_cancel_right
        power_not_zero prod.collapse zero_neq_numeral)
  have "\<not> k * 10 ^ 9 < (10 :: nat) ^ 9" using assms by simp
  moreover have "k div 60 div 60 = k div 3600" by (simp add: div_mult2_eq [symmetric])
  ultimately show ?thesis using assms f unfolding Duration_String_def n by (simp add: Let_def)
qed

section \<open>The request log\<close>

datatype log_value = LogInt int | LogString string

record log_line =
  llLevel :: int
  llMessage :: string
  llKeysAndValues :: "(string \<times> log_value) list"

text \<open>\<open>next\<close> is the rest of the chain, the clock is read before and after it.\<close>

definition ginLogger ::
  "int \<Rightarrow> (Request \<Rightarrow> string) \<Rightarrow> (Request \<Rightarrow> string) \<Rightarrow> Time \<times> Time \<Rightarrow> Request \<Rightarrow> ('s \<Rightarrow> Response \<Rightarrow> 's \<times> Response) \<Rightarrow>
   's \<Rightarrow> Response \<Rightarrow> log_line \<times> 's \<times> Response" where
  "ginLogger level clientIP rawQuery clock req next s w =
     (case clock of (start, stop) \<Rightarrow>
      let path = reqPath req;
          raw = rawQuery req;
          (s, w) = next s w;
          latency = Sub stop start;
          latency = (if latency > minute then latency - latency mod second else latency);
          path = (if raw \<noteq> [] then path @ ''?'' @ raw else path);
          errorMessage = (if respErrors w = [] then [] else last (respErrors w));
          keysAndValues =
            [(''code'', LogInt (respStatus w)), (''client'', LogString (clientIP req)), (''method'', LogString (reqMethod req)),
             (''path'', LogString path), (''latency'', LogString (Duration_String latency))];
          keysAndValues = (if errorMessage \<noteq> [] then keysAndValues @ [(''error'', LogString errorMessage)] else keysAndValues)
      in (\<lparr>llLevel = level, llMessage = ''GIN request'', llKeysAndValues = keysAndValues\<rparr>, s, w))"

text \<open>The log leaves the request and the response alone, and says what the client was answered.\<close>

lemma ginLogger_transparent:
  assumes "ginLogger level clientIP rawQuery clock req next s w = (line, s', w')"
  shows "next s w = (s', w')" and "map_of (llKeysAndValues line) ''code'' = Some (LogInt (respStatus w'))"
    and "map_of (llKeysAndValues line) ''error'' = (if respErrors w' = [] \<or> last (respErrors w') = [] then None
      else Some (LogString (last (respErrors w'))))"
  using assms by (auto simp: ginLogger_def Let_def split: prod.splits if_splits)

text \<open>Headers, cookies and the body of a request, which carry credentials, are not logged: two requests
  that differ only in them and are answered alike give the same line.\<close>

lemma ginLogger_no_credentials:
  assumes "ginLogger level clientIP rawQuery clock req next s w = (line, s', w')"
    and "ginLogger level clientIP rawQuery clock (req\<lparr>reqHeader := h, reqCookies := c, reqBody := b\<rparr>) next s w = (line', s'', w'')"
    and "clientIP (req\<lparr>reqHeader := h, reqCookies := c, reqBody := b\<rparr>) = clientIP req"
    and "rawQuery (req\<lparr>reqHeader := h, reqCookies := c, reqBody := b\<rparr>) = rawQuery req"
  shows "line' = line"
  using assms by (auto simp: ginLogger_def Let_def split: prod.splits)

section \<open>Middlewares\<close>

record cors_config =
  ccAllowOrigins :: "string list"
  ccAllowHeaders :: "string list"
  ccAllowCredentials :: bool

datatype middleware = GinLogger | GinRecovery | RequestLog int | CORS cors_config

definition devCORS :: "cors_config \<Rightarrow> cors_config" where
  "devCORS defaults =
     defaults\<lparr>ccAllowOrigins := [''http://localhost:3000''], ccAllowHeaders := ccAllowHeaders defaults @ [''Authorization''],
       ccAllowCredentials := True\<rparr>"

text \<open>\<open>gin.Default()\<close> is gin's own logger and recovery.\<close>

definition routerMiddlewares :: "(string \<Rightarrow> string) \<Rightarrow> cors_config \<Rightarrow> middleware list" where
  "routerMiddlewares getenv corsDefaults =
     (if IsDevelopmentEnv getenv then [GinLogger, GinRecovery] else [RequestLog 2, GinRecovery]) @
     (if IsDevelopmentEnv getenv then [CORS (devCORS corsDefaults)] else [])"

record http_server =
  hsAddr :: string
  hsReadHeaderTimeout :: Duration

definition newHTTPServer :: "Config \<Rightarrow> http_server" where
  "newHTTPServer config = \<lparr>hsAddr = cfgAddr config, hsReadHeaderTimeout = 5 * second\<rparr>"

text \<open>Outside development no other origin may read an answer, and in development only the origin that
  the cross-origin gate exempts may.\<close>

lemma cors_only_dev:
  "CORS c \<in> set (routerMiddlewares getenv d) \<longleftrightarrow> IsDevelopmentEnv getenv \<and> c = devCORS d"
  "CORS c \<in> set (routerMiddlewares getenv d) \<Longrightarrow> ccAllowOrigins c = [DevOrigin]"
  by (auto simp: routerMiddlewares_def devCORS_def DevOrigin_def split: if_splits)

section \<open>The routes of the server\<close>

datatype server_route = Healthz | ApiRoute route | AuthRoute auth_route

definition Server_AddRoutes :: "api_server \<Rightarrow> serverConfig \<Rightarrow> server_route list" where
  "Server_AddRoutes s cfg = Healthz # map ApiRoute (AddRoutes s) @ map AuthRoute (AddAuthRoutes cfg)"

definition route_key :: "server_route \<Rightarrow> string \<times> string" where
  "route_key r =
     (case r of Healthz \<Rightarrow> (''GET'', ''/healthz'') | ApiRoute r \<Rightarrow> (rtMethod r, rtPath r) | AuthRoute r \<Rightarrow> (atMethod r, atPath r))"

text \<open>No method and path is registered twice (gin panics on one that is).\<close>

lemma route_keys_distinct: "distinct (map route_key (Server_AddRoutes s cfg))"
proof -
  have "map route_key (Server_AddRoutes s cfg) = server_routes s cfg"
    by (simp add: Server_AddRoutes_def server_routes_def route_key_def comp_def)
  then show ?thesis using server_routes_distinct by simp
qed

text \<open>A request on a route: the liveness probe answers 200 and touches nothing.\<close>

definition serve_server ::
  "('b, 'l) auth_env \<Rightarrow> (Time \<Rightarrow> Request \<Rightarrow> 'm \<Rightarrow> bool \<times> 'm) option \<Rightarrow>
   (api_handler \<Rightarrow> RequestAuth option \<Rightarrow> Request \<Rightarrow> ('b, 'l) auth_state \<Rightarrow> Response \<Rightarrow> ('b, 'l) auth_state \<times> Response) \<Rightarrow>
   server_route \<Rightarrow> Request \<Rightarrow> ('b, 'l) auth_state \<times> 'm \<Rightarrow> Response \<Rightarrow> (('b, 'l) auth_state \<times> 'm) \<times> Response" where
  "serve_server E limiter handlers r req st w =
     (case r of
        Healthz \<Rightarrow> (st, w\<lparr>respStatus := StatusOK\<rparr>)
      | ApiRoute r \<Rightarrow>
          (case st of (s, l) \<Rightarrow> (case serve_route (aeResolve E) handlers r req s w of (s, w) \<Rightarrow> ((s, l), w)))
      | AuthRoute r \<Rightarrow> serve_auth E limiter r req st w)"

text \<open>In production a request runs inside the request log; \<open>match\<close> is gin's choice of a route, \<open>noRoute\<close> its
  answer when there is none.\<close>

definition serve_request ::
  "('b, 'l) auth_env \<Rightarrow> (Request \<Rightarrow> server_route option) \<Rightarrow> (Response \<Rightarrow> Response) \<Rightarrow> (Request \<Rightarrow> string) \<Rightarrow> (Request \<Rightarrow> string) \<Rightarrow> Time \<times> Time \<Rightarrow>
   (Time \<Rightarrow> Request \<Rightarrow> 'm \<Rightarrow> bool \<times> 'm) option \<Rightarrow>
   (api_handler \<Rightarrow> RequestAuth option \<Rightarrow> Request \<Rightarrow> ('b, 'l) auth_state \<Rightarrow> Response \<Rightarrow> ('b, 'l) auth_state \<times> Response) \<Rightarrow>
   Request \<Rightarrow> ('b, 'l) auth_state \<times> 'm \<Rightarrow> log_line \<times> (('b, 'l) auth_state \<times> 'm) \<times> Response" where
  "serve_request E match noRoute clientIP rawQuery clock limiter handlers req st =
     ginLogger 2 clientIP rawQuery clock req
       (\<lambda>st w. case match req of None \<Rightarrow> (st, noRoute w) | Some r \<Rightarrow> serve_server E limiter handlers r req st w) st newResponse"

end
