(* ===== verification/Lifecycle.thy ===== *)
theory Lifecycle
  imports Server_Setup
begin

text \<open>
  The life of the server process after start-up: the signal handler of \<open>pkg/signals/signals.go\<close>, and
  the end of \<open>run\<close> and \<open>main\<close> of \<open>cmd/server/main.go\<close>, which start the background loops and the HTTP
  server, wait for the stop channel and shut the server down within five seconds. The goroutines
  run in any order; the operating system, the requests and the clock are the environment.
\<close>

section \<open>State\<close>

datatype captured_signal = SIGTERM | SIGINT

text \<open>The goroutine of \<open>RegisterSignalHandlers\<close>: at the first receive, at \<open>close(stopCh)\<close>, at the second receive, at \<open>os.Exit\<close>.\<close>

datatype handler_pc = FirstSignal | CloseStop | SecondSignal | ForceExit

text \<open>The background loops, each of which returns when the stop channel is closed.\<close>

datatype background = TraceflowGC | AntreaSvc | SessionGC | PluginWatch | AccessWatch

text \<open>The main goroutine: waiting for the stop channel, in \<open>Shutdown\<close> until a deadline, out of \<open>run\<close> with its error.\<close>

datatype main_pc = WaitStop | InShutdown Time | RunReturned "string option"

text \<open>
  \<open>prQueue\<close> is the content of \<open>notifyCh\<close>, \<open>prSent\<close> counts the signals the process was sent,
  \<open>prActive\<close> the requests in progress, \<open>prExit\<close> is the exit status of an ended process.
\<close>

record process =
  prQueue :: "captured_signal list"
  prSent :: nat
  prHandler :: handler_pc
  prStopped :: bool
  prLoops :: "background list"
  prServing :: bool
  prActive :: nat
  prMain :: main_pc
  prClock :: Time
  prExit :: "int option"

definition notifyCapacity :: nat where "notifyCapacity = 2"

definition shutdownTimeout :: Duration where "shutdownTimeout = 5 * second"

text \<open>The state in which \<open>run\<close> arrives at \<open><-stopCh\<close>.\<close>

definition launch :: "Time \<Rightarrow> process" where
  "launch now = \<lparr>prQueue = [], prSent = 0, prHandler = FirstSignal, prStopped = False,
     prLoops = [TraceflowGC, AntreaSvc, SessionGC, PluginWatch, AccessWatch], prServing = True, prActive = 0,
     prMain = WaitStop, prClock = now, prExit = None\<rparr>"

text \<open>
  \<open>main\<close>: \<open>load\<close> is the result of \<open>LoadConfig\<close>, \<open>zap\<close> the error of building the logger for a level.
  A failure is the exit status 1, success the server and its process.
\<close>

definition main_start ::
  "(string + Config) \<Rightarrow> (8 word \<Rightarrow> string option) \<Rightarrow> ('c, 'b, 'k) startup \<Rightarrow> 'c \<Rightarrow> Time \<Rightarrow> int + ('c, 'b, ('l, 'k) ClientRateLimiter) running \<times> process" where
  "main_start load zap e cluster now =
     (case load of
        Inl err \<Rightarrow> Inl 1
      | Inr config \<Rightarrow>
          (case zap (log_level config) of
             Some err \<Rightarrow> Inl 1
           | None \<Rightarrow>
               (case run e config cluster of
                  Inl err \<Rightarrow> Inl 1
                | Inr rn \<Rightarrow> Inr (rn, launch now))))"

section \<open>Steps\<close>

text \<open>\<open>signal.Notify\<close> does not block: a signal that finds the channel full is dropped.\<close>

definition deliver :: "captured_signal \<Rightarrow> process \<Rightarrow> process" where
  "deliver sg s =
     s\<lparr>prSent := prSent s + 1, prQueue := (if length (prQueue s) < notifyCapacity then prQueue s @ [sg] else prQueue s)\<rparr>"

text \<open>The goroutine of \<open>RegisterSignalHandlers\<close>; \<^const>\<open>None\<close> when it waits.\<close>

definition handler_step :: "process \<Rightarrow> process option" where
  "handler_step s =
     (case prHandler s of
        FirstSignal \<Rightarrow> (case prQueue s of [] \<Rightarrow> None | _ # q \<Rightarrow> Some (s\<lparr>prQueue := q, prHandler := CloseStop\<rparr>))
      | CloseStop \<Rightarrow> Some (s\<lparr>prStopped := True, prHandler := SecondSignal\<rparr>)
      | SecondSignal \<Rightarrow> (case prQueue s of [] \<Rightarrow> None | _ # q \<Rightarrow> Some (s\<lparr>prQueue := q, prHandler := ForceExit\<rparr>))
      | ForceExit \<Rightarrow> Some (s\<lparr>prExit := Some 1\<rparr>))"

text \<open>
  The end of \<open>run\<close> and of \<open>main\<close>: \<open>Shutdown\<close> closes the listeners, and returns when no request is in
  progress or when its context is done.
\<close>

definition main_step :: "process \<Rightarrow> process option" where
  "main_step s =
     (case prMain s of
        WaitStop \<Rightarrow>
          (if prStopped s then Some (s\<lparr>prServing := False, prMain := InShutdown (Add (prClock s) shutdownTimeout)\<rparr>) else None)
      | InShutdown deadline \<Rightarrow>
          (if prActive s = 0 then Some (s\<lparr>prMain := RunReturned None\<rparr>)
           else if \<not> Before (prClock s) deadline
             then Some (s\<lparr>prMain := RunReturned (Some ''server forced to shutdown: context deadline exceeded'')\<rparr>)
           else None)
      | RunReturned e \<Rightarrow> Some (s\<lparr>prExit := Some (if e = None then 0 else 1)\<rparr>))"

text \<open>Every step but the last of a process; \<open>listen_fails\<close> is \<open>ListenAndServe\<close> returning an error of its own.\<close>

inductive process_step :: "process \<Rightarrow> process \<Rightarrow> bool" where
  signal: "prExit s = None \<Longrightarrow> process_step s (deliver sg s)"
| handler: "prExit s = None \<Longrightarrow> handler_step s = Some s' \<Longrightarrow> process_step s s'"
| main: "prExit s = None \<Longrightarrow> main_step s = Some s' \<Longrightarrow> process_step s s'"
| loop_returns: "prExit s = None \<Longrightarrow> prStopped s \<Longrightarrow> b \<in> set (prLoops s) \<Longrightarrow>
    process_step s (s\<lparr>prLoops := remove1 b (prLoops s)\<rparr>)"
| listen_fails: "prExit s = None \<Longrightarrow> prServing s \<Longrightarrow> process_step s (s\<lparr>prExit := Some 1\<rparr>)"
| request: "prExit s = None \<Longrightarrow> prServing s \<Longrightarrow> process_step s (s\<lparr>prActive := prActive s + 1\<rparr>)"
| response: "prExit s = None \<Longrightarrow> 0 < prActive s \<Longrightarrow> process_step s (s\<lparr>prActive := prActive s - 1\<rparr>)"
| clock: "prExit s = None \<Longrightarrow> prClock s \<le> now \<Longrightarrow> process_step s (s\<lparr>prClock := now\<rparr>)"

inductive_cases process_stepE: "process_step s s'"

abbreviation lives :: "process \<Rightarrow> process \<Rightarrow> bool" where "lives \<equiv> process_step\<^sup>*\<^sup>*"

section \<open>Invariant\<close>

text \<open>The signals the handler has taken.\<close>

fun taken :: "handler_pc \<Rightarrow> nat" where
  "taken FirstSignal = 0"
| "taken CloseStop = 1"
| "taken SecondSignal = 1"
| "taken ForceExit = 2"

text \<open>No signal the handler still needs is ever lost: until two have arrived, every one is taken or queued.\<close>

definition signals_inv :: "process \<Rightarrow> bool" where
  "signals_inv s \<longleftrightarrow>
     min 2 (prSent s) \<le> taken (prHandler s) + length (prQueue s) \<and> taken (prHandler s) + length (prQueue s) \<le> prSent s \<and>
     (prStopped s \<longleftrightarrow> prHandler s = SecondSignal \<or> prHandler s = ForceExit)"

definition shutdown_inv :: "process \<Rightarrow> bool" where
  "shutdown_inv s \<longleftrightarrow>
     (prMain s \<noteq> WaitStop \<longrightarrow> prStopped s \<and> \<not> prServing s) \<and>
     (prMain s = RunReturned None \<longrightarrow> prActive s = 0) \<and>
     (prExit s = Some 0 \<longrightarrow> prMain s = RunReturned None) \<and>
     (\<forall>b. b \<notin> set (prLoops s) \<longrightarrow> prStopped s)"

lemmas process_defs = handler_step_def main_step_def deliver_def notifyCapacity_def

lemma signals_inv_step: "process_step s s' \<Longrightarrow> signals_inv s \<Longrightarrow> signals_inv s'"
  by (erule process_stepE)
    (auto simp: signals_inv_def process_defs split: handler_pc.splits list.splits main_pc.splits if_splits)

lemma shutdown_inv_step: "process_step s s' \<Longrightarrow> shutdown_inv s \<Longrightarrow> shutdown_inv s'"
  by (erule process_stepE)
    (auto simp: shutdown_inv_def process_defs split: handler_pc.splits list.splits main_pc.splits if_splits)

lemma launch_inv: "signals_inv (launch now)" "shutdown_inv (launch now)"
proof -
  have "b \<in> set (prLoops (launch now))" for b by (cases b) (simp_all add: launch_def)
  then show "signals_inv (launch now)" "shutdown_inv (launch now)"
    by (auto simp: signals_inv_def shutdown_inv_def) (simp_all add: launch_def)
qed

interpretation process: invariant_system "\<lambda>s. \<exists>now. s = launch now" process_step "\<lambda>s. signals_inv s \<and> shutdown_inv s"
  by unfold_locales (auto simp: launch_inv intro: signals_inv_step shutdown_inv_step)

section \<open>Shutdown\<close>

text \<open>The handler alone, until it waits.\<close>

abbreviation handler_runs :: "process \<Rightarrow> process \<Rightarrow> bool" where
  "handler_runs \<equiv> (\<lambda>s s'. handler_step s = Some s')\<^sup>*\<^sup>*"

lemmas handler_here = reaches_here [where R = "\<lambda>s s'. handler_step s = Some s'"]
lemmas handler_next = reaches_step [where R = "\<lambda>s s'. handler_step s = Some s'"]

lemma handler_exits:
  assumes "prHandler s = SecondSignal" and "prQueue s \<noteq> []"
  shows "\<exists>s'. handler_runs s s' \<and> prExit s' = Some 1"
proof -
  obtain g q where "prQueue s = g # q" using assms(2) by (cases "prQueue s") auto
  with assms(1) have "handler_step s = Some (s\<lparr>prQueue := q, prHandler := ForceExit\<rparr>)" by (simp add: handler_step_def)
  then show ?thesis by (rule handler_next [OF _ handler_next [OF _ handler_here]]) (simp add: handler_step_def)+
qed

lemma handler_stops:
  assumes "signals_inv s" and "1 \<le> prSent s"
  shows "\<exists>s'. handler_runs s s' \<and> prStopped s' \<and> (prSent s \<ge> 2 \<longrightarrow> prHandler s' = SecondSignal \<and> prQueue s' \<noteq> [] \<or> prHandler s' = ForceExit)"
    (is "\<exists>s'. handler_runs s s' \<and> ?P s'")
proof (cases "prHandler s")
  case FirstSignal
  then obtain g q where q: "prQueue s = g # q" "prSent s \<ge> 2 \<longrightarrow> q \<noteq> []"
    using assms by (cases "prQueue s") (force simp: signals_inv_def min_def split: if_splits)+
  then have "handler_step s = Some (s\<lparr>prQueue := q, prHandler := CloseStop\<rparr>)"
    using FirstSignal by (simp add: handler_step_def)
  then show ?thesis
    by (rule handler_next [OF _ handler_next [OF _ handler_here]]) (use q(2) in \<open>simp add: handler_step_def\<close>)+
next
  case CloseStop
  then have "handler_step s = Some (s\<lparr>prStopped := True, prHandler := SecondSignal\<rparr>)" by (simp add: handler_step_def)
  then show ?thesis
    by (rule handler_next [OF _ handler_here]) (use assms CloseStop in \<open>auto simp: signals_inv_def min_def split: if_splits\<close>)
next
  case SecondSignal
  show ?thesis by (rule handler_here) (use assms SecondSignal in \<open>auto simp: signals_inv_def min_def split: if_splits\<close>)
next
  case ForceExit
  show ?thesis by (rule handler_here) (use assms ForceExit in \<open>auto simp: signals_inv_def\<close>)
qed

lemma handler_forces_exit:
  assumes "signals_inv s" and "2 \<le> prSent s"
  shows "\<exists>s'. handler_runs s s' \<and> prExit s' = Some 1"
proof -
  obtain t where t: "handler_runs s t" "prHandler t = SecondSignal \<and> prQueue t \<noteq> [] \<or> prHandler t = ForceExit"
    using handler_stops [OF assms(1)] assms(2) by force
  have "\<exists>s'. handler_runs t s' \<and> prExit s' = Some 1"
  proof (cases "prHandler t = ForceExit")
    case True
    then show ?thesis by (intro handler_next [OF _ handler_here]) (simp add: handler_step_def)+
  qed (use t(2) handler_exits in blast)
  with t(1) show ?thesis by (blast intro: rtranclp_trans)
qed

text \<open>Once stopped, the main goroutine waits for nothing but requests in progress, and for those only until the deadline.\<close>

lemma main_progress:
  assumes "prStopped s" and "main_step s = None"
  shows "\<exists>deadline. prMain s = InShutdown deadline \<and> 0 < prActive s \<and> prClock s < deadline"
  using assms by (auto simp: main_step_def Before_def split: main_pc.splits if_splits)

text \<open>
  C38: Shutdown. However signals, requests and the goroutines of the process interleave: the
  process ends with status 0 only after a signal, with the server closed and no request in progress;
  a background loop returns only after the stop channel is closed; after one signal the signal
  handler gets to closing the stop channel, and after two it gets to the forced exit with status 1,
  whenever the two arrived, so no signal that matters is lost in the channel of two; and
  with the stop channel closed, the main goroutine is held up only by requests in progress, and by
  those only until the deadline.
\<close>

theorem shutdown_protocol:
  assumes "lives (launch now) s"
  shows "(prExit s = Some 0 \<longrightarrow> 1 \<le> prSent s \<and> prStopped s \<and> \<not> prServing s \<and> prActive s = 0) \<and>
    (b \<notin> set (prLoops s) \<longrightarrow> prStopped s) \<and>
    (1 \<le> prSent s \<longrightarrow> (\<exists>s'. handler_runs s s' \<and> prStopped s')) \<and>
    (2 \<le> prSent s \<longrightarrow> (\<exists>s'. handler_runs s s' \<and> prExit s' = Some 1)) \<and>
    (prStopped s \<and> main_step s = None \<longrightarrow> (\<exists>deadline. prMain s = InShutdown deadline \<and> 0 < prActive s \<and> prClock s < deadline))"
proof -
  have inv: "signals_inv s" "shutdown_inv s" using process.inv_reachable [OF _ assms] by auto
  have sent: "1 \<le> prSent s" if "prStopped s"
    using inv(1) that by (auto simp: signals_inv_def)
  have "1 \<le> prSent s \<and> prStopped s \<and> \<not> prServing s \<and> prActive s = 0" if "prExit s = Some 0"
    using inv(2) sent that by (simp add: shutdown_inv_def)
  moreover have "prStopped s" if "b \<notin> set (prLoops s)" using inv(2) that by (auto simp: shutdown_inv_def)
  moreover have "\<exists>s'. handler_runs s s' \<and> prStopped s'" if "1 \<le> prSent s"
    using handler_stops [OF inv(1) that] by blast
  ultimately show ?thesis using handler_forces_exit [OF inv(1)] main_progress by blast
qed

text \<open>Two signals before the handler runs.\<close>

theorem shutdown_protocol_witness:
  "\<exists>s'. handler_runs (deliver SIGINT (deliver SIGTERM (launch 0))) s' \<and> prExit s' = Some 1"
proof -
  have "process_step (launch 0) (deliver SIGTERM (launch 0))" by (rule signal) code_simp
  moreover have "process_step (deliver SIGTERM (launch 0)) (deliver SIGINT (deliver SIGTERM (launch 0)))" by (rule signal) code_simp
  ultimately have "lives (launch 0) (deliver SIGINT (deliver SIGTERM (launch 0)))" by (rule rtranclp.rtrancl_into_rtrancl [OF r_into_rtranclp])
  moreover have "2 \<le> prSent (deliver SIGINT (deliver SIGTERM (launch 0)))" by code_simp
  ultimately show ?thesis using shutdown_protocol by blast
qed

end
