(* ===== verification/Spec2Isabelle.thy ===== *)
theory Spec2Isabelle
  imports Store_Concurrency Password_Properties Auth_Properties Access_Properties Plugins Flow_Properties
    Traceflow_Properties Antrea_Properties Port_Forwarder Router Lifecycle
begin

text \<open>
  A verification of the backend of antrea-ui, the Go server under \<open>src/cmd/server\<close>, \<open>src/pkg\<close> and
  \<open>src/apis\<close>.

  \<^bold>\<open>The program.\<close> The server logs users in (admin password, pasted token, kubeconfig, OIDC), keeps
  their Kubernetes credentials in an in-memory session store, and acts for them: it proxies requests
  to the Kubernetes API, forwards requests to the Antrea Service, runs Traceflows, streams flows from
  the Flow Aggregator as server-sent events, serves plugins found in ConfigMaps and answers which
  namespaces a user can see. A request first passes \<open>authn.Resolve\<close>, which turns a cookie or a bearer
  token into a \<open>RequestAuth\<close>; the handlers turn that into a transport that presents the user's own
  credential (\<open>ClientFactory.TransportFor\<close>, cached per session), and an upstream 401 ends the session.

  \<^bold>\<open>Conventions.\<close> A struct is a record, an enumeration of strings or integers its values, an operation
  one definition that takes and returns the state it changes. A Go string or \<open>[]byte\<close> is a \<^typ>\<open>string\<close>
  of bytes; the byte slices of credentials live in an explicit memory (\<open>Prelude\<close>), so that
  zeroing one is visible through every alias. Errors are values (\<open>Inl\<close>, \<open>None\<close> or a message); a panic
  is a value too. Times and durations are nanoseconds, with the saturation of \<open>time.Sub\<close>. A map is an
  association list whose iteration order is an argument, so a theorem holds for every order. Clock
  readings, entropy and the answers of other programs are arguments.

  \<^bold>\<open>Theories and the code they model.\<close>

  \<^item> \<open>Prelude\<close>, \<open>Go_Strings\<close>, \<open>Go_Url\<close>, \<open>Base64\<close>: the parts of Go's libraries the code uses (time,
    slices, maps, strings, URLs, base64) and the generic lemmas, among them the locale
    \<open>invariant_system\<close> of step relations.
  \<^item> \<open>Random_Source\<close> (\<open>utils/random\<close>), \<open>Session\<close> (\<open>auth/session/session.go\<close>), \<open>Session_Store\<close>
    (\<open>auth/session/store.go\<close>), \<open>Request_Auth\<close> (\<open>auth/session/context.go\<close>): credentials, sessions with
    their cached transports, and the store with creation, lookup, refresh, deletion, the cap per user
    and the batched sweep. \<open>Store_Invariant\<close> and \<open>Store_Ops\<close> show that every operation keeps the
    invariant and what it does; \<open>Store_Refinement\<close> that the store on pointers and slices implements a
    store of plain values, under the contract \<open>refreshers\<close> of the refresh functions, and that it is a
    \<open>session_store\<close>, the contract its clients rely on. \<open>Store_Machine\<close> and \<open>Store_Properties\<close> draw the
    consequences over all sequences of operations. \<open>Store_Concurrency\<close> cuts \<open>Get\<close> and \<open>Delete\<close> at their
    lock operations and runs any number of threads in any order.
  \<^item> \<open>Password\<close>, \<open>Password_Properties\<close> (\<open>password/store.go\<close>, \<open>hasher/argon2.go\<close>, \<open>readwriter\<close>): the admin
    password, its two backends behind the locale \<open>readwriter\<close>, and what survives a restart.
  \<^item> \<open>Http\<close> (\<open>server/errors\<close>, \<open>server/utils/cookie\<close>, and the parts of net/http and gin in use),
    \<open>Rate_Limit\<close> (\<open>server/ratelimit\<close>), \<open>Template\<close> (\<open>server/utils/template\<close>).
  \<^item> \<open>K8s_Credentials\<close> (\<open>k8s/credentials.go\<close>, \<open>k8s/factory.go\<close>), \<open>Authn\<close> and \<open>Authn_Properties\<close>
    (\<open>server/authn\<close>): which identity a request gets, the cross-origin gate, redirect targets and the
    cache of validated bearer tokens.
  \<^item> \<open>OAuth2_Provider\<close> (\<open>server/oauth2.go\<close>), \<open>Auth_Server\<close> and \<open>Auth_Properties\<close> (\<open>server/auth.go\<close>,
    \<open>server/oauth2.go\<close>): the OIDC provider, its refresher as an instance of \<open>refreshers\<close>, every login
    endpoint, the callback and the logout. \<open>Auth_Routes\<close> puts them behind the registered routes and runs
    any sequence of requests on them (\<open>auth_run\<close>).
  \<^item> \<open>Api_Server\<close> and \<open>Api_Properties\<close> (\<open>server/api\<close>, \<open>handlers/k8sproxy\<close>): error mapping, the proxy,
    feature gates, the change of the admin password.
  \<^item> \<open>Plugins\<close> (\<open>plugins/registry.go\<close>, \<open>server/api/plugins.go\<close>), \<open>Access\<close> and \<open>Access_Properties\<close>
    (\<open>handlers/access\<close>, \<open>server/api/access.go\<close>): caches fed by the events of a watch, and the endpoints
    that read them.
  \<^item> \<open>Flow_Types\<close>, \<open>Flow_Stream\<close>, \<open>Flow_Properties\<close> (\<open>handlers/flowstream\<close>, \<open>apis/v1/flow.go\<close>): filters,
    the conversion of flows, and the receiving goroutine and the streaming handler as a step relation
    over their channels.
  \<^item> \<open>Traceflow\<close> and \<open>Traceflow_Properties\<close> (\<open>handlers/traceflow\<close>, \<open>server/api/traceflow.go\<close>):
    creating, polling and fetching, and the sweep.
  \<^item> \<open>Antrea_Service\<close> and \<open>Antrea_Properties\<close> (\<open>handlers/antreasvc\<close>), \<open>Port_Forwarder\<close>
    (\<open>utils/portforwarder\<close>): the client of the Antrea Service with its generations of CA bundles, and
    the goroutines of a port forwarder.
  \<^item> \<open>Config\<close> (\<open>config/server\<close>, \<open>env\<close>, \<open>version\<close>), \<open>Server_Setup\<close> and \<open>Setup_Properties\<close>
    (\<open>cmd/server/main.go\<close>, \<open>server/server.go\<close>, \<open>server/api/server.go\<close>, \<open>k8s/client.go\<close>), \<open>Lifecycle\<close>
    (\<open>signals\<close> and the end of \<open>run\<close>): loading and validating the configuration, building the server and
    its routes, and running it until it exits. \<open>Router\<close>: the request log, the middlewares of the two
    environments, and the table of all routes with what runs for a request on each.
\<close>

text \<open>
  \<^bold>\<open>What is shown.\<close> For the store: the invariant in every reachable state, the refinement of \<open>Get\<close> and
  of the sweep, that deletion, eviction and refresh zero exactly the bytes they retire, what
  creation evicts and when it fails, the coherence of the transport cache, and under concurrency that
  a thread alone computes the sequential \<open>Get\<close>, that a refresh is single-flight and every thread
  finishes, and that a deletion which overlaps a refresh leaks the fresh credential. For requests:
  an authenticated request rests on a live session or on a token the API server confirmed, a
  cross-site request cannot act through a session, an accepted redirect stays on the origin, a
  proxied request carries the identity of the session only, and an error ends a session exactly when
  it is a 401. For logins: what each outcome leaves in the store and in the response, what the OAuth2
  callback has checked, that a session that was logged out stays gone, and that after any requests on
  the login routes every session goes back to a login that was confirmed. For the password: that it is
  durable with reliable reads and reset by a failed one, and who can change it. For the handlers: the
  watch-fed caches agree with the cluster, streams deliver a prefix of what was received and end with
  the session, Traceflow requests and their sweep touch what they should, a rotated CA takes effect at
  once, and a port-forwarding round ends when told to. For the process: a server that starts is
  complete, a loaded configuration is in range, and the shutdown protocol loses no signal it needs.

  \<^bold>\<open>Parameters and hypotheses.\<close> Code outside the repository is an argument: client-go (clients,
  informers, transports, \<open>ForwardPorts\<close>), the Kubernetes API and its self-reviews, the OIDC token
  endpoint and the verifier of ID tokens, Argon2 and SHA-256, the LRU cache and the token bucket, JSON and
  PEM parsing, viper, gRPC and the Flow Aggregator. Where a theorem relies on such code, its documented
  behaviour is a named hypothesis (\<open>lru_ok\<close>, \<open>range_ok\<close>, \<open>refreshers\<close>, \<open>env_ok\<close> and the like)
  and an example instantiates it.

  \<^bold>\<open>Bounds.\<close> Recursion is structural or has a measure; nothing runs on fuel but \<open>solo\<close>, the run of one
  thread of \<open>Get\<close> alone, whose twelve steps cover the longest path through the code. The sweep works in
  batches of \<open>gcBatchSize\<close> until none is left. The retries of OIDC discovery are the finite list of
  answers before the deadline of sixty seconds. Channels have the capacities of the code: 16 flows and
  one error for a stream, two signals, none for the port forwarder. The verbosity is an 8-bit word.

  \<^bold>\<open>Not modelled.\<close> The Go code generated from the protocol buffers (\<open>pkg/flowpb\<close>): its messages are the
  records of \<open>Flow_Types\<close>. The mocks and the end-to-end tests. gin and the CORS middleware, which are
  libraries: their configuration and the order of the middlewares are in \<open>Router\<close>. The text of log
  messages other than the request log and the errors a client sees. The connection pools inside a transport, beyond which ones
  are closed. The frontend, which is not Go.
\<close>

end
